(* ===== verification/Prelude.thy ===== *)
theory Prelude
  imports Main "HOL-Library.Word"
begin

text \<open>
  Shared vocabulary of the development.

  \<^item> the state-exception monad in which the emulator's member functions are
    written: a function takes the CPU state and gives back a result or the
    reason for which it did not return, together with the state it left;
  \<^item> the bytes of a little-endian machine word, and byte-addressed vectors;
  \<^item> facts on machine words that the component theories share: carry and
    borrow out of an addition, sign extension and order, single bits.
\<close>

unbundle bit_operations_syntax

named_theorems monad_simps \<open>evaluation of the monad combinators\<close>
named_theorems neutral_intros \<open>closure rules for functions that do not touch the arithmetic flags\<close>
named_theorems handler_defs \<open>definitions of the instruction handlers\<close>

section \<open>The state-exception monad\<close>

type_synonym ('s, 'e, 'a) monad = "'s \<Rightarrow> ('e + 'a) \<times> 's"

definition returnM :: "'a \<Rightarrow> ('s, 'e, 'a) monad" where
  "returnM x = (\<lambda>s. (Inr x, s))"

definition raiseM :: "'e \<Rightarrow> ('s, 'e, 'a) monad" where
  "raiseM e = (\<lambda>s. (Inl e, s))"

definition bindM :: "('s, 'e, 'a) monad \<Rightarrow> ('a \<Rightarrow> ('s, 'e, 'b) monad) \<Rightarrow> ('s, 'e, 'b) monad" where
  "bindM m k = (\<lambda>s. case m s of (Inl e, s') \<Rightarrow> (Inl e, s') | (Inr x, s') \<Rightarrow> k x s')"

definition seqM :: "('s, 'e, 'a) monad \<Rightarrow> ('s, 'e, 'b) monad \<Rightarrow> ('s, 'e, 'b) monad" where
  "seqM m n = bindM m (\<lambda>_. n)"

definition getsM :: "('s \<Rightarrow> 'a) \<Rightarrow> ('s, 'e, 'a) monad" where
  "getsM f = (\<lambda>s. (Inr (f s), s))"

definition modifyM :: "('s \<Rightarrow> 's) \<Rightarrow> ('s, 'e, unit) monad" where
  "modifyM f = (\<lambda>s. (Inr (), f s))"

definition whenM :: "bool \<Rightarrow> ('s, 'e, unit) monad \<Rightarrow> ('s, 'e, unit) monad" where
  "whenM b m = (if b then m else returnM ())"

lemma returnM_apply [monad_simps]: "returnM x s = (Inr x, s)"
  by (simp add: returnM_def)

lemma raiseM_apply [monad_simps]: "raiseM e s = (Inl e, s)"
  by (simp add: raiseM_def)

lemma getsM_apply [monad_simps]: "getsM f s = (Inr (f s), s)"
  by (simp add: getsM_def)

lemma modifyM_apply [monad_simps]: "modifyM f s = (Inr (), f s)"
  by (simp add: modifyM_def)

lemma bindM_apply [monad_simps]:
  "bindM m k s = (case m s of (Inl e, s') \<Rightarrow> (Inl e, s') | (Inr x, s') \<Rightarrow> k x s')"
  by (simp add: bindM_def)

lemma seqM_apply [monad_simps]:
  "seqM m n s = (case m s of (Inl e, s') \<Rightarrow> (Inl e, s') | (Inr x, s') \<Rightarrow> n s')"
  by (simp add: seqM_def bindM_def)

lemma whenM_simps [monad_simps]:
  "whenM True m = m"
  "whenM False m = returnM ()"
  by (simp_all add: whenM_def)

lemma bindM_return_left [simp]: "bindM (returnM x) k = k x"
  by (rule ext) (simp add: monad_simps)

lemma bindM_assoc: "bindM (bindM m k) h = bindM m (\<lambda>x. bindM (k x) h)"
  by (rule ext) (simp add: monad_simps split: prod.split sum.split)

lemma bindM_return_right [simp]: "bindM m returnM = m"
  by (rule ext) (simp add: monad_simps split: prod.split sum.split)

text \<open>The outcome of a run that is known to return, or known to raise.\<close>

lemma bindM_Inr: "m s = (Inr x, s') \<Longrightarrow> bindM m k s = k x s'"
  by (simp add: bindM_def)

lemma bindM_Inl: "m s = (Inl e, s') \<Longrightarrow> bindM m k s = (Inl e, s')"
  by (simp add: bindM_def)

lemma bindM_returns:
  assumes "bindM m k s = (Inr y, t)"
  obtains x s' where "m s = (Inr x, s')" "k x s' = (Inr y, t)"
  using assms by (auto simp: bindM_def split: prod.splits sum.splits)

section \<open>Hoare-style invariants of monadic functions\<close>

text \<open>\<open>keeps I m\<close>: whatever the outcome of \<open>m\<close>, the state it leaves
  satisfies \<open>I\<close> if the state it found did.\<close>

definition keeps :: "('s \<Rightarrow> bool) \<Rightarrow> ('s, 'e, 'a) monad \<Rightarrow> bool" where
  "keeps I m \<longleftrightarrow> (\<forall>s. I s \<longrightarrow> I (snd (m s)))"

named_theorems keeps_intros \<open>closure rules for invariant preservation\<close>

lemma keepsI: "(\<And>s. I s \<Longrightarrow> I (snd (m s))) \<Longrightarrow> keeps I m"
  by (simp add: keeps_def)

lemma keepsD: "keeps I m \<Longrightarrow> I s \<Longrightarrow> I (snd (m s))"
  by (simp add: keeps_def)

lemma keeps_returnM [keeps_intros]: "keeps I (returnM x)"
  by (simp add: keeps_def monad_simps)

lemma keeps_raiseM [keeps_intros]: "keeps I (raiseM e)"
  by (simp add: keeps_def monad_simps)

lemma keeps_getsM [keeps_intros]: "keeps I (getsM f)"
  by (simp add: keeps_def monad_simps)

lemma keeps_bindM [keeps_intros]: "keeps I m \<Longrightarrow> (\<And>x. keeps I (k x)) \<Longrightarrow> keeps I (bindM m k)"
  unfolding keeps_def bindM_def
  by (clarsimp split: prod.split sum.split) (metis snd_conv)

lemma keeps_seqM [keeps_intros]: "keeps I m \<Longrightarrow> keeps I n \<Longrightarrow> keeps I (seqM m n)"
  unfolding seqM_def by (intro keeps_bindM)

lemma keeps_if [keeps_intros]:
  "(b \<Longrightarrow> keeps I m) \<Longrightarrow> (\<not> b \<Longrightarrow> keeps I n) \<Longrightarrow> keeps I (if b then m else n)"
  by simp

lemma keeps_whenM [keeps_intros]: "(b \<Longrightarrow> keeps I m) \<Longrightarrow> keeps I (whenM b m)"
  by (simp add: whenM_def keeps_returnM)

lemma keeps_case_prod [keeps_intros]:
  "(\<And>a b. keeps I (f a b)) \<Longrightarrow> keeps I (case p of (a, b) \<Rightarrow> f a b)"
  by (simp split: prod.split)

end
