(* ===== verification/WordFacts.thy ===== *)
theory WordFacts
  imports Prelude
begin

text \<open>
  Machine words: the little-endian bytes of a word and byte-addressed vectors
  (guest memory is one), and the facts on words that the components share.
  The carry out of bit \<open>n\<close> of a sum or difference determines bit \<open>n\<close> of the
  result, which gives the auxiliary carry and the signed overflow; sign
  extension keeps the unsigned order, which lets the lazy flags of 8-bit and
  16-bit operations be computed on their 32-bit extensions.
\<close>

section \<open>Bytes and byte vectors\<close>

definition le_bytes :: "nat \<Rightarrow> 'a::len word \<Rightarrow> 8 word list" where
  "le_bytes n w = map (\<lambda>k. ucast (drop_bit (8 * k) w)) [0..<n]"

primrec le_word :: "8 word list \<Rightarrow> 'a::len word" where
  "le_word [] = 0"
| "le_word (b # bs) = ucast b OR push_bit 8 (le_word bs)"

definition load_bytes :: "(32 word \<Rightarrow> 8 word) \<Rightarrow> 32 word \<Rightarrow> nat \<Rightarrow> 8 word list" where
  "load_bytes vec a n = map (\<lambda>k. vec (a + of_nat k)) [0..<n]"

definition store_bytes ::
  "(32 word \<Rightarrow> 8 word) \<Rightarrow> 32 word \<Rightarrow> 8 word list \<Rightarrow> 32 word \<Rightarrow> 8 word" where
  "store_bytes vec a bs = (\<lambda>x. if unat (x - a) < length bs then bs ! unat (x - a) else vec x)"

lemma length_le_bytes [simp]: "length (le_bytes n w) = n"
  by (simp add: le_bytes_def)

lemma length_load_bytes [simp]: "length (load_bytes vec a n) = n"
  by (simp add: load_bytes_def)

lemma le_bytes_nth: "k < n \<Longrightarrow> le_bytes n w ! k = ucast (drop_bit (8 * k) w)"
  by (simp add: le_bytes_def)

lemma bit_le_word:
  "bit (le_word bs :: 'a::len word) k \<longleftrightarrow>
    k < LENGTH('a) \<and> k div 8 < length bs \<and> bit (bs ! (k div 8)) (k mod 8)"
proof (induction bs arbitrary: k)
  case Nil
  then show ?case by simp
next
  case (Cons b bs)
  show ?case
  proof (cases "k < 8")
    case True
    then show ?thesis by (auto simp: bit_or_iff bit_push_bit_iff bit_ucast_iff)
  next
    case False
    then obtain j where k: "k = j + 8" by (metis add.commute le_Suc_ex linorder_not_less)
    have "\<not> bit b k" using False by (auto dest: bit_imp_le_length)
    then have "bit (le_word (b # bs) :: 'a word) k \<longleftrightarrow> k < LENGTH('a) \<and> bit (le_word bs :: 'a word) j"
      by (auto simp: bit_or_iff bit_push_bit_iff bit_ucast_iff k)
    moreover have "k div 8 = Suc (j div 8)" "k mod 8 = j mod 8" by (simp_all add: k)
    ultimately show ?thesis by (auto simp: Cons.IH k)
  qed
qed

lemma le_word_bytes:
  fixes w :: "'a::len word"
  assumes "LENGTH('a) \<le> 8 * n"
  shows "le_word (le_bytes n w) = w"
proof (rule bit_word_eqI)
  fix k assume "k < LENGTH('a)"
  then have "k div 8 < n" using assms by (simp add: div_less_iff_less_mult mult.commute)
  then show "bit (le_word (le_bytes n w) :: 'a word) k = bit w k"
    using \<open>k < LENGTH('a)\<close>
    by (simp add: bit_le_word le_bytes_nth bit_ucast_iff bit_drop_bit_eq mult.commute)
qed

lemma le_bytes_word:
  assumes "8 * length bs \<le> LENGTH('a::len)"
  shows "le_bytes (length bs) (le_word bs :: 'a word) = bs"
proof (rule nth_equalityI)
  fix k assume "k < length (le_bytes (length bs) (le_word bs :: 'a word))"
  then have k: "k < length bs" by simp
  show "le_bytes (length bs) (le_word bs :: 'a word) ! k = bs ! k"
  proof (rule bit_word_eqI)
    fix i assume i: "i < LENGTH(8)"
    then have "(8 * k + i) div 8 = k" "(8 * k + i) mod 8 = i" by simp_all
    moreover have "8 * k + i < LENGTH('a)" using assms k i by simp
    ultimately show "bit (le_bytes (length bs) (le_word bs :: 'a word) ! k) i = bit (bs ! k) i"
      using k i by (simp add: le_bytes_nth bit_ucast_iff bit_drop_bit_eq bit_le_word)
  qed
qed simp

lemma unat_of_nat_32: "k < 2 ^ 32 \<Longrightarrow> unat (of_nat k :: 32 word) = k"
  by (simp add: unsigned_of_nat take_bit_nat_eq_self)

lemma load_store_same:
  assumes "length bs \<le> 2 ^ 32"
  shows "load_bytes (store_bytes vec a bs) a (length bs) = bs"
proof (rule nth_equalityI)
  fix k assume "k < length (load_bytes (store_bytes vec a bs) a (length bs))"
  then have k: "k < length bs" by simp
  then have "unat (of_nat k :: 32 word) = k" using assms by (simp add: unat_of_nat_32)
  with k show "load_bytes (store_bytes vec a bs) a (length bs) ! k = bs ! k"
    by (simp add: load_bytes_def store_bytes_def)
qed simp

lemma store_bytes_other:
  assumes "unat x < unat a \<or> unat a + length bs \<le> unat x" "unat a + length bs \<le> 2 ^ 32"
  shows "store_bytes vec a bs x = vec x"
proof -
  have "unat a < 2 ^ 32" using unsigned_less [of a] by simp
  then have "length bs \<le> unat (x - a)"
    using assms by (auto simp: unat_sub_if_size word_size)
  then show ?thesis by (simp add: store_bytes_def)
qed

lemma load_store_other:
  assumes "unat b + n \<le> unat a \<or> unat a + length bs \<le> unat b"
    and "unat a + length bs \<le> 2 ^ 32" "unat b + n \<le> 2 ^ 32"
  shows "load_bytes (store_bytes vec a bs) b n = load_bytes vec b n"
proof -
  have "store_bytes vec a bs (b + of_nat k) = vec (b + of_nat k)" if "k < n" for k
  proof (rule store_bytes_other)
    have "unat (of_nat k :: 32 word) = k" using that assms(3) by (simp add: unat_of_nat_32)
    then have "unat (b + of_nat k) = unat b + k"
      using that assms(3) by (subst unat_plus_simple [THEN iffD1]) (simp_all add: no_olen_add_nat)
    then show "unat (b + of_nat k) < unat a \<or> unat a + length bs \<le> unat (b + of_nat k)"
      using assms(1) that by auto
  qed (rule assms)
  then show ?thesis by (simp add: load_bytes_def)
qed

lemma store_load_same: "n \<le> 2 ^ 32 \<Longrightarrow> store_bytes vec a (load_bytes vec a n) = vec"
  by (rule ext) (simp add: store_bytes_def load_bytes_def)

lemma store_bytes_append:
  assumes "length xs + length ys < 2 ^ 32"
  shows "store_bytes (store_bytes vec a xs) (a + of_nat (length xs)) ys = store_bytes vec a (xs @ ys)"
proof
  fix x
  have n: "unat (of_nat (length xs) :: 32 word) = length xs"
    using assms by (simp add: unat_of_nat_32)
  have "unat (x - (a + of_nat (length xs))) =
      (if length xs \<le> unat (x - a) then unat (x - a) - length xs
       else unat (x - a) + 2 ^ 32 - length xs)"
    unfolding diff_diff_eq [symmetric] by (simp add: unat_sub_if_size word_size n)
  then show "store_bytes (store_bytes vec a xs) (a + of_nat (length xs)) ys x =
      store_bytes vec a (xs @ ys) x"
    using assms by (auto simp: store_bytes_def nth_append)
qed

lemma load_bytes_append:
  "load_bytes vec a (n + m) = load_bytes vec a n @ load_bytes vec (a + of_nat n) m"
  by (rule nth_equalityI) (auto simp: load_bytes_def nth_append add.assoc simp flip: of_nat_add)

lemma bit_beyond_length: "LENGTH('a) \<le> n \<Longrightarrow> \<not> bit w n" for w :: "'a::len word"
  by (auto dest: bit_imp_le_length)

section \<open>Carry, borrow and overflow\<close>

lemma add_lt_double: "a < m \<Longrightarrow> b < m \<Longrightarrow> a + b + of_bool c < 2 * (m :: int)"
  by (cases c) simp_all

lemma odd_of_bool_add: "odd (of_bool P + (a + b)) \<longleftrightarrow> ((odd a \<noteq> odd b) \<noteq> P)" for a b :: int
  by auto

lemma bit_add_carry_int:
  fixes x y :: int
  shows "bit (x + y + of_bool c) n \<longleftrightarrow>
    ((bit x n \<noteq> bit y n) \<noteq> (2 ^ n \<le> x mod 2 ^ n + y mod 2 ^ n + of_bool c))"
proof -
  let ?m = "2 ^ n :: int"
  let ?l = "x mod ?m + y mod ?m + of_bool c"
  have bounds: "0 \<le> x mod ?m" "x mod ?m < ?m" "0 \<le> y mod ?m" "y mod ?m < ?m" by simp_all
  have "x + y + of_bool c = ?l + ?m * (x div ?m + y div ?m)"
    using mult_div_mod_eq [of ?m x] mult_div_mod_eq [of ?m y] by (simp add: algebra_simps)
  then have "(x + y + of_bool c) div ?m = ?l div ?m + (x div ?m + y div ?m)"
    by (metis div_mult_self2 power_not_zero zero_neq_numeral add.commute mult.commute)
  moreover have "?l div ?m = of_bool (?m \<le> ?l)"
  proof (cases "?m \<le> ?l")
    case True
    have "?l < 2 * ?m" using bounds(2,4) by (rule add_lt_double)
    then have "(?l - ?m) div ?m = 0" using True by (intro div_pos_pos_trivial) simp_all
    with True show ?thesis by (simp add: div_pos_geq)
  next
    case False
    then show ?thesis using bounds by (simp add: div_pos_pos_trivial)
  qed
  ultimately have "(x + y + of_bool c) div ?m = of_bool (?m \<le> ?l) + (x div ?m + y div ?m)"
    by (simp only:)
  then show ?thesis
    by (simp only: bit_iff_odd odd_of_bool_add)
qed

lemma bit_sub_borrow_int:
  fixes x y :: int
  shows "bit (x - y - of_bool c) n \<longleftrightarrow>
    ((bit x n \<noteq> bit y n) \<noteq> (x mod 2 ^ n < y mod 2 ^ n + of_bool c))"
proof -
  have y: "x - y - of_bool c = x + NOT y + of_bool (\<not> c)" by (simp add: not_int_def)
  have m: "(NOT y) mod 2 ^ n = 2 ^ n - 1 - y mod 2 ^ n"
  proof -
    define l q where "l = y mod 2 ^ n" and "q = y div 2 ^ n"
    then have y': "y = l + 2 ^ n * q" "0 \<le> l" "l < 2 ^ n" "y mod 2 ^ n = l" by simp_all
    have "NOT y = (2 ^ n - 1 - l) + 2 ^ n * (- 1 - q)"
      by (simp add: not_int_def y'(1) algebra_simps)
    then have "(NOT y) mod 2 ^ n = (2 ^ n - 1 - l) mod 2 ^ n" by (simp only: mod_mult_self2)
    also have "\<dots> = 2 ^ n - 1 - l" using y'(2,3) by (intro mod_pos_pos_trivial) linarith+
    finally show ?thesis by (simp only: y'(4))
  qed
  show ?thesis unfolding y bit_add_carry_int m
    by (cases c) (auto simp: bit_not_int_iff)
qed

lemma bit_add_carry_word:
  fixes a b :: "'a::len word"
  assumes "n < LENGTH('a)"
  shows "bit (a + b + of_bool c) n \<longleftrightarrow>
    ((bit a n \<noteq> bit b n) \<noteq> (2 ^ n \<le> uint a mod 2 ^ n + uint b mod 2 ^ n + of_bool c))"
proof -
  have "a + b + of_bool c = word_of_int (uint a + uint b + of_bool c)"
    by (cases c) simp_all
  then have "bit (a + b + of_bool c) n = bit (uint a + uint b + of_bool c) n"
    using assms by (simp only: bit_word_of_int_iff) simp
  then show ?thesis
    by (simp add: bit_add_carry_int bit_uint_iff assms)
qed

lemma bit_sub_borrow_word:
  fixes a b :: "'a::len word"
  assumes "n < LENGTH('a)"
  shows "bit (a - b - of_bool c) n \<longleftrightarrow>
    ((bit a n \<noteq> bit b n) \<noteq> (uint a mod 2 ^ n < uint b mod 2 ^ n + of_bool c))"
proof -
  have "a - b - of_bool c = word_of_int (uint a - uint b - of_bool c)"
    by (cases c) simp_all
  then have "bit (a - b - of_bool c) n = bit (uint a - uint b - of_bool c) n"
    using assms by (simp only: bit_word_of_int_iff) simp
  then show ?thesis
    by (simp add: bit_sub_borrow_int bit_uint_iff assms)
qed

lemma sint_low_msb:
  fixes a :: "'a::len word"
  shows "sint a = uint a mod 2 ^ (LENGTH('a) - 1) - of_bool (bit a (LENGTH('a) - 1)) * 2 ^ (LENGTH('a) - 1)"
proof -
  obtain n where n: "LENGTH('a) = Suc n" by (metis len_not_eq_0 not0_implies_Suc)
  have "sint a = take_bit (Suc n) (uint a) - 2 ^ Suc n * of_bool (bit a n)"
    by (simp only: sint_uint n signed_take_bit_eq_take_bit_minus) (simp add: bit_uint_iff n)
  then show ?thesis
    by (simp only: take_bit_Suc_from_most n) (simp add: take_bit_eq_mod bit_uint_iff n)
qed

lemma sint_add_overflow_iff:
  fixes a b r :: "'a::len word"
  defines "m \<equiv> LENGTH('a) - 1"
  assumes r: "r = a + b + of_bool c"
  shows "(bit a m = bit b m \<and> bit r m \<noteq> bit b m) \<longleftrightarrow>
    \<not> (- (2 ^ m) \<le> sint a + sint b + of_bool c \<and> sint a + sint b + of_bool c < 2 ^ m)"
proof -
  have m: "m < LENGTH('a)" by (simp add: m_def)
  define low where "low x = uint x mod 2 ^ m" for x :: "'a word"
  have s: "sint x = low x - of_bool (bit x m) * 2 ^ m" for x
    unfolding m_def low_def by (rule sint_low_msb)
  have "0 \<le> low x" "low x < 2 ^ m" for x by (simp_all add: low_def)
  from this(1) [of a] this(1) [of b] this(2) [of a] this(2) [of b] show ?thesis
    unfolding r bit_add_carry_word [OF m] low_def [symmetric] s
    by (cases "bit a m"; cases "bit b m"; cases c) auto
qed

lemma sint_sub_overflow_iff:
  fixes a b r :: "'a::len word"
  defines "m \<equiv> LENGTH('a) - 1"
  assumes r: "r = a - b - of_bool c"
  shows "(bit a m \<noteq> bit b m \<and> bit a m \<noteq> bit r m) \<longleftrightarrow>
    \<not> (- (2 ^ m) \<le> sint a - sint b - of_bool c \<and> sint a - sint b - of_bool c < 2 ^ m)"
proof -
  have m: "m < LENGTH('a)" by (simp add: m_def)
  define low where "low x = uint x mod 2 ^ m" for x :: "'a word"
  have s: "sint x = low x - of_bool (bit x m) * 2 ^ m" for x
    unfolding m_def low_def by (rule sint_low_msb)
  have "0 \<le> low x" "low x < 2 ^ m" for x by (simp_all add: low_def)
  from this(1) [of a] this(1) [of b] this(2) [of a] this(2) [of b] show ?thesis
    unfolding r bit_sub_borrow_word [OF m] low_def [symmetric] s
    by (cases "bit a m"; cases "bit b m"; cases c) auto
qed

lemma mod_less_double: "M \<le> n \<Longrightarrow> n < 2 * M \<Longrightarrow> n mod M = n - M" for n M :: nat
  by (simp add: le_mod_geq)

lemma adc_carry_iff:
  fixes a b :: "'a::len word"
  shows "a + b + 1 \<le> a \<longleftrightarrow> 2 ^ LENGTH('a) \<le> unat a + unat b + 1"
proof -
  obtain x y M where v: "x = unat a" "y = unat b" "M = (2::nat) ^ LENGTH('a)" by simp
  have bnds: "x < M" "y < M" by (simp_all add: v)
  have r: "unat (a + b + 1) = (x + y + 1) mod M"
    by (simp add: unat_word_ariths mod_simps v)
  show ?thesis
    unfolding word_le_nat_alt r unfolding v [symmetric]
  proof (cases "M \<le> x + y + 1")
    case True
    then show "(x + y + 1) mod M \<le> x \<longleftrightarrow> M \<le> x + y + 1"
      using bnds by (subst mod_less_double) linarith+
  next
    case False
    then show "(x + y + 1) mod M \<le> x \<longleftrightarrow> M \<le> x + y + 1" by simp
  qed
qed

lemma add_carry_iff:
  fixes a b :: "'a::len word"
  shows "a + b < a \<longleftrightarrow> 2 ^ LENGTH('a) \<le> unat a + unat b"
  using no_olen_add_nat [of a b] by (auto simp: not_le [symmetric])

lemma word_minus_one_uint: "b = - 1 \<longleftrightarrow> uint b = 2 ^ LENGTH('a) - 1" for b :: "'a::len word"
proof -
  have "uint (- 1 :: 'a word) = 2 ^ LENGTH('a) - 1"
    by (simp add: unsigned_minus_1_eq_mask mask_eq_exp_minus_1)
  then show ?thesis by (metis word_uint_eqI)
qed

lemma mod_add_modulus: "- M \<le> x \<Longrightarrow> x < 0 \<Longrightarrow> x mod M = x + M" for x M :: int
  using mod_pos_pos_trivial [of "x + M" M] by simp

lemma sbb_borrow_iff:
  fixes a b :: "'a::len word"
  shows "(a < a - b - 1 \<or> b = - 1) \<longleftrightarrow> unat a < unat b + 1"
proof -
  let ?M = "2 ^ LENGTH('a) :: int"
  have bnds: "0 \<le> uint a" "uint a < ?M" "0 \<le> uint b" "uint b < ?M" by simp_all
  have r: "uint (a - b - 1) = (uint a - uint b - 1) mod ?M"
    by (simp add: uint_word_ariths mod_simps)
  have lt: "unat a < unat b + 1 \<longleftrightarrow> uint a < uint b + 1"
    unfolding uint_nat by linarith
  show ?thesis
  proof (cases "uint a < uint b + 1")
    case True
    then have "(uint a - uint b - 1) mod ?M = uint a - uint b - 1 + ?M"
      using bnds by (intro mod_add_modulus) linarith+
    then show ?thesis using True bnds
      unfolding lt word_less_def r word_minus_one_uint by linarith
  next
    case False
    then have "(uint a - uint b - 1) mod ?M = uint a - uint b - 1"
      using bnds by (intro mod_pos_pos_trivial) linarith+
    then show ?thesis using False bnds
      unfolding lt word_less_def r word_minus_one_uint by linarith
  qed
qed

lemma uint_scast_up:
  fixes a :: "'a::len word"
  assumes "LENGTH('a) \<le> LENGTH('b::len)"
  shows "uint (scast a :: 'b word) = (if sint a < 0 then sint a + 2 ^ LENGTH('b) else sint a)"
proof -
  have le: "(2::int) ^ (LENGTH('a) - 1) \<le> 2 ^ LENGTH('b)" using assms by simp
  have "uint (scast a :: 'b word) = sint a mod 2 ^ LENGTH('b)"
    by transfer (simp add: take_bit_eq_mod)
  moreover have "- (2 ^ (LENGTH('a) - 1)) \<le> sint a" "sint a < 2 ^ (LENGTH('a) - 1)"
    by (rule sint_ge, rule sint_lt)
  ultimately show ?thesis using le
    by (cases "sint a < 0") (simp_all add: mod_add_modulus)
qed

lemma sint_eq_uint_if:
  fixes a :: "'a::len word"
  shows "sint a = (if 2 ^ (LENGTH('a) - 1) \<le> uint a then uint a - 2 ^ LENGTH('a) else uint a)"
proof -
  obtain n where n: "LENGTH('a) = Suc n" by (metis len_not_eq_0 not0_implies_Suc)
  have "uint a = take_bit (Suc n) (uint a)"
    unfolding n [symmetric] by (rule sym, rule take_bit_int_eq_self) simp_all
  then have u: "uint a = uint a mod 2 ^ n + 2 ^ n * of_bool (bit a n)"
    by (simp only: take_bit_Suc_from_most) (simp add: take_bit_eq_mod bit_uint_iff n)
  obtain l where l: "l = uint a mod 2 ^ n" "0 \<le> l" "l < 2 ^ n" by simp
  have "uint a = l + 2 ^ n * of_bool (bit a n)" unfolding l(1) by (rule u)
  moreover have "sint a = l - of_bool (bit a n) * 2 ^ n"
    using sint_low_msb [of a] by (simp add: n l(1))
  ultimately show ?thesis using l(2,3) by (cases "bit a n") (simp_all add: n)
qed

lemma uint_scast_if:
  fixes a :: "'a::len word"
  assumes "LENGTH('a) \<le> LENGTH('b::len)"
  shows "uint (scast a :: 'b word) =
    (if 2 ^ (LENGTH('a) - 1) \<le> uint a then uint a + (2 ^ LENGTH('b) - 2 ^ LENGTH('a)) else uint a)"
  using uint_lt2p [of a] uint_ge_0 [of a]
  unfolding uint_scast_up [OF assms] sint_eq_uint_if [of a] by auto

lemma scast_less_iff:
  fixes a b :: "'a::len word"
  assumes "LENGTH('a) \<le> LENGTH('b::len)"
  shows "(scast a :: 'b word) < scast b \<longleftrightarrow> a < b"
proof -
  obtain d :: int where d: "d = 2 ^ LENGTH('b) - 2 ^ LENGTH('a)" "0 \<le> d" using assms by simp
  obtain h :: int where h: "h = 2 ^ (LENGTH('a) - 1)" by simp
  from d(2) show ?thesis
    unfolding word_less_def uint_scast_if [OF assms] h [symmetric] d(1) [symmetric]
    by (cases "h \<le> uint a"; cases "h \<le> uint b") simp_all
qed

lemma scast_eq_iff:
  fixes a b :: "'a::len word"
  assumes "LENGTH('a) \<le> LENGTH('b::len)"
  shows "(scast a :: 'b word) = scast b \<longleftrightarrow> a = b"
  using scast_less_iff [OF assms] by (metis linorder_neq_iff)

lemma scast_le_iff:
  fixes a b :: "'a::len word"
  assumes "LENGTH('a) \<le> LENGTH('b::len)"
  shows "(scast a :: 'b word) \<le> scast b \<longleftrightarrow> a \<le> b"
  by (simp add: not_less [symmetric] scast_less_iff [OF assms])

end
