(* ===== verification/CpuState.thy ===== *)
theory CpuState
  imports WordFacts
begin

text \<open>
  The state of the emulated processor, as \<open>tools/WhiteBochs-old/cpu/cpu.h\<close>,
  \<open>descriptor.h\<close>, \<open>crregs.h\<close> and \<open>memory/memory.h\<close> declare it for the build the
  repository uses (\<open>config.h\<close>, \<open>Makefile.common\<close>: CPU level 5, no x86-64, 32-bit
  physical addresses, alignment check on, no VMX, no trace cache,
  \<open>WHITEBOCHS\<close> and \<open>WHITEBOCHS_NO_TLB\<close> defined).  \<open>bx_bool\<close> is a 32-bit word,
  as \<open>config.h\<close> has it; pointers are 32-bit (the emulator is compiled with
  \<open>-m32\<close>).

  A member function that can raise is a computation in the state-exception
  monad over this state.  \<open>exception()\<close> leaves the handler by \<open>longjmp\<close>, so it is
  the raising operation; what it does on the way out (delivery through the
  IDT) is not part of the handler.  \<open>HostFault\<close> is a host memory access outside
  the mapping of the guest's memory, and \<open>AssertFail\<close> a failed \<open>assert\<close> or
  \<open>BX_ASSERT\<close>.
\<close>

section \<open>Descriptors and segment registers\<close>

record bx_selector_t =
  sel_value :: "16 word"
  sel_index :: "16 word"
  sel_ti :: "8 word"
  sel_rpl :: "8 word"

record bx_descriptor_t =
  valid :: "32 word"
  d_p :: "32 word"
  d_dpl :: "8 word"
  d_segment :: "32 word"
  d_type :: "8 word"
  seg_base :: "32 word"
  limit_scaled :: "32 word"
  seg_g :: "32 word"
  seg_d_b :: "32 word"
  seg_avl :: "32 word"
  gate_param_count :: "8 word"
  gate_dest_selector :: "16 word"
  gate_dest_offset :: "32 word"
  taskgate_tss_selector :: "16 word"

record bx_segment_reg_t =
  selector :: bx_selector_t
  cache :: bx_descriptor_t

record bx_global_segment_reg_t =
  gseg_base :: "32 word"
  gseg_limit :: "16 word"

definition SegValidCache :: "32 word" where "SegValidCache = 0x01"
definition SegAccessROK :: "32 word" where "SegAccessROK = 0x02"
definition SegAccessWOK :: "32 word" where "SegAccessWOK = 0x04"

abbreviation (input) BX_SEG_REG_ES :: nat where "BX_SEG_REG_ES \<equiv> 0"
abbreviation (input) BX_SEG_REG_CS :: nat where "BX_SEG_REG_CS \<equiv> 1"
abbreviation (input) BX_SEG_REG_SS :: nat where "BX_SEG_REG_SS \<equiv> 2"
abbreviation (input) BX_SEG_REG_DS :: nat where "BX_SEG_REG_DS \<equiv> 3"
abbreviation (input) BX_SEG_REG_FS :: nat where "BX_SEG_REG_FS \<equiv> 4"
abbreviation (input) BX_SEG_REG_GS :: nat where "BX_SEG_REG_GS \<equiv> 5"

section \<open>Lazy flags, TLB, address translation scratch area, memory\<close>

record bx_lf_flags_entry =
  lf_op1 :: "32 word"
  lf_op2 :: "32 word"
  lf_result :: "32 word"
  lf_instr :: "32 word"

record bx_TLB_entry =
  tlb_lpf :: "32 word"
  tlb_ppf :: "32 word"
  hostPageAddr :: "32 word"
  accessBits :: "32 word"
  tlb_lpf_mask :: "32 word"

record address_xlation_t =
  rm_addr :: "32 word"
  paddress1 :: "32 word"
  paddress2 :: "32 word"
  len1 :: "32 word"
  len2 :: "32 word"
  pages :: "32 word"

text \<open>\<open>BX_MEM_C\<close>: the guest's memory is a fixed anonymous mapping of
  \<open>len + 4096\<close> bytes at host address \<open>0x70000000\<close>; \<open>vector a\<close> is the byte at the
  host address \<open>vector + a\<close>, in the mapping or not.  The emulator does not check
  physical addresses, so what lies at the other host addresses matters: \<open>elsewhere\<close>
  says which of them the host process happens to map, and is a parameter of the
  model that no operation changes.\<close>

record bx_mem_c =
  vector :: "32 word \<Rightarrow> 8 word"
  mem_len :: "64 word"
  elsewhere :: "32 word \<Rightarrow> bool"

section \<open>The processor\<close>

record bx_cpu_c =
  gen_reg :: "nat \<Rightarrow> 32 word"
  eflags :: "32 word"
  lf_flags_status :: "32 word"
  oszapc :: bx_lf_flags_entry
  prev_rip :: "32 word"
  prev_rsp :: "32 word"
  speculative_rsp :: "32 word"
  inhibit_mask :: "32 word"
  sregs :: "nat \<Rightarrow> bx_segment_reg_t"
  gdtr :: bx_global_segment_reg_t
  idtr :: bx_global_segment_reg_t
  ldtr :: bx_segment_reg_t
  task_reg :: bx_segment_reg_t
  dr :: "nat \<Rightarrow> 32 word"
  dr6 :: "32 word"
  dr7 :: "32 word"
  cr0 :: "32 word"
  cr2 :: "32 word"
  cr3 :: "32 word"
  cr4 :: "32 word"
  smbase :: "32 word"
  EXT :: "32 word"
  errorno :: "32 word"
  activity_state :: "32 word"
  debug_trap :: "32 word"
  async_event :: "32 word"
  cpu_mode :: "32 word"
  user_pl :: "32 word"
  curr_exception :: nat
  in_smm :: "32 word"
  pending_SMI :: "32 word"
  pending_NMI :: "32 word"
  pending_INIT :: "32 word"
  disable_SMI :: "32 word"
  disable_NMI :: "32 word"
  disable_INIT :: "32 word"
  eipPageBias :: "32 word"
  eipPageWindowSize :: "32 word"
  eipFetchPtr :: "32 word"
  alignment_check_mask :: "32 word"
  TLB_entry :: "nat \<Rightarrow> bx_TLB_entry"
  TLB_split_large :: "32 word"
  address_xlation :: address_xlation_t
  fetchModeMask :: "32 word"
  pageWriteStampTable :: "nat \<Rightarrow> 32 word"
  bx_mem :: bx_mem_c

datatype fault =
    Exception nat "16 word"
  | HostFault "32 word"
  | AssertFail

type_synonym 'a cpu_monad = "(bx_cpu_c, fault, 'a) monad"

abbreviation (input) BX_DE_EXCEPTION :: nat where "BX_DE_EXCEPTION \<equiv> 0"
abbreviation (input) BX_UD_EXCEPTION :: nat where "BX_UD_EXCEPTION \<equiv> 6"
abbreviation (input) BX_NP_EXCEPTION :: nat where "BX_NP_EXCEPTION \<equiv> 11"
abbreviation (input) BX_SS_EXCEPTION :: nat where "BX_SS_EXCEPTION \<equiv> 12"
abbreviation (input) BX_GP_EXCEPTION :: nat where "BX_GP_EXCEPTION \<equiv> 13"
abbreviation (input) BX_PF_EXCEPTION :: nat where "BX_PF_EXCEPTION \<equiv> 14"
abbreviation (input) BX_AC_EXCEPTION :: nat where "BX_AC_EXCEPTION \<equiv> 17"

abbreviation exception :: "nat \<Rightarrow> 16 word \<Rightarrow> 'a cpu_monad" where
  "exception vec error_code \<equiv> raiseM (Exception vec error_code)"

definition BX_ASSERT :: "bool \<Rightarrow> unit cpu_monad" where
  "BX_ASSERT b = (if b then returnM () else raiseM AssertFail)"

section \<open>General registers\<close>

text \<open>\<open>bx_gen_reg_t\<close> overlays a 32-bit, a 16-bit and two 8-bit registers
  (little-endian layout).\<close>

definition reg_rl :: "32 word \<Rightarrow> 8 word" where "reg_rl r = ucast r"
definition reg_rh :: "32 word \<Rightarrow> 8 word" where "reg_rh r = ucast (drop_bit 8 r)"
definition reg_rx :: "32 word \<Rightarrow> 16 word" where "reg_rx r = ucast r"

definition set_rl :: "8 word \<Rightarrow> 32 word \<Rightarrow> 32 word" where
  "set_rl v r = (r AND NOT (mask 8)) OR ucast v"
definition set_rh :: "8 word \<Rightarrow> 32 word \<Rightarrow> 32 word" where
  "set_rh v r = (r AND NOT (push_bit 8 (mask 8))) OR push_bit 8 (ucast v)"
definition set_rx :: "16 word \<Rightarrow> 32 word \<Rightarrow> 32 word" where
  "set_rx v r = (r AND NOT (mask 16)) OR ucast v"

definition BX_GENERAL_REGISTERS :: nat where "BX_GENERAL_REGISTERS = 8"
definition BX_32BIT_REG_EIP :: nat where "BX_32BIT_REG_EIP = BX_GENERAL_REGISTERS"
definition BX_NIL_REGISTER :: nat where "BX_NIL_REGISTER = BX_GENERAL_REGISTERS + 1"
definition BX_TMP_REGISTER :: nat where "BX_TMP_REGISTER = BX_GENERAL_REGISTERS + 2"

definition BX_READ_8BIT_REG :: "nat \<Rightarrow> bx_cpu_c \<Rightarrow> 8 word" where
  "BX_READ_8BIT_REG index s =
    (if index AND 4 \<noteq> 0 then reg_rh (gen_reg s (index - 4)) else reg_rl (gen_reg s index))"

definition BX_READ_8BIT_REGH :: "nat \<Rightarrow> bx_cpu_c \<Rightarrow> 8 word" where
  "BX_READ_8BIT_REGH index s = reg_rh (gen_reg s index)"

definition BX_READ_16BIT_REG :: "nat \<Rightarrow> bx_cpu_c \<Rightarrow> 16 word" where
  "BX_READ_16BIT_REG index s = reg_rx (gen_reg s index)"

definition BX_READ_32BIT_REG :: "nat \<Rightarrow> bx_cpu_c \<Rightarrow> 32 word" where
  "BX_READ_32BIT_REG index s = gen_reg s index"

definition BX_WRITE_8BIT_REG :: "nat \<Rightarrow> 8 word \<Rightarrow> bx_cpu_c \<Rightarrow> bx_cpu_c" where
  "BX_WRITE_8BIT_REG index val s =
    (if index AND 4 \<noteq> 0
     then s\<lparr>gen_reg := (gen_reg s)(index - 4 := set_rh val (gen_reg s (index - 4)))\<rparr>
     else s\<lparr>gen_reg := (gen_reg s)(index := set_rl val (gen_reg s index))\<rparr>)"

definition BX_WRITE_8BIT_REGH :: "nat \<Rightarrow> 8 word \<Rightarrow> bx_cpu_c \<Rightarrow> bx_cpu_c" where
  "BX_WRITE_8BIT_REGH index val s =
    s\<lparr>gen_reg := (gen_reg s)(index := set_rh val (gen_reg s index))\<rparr>"

definition BX_WRITE_16BIT_REG :: "nat \<Rightarrow> 16 word \<Rightarrow> bx_cpu_c \<Rightarrow> bx_cpu_c" where
  "BX_WRITE_16BIT_REG index val s =
    s\<lparr>gen_reg := (gen_reg s)(index := set_rx val (gen_reg s index))\<rparr>"

definition BX_WRITE_32BIT_REGZ :: "nat \<Rightarrow> 32 word \<Rightarrow> bx_cpu_c \<Rightarrow> bx_cpu_c" where
  "BX_WRITE_32BIT_REGZ index val s = s\<lparr>gen_reg := (gen_reg s)(index := val)\<rparr>"

text \<open>The named registers of the shortcut macros; the macros are lvalues, so
  each has a reader and, where the code assigns to it, a writer.\<close>

definition AL :: "bx_cpu_c \<Rightarrow> 8 word" where "AL s = reg_rl (gen_reg s 0)"
definition AH :: "bx_cpu_c \<Rightarrow> 8 word" where "AH s = reg_rh (gen_reg s 0)"
definition AX :: "bx_cpu_c \<Rightarrow> 16 word" where "AX s = reg_rx (gen_reg s 0)"
definition BX :: "bx_cpu_c \<Rightarrow> 16 word" where "BX s = reg_rx (gen_reg s 3)"
definition SP :: "bx_cpu_c \<Rightarrow> 16 word" where "SP s = reg_rx (gen_reg s 4)"
definition EAX :: "bx_cpu_c \<Rightarrow> 32 word" where "EAX s = gen_reg s 0"
definition ECX :: "bx_cpu_c \<Rightarrow> 32 word" where "ECX s = gen_reg s 1"
definition EDX :: "bx_cpu_c \<Rightarrow> 32 word" where "EDX s = gen_reg s 2"
definition EBX :: "bx_cpu_c \<Rightarrow> 32 word" where "EBX s = gen_reg s 3"
definition ESP :: "bx_cpu_c \<Rightarrow> 32 word" where "ESP s = gen_reg s 4"

definition set_AL :: "8 word \<Rightarrow> bx_cpu_c \<Rightarrow> bx_cpu_c" where
  "set_AL v s = s\<lparr>gen_reg := (gen_reg s)(0 := set_rl v (gen_reg s 0))\<rparr>"
definition set_AH :: "8 word \<Rightarrow> bx_cpu_c \<Rightarrow> bx_cpu_c" where
  "set_AH v s = s\<lparr>gen_reg := (gen_reg s)(0 := set_rh v (gen_reg s 0))\<rparr>"
definition set_AX :: "16 word \<Rightarrow> bx_cpu_c \<Rightarrow> bx_cpu_c" where
  "set_AX v s = s\<lparr>gen_reg := (gen_reg s)(0 := set_rx v (gen_reg s 0))\<rparr>"
definition set_DX :: "16 word \<Rightarrow> bx_cpu_c \<Rightarrow> bx_cpu_c" where
  "set_DX v s = s\<lparr>gen_reg := (gen_reg s)(2 := set_rx v (gen_reg s 2))\<rparr>"
definition set_SP :: "16 word \<Rightarrow> bx_cpu_c \<Rightarrow> bx_cpu_c" where
  "set_SP v s = s\<lparr>gen_reg := (gen_reg s)(4 := set_rx v (gen_reg s 4))\<rparr>"
definition set_EAX :: "32 word \<Rightarrow> bx_cpu_c \<Rightarrow> bx_cpu_c" where
  "set_EAX v s = s\<lparr>gen_reg := (gen_reg s)(0 := v)\<rparr>"
definition set_EDX :: "32 word \<Rightarrow> bx_cpu_c \<Rightarrow> bx_cpu_c" where
  "set_EDX v s = s\<lparr>gen_reg := (gen_reg s)(2 := v)\<rparr>"
definition set_ESP :: "32 word \<Rightarrow> bx_cpu_c \<Rightarrow> bx_cpu_c" where
  "set_ESP v s = s\<lparr>gen_reg := (gen_reg s)(4 := v)\<rparr>"

definition set_TMP8L :: "8 word \<Rightarrow> bx_cpu_c \<Rightarrow> bx_cpu_c" where
  "set_TMP8L v s = s\<lparr>gen_reg :=
    (gen_reg s)(BX_TMP_REGISTER := set_rl v (gen_reg s BX_TMP_REGISTER))\<rparr>"
definition set_TMP16 :: "16 word \<Rightarrow> bx_cpu_c \<Rightarrow> bx_cpu_c" where
  "set_TMP16 v s = s\<lparr>gen_reg :=
    (gen_reg s)(BX_TMP_REGISTER := set_rx v (gen_reg s BX_TMP_REGISTER))\<rparr>"
definition set_TMP32 :: "32 word \<Rightarrow> bx_cpu_c \<Rightarrow> bx_cpu_c" where
  "set_TMP32 v s = s\<lparr>gen_reg := (gen_reg s)(BX_TMP_REGISTER := v)\<rparr>"

section \<open>Control bits and modes\<close>

definition CPL :: "bx_cpu_c \<Rightarrow> 8 word" where
  "CPL s = sel_rpl (selector (sregs s BX_SEG_REG_CS))"

definition get_bit32 :: "nat \<Rightarrow> 32 word \<Rightarrow> 32 word" where
  "get_bit32 bitnum val32 = 1 AND drop_bit bitnum val32"

definition cr0_get_WP :: "bx_cpu_c \<Rightarrow> 32 word" where "cr0_get_WP s = get_bit32 16 (cr0 s)"
definition cr0_get_AM :: "bx_cpu_c \<Rightarrow> 32 word" where "cr0_get_AM s = get_bit32 18 (cr0 s)"
definition cr0_get_PG :: "bx_cpu_c \<Rightarrow> 32 word" where "cr0_get_PG s = get_bit32 31 (cr0 s)"
definition cr4_get_PSE :: "bx_cpu_c \<Rightarrow> 32 word" where "cr4_get_PSE s = get_bit32 4 (cr4 s)"

abbreviation (input) BX_MODE_IA32_REAL :: "32 word" where "BX_MODE_IA32_REAL \<equiv> 0"
abbreviation (input) BX_MODE_IA32_V8086 :: "32 word" where "BX_MODE_IA32_V8086 \<equiv> 1"
abbreviation (input) BX_MODE_IA32_PROTECTED :: "32 word" where "BX_MODE_IA32_PROTECTED \<equiv> 2"
abbreviation (input) BX_MODE_LONG_64 :: "32 word" where "BX_MODE_LONG_64 \<equiv> 4"

definition real_mode :: "bx_cpu_c \<Rightarrow> bool" where "real_mode s = (cpu_mode s = BX_MODE_IA32_REAL)"
definition protected_mode :: "bx_cpu_c \<Rightarrow> bool" where
  "protected_mode s = (BX_MODE_IA32_PROTECTED \<le> cpu_mode s)"

definition alignment_check :: "bx_cpu_c \<Rightarrow> 32 word" where
  "alignment_check s = alignment_check_mask s"

definition get_laddr32 :: "nat \<Rightarrow> 32 word \<Rightarrow> bx_cpu_c \<Rightarrow> 32 word" where
  "get_laddr32 seg offset s = seg_base (cache (sregs s seg)) + offset"

definition updateFetchModeMask :: "bx_cpu_c \<Rightarrow> bx_cpu_c" where
  "updateFetchModeMask s = s\<lparr>
    fetchModeMask := seg_d_b (cache (sregs s BX_SEG_REG_CS)),
    user_pl := of_bool (sel_rpl (selector (sregs s BX_SEG_REG_CS)) = 3)\<rparr>"

section \<open>The overlay of the general registers\<close>

lemmas overlay_defs = reg_rl_def reg_rh_def reg_rx_def set_rl_def set_rh_def set_rx_def

lemma overlay_same [simp]:
  "reg_rl (set_rl v r) = v"
  "reg_rh (set_rh v r) = v"
  "reg_rx (set_rx w r) = w"
  unfolding overlay_defs by (auto simp: bit_simps bit_beyond_length intro!: bit_word_eqI)

lemma overlay_other [simp]:
  "reg_rl (set_rh v r) = reg_rl r"
  "reg_rh (set_rl v r) = reg_rh r"
  unfolding overlay_defs by (auto simp: bit_simps bit_beyond_length intro!: bit_word_eqI)

text \<open>Writing a part of a register keeps the rest of it: the 16-bit register is
  its two bytes, and the upper half is not touched by any partial write.\<close>

lemma reg_rx_bytes: "reg_rx r = push_bit 8 (ucast (reg_rh r)) OR ucast (reg_rl r)"
  unfolding overlay_defs by (rule bit_word_eqI) (auto simp: bit_simps)

lemma overlay_upper [simp]:
  "drop_bit 16 (set_rl v r) = drop_bit 16 r"
  "drop_bit 16 (set_rh v r) = drop_bit 16 r"
  "drop_bit 16 (set_rx w r) = drop_bit 16 r"
  unfolding overlay_defs by (auto simp: bit_simps bit_beyond_length intro!: bit_word_eqI)
    (auto dest!: bit_imp_le_length)

lemmas reg_defs = BX_READ_8BIT_REG_def BX_READ_8BIT_REGH_def BX_READ_16BIT_REG_def
  BX_READ_32BIT_REG_def BX_WRITE_8BIT_REG_def BX_WRITE_8BIT_REGH_def BX_WRITE_16BIT_REG_def
  BX_WRITE_32BIT_REGZ_def AL_def AH_def AX_def BX_def SP_def EAX_def ECX_def EDX_def EBX_def
  ESP_def set_AL_def set_AH_def set_AX_def set_DX_def set_SP_def set_EAX_def set_EDX_def
  set_ESP_def set_TMP8L_def set_TMP16_def set_TMP32_def

end
