(* ===== verification/AluRef.thy ===== *)
theory AluRef
  imports WordFacts
begin

text \<open>
  The architectural meaning of the six arithmetic flags, stated on the
  mathematical values of the operands: carry and borrow as unsigned overflow,
  overflow as a signed result out of range, auxiliary carry as a carry out of
  the low four bits, parity as an even number of ones in the low byte.  These
  are the reference the emulator's lazy flag computation is compared with;
  nothing here is taken from the emulator.
\<close>

record arith_flags =
  fCF :: bool
  fPF :: bool
  fAF :: bool
  fZF :: bool
  fSF :: bool
  fOF :: bool

definition even_parity :: "'a::len word \<Rightarrow> bool" where
  "even_parity r \<longleftrightarrow> even (length (filter (bit r) [0..<8]))"

definition signed_range :: "'a::len itself \<Rightarrow> int \<Rightarrow> bool" where
  "signed_range _ i \<longleftrightarrow> - (2 ^ (LENGTH('a) - 1)) \<le> i \<and> i < 2 ^ (LENGTH('a) - 1)"

definition ref_add_flags :: "'a::len word \<Rightarrow> 'a word \<Rightarrow> bool \<Rightarrow> arith_flags" where
  "ref_add_flags a b c = (let r = a + b + of_bool c in
    \<lparr>fCF = 2 ^ LENGTH('a) \<le> unat a + unat b + of_bool c,
     fPF = even_parity r,
     fAF = 16 \<le> unat a mod 16 + unat b mod 16 + of_bool c,
     fZF = (r = 0),
     fSF = (sint r < 0),
     fOF = (\<not> signed_range TYPE('a) (sint a + sint b + of_bool c))\<rparr>)"

definition ref_sub_flags :: "'a::len word \<Rightarrow> 'a word \<Rightarrow> bool \<Rightarrow> arith_flags" where
  "ref_sub_flags a b c = (let r = a - b - of_bool c in
    \<lparr>fCF = (unat a < unat b + of_bool c),
     fPF = even_parity r,
     fAF = (unat a mod 16 < unat b mod 16 + of_bool c),
     fZF = (r = 0),
     fSF = (sint r < 0),
     fOF = (\<not> signed_range TYPE('a) (sint a - sint b - of_bool c))\<rparr>)"

text \<open>Logical operations clear CF and OF; AF is architecturally undefined and
  the emulator clears it.\<close>

definition ref_logic_flags :: "'a::len word \<Rightarrow> arith_flags" where
  "ref_logic_flags r =
    \<lparr>fCF = False, fPF = even_parity r, fAF = False, fZF = (r = 0), fSF = (sint r < 0), fOF = False\<rparr>"

section \<open>Single bits behind the flags\<close>

lemma sint_neg_iff_msb: "sint r < 0 \<longleftrightarrow> bit r (LENGTH('a) - 1)" for r :: "'a::len word"
proof -
  define l where "l = uint r mod 2 ^ (LENGTH('a) - 1)"
  then have "0 \<le> l" "l < 2 ^ (LENGTH('a) - 1)" by simp_all
  then show ?thesis unfolding sint_low_msb [of r] l_def [symmetric]
    by (cases "bit r (LENGTH('a) - 1)") simp_all
qed

lemma add_overflow_iff:
  fixes a b :: "'a::len word"
  shows "\<not> signed_range TYPE('a) (sint a + sint b + of_bool c) \<longleftrightarrow>
    bit a (LENGTH('a) - 1) \<noteq> bit (a + b + of_bool c) (LENGTH('a) - 1) \<and>
    bit b (LENGTH('a) - 1) \<noteq> bit (a + b + of_bool c) (LENGTH('a) - 1)"
  unfolding signed_range_def using sint_add_overflow_iff [of "a + b + of_bool c" a b c] by auto

lemma sub_overflow_iff:
  fixes a b :: "'a::len word"
  shows "\<not> signed_range TYPE('a) (sint a - sint b - of_bool c) \<longleftrightarrow>
    bit a (LENGTH('a) - 1) \<noteq> bit b (LENGTH('a) - 1) \<and>
    bit a (LENGTH('a) - 1) \<noteq> bit (a - b - of_bool c) (LENGTH('a) - 1)"
  unfolding signed_range_def using sint_sub_overflow_iff [of "a - b - of_bool c" a b c] by auto

lemma unat_mod_int: "int (unat a mod 16) = uint a mod 16" for a :: "'a::len word"
  by (simp add: zmod_int)

lemma aux_carry_iff:
  fixes a b :: "'a::len word"
  assumes "4 < LENGTH('a)"
  shows "16 \<le> unat a mod 16 + unat b mod 16 + of_bool c \<longleftrightarrow>
    ((bit a 4 \<noteq> bit b 4) \<noteq> bit (a + b + of_bool c) 4)"
proof -
  have "16 \<le> unat a mod 16 + unat b mod 16 + of_bool c \<longleftrightarrow>
      (16::int) \<le> int (unat a mod 16) + int (unat b mod 16) + of_bool c"
    by (cases c) (simp_all, linarith+)
  then show ?thesis
    using bit_add_carry_word [OF assms, of a b c] unfolding unat_mod_int by auto
qed

lemma aux_borrow_iff:
  fixes a b :: "'a::len word"
  assumes "4 < LENGTH('a)"
  shows "unat a mod 16 < unat b mod 16 + of_bool c \<longleftrightarrow>
    ((bit a 4 \<noteq> bit b 4) \<noteq> bit (a - b - of_bool c) 4)"
proof -
  have "unat a mod 16 < unat b mod 16 + of_bool c \<longleftrightarrow>
      int (unat a mod 16) < int (unat b mod 16) + of_bool c"
    by (cases c) (simp_all, linarith+)
  then show ?thesis
    using bit_sub_borrow_word [OF assms, of a b c] unfolding unat_mod_int by auto
qed

end
