(* ===== verification/LazyFlags.thy ===== *)
theory LazyFlags
  imports CpuState AluRef
begin

text \<open>
  Lazy arithmetic flags: \<open>cpu/lazy_flags.h\<close>, \<open>cpu/lazy_flags.cc\<close>, the flag
  accessors of \<open>cpu/cpu.h\<close> and \<open>force_flags\<close> of \<open>cpu/flag_ctrl_pro.cc\<close>.  A handler
  records its operands, its result and the kind of operation; the flags are
  computed when something reads them.  \<open>BX_PANIC\<close> is empty in this build, so the
  \<open>default\<close> branches of the getters return 0.
\<close>

section \<open>Masks and operation codes\<close>

definition EFlagsCFMask :: "32 word" where "EFlagsCFMask = push_bit 0 1"
definition EFlagsPFMask :: "32 word" where "EFlagsPFMask = push_bit 2 1"
definition EFlagsAFMask :: "32 word" where "EFlagsAFMask = push_bit 4 1"
definition EFlagsZFMask :: "32 word" where "EFlagsZFMask = push_bit 6 1"
definition EFlagsSFMask :: "32 word" where "EFlagsSFMask = push_bit 7 1"
definition EFlagsOFMask :: "32 word" where "EFlagsOFMask = push_bit 11 1"

definition EFlagsOSZAPCMask :: "32 word" where
  "EFlagsOSZAPCMask = EFlagsCFMask OR EFlagsPFMask OR EFlagsAFMask OR EFlagsZFMask OR
    EFlagsSFMask OR EFlagsOFMask"

definition EFlagsOSZAPMask :: "32 word" where
  "EFlagsOSZAPMask = EFlagsPFMask OR EFlagsAFMask OR EFlagsZFMask OR EFlagsSFMask OR EFlagsOFMask"

abbreviation (input) BX_LF_INSTR_ADD8 :: "32 word" where "BX_LF_INSTR_ADD8 \<equiv> 1"
abbreviation (input) BX_LF_INSTR_ADC8 :: "32 word" where "BX_LF_INSTR_ADC8 \<equiv> 2"
abbreviation (input) BX_LF_INSTR_ADD16 :: "32 word" where "BX_LF_INSTR_ADD16 \<equiv> 3"
abbreviation (input) BX_LF_INSTR_ADC16 :: "32 word" where "BX_LF_INSTR_ADC16 \<equiv> 4"
abbreviation (input) BX_LF_INSTR_ADD32 :: "32 word" where "BX_LF_INSTR_ADD32 \<equiv> 5"
abbreviation (input) BX_LF_INSTR_ADC32 :: "32 word" where "BX_LF_INSTR_ADC32 \<equiv> 6"
abbreviation (input) BX_LF_INSTR_SUB8 :: "32 word" where "BX_LF_INSTR_SUB8 \<equiv> 9"
abbreviation (input) BX_LF_INSTR_SBB8 :: "32 word" where "BX_LF_INSTR_SBB8 \<equiv> 10"
abbreviation (input) BX_LF_INSTR_SUB16 :: "32 word" where "BX_LF_INSTR_SUB16 \<equiv> 11"
abbreviation (input) BX_LF_INSTR_SBB16 :: "32 word" where "BX_LF_INSTR_SBB16 \<equiv> 12"
abbreviation (input) BX_LF_INSTR_SUB32 :: "32 word" where "BX_LF_INSTR_SUB32 \<equiv> 13"
abbreviation (input) BX_LF_INSTR_SBB32 :: "32 word" where "BX_LF_INSTR_SBB32 \<equiv> 14"
abbreviation (input) BX_LF_INSTR_INC8 :: "32 word" where "BX_LF_INSTR_INC8 \<equiv> 17"
abbreviation (input) BX_LF_INSTR_INC16 :: "32 word" where "BX_LF_INSTR_INC16 \<equiv> 18"
abbreviation (input) BX_LF_INSTR_INC32 :: "32 word" where "BX_LF_INSTR_INC32 \<equiv> 19"
abbreviation (input) BX_LF_INSTR_DEC8 :: "32 word" where "BX_LF_INSTR_DEC8 \<equiv> 21"
abbreviation (input) BX_LF_INSTR_DEC16 :: "32 word" where "BX_LF_INSTR_DEC16 \<equiv> 22"
abbreviation (input) BX_LF_INSTR_DEC32 :: "32 word" where "BX_LF_INSTR_DEC32 \<equiv> 23"
abbreviation (input) BX_LF_INSTR_NEG8 :: "32 word" where "BX_LF_INSTR_NEG8 \<equiv> 25"
abbreviation (input) BX_LF_INSTR_NEG16 :: "32 word" where "BX_LF_INSTR_NEG16 \<equiv> 26"
abbreviation (input) BX_LF_INSTR_NEG32 :: "32 word" where "BX_LF_INSTR_NEG32 \<equiv> 27"
abbreviation (input) BX_LF_INSTR_LOGIC8 :: "32 word" where "BX_LF_INSTR_LOGIC8 \<equiv> 29"
abbreviation (input) BX_LF_INSTR_LOGIC16 :: "32 word" where "BX_LF_INSTR_LOGIC16 \<equiv> 30"
abbreviation (input) BX_LF_INSTR_LOGIC32 :: "32 word" where "BX_LF_INSTR_LOGIC32 \<equiv> 31"

definition BX_LF_INSTR_ADD_ADC8 :: "32 word \<Rightarrow> 32 word" where "BX_LF_INSTR_ADD_ADC8 cf = 1 + cf"
definition BX_LF_INSTR_ADD_ADC16 :: "32 word \<Rightarrow> 32 word" where "BX_LF_INSTR_ADD_ADC16 cf = 3 + cf"
definition BX_LF_INSTR_ADD_ADC32 :: "32 word \<Rightarrow> 32 word" where "BX_LF_INSTR_ADD_ADC32 cf = 5 + cf"
definition BX_LF_INSTR_SUB_SBB8 :: "32 word \<Rightarrow> 32 word" where "BX_LF_INSTR_SUB_SBB8 cf = 9 + cf"
definition BX_LF_INSTR_SUB_SBB16 :: "32 word \<Rightarrow> 32 word" where "BX_LF_INSTR_SUB_SBB16 cf = 11 + cf"
definition BX_LF_INSTR_SUB_SBB32 :: "32 word \<Rightarrow> 32 word" where "BX_LF_INSTR_SUB_SBB32 cf = 13 + cf"

section \<open>The lazy getters\<close>

definition bx_parity_lookup :: "8 word list" where
  "bx_parity_lookup =
   [1, 0, 0, 1, 0, 1, 1, 0, 0, 1, 1, 0, 1, 0, 0, 1,
    0, 1, 1, 0, 1, 0, 0, 1, 1, 0, 0, 1, 0, 1, 1, 0,
    0, 1, 1, 0, 1, 0, 0, 1, 1, 0, 0, 1, 0, 1, 1, 0,
    1, 0, 0, 1, 0, 1, 1, 0, 0, 1, 1, 0, 1, 0, 0, 1,
    0, 1, 1, 0, 1, 0, 0, 1, 1, 0, 0, 1, 0, 1, 1, 0,
    1, 0, 0, 1, 0, 1, 1, 0, 0, 1, 1, 0, 1, 0, 0, 1,
    1, 0, 0, 1, 0, 1, 1, 0, 0, 1, 1, 0, 1, 0, 0, 1,
    0, 1, 1, 0, 1, 0, 0, 1, 1, 0, 0, 1, 0, 1, 1, 0,
    0, 1, 1, 0, 1, 0, 0, 1, 1, 0, 0, 1, 0, 1, 1, 0,
    1, 0, 0, 1, 0, 1, 1, 0, 0, 1, 1, 0, 1, 0, 0, 1,
    1, 0, 0, 1, 0, 1, 1, 0, 0, 1, 1, 0, 1, 0, 0, 1,
    0, 1, 1, 0, 1, 0, 0, 1, 1, 0, 0, 1, 0, 1, 1, 0,
    1, 0, 0, 1, 0, 1, 1, 0, 0, 1, 1, 0, 1, 0, 0, 1,
    0, 1, 1, 0, 1, 0, 0, 1, 1, 0, 0, 1, 0, 1, 1, 0,
    0, 1, 1, 0, 1, 0, 0, 1, 1, 0, 0, 1, 0, 1, 1, 0,
    1, 0, 0, 1, 0, 1, 1, 0, 0, 1, 1, 0, 1, 0, 0, 1]"

definition op1_8 :: "bx_cpu_c \<Rightarrow> 8 word" where "op1_8 s = ucast (lf_op1 (oszapc s))"
definition op2_8 :: "bx_cpu_c \<Rightarrow> 8 word" where "op2_8 s = ucast (lf_op2 (oszapc s))"
definition result_8 :: "bx_cpu_c \<Rightarrow> 8 word" where "result_8 s = ucast (lf_result (oszapc s))"
definition op1_16 :: "bx_cpu_c \<Rightarrow> 16 word" where "op1_16 s = ucast (lf_op1 (oszapc s))"
definition op2_16 :: "bx_cpu_c \<Rightarrow> 16 word" where "op2_16 s = ucast (lf_op2 (oszapc s))"
definition result_16 :: "bx_cpu_c \<Rightarrow> 16 word" where "result_16 s = ucast (lf_result (oszapc s))"
definition op1_32 :: "bx_cpu_c \<Rightarrow> 32 word" where "op1_32 s = lf_op1 (oszapc s)"
definition op2_32 :: "bx_cpu_c \<Rightarrow> 32 word" where "op2_32 s = lf_op2 (oszapc s)"
definition result_32 :: "bx_cpu_c \<Rightarrow> 32 word" where "result_32 s = lf_result (oszapc s)"

definition get_CFLazy :: "bx_cpu_c \<Rightarrow> 32 word" where
  "get_CFLazy s = (let i = lf_instr (oszapc s) in
    if i = BX_LF_INSTR_ADD8 \<or> i = BX_LF_INSTR_ADD16 \<or> i = BX_LF_INSTR_ADD32
      then of_bool (result_32 s < op1_32 s)
    else if i = BX_LF_INSTR_ADC8 \<or> i = BX_LF_INSTR_ADC16 \<or> i = BX_LF_INSTR_ADC32
      then of_bool (result_32 s \<le> op1_32 s)
    else if i = BX_LF_INSTR_SUB8 \<or> i = BX_LF_INSTR_SUB16 \<or> i = BX_LF_INSTR_SUB32
      then of_bool (op1_32 s < op2_32 s)
    else if i = BX_LF_INSTR_SBB8
      then of_bool (op1_8 s < result_8 s \<or> op2_8 s = 0xff)
    else if i = BX_LF_INSTR_SBB16
      then of_bool (op1_16 s < result_16 s \<or> op2_16 s = 0xffff)
    else if i = BX_LF_INSTR_SBB32
      then of_bool (op1_32 s < result_32 s \<or> op2_32 s = 0xffffffff)
    else if i = BX_LF_INSTR_NEG8 \<or> i = BX_LF_INSTR_NEG16 \<or> i = BX_LF_INSTR_NEG32
      then of_bool (result_32 s \<noteq> 0)
    else if i = BX_LF_INSTR_LOGIC8 \<or> i = BX_LF_INSTR_LOGIC16 \<or> i = BX_LF_INSTR_LOGIC32
      then 0
    else 0)"

definition get_AFLazy :: "bx_cpu_c \<Rightarrow> 32 word" where
  "get_AFLazy s = (let i = lf_instr (oszapc s) in
    if i = BX_LF_INSTR_ADD8 \<or> i = BX_LF_INSTR_ADC8 \<or> i = BX_LF_INSTR_SUB8 \<or> i = BX_LF_INSTR_SBB8
      \<or> i = BX_LF_INSTR_ADD16 \<or> i = BX_LF_INSTR_ADC16 \<or> i = BX_LF_INSTR_SUB16 \<or> i = BX_LF_INSTR_SBB16
      \<or> i = BX_LF_INSTR_ADD32 \<or> i = BX_LF_INSTR_ADC32 \<or> i = BX_LF_INSTR_SUB32 \<or> i = BX_LF_INSTR_SBB32
      then ucast (((op1_8 s XOR op2_8 s) XOR result_8 s) AND 0x10)
    else if i = BX_LF_INSTR_NEG8 \<or> i = BX_LF_INSTR_NEG16 \<or> i = BX_LF_INSTR_NEG32
      then of_bool (result_8 s AND 0xf \<noteq> 0)
    else if i = BX_LF_INSTR_INC8 \<or> i = BX_LF_INSTR_INC16 \<or> i = BX_LF_INSTR_INC32
      then of_bool (result_8 s AND 0xf = 0)
    else if i = BX_LF_INSTR_DEC8 \<or> i = BX_LF_INSTR_DEC16 \<or> i = BX_LF_INSTR_DEC32
      then of_bool (result_8 s AND 0xf = 0xf)
    else if i = BX_LF_INSTR_LOGIC8 \<or> i = BX_LF_INSTR_LOGIC16 \<or> i = BX_LF_INSTR_LOGIC32
      then 0
    else 0)"

definition GET_ADD_OVERFLOW :: "32 word \<Rightarrow> 32 word \<Rightarrow> 32 word \<Rightarrow> 32 word \<Rightarrow> bool" where
  "GET_ADD_OVERFLOW a b r msk \<longleftrightarrow> ((a XOR r) AND (b XOR r)) AND msk \<noteq> 0"

definition GET_SUB_OVERFLOW :: "32 word \<Rightarrow> 32 word \<Rightarrow> 32 word \<Rightarrow> 32 word \<Rightarrow> bool" where
  "GET_SUB_OVERFLOW a b r msk \<longleftrightarrow> ((a XOR b) AND (a XOR r)) AND msk \<noteq> 0"

definition get_OFLazy :: "bx_cpu_c \<Rightarrow> 32 word" where
  "get_OFLazy s = (let i = lf_instr (oszapc s) in
    if i = BX_LF_INSTR_ADD8 \<or> i = BX_LF_INSTR_ADC8 \<or> i = BX_LF_INSTR_ADD16
      \<or> i = BX_LF_INSTR_ADC16 \<or> i = BX_LF_INSTR_ADD32 \<or> i = BX_LF_INSTR_ADC32
      then of_bool (GET_ADD_OVERFLOW (op1_32 s) (op2_32 s) (result_32 s) 0x80000000)
    else if i = BX_LF_INSTR_SUB8 \<or> i = BX_LF_INSTR_SBB8 \<or> i = BX_LF_INSTR_SUB16
      \<or> i = BX_LF_INSTR_SBB16 \<or> i = BX_LF_INSTR_SUB32 \<or> i = BX_LF_INSTR_SBB32
      then of_bool (GET_SUB_OVERFLOW (op1_32 s) (op2_32 s) (result_32 s) 0x80000000)
    else if i = BX_LF_INSTR_LOGIC8 \<or> i = BX_LF_INSTR_LOGIC16 \<or> i = BX_LF_INSTR_LOGIC32
      then 0
    else if i = BX_LF_INSTR_NEG8 \<or> i = BX_LF_INSTR_INC8 then of_bool (result_8 s = 0x80)
    else if i = BX_LF_INSTR_NEG16 \<or> i = BX_LF_INSTR_INC16 then of_bool (result_16 s = 0x8000)
    else if i = BX_LF_INSTR_NEG32 \<or> i = BX_LF_INSTR_INC32 then of_bool (result_32 s = 0x80000000)
    else if i = BX_LF_INSTR_DEC8 then of_bool (result_8 s = 0x7F)
    else if i = BX_LF_INSTR_DEC16 then of_bool (result_16 s = 0x7FFF)
    else if i = BX_LF_INSTR_DEC32 then of_bool (result_32 s = 0x7FFFFFFF)
    else 0)"

definition get_ZFLazy :: "bx_cpu_c \<Rightarrow> 32 word" where
  "get_ZFLazy s = of_bool (lf_result (oszapc s) = 0)"

definition get_SFLazy :: "bx_cpu_c \<Rightarrow> 32 word" where
  "get_SFLazy s = drop_bit 31 (lf_result (oszapc s))"

definition get_PFLazy :: "bx_cpu_c \<Rightarrow> 32 word" where
  "get_PFLazy s = ucast (bx_parity_lookup ! unat (ucast (lf_result (oszapc s)) :: 8 word))"

section \<open>The flag accessors\<close>

text \<open>The \<open>ArithmeticalFlag\<close> macro, with the lazy getter, the mask and the bit
  position of the flag as arguments.\<close>

definition flag_getB :: "(bx_cpu_c \<Rightarrow> 32 word) \<Rightarrow> 32 word \<Rightarrow> nat \<Rightarrow> bx_cpu_c \<Rightarrow> 32 word" where
  "flag_getB lazy lfMask shift s =
    (if lf_flags_status s AND lfMask = 0 then drop_bit shift (eflags s) AND 1
     else of_bool (lazy s \<noteq> 0))"

definition flag_get :: "(bx_cpu_c \<Rightarrow> 32 word) \<Rightarrow> 32 word \<Rightarrow> bx_cpu_c \<Rightarrow> 32 word" where
  "flag_get lazy lfMask s =
    (if lf_flags_status s AND lfMask = 0 then eflags s AND lfMask else lazy s)"

definition flag_set :: "32 word \<Rightarrow> nat \<Rightarrow> 32 word \<Rightarrow> bx_cpu_c \<Rightarrow> bx_cpu_c" where
  "flag_set lfMask shift val s = s\<lparr>
    lf_flags_status := lf_flags_status s AND NOT lfMask,
    eflags := (eflags s AND NOT lfMask) OR push_bit shift val\<rparr>"

definition flag_clear :: "32 word \<Rightarrow> bx_cpu_c \<Rightarrow> bx_cpu_c" where
  "flag_clear lfMask s = s\<lparr>
    lf_flags_status := lf_flags_status s AND NOT lfMask,
    eflags := eflags s AND NOT lfMask\<rparr>"

definition flag_assert :: "32 word \<Rightarrow> bx_cpu_c \<Rightarrow> bx_cpu_c" where
  "flag_assert lfMask s = s\<lparr>
    lf_flags_status := lf_flags_status s AND NOT lfMask,
    eflags := eflags s OR lfMask\<rparr>"

definition flag_force :: "(bx_cpu_c \<Rightarrow> 32 word) \<Rightarrow> 32 word \<Rightarrow> nat \<Rightarrow> bx_cpu_c \<Rightarrow> bx_cpu_c" where
  "flag_force lazy lfMask shift s =
    (if lf_flags_status s AND lfMask \<noteq> 0 then flag_set lfMask shift (of_bool (lazy s \<noteq> 0)) s else s)"

definition getB_OF :: "bx_cpu_c \<Rightarrow> 32 word" where "getB_OF = flag_getB get_OFLazy EFlagsOFMask 11"
definition getB_SF :: "bx_cpu_c \<Rightarrow> 32 word" where "getB_SF = flag_getB get_SFLazy EFlagsSFMask 7"
definition getB_ZF :: "bx_cpu_c \<Rightarrow> 32 word" where "getB_ZF = flag_getB get_ZFLazy EFlagsZFMask 6"
definition getB_AF :: "bx_cpu_c \<Rightarrow> 32 word" where "getB_AF = flag_getB get_AFLazy EFlagsAFMask 4"
definition getB_PF :: "bx_cpu_c \<Rightarrow> 32 word" where "getB_PF = flag_getB get_PFLazy EFlagsPFMask 2"
definition getB_CF :: "bx_cpu_c \<Rightarrow> 32 word" where "getB_CF = flag_getB get_CFLazy EFlagsCFMask 0"

definition get_OF :: "bx_cpu_c \<Rightarrow> 32 word" where "get_OF = flag_get get_OFLazy EFlagsOFMask"
definition get_SF :: "bx_cpu_c \<Rightarrow> 32 word" where "get_SF = flag_get get_SFLazy EFlagsSFMask"
definition get_ZF :: "bx_cpu_c \<Rightarrow> 32 word" where "get_ZF = flag_get get_ZFLazy EFlagsZFMask"
definition get_AF :: "bx_cpu_c \<Rightarrow> 32 word" where "get_AF = flag_get get_AFLazy EFlagsAFMask"
definition get_PF :: "bx_cpu_c \<Rightarrow> 32 word" where "get_PF = flag_get get_PFLazy EFlagsPFMask"
definition get_CF :: "bx_cpu_c \<Rightarrow> 32 word" where "get_CF = flag_get get_CFLazy EFlagsCFMask"

definition set_OF :: "32 word \<Rightarrow> bx_cpu_c \<Rightarrow> bx_cpu_c" where "set_OF = flag_set EFlagsOFMask 11"
definition set_SF :: "32 word \<Rightarrow> bx_cpu_c \<Rightarrow> bx_cpu_c" where "set_SF = flag_set EFlagsSFMask 7"
definition set_ZF :: "32 word \<Rightarrow> bx_cpu_c \<Rightarrow> bx_cpu_c" where "set_ZF = flag_set EFlagsZFMask 6"
definition set_AF :: "32 word \<Rightarrow> bx_cpu_c \<Rightarrow> bx_cpu_c" where "set_AF = flag_set EFlagsAFMask 4"
definition set_PF :: "32 word \<Rightarrow> bx_cpu_c \<Rightarrow> bx_cpu_c" where "set_PF = flag_set EFlagsPFMask 2"
definition set_CF :: "32 word \<Rightarrow> bx_cpu_c \<Rightarrow> bx_cpu_c" where "set_CF = flag_set EFlagsCFMask 0"

definition clear_CF :: "bx_cpu_c \<Rightarrow> bx_cpu_c" where "clear_CF = flag_clear EFlagsCFMask"
definition assert_CF :: "bx_cpu_c \<Rightarrow> bx_cpu_c" where "assert_CF = flag_assert EFlagsCFMask"
definition clear_ZF :: "bx_cpu_c \<Rightarrow> bx_cpu_c" where "clear_ZF = flag_clear EFlagsZFMask"
definition assert_ZF :: "bx_cpu_c \<Rightarrow> bx_cpu_c" where "assert_ZF = flag_assert EFlagsZFMask"

definition force_CF :: "bx_cpu_c \<Rightarrow> bx_cpu_c" where
  "force_CF = flag_force get_CFLazy EFlagsCFMask 0"

definition setEFlagsOSZAPC :: "32 word \<Rightarrow> bx_cpu_c \<Rightarrow> bx_cpu_c" where
  "setEFlagsOSZAPC flags32 s = s\<lparr>
    eflags := (eflags s AND NOT EFlagsOSZAPCMask) OR (flags32 AND EFlagsOSZAPCMask),
    lf_flags_status := 0\<rparr>"

definition ASSERT_FLAGS_OxxxxC :: "bx_cpu_c \<Rightarrow> bx_cpu_c" where
  "ASSERT_FLAGS_OxxxxC s = s\<lparr>
    eflags := eflags s OR (EFlagsOFMask OR EFlagsCFMask),
    lf_flags_status := lf_flags_status s AND NOT (EFlagsOFMask OR EFlagsCFMask)\<rparr>"

definition SET_FLAGS_OxxxxC :: "32 word \<Rightarrow> 32 word \<Rightarrow> bx_cpu_c \<Rightarrow> bx_cpu_c" where
  "SET_FLAGS_OxxxxC new_of new_cf s = s\<lparr>
    eflags := (eflags s AND NOT (EFlagsOFMask OR EFlagsCFMask)) OR (push_bit 11 new_of OR new_cf),
    lf_flags_status := lf_flags_status s AND NOT (EFlagsOFMask OR EFlagsCFMask)\<rparr>"

definition force_flags :: "bx_cpu_c \<Rightarrow> 32 word \<times> bx_cpu_c" where
  "force_flags s =
    (let s' = (if lf_flags_status s \<noteq> 0 then
        let newflags = (if get_CF s \<noteq> 0 then EFlagsCFMask else 0);
            newflags = newflags OR (if get_PF s \<noteq> 0 then EFlagsPFMask else 0);
            newflags = newflags OR (if get_AF s \<noteq> 0 then EFlagsAFMask else 0);
            newflags = newflags OR (if get_ZF s \<noteq> 0 then EFlagsZFMask else 0);
            newflags = newflags OR (if get_SF s \<noteq> 0 then EFlagsSFMask else 0);
            newflags = newflags OR (if get_OF s \<noteq> 0 then EFlagsOFMask else 0)
        in setEFlagsOSZAPC newflags s
      else s)
    in (eflags s', s'))"

section \<open>Recording an operation\<close>

text \<open>The \<open>SET_FLAGS\<close> macros take the operand size as their argument; here it is
  the word length of the operands, and the cast through \<open>Bit8s\<close>, \<open>Bit16s\<close> or
  \<open>Bit32s\<close> is the sign extension of that word to 32 bits.\<close>

definition SET_FLAGS_OSZAPC_SIZE ::
  "'a::len word \<Rightarrow> 'a word \<Rightarrow> 'a word \<Rightarrow> 32 word \<Rightarrow> bx_cpu_c \<Rightarrow> bx_cpu_c" where
  "SET_FLAGS_OSZAPC_SIZE a b r ins s = s\<lparr>
    oszapc := (oszapc s)\<lparr>lf_op1 := scast a, lf_op2 := scast b, lf_result := scast r, lf_instr := ins\<rparr>,
    lf_flags_status := EFlagsOSZAPCMask\<rparr>"

definition SET_FLAGS_OSZAPC_RESULT_SIZE :: "'a::len word \<Rightarrow> 32 word \<Rightarrow> bx_cpu_c \<Rightarrow> bx_cpu_c" where
  "SET_FLAGS_OSZAPC_RESULT_SIZE r ins s = s\<lparr>
    oszapc := (oszapc s)\<lparr>lf_result := scast r, lf_instr := ins\<rparr>,
    lf_flags_status := EFlagsOSZAPCMask\<rparr>"

definition SET_FLAGS_OSZAP_RESULT_SIZE :: "'a::len word \<Rightarrow> 32 word \<Rightarrow> bx_cpu_c \<Rightarrow> bx_cpu_c" where
  "SET_FLAGS_OSZAP_RESULT_SIZE r ins s =
    (let s = force_CF s in s\<lparr>
      oszapc := (oszapc s)\<lparr>lf_result := scast r, lf_instr := ins\<rparr>,
      lf_flags_status := EFlagsOSZAPMask\<rparr>)"

definition SET_FLAGS_OSZAPC_8 ::
  "8 word \<Rightarrow> 8 word \<Rightarrow> 8 word \<Rightarrow> 32 word \<Rightarrow> bx_cpu_c \<Rightarrow> bx_cpu_c" where
  "SET_FLAGS_OSZAPC_8 = SET_FLAGS_OSZAPC_SIZE"

definition SET_FLAGS_OSZAPC_RESULT_8 :: "8 word \<Rightarrow> 32 word \<Rightarrow> bx_cpu_c \<Rightarrow> bx_cpu_c" where
  "SET_FLAGS_OSZAPC_RESULT_8 = SET_FLAGS_OSZAPC_RESULT_SIZE"

definition SET_FLAGS_OSZAPC_LOGIC_8 :: "8 word \<Rightarrow> bx_cpu_c \<Rightarrow> bx_cpu_c" where
  "SET_FLAGS_OSZAPC_LOGIC_8 r = SET_FLAGS_OSZAPC_RESULT_8 r BX_LF_INSTR_LOGIC8"

definition SET_FLAGS_OSZAPC_ADD_8 :: "8 word \<Rightarrow> 8 word \<Rightarrow> 8 word \<Rightarrow> bx_cpu_c \<Rightarrow> bx_cpu_c" where
  "SET_FLAGS_OSZAPC_ADD_8 a b r = SET_FLAGS_OSZAPC_8 a b r BX_LF_INSTR_ADD8"

definition SET_FLAGS_OSZAPC_SUB_8 :: "8 word \<Rightarrow> 8 word \<Rightarrow> 8 word \<Rightarrow> bx_cpu_c \<Rightarrow> bx_cpu_c" where
  "SET_FLAGS_OSZAPC_SUB_8 a b r = SET_FLAGS_OSZAPC_8 a b r BX_LF_INSTR_SUB8"

definition SET_FLAGS_OSZAPC_INC_8 :: "8 word \<Rightarrow> bx_cpu_c \<Rightarrow> bx_cpu_c" where
  "SET_FLAGS_OSZAPC_INC_8 r = SET_FLAGS_OSZAP_RESULT_SIZE r BX_LF_INSTR_INC8"

definition SET_FLAGS_OSZAPC_DEC_8 :: "8 word \<Rightarrow> bx_cpu_c \<Rightarrow> bx_cpu_c" where
  "SET_FLAGS_OSZAPC_DEC_8 r = SET_FLAGS_OSZAP_RESULT_SIZE r BX_LF_INSTR_DEC8"

definition SET_FLAGS_OSZAPC_16 ::
  "16 word \<Rightarrow> 16 word \<Rightarrow> 16 word \<Rightarrow> 32 word \<Rightarrow> bx_cpu_c \<Rightarrow> bx_cpu_c" where
  "SET_FLAGS_OSZAPC_16 = SET_FLAGS_OSZAPC_SIZE"

definition SET_FLAGS_OSZAPC_RESULT_16 :: "16 word \<Rightarrow> 32 word \<Rightarrow> bx_cpu_c \<Rightarrow> bx_cpu_c" where
  "SET_FLAGS_OSZAPC_RESULT_16 = SET_FLAGS_OSZAPC_RESULT_SIZE"

definition SET_FLAGS_OSZAPC_LOGIC_16 :: "16 word \<Rightarrow> bx_cpu_c \<Rightarrow> bx_cpu_c" where
  "SET_FLAGS_OSZAPC_LOGIC_16 r = SET_FLAGS_OSZAPC_RESULT_16 r BX_LF_INSTR_LOGIC16"

definition SET_FLAGS_OSZAPC_ADD_16 :: "16 word \<Rightarrow> 16 word \<Rightarrow> 16 word \<Rightarrow> bx_cpu_c \<Rightarrow> bx_cpu_c" where
  "SET_FLAGS_OSZAPC_ADD_16 a b r = SET_FLAGS_OSZAPC_16 a b r BX_LF_INSTR_ADD16"

definition SET_FLAGS_OSZAPC_SUB_16 :: "16 word \<Rightarrow> 16 word \<Rightarrow> 16 word \<Rightarrow> bx_cpu_c \<Rightarrow> bx_cpu_c" where
  "SET_FLAGS_OSZAPC_SUB_16 a b r = SET_FLAGS_OSZAPC_16 a b r BX_LF_INSTR_SUB16"

definition SET_FLAGS_OSZAPC_INC_16 :: "16 word \<Rightarrow> bx_cpu_c \<Rightarrow> bx_cpu_c" where
  "SET_FLAGS_OSZAPC_INC_16 r = SET_FLAGS_OSZAP_RESULT_SIZE r BX_LF_INSTR_INC16"

definition SET_FLAGS_OSZAPC_DEC_16 :: "16 word \<Rightarrow> bx_cpu_c \<Rightarrow> bx_cpu_c" where
  "SET_FLAGS_OSZAPC_DEC_16 r = SET_FLAGS_OSZAP_RESULT_SIZE r BX_LF_INSTR_DEC16"

definition SET_FLAGS_OSZAPC_32 ::
  "32 word \<Rightarrow> 32 word \<Rightarrow> 32 word \<Rightarrow> 32 word \<Rightarrow> bx_cpu_c \<Rightarrow> bx_cpu_c" where
  "SET_FLAGS_OSZAPC_32 = SET_FLAGS_OSZAPC_SIZE"

definition SET_FLAGS_OSZAPC_RESULT_32 :: "32 word \<Rightarrow> 32 word \<Rightarrow> bx_cpu_c \<Rightarrow> bx_cpu_c" where
  "SET_FLAGS_OSZAPC_RESULT_32 = SET_FLAGS_OSZAPC_RESULT_SIZE"

definition SET_FLAGS_OSZAPC_LOGIC_32 :: "32 word \<Rightarrow> bx_cpu_c \<Rightarrow> bx_cpu_c" where
  "SET_FLAGS_OSZAPC_LOGIC_32 r = SET_FLAGS_OSZAPC_RESULT_32 r BX_LF_INSTR_LOGIC32"

definition SET_FLAGS_OSZAPC_ADD_32 :: "32 word \<Rightarrow> 32 word \<Rightarrow> 32 word \<Rightarrow> bx_cpu_c \<Rightarrow> bx_cpu_c" where
  "SET_FLAGS_OSZAPC_ADD_32 a b r = SET_FLAGS_OSZAPC_32 a b r BX_LF_INSTR_ADD32"

definition SET_FLAGS_OSZAPC_SUB_32 :: "32 word \<Rightarrow> 32 word \<Rightarrow> 32 word \<Rightarrow> bx_cpu_c \<Rightarrow> bx_cpu_c" where
  "SET_FLAGS_OSZAPC_SUB_32 a b r = SET_FLAGS_OSZAPC_32 a b r BX_LF_INSTR_SUB32"

definition SET_FLAGS_OSZAPC_INC_32 :: "32 word \<Rightarrow> bx_cpu_c \<Rightarrow> bx_cpu_c" where
  "SET_FLAGS_OSZAPC_INC_32 r = SET_FLAGS_OSZAP_RESULT_SIZE r BX_LF_INSTR_INC32"

definition SET_FLAGS_OSZAPC_DEC_32 :: "32 word \<Rightarrow> bx_cpu_c \<Rightarrow> bx_cpu_c" where
  "SET_FLAGS_OSZAPC_DEC_32 r = SET_FLAGS_OSZAP_RESULT_SIZE r BX_LF_INSTR_DEC32"

end
