(* ===== verification/LazyFlagFacts.thy ===== *)
theory LazyFlagFacts
  imports LazyFlags
begin

text \<open>
  The lazily computed flags are the architectural flags.  The locale
  \<open>lazy_width\<close> states what the getters of \<open>lazy_flags.cc\<close> promise for the operation
  codes of one operand width; the flags that each \<open>SET_FLAGS\<close> macro leaves are
  derived once in it and instantiated for 8, 16 and 32 bits.
\<close>

definition flags_of :: "bx_cpu_c \<Rightarrow> arith_flags" where
  "flags_of s = \<lparr>fCF = getB_CF s \<noteq> 0, fPF = getB_PF s \<noteq> 0, fAF = getB_AF s \<noteq> 0,
    fZF = getB_ZF s \<noteq> 0, fSF = getB_SF s \<noteq> 0, fOF = getB_OF s \<noteq> 0\<rparr>"

lemmas mask_defs = EFlagsCFMask_def EFlagsPFMask_def EFlagsAFMask_def EFlagsZFMask_def
  EFlagsSFMask_def EFlagsOFMask_def EFlagsOSZAPCMask_def EFlagsOSZAPMask_def

lemma status_full [simp]:
  "EFlagsOSZAPCMask AND EFlagsCFMask \<noteq> 0" "EFlagsOSZAPCMask AND EFlagsPFMask \<noteq> 0"
  "EFlagsOSZAPCMask AND EFlagsAFMask \<noteq> 0" "EFlagsOSZAPCMask AND EFlagsZFMask \<noteq> 0"
  "EFlagsOSZAPCMask AND EFlagsSFMask \<noteq> 0" "EFlagsOSZAPCMask AND EFlagsOFMask \<noteq> 0"
  by (simp_all add: mask_defs)

lemma status_but_CF [simp]:
  "EFlagsOSZAPMask AND EFlagsCFMask = 0" "EFlagsOSZAPMask AND EFlagsPFMask \<noteq> 0"
  "EFlagsOSZAPMask AND EFlagsAFMask \<noteq> 0" "EFlagsOSZAPMask AND EFlagsZFMask \<noteq> 0"
  "EFlagsOSZAPMask AND EFlagsSFMask \<noteq> 0" "EFlagsOSZAPMask AND EFlagsOFMask \<noteq> 0"
  by (simp_all add: mask_defs)

definition parity8 :: "int \<Rightarrow> bool" where
  "parity8 i = even (i mod 2 + (i div 2) mod 2 + (i div 4) mod 2 + (i div 8) mod 2 + (i div 16) mod 2
    + (i div 32) mod 2 + (i div 64) mod 2 + (i div 128) mod 2)"

lemma parity_table: "bx_parity_lookup = map (\<lambda>i. of_bool (parity8 i)) [0..255]"
  by code_simp

lemma even_filter_Cons: "even (length (filter P (x # xs))) \<longleftrightarrow> (P x \<noteq> even (length (filter P xs)))"
  by simp

lemma parity8_byte: "parity8 (uint b) = even_parity b" for b :: "8 word"
proof -
  have u: "[0..<8] = [0, 1, 2, 3, 4, 5, 6, 7 :: nat]" by (simp add: upt_rec)
  have b: "bit b k \<longleftrightarrow> odd (uint b div 2 ^ k)" for k
    by (metis bit_iff_odd bit_uint_iff bit_imp_le_length)
  show ?thesis
    unfolding parity8_def even_parity_def u even_filter_Cons b
    by (simp only: even_add even_mod_2_iff) (simp, argo)
qed

lemma parity_lookup: "bx_parity_lookup ! unat b = of_bool (even_parity b)" for b :: "8 word"
proof -
  have "unat b < 256" using unsigned_less [of b] by simp
  then have n: "unat b < length [0..255::int]" "0 + int (unat b) \<le> 255"
    by (simp, linarith)
  have "bx_parity_lookup ! unat b = of_bool (parity8 ([0..255] ! unat b))"
    unfolding parity_table by (rule nth_map [OF n(1)])
  also have "[0..255] ! unat b = uint b" unfolding nth_upto [OF n(2)] by simp
  finally show ?thesis by (simp only: parity8_byte)
qed

text \<open>Low bits and the sign bit of a sign-extended operand.\<close>

lemma bit_scast32: "n < 32 \<Longrightarrow> bit (scast a :: 32 word) n = bit a (min n (LENGTH('a) - 1))"
  for a :: "'a::len word"
  by (simp add: bit_signed_iff min.commute)

lemma scast32_sign: "LENGTH('a) \<le> 32 \<Longrightarrow> bit (scast a :: 32 word) 31 = bit a (LENGTH('a) - 1)"
  for a :: "'a::len word"
proof -
  assume "LENGTH('a) \<le> 32"
  then have "min 31 (LENGTH('a) - 1) = LENGTH('a) - 1" by simp
  then show ?thesis by (simp add: bit_scast32)
qed

lemma even_parity_scast:
  fixes r :: "'a::len word"
  assumes "8 \<le> LENGTH('a)"
  shows "even_parity (ucast (scast r :: 32 word) :: 8 word) = even_parity r"
proof -
  have "filter (bit (ucast (scast r :: 32 word) :: 8 word)) [0..<8] = filter (bit r) [0..<8]"
    using assms by (intro filter_cong) (auto simp: bit_ucast_iff bit_scast32 min_def)
  then show ?thesis unfolding even_parity_def by (rule arg_cong)
qed

lemma drop_bit31: "drop_bit 31 r \<noteq> 0 \<longleftrightarrow> bit r 31" for r :: "32 word"
proof -
  have "drop_bit 31 r = of_bool (bit r 31)"
  proof (rule bit_word_eqI)
    fix n show "bit (drop_bit 31 r) n = bit (of_bool (bit r 31) :: 32 word) n"
      by (cases n) (auto simp: bit_drop_bit_eq bit_1_iff dest: bit_imp_le_length)
  qed
  then show ?thesis by simp
qed

lemma and_bit4: "x AND 0x10 \<noteq> 0 \<longleftrightarrow> bit x 4" for x :: "8 word"
  using and_exp_eq_0_iff_not_bit [of x 4] by simp

lemma and_bit31: "x AND 0x80000000 \<noteq> 0 \<longleftrightarrow> bit x 31" for x :: "32 word"
  using and_exp_eq_0_iff_not_bit [of x 31] by simp

lemma bit4_op:
  fixes a :: "'a::len word"
  assumes "8 \<le> LENGTH('a)" "LENGTH('a) \<le> 32"
  shows "bit (ucast (scast a :: 32 word) :: 8 word) 4 = bit a 4"
  using assms by (simp add: bit_ucast_iff bit_scast32 min_def)

text \<open>The result flags are the same for every kind of operation.\<close>

lemma lazy_result_flags:
  fixes r :: "'a::len word"
  assumes "lf_result (oszapc s) = scast r" "8 \<le> LENGTH('a)" "LENGTH('a) \<le> 32"
  shows "get_ZFLazy s \<noteq> 0 \<longleftrightarrow> r = 0" "get_SFLazy s \<noteq> 0 \<longleftrightarrow> sint r < 0"
    "get_PFLazy s \<noteq> 0 \<longleftrightarrow> even_parity r"
proof -
  have "(scast r :: 32 word) = scast (0 :: 'a word) \<longleftrightarrow> r = 0"
    using assms(3) by (intro scast_eq_iff) simp
  then show "get_ZFLazy s \<noteq> 0 \<longleftrightarrow> r = 0" by (simp add: get_ZFLazy_def assms(1))
  show "get_SFLazy s \<noteq> 0 \<longleftrightarrow> sint r < 0"
    unfolding get_SFLazy_def assms(1) drop_bit31 sint_neg_iff_msb by (rule scast32_sign [OF assms(3)])
  show "get_PFLazy s \<noteq> 0 \<longleftrightarrow> even_parity r"
    unfolding get_PFLazy_def assms(1) parity_lookup even_parity_scast [OF assms(2)] by simp
qed

lemma flags_of_full:
  assumes "lf_flags_status s = EFlagsOSZAPCMask"
  shows "flags_of s = \<lparr>fCF = get_CFLazy s \<noteq> 0, fPF = get_PFLazy s \<noteq> 0, fAF = get_AFLazy s \<noteq> 0,
    fZF = get_ZFLazy s \<noteq> 0, fSF = get_SFLazy s \<noteq> 0, fOF = get_OFLazy s \<noteq> 0\<rparr>"
  by (simp add: flags_of_def assms flag_getB_def getB_CF_def getB_PF_def getB_AF_def getB_ZF_def
    getB_SF_def getB_OF_def)

lemma ucast_of_8bit: "(ucast (x :: 8 word) :: 32 word) = 0 \<longleftrightarrow> x = 0"
proof
  have "x = ucast (ucast x :: 32 word)" by (rule bit_word_eqI) (simp add: bit_ucast_iff)
  then show "(ucast x :: 32 word) = 0 \<Longrightarrow> x = 0" by simp
qed simp

lemma recorded [simp]:
  "oszapc (SET_FLAGS_OSZAPC_SIZE a b r ins s) =
    \<lparr>lf_op1 = scast a, lf_op2 = scast b, lf_result = scast r, lf_instr = ins\<rparr>"
  "lf_flags_status (SET_FLAGS_OSZAPC_SIZE a b r ins s) = EFlagsOSZAPCMask"
  by (simp_all add: SET_FLAGS_OSZAPC_SIZE_def)

lemma recorded_result [simp]:
  "lf_result (oszapc (SET_FLAGS_OSZAPC_RESULT_SIZE r ins s)) = scast r"
  "lf_instr (oszapc (SET_FLAGS_OSZAPC_RESULT_SIZE r ins s)) = ins"
  "lf_flags_status (SET_FLAGS_OSZAPC_RESULT_SIZE r ins s) = EFlagsOSZAPCMask"
  "lf_result (oszapc (SET_FLAGS_OSZAP_RESULT_SIZE r ins s)) = scast r"
  "lf_instr (oszapc (SET_FLAGS_OSZAP_RESULT_SIZE r ins s)) = ins"
  "lf_flags_status (SET_FLAGS_OSZAP_RESULT_SIZE r ins s) = EFlagsOSZAPMask"
  by (simp_all add: SET_FLAGS_OSZAPC_RESULT_SIZE_def SET_FLAGS_OSZAP_RESULT_SIZE_def Let_def)

lemma unat_take_nibble: "unat (take_bit 4 x) = unat x mod 16" for x :: "'a::len word"
  unfolding unsigned_take_bit_eq by (simp add: take_bit_eq_mod)

lemma and_low_nibble: "x AND 0xf = 0 \<longleftrightarrow> unat x mod 16 = 0" "x AND 0xf = 0xf \<longleftrightarrow> unat x mod 16 = 15"
  for x :: "8 word"
proof -
  have "x AND 0xf = take_bit 4 x" by (simp add: take_bit_eq_mask mask_eq_exp_minus_1)
  then have u: "unat (x AND 0xf) = unat x mod 16" by (simp only: unat_take_nibble)
  show "x AND 0xf = 0 \<longleftrightarrow> unat x mod 16 = 0" using u by (metis unat_eq_zero)
  show "x AND 0xf = 0xf \<longleftrightarrow> unat x mod 16 = 15"
    using u word_unat_eq_iff [of "x AND 0xf" "0xf"] by simp
qed

lemma low_nibble_scast:
  fixes r :: "'a::len word"
  assumes "8 \<le> LENGTH('a)" "LENGTH('a) \<le> 32"
  shows "unat (ucast (scast r :: 32 word) :: 8 word) mod 16 = unat r mod 16"
proof -
  have "take_bit 4 (ucast (scast r :: 32 word) :: 8 word) = ucast (take_bit 4 r)"
    using assms by (intro bit_word_eqI) (auto simp: bit_ucast_iff bit_take_bit_iff bit_scast32 min_def)
  then have "unat (take_bit 4 (ucast (scast r :: 32 word) :: 8 word)) = unat (ucast (take_bit 4 r) :: 8 word)"
    by simp
  also have "\<dots> = unat (take_bit 4 r)"
    using assms by (simp add: unsigned_ucast_eq unsigned_take_bit_eq)
  finally show ?thesis by (simp only: unat_take_nibble)
qed

lemma nibble_arith:
  fixes a :: "'a::len word"
  assumes "8 \<le> LENGTH('a)"
  shows "unat (- a) mod 16 = 0 \<longleftrightarrow> unat a mod 16 = 0"
    "unat (a + 1) mod 16 = 0 \<longleftrightarrow> unat a mod 16 = 15"
    "unat (a - 1) mod 16 = 15 \<longleftrightarrow> unat a mod 16 = 0"
proof -
  have "(2::int) ^ 4 dvd 2 ^ LENGTH('a)" using assms by (intro le_imp_power_dvd) simp
  then have d: "(x mod 2 ^ LENGTH('a)) mod 16 = x mod (16::int)" for x by (simp add: mod_mod_cancel)
  have one: "(1 :: int) mod 2 ^ LENGTH('a) = 1" by simp
  have n: "unat x mod 16 = k \<longleftrightarrow> uint x mod 16 = int k" for x :: "'a word" and k
    unfolding uint_nat by (metis of_nat_mod of_nat_numeral of_nat_eq_iff)
  show "unat (- a) mod 16 = 0 \<longleftrightarrow> unat a mod 16 = 0"
    unfolding n uint_word_ariths d by presburger
  show "unat (a + 1) mod 16 = 0 \<longleftrightarrow> unat a mod 16 = 15"
    unfolding n uint_word_ariths d uint_1 one by presburger
  show "unat (a - 1) mod 16 = 15 \<longleftrightarrow> unat a mod 16 = 0"
    unfolding n uint_word_ariths d uint_1 one by presburger
qed

lemma sint_min_word: "sint (2 ^ (LENGTH('a) - 1) :: 'a::len word) = - (2 ^ (LENGTH('a) - 1))"
proof -
  obtain n where n: "LENGTH('a) = Suc n" by (metis len_not_eq_0 not0_implies_Suc)
  have "uint (word_of_int (2 ^ n) :: 'a word) = 2 ^ n" unfolding uint_word_of_int by (simp add: n)
  then have "uint (2 ^ n :: 'a word) = 2 ^ n" by simp
  then show ?thesis using sint_eq_uint_if [of "2 ^ n :: 'a word"] by (simp add: n)
qed

lemma sint_max_word: "sint (2 ^ (LENGTH('a) - 1) - 1 :: 'a::len word) = 2 ^ (LENGTH('a) - 1) - 1"
proof -
  obtain n where n: "LENGTH('a) = Suc n" by (metis len_not_eq_0 not0_implies_Suc)
  have "0 < (2::int) ^ n" by simp
  then have "(2::int) ^ n - 1 < 2 ^ Suc n" unfolding power_Suc by linarith
  then have "uint (word_of_int (2 ^ n - 1) :: 'a word) = 2 ^ n - 1"
    unfolding uint_word_of_int n by (intro mod_pos_pos_trivial) simp_all
  then have "uint (2 ^ n - 1 :: 'a word) = 2 ^ n - 1" by simp
  then show ?thesis using sint_eq_uint_if [of "2 ^ n - 1 :: 'a word"] by (simp add: n)
qed

lemma sint_eq_min_iff: "sint a = - (2 ^ (LENGTH('a) - 1)) \<longleftrightarrow> a = 2 ^ (LENGTH('a) - 1)"
  for a :: "'a::len word"
  by (metis sint_min_word signed_word_eqI)

lemma double_min_word: "2 ^ (LENGTH('a) - 1) + 2 ^ (LENGTH('a) - 1) = (0 :: 'a::len word)"
proof -
  obtain n where n: "LENGTH('a) = Suc n" by (metis len_not_eq_0 not0_implies_Suc)
  have "2 ^ n + 2 ^ n = (2 ^ LENGTH('a) :: 'a word)" by (simp add: n)
  then show ?thesis unfolding word_exp_length_eq_0 by (simp add: n)
qed

lemma single_step_overflow:
  fixes a :: "'a::len word"
  assumes "8 \<le> LENGTH('a)"
  shows "\<not> signed_range TYPE('a) (0 - sint a) \<longleftrightarrow> - a = 2 ^ (LENGTH('a) - 1)"
    "\<not> signed_range TYPE('a) (sint a - 1) \<longleftrightarrow> a - 1 = 2 ^ (LENGTH('a) - 1) - 1"
    "\<not> signed_range TYPE('a) (sint a + 1) \<longleftrightarrow> a + 1 = 2 ^ (LENGTH('a) - 1)"
proof -
  let ?m = "2 ^ (LENGTH('a) - 1) :: int"
  have b: "- ?m \<le> sint a" "sint a < ?m" by (rule sint_ge, rule sint_lt)
  have "\<not> signed_range TYPE('a) (0 - sint a) \<longleftrightarrow> sint a = - ?m"
    unfolding signed_range_def using b by linarith
  also have "\<dots> \<longleftrightarrow> - a = 2 ^ (LENGTH('a) - 1)"
    unfolding sint_eq_min_iff using double_min_word [where 'a = 'a]
    by (metis add_eq_0_iff2 minus_equation_iff)
  finally show "\<not> signed_range TYPE('a) (0 - sint a) \<longleftrightarrow> - a = 2 ^ (LENGTH('a) - 1)" .
  have "\<not> signed_range TYPE('a) (sint a - 1) \<longleftrightarrow> sint a = - ?m"
    unfolding signed_range_def using b by linarith
  then show "\<not> signed_range TYPE('a) (sint a - 1) \<longleftrightarrow> a - 1 = 2 ^ (LENGTH('a) - 1) - 1"
    unfolding sint_eq_min_iff by simp
  have "\<not> signed_range TYPE('a) (sint a + 1) \<longleftrightarrow> sint a = ?m - 1"
    unfolding signed_range_def using b by linarith
  also have "\<dots> \<longleftrightarrow> a = 2 ^ (LENGTH('a) - 1) - 1"
    by (metis sint_max_word signed_word_eqI)
  finally show "\<not> signed_range TYPE('a) (sint a + 1) \<longleftrightarrow> a + 1 = 2 ^ (LENGTH('a) - 1)"
    by (simp only: eq_diff_eq)
qed

lemma ucast_scast32: "LENGTH('a) \<le> 32 \<Longrightarrow> ucast (scast a :: 32 word) = a" for a :: "'a::len word"
  by (rule bit_word_eqI) (simp add: bit_ucast_iff bit_scast32 min_def)

lemmas op_defs = op1_8_def op2_8_def result_8_def op1_16_def op2_16_def result_16_def
  op1_32_def op2_32_def result_32_def

text \<open>The accessors of one flag, bit by bit.\<close>

lemma and_single_bit: "x AND push_bit n 1 = 0 \<longleftrightarrow> \<not> bit x n" for x :: "32 word"
  using and_exp_eq_0_iff_not_bit [of x n] by (simp add: push_bit_eq_mult)

lemma drop_bit_and_1: "drop_bit n x AND 1 = of_bool (bit x n)" for x :: "32 word"
  by (simp add: and_one_eq bit_iff_odd_drop_bit odd_iff_mod_2_eq_one mod2_eq_if)

lemma flag_getB_bit:
  "flag_getB lazy (push_bit n 1) n s =
    of_bool (if bit (lf_flags_status s) n then lazy s \<noteq> 0 else bit (eflags s) n)"
  unfolding flag_getB_def and_single_bit drop_bit_and_1 by simp

lemma flag_get_bit:
  "flag_get lazy (push_bit n 1) s \<noteq> 0 \<longleftrightarrow>
    (if bit (lf_flags_status s) n then lazy s \<noteq> 0 else bit (eflags s) n)"
  unfolding flag_get_def and_single_bit using and_single_bit [of "eflags s" n] by presburger

lemma bit_replace:
  "n < 32 \<Longrightarrow> bit ((x AND NOT (push_bit n 1)) OR push_bit n (of_bool b)) k = (if k = n then b else bit x k)"
  for x :: "32 word"
  by (cases b) (auto simp: bit_or_iff bit_and_iff bit_not_iff bit_exp_iff dest: bit_imp_le_length)

lemma bit_eflags_force:
  "n < 32 \<Longrightarrow> bit (eflags (flag_force lazy (push_bit n 1) n s)) k =
    (if k = n \<and> bit (lf_flags_status s) n then lazy s \<noteq> 0 else bit (eflags s) k)"
  unfolding flag_force_def and_single_bit flag_set_def
  by (cases "lazy s = 0")
    (auto simp: bit_or_iff bit_and_iff bit_not_iff bit_exp_iff dest: bit_imp_le_length)

lemma getB_CF_after_force:
  assumes "lf_flags_status s' = EFlagsOSZAPMask" "eflags s' = eflags (force_CF s)"
  shows "getB_CF s' = getB_CF s"
proof -
  have "\<not> bit EFlagsOSZAPMask 0" by (simp add: mask_defs)
  then show ?thesis
    unfolding getB_CF_def EFlagsCFMask_def flag_getB_bit assms force_CF_def
    by (subst bit_eflags_force) simp_all
qed

lemma flags_of_osz:
  "flags_of (SET_FLAGS_OSZAP_RESULT_SIZE r ins s) =
    (let t = SET_FLAGS_OSZAP_RESULT_SIZE r ins s in
    \<lparr>fCF = fCF (flags_of s), fPF = get_PFLazy t \<noteq> 0, fAF = get_AFLazy t \<noteq> 0,
    fZF = get_ZFLazy t \<noteq> 0, fSF = get_SFLazy t \<noteq> 0, fOF = get_OFLazy t \<noteq> 0\<rparr>)"
proof -
  let ?t = "SET_FLAGS_OSZAP_RESULT_SIZE r ins s"
  have "getB_CF ?t = getB_CF s"
    by (rule getB_CF_after_force) (simp_all add: SET_FLAGS_OSZAP_RESULT_SIZE_def Let_def)
  then show ?thesis
    by (simp add: flags_of_def flag_getB_def getB_PF_def getB_AF_def getB_ZF_def getB_SF_def getB_OF_def Let_def)
qed

text \<open>What the lazy getters promise for the operation codes of one operand
  width.\<close>

locale lazy_width =
  fixes width :: "'a::len itself"
    and ADDn ADCn SUBn SBBn INCn DECn NEGn LOGICn :: "32 word"
  assumes width8: "8 \<le> LENGTH('a)" and width32: "LENGTH('a) \<le> 32"
    and CF_add: "lf_instr (oszapc s) = ADDn \<Longrightarrow> get_CFLazy s = of_bool (result_32 s < op1_32 s)"
    and CF_adc: "lf_instr (oszapc s) = ADCn \<Longrightarrow> get_CFLazy s = of_bool (result_32 s \<le> op1_32 s)"
    and CF_sub: "lf_instr (oszapc s) = SUBn \<Longrightarrow> get_CFLazy s = of_bool (op1_32 s < op2_32 s)"
    and CF_sbb: "lf_instr (oszapc s) = SBBn \<Longrightarrow> get_CFLazy s =
      of_bool ((ucast (op1_32 s) :: 'a word) < ucast (result_32 s) \<or> (ucast (op2_32 s) :: 'a word) = - 1)"
    and CF_neg: "lf_instr (oszapc s) = NEGn \<Longrightarrow> get_CFLazy s = of_bool (result_32 s \<noteq> 0)"
    and CF_logic: "lf_instr (oszapc s) = LOGICn \<Longrightarrow> get_CFLazy s = 0"
    and AF_add_sub: "lf_instr (oszapc s) \<in> {ADDn, ADCn, SUBn, SBBn} \<Longrightarrow>
      get_AFLazy s = ucast (((op1_8 s XOR op2_8 s) XOR result_8 s) AND 0x10)"
    and AF_neg: "lf_instr (oszapc s) = NEGn \<Longrightarrow> get_AFLazy s = of_bool (result_8 s AND 0xf \<noteq> 0)"
    and AF_inc: "lf_instr (oszapc s) = INCn \<Longrightarrow> get_AFLazy s = of_bool (result_8 s AND 0xf = 0)"
    and AF_dec: "lf_instr (oszapc s) = DECn \<Longrightarrow> get_AFLazy s = of_bool (result_8 s AND 0xf = 0xf)"
    and AF_logic: "lf_instr (oszapc s) = LOGICn \<Longrightarrow> get_AFLazy s = 0"
    and OF_add: "lf_instr (oszapc s) \<in> {ADDn, ADCn} \<Longrightarrow>
      get_OFLazy s = of_bool (GET_ADD_OVERFLOW (op1_32 s) (op2_32 s) (result_32 s) 0x80000000)"
    and OF_sub: "lf_instr (oszapc s) \<in> {SUBn, SBBn} \<Longrightarrow>
      get_OFLazy s = of_bool (GET_SUB_OVERFLOW (op1_32 s) (op2_32 s) (result_32 s) 0x80000000)"
    and OF_neg_inc: "lf_instr (oszapc s) \<in> {NEGn, INCn} \<Longrightarrow>
      get_OFLazy s = of_bool ((ucast (result_32 s) :: 'a word) = 2 ^ (LENGTH('a) - 1))"
    and OF_dec: "lf_instr (oszapc s) = DECn \<Longrightarrow>
      get_OFLazy s = of_bool ((ucast (result_32 s) :: 'a word) = 2 ^ (LENGTH('a) - 1) - 1)"
    and OF_logic: "lf_instr (oszapc s) = LOGICn \<Longrightarrow> get_OFLazy s = 0"
begin

lemma addc_flags:
  fixes a b :: "'a word" and c :: bool
  defines "r \<equiv> a + b + of_bool c"
  assumes "ins = (if c then ADCn else ADDn)"
  shows "flags_of (SET_FLAGS_OSZAPC_SIZE a b r ins s) = ref_add_flags a b c"
proof -
  let ?s = "SET_FLAGS_OSZAPC_SIZE a b r ins s"
  have st: "lf_flags_status ?s = EFlagsOSZAPCMask" and res: "lf_result (oszapc ?s) = scast r"
    by simp_all
  have "get_CFLazy ?s \<noteq> 0 \<longleftrightarrow> 2 ^ LENGTH('a) \<le> unat a + unat b + of_bool c"
    using assms(2) add_carry_iff [of a b] adc_carry_iff [of a b]
    by (cases c) (simp_all add: CF_add CF_adc op_defs r_def scast_less_iff scast_le_iff width32)
  moreover have "get_AFLazy ?s \<noteq> 0 \<longleftrightarrow> 16 \<le> unat a mod 16 + unat b mod 16 + of_bool c"
    using assms(2) aux_carry_iff [of a b c] width8
    by (subst AF_add_sub) (auto simp: op_defs ucast_of_8bit and_bit4 bit_xor_iff bit4_op width8 width32 r_def)
  moreover have "get_OFLazy ?s \<noteq> 0 \<longleftrightarrow> \<not> signed_range TYPE('a) (sint a + sint b + of_bool c)"
    using assms(2) add_overflow_iff [of a b c]
    by (subst OF_add) (auto simp: op_defs GET_ADD_OVERFLOW_def and_bit31 bit_xor_iff bit_and_iff
      scast32_sign width32 r_def)
  ultimately show ?thesis
    unfolding flags_of_full [OF st] lazy_result_flags [OF res width8 width32] ref_add_flags_def Let_def
    by (simp add: r_def)
qed

lemma subb_flags:
  fixes a b :: "'a word" and c :: bool
  defines "r \<equiv> a - b - of_bool c"
  assumes "ins = (if c then SBBn else SUBn)"
  shows "flags_of (SET_FLAGS_OSZAPC_SIZE a b r ins s) = ref_sub_flags a b c"
proof -
  let ?s = "SET_FLAGS_OSZAPC_SIZE a b r ins s"
  have st: "lf_flags_status ?s = EFlagsOSZAPCMask" and res: "lf_result (oszapc ?s) = scast r"
    by simp_all
  have "get_CFLazy ?s \<noteq> 0 \<longleftrightarrow> unat a < unat b + of_bool c"
    using assms(2) sbb_borrow_iff [of a b]
    by (cases c) (simp_all add: CF_sub CF_sbb op_defs r_def scast_less_iff ucast_scast32 width32
      word_less_nat_alt [where 'a = 'a])
  moreover have "get_AFLazy ?s \<noteq> 0 \<longleftrightarrow> unat a mod 16 < unat b mod 16 + of_bool c"
    using assms(2) aux_borrow_iff [of a b c] width8
    by (subst AF_add_sub) (auto simp: op_defs ucast_of_8bit and_bit4 bit_xor_iff bit4_op width8 width32 r_def)
  moreover have "get_OFLazy ?s \<noteq> 0 \<longleftrightarrow> \<not> signed_range TYPE('a) (sint a - sint b - of_bool c)"
    using assms(2) sub_overflow_iff [of a b c]
    by (subst OF_sub) (auto simp: op_defs GET_SUB_OVERFLOW_def and_bit31 bit_xor_iff bit_and_iff
      scast32_sign width32 r_def)
  ultimately show ?thesis
    unfolding flags_of_full [OF st] lazy_result_flags [OF res width8 width32] ref_sub_flags_def Let_def
    by (simp add: r_def)
qed

lemma neg_flags:
  fixes a :: "'a word"
  shows "flags_of (SET_FLAGS_OSZAPC_RESULT_SIZE (- a) NEGn s) = ref_sub_flags 0 a False"
proof -
  let ?s = "SET_FLAGS_OSZAPC_RESULT_SIZE (- a) NEGn s"
  have st: "lf_flags_status ?s = EFlagsOSZAPCMask" and i: "lf_instr (oszapc ?s) = NEGn"
    and res: "lf_result (oszapc ?s) = scast (- a)" by simp_all
  have "(scast (- a) :: 32 word) = scast (0 :: 'a word) \<longleftrightarrow> a = 0"
    by (subst scast_eq_iff) (simp_all add: width32)
  then have "get_CFLazy ?s \<noteq> 0 \<longleftrightarrow> unat (0 :: 'a word) < unat a"
    unfolding CF_neg [OF i] op_defs res by (simp add: unat_gt_0)
  moreover have "get_AFLazy ?s \<noteq> 0 \<longleftrightarrow> unat (0 :: 'a word) mod 16 < unat a mod 16"
    unfolding AF_neg [OF i] op_defs res and_low_nibble low_nibble_scast [OF width8 width32]
      nibble_arith [OF width8] by simp
  moreover have "get_OFLazy ?s \<noteq> 0 \<longleftrightarrow> \<not> signed_range TYPE('a) (sint (0 :: 'a word) - sint a)"
    using single_step_overflow(1) [OF width8, of a] OF_neg_inc [of ?s] i
    unfolding op_defs res ucast_scast32 [OF width32] by simp
  ultimately show ?thesis
    unfolding flags_of_full [OF st] lazy_result_flags [OF res width8 width32] ref_sub_flags_def Let_def
    by simp
qed

text \<open>\<open>INC\<close> and \<open>DEC\<close> leave CF as it was.\<close>

lemma inc_flags:
  fixes a :: "'a word"
  shows "flags_of (SET_FLAGS_OSZAP_RESULT_SIZE (a + 1) INCn s) =
    (ref_add_flags a 1 False)\<lparr>fCF := fCF (flags_of s)\<rparr>"
proof -
  let ?s = "SET_FLAGS_OSZAP_RESULT_SIZE (a + 1) INCn s"
  have i: "lf_instr (oszapc ?s) = INCn" and res: "lf_result (oszapc ?s) = scast (a + 1)" by simp_all
  have "unat (1 :: 'a word) mod 16 = 1" by simp
  then have "get_AFLazy ?s \<noteq> 0 \<longleftrightarrow> 16 \<le> unat a mod 16 + unat (1 :: 'a word) mod 16"
    unfolding AF_inc [OF i] op_defs res and_low_nibble low_nibble_scast [OF width8 width32]
      nibble_arith [OF width8] by (simp, presburger)
  moreover have "sint (1 :: 'a word) = 1" using width8 by simp
  then have "get_OFLazy ?s \<noteq> 0 \<longleftrightarrow> \<not> signed_range TYPE('a) (sint a + sint (1 :: 'a word))"
    using single_step_overflow(3) [OF width8, of a] OF_neg_inc [of ?s] i
    unfolding op_defs res ucast_scast32 [OF width32] by simp
  ultimately show ?thesis
    using lazy_result_flags [OF res width8 width32]
    by (simp add: flags_of_osz ref_add_flags_def Let_def)
qed

lemma dec_flags:
  fixes a :: "'a word"
  shows "flags_of (SET_FLAGS_OSZAP_RESULT_SIZE (a - 1) DECn s) =
    (ref_sub_flags a 1 False)\<lparr>fCF := fCF (flags_of s)\<rparr>"
proof -
  let ?s = "SET_FLAGS_OSZAP_RESULT_SIZE (a - 1) DECn s"
  have i: "lf_instr (oszapc ?s) = DECn" and res: "lf_result (oszapc ?s) = scast (a - 1)" by simp_all
  have "unat (1 :: 'a word) mod 16 = 1" by simp
  then have "get_AFLazy ?s \<noteq> 0 \<longleftrightarrow> unat a mod 16 < unat (1 :: 'a word) mod 16"
    unfolding AF_dec [OF i] op_defs res and_low_nibble low_nibble_scast [OF width8 width32]
      nibble_arith [OF width8] by simp
  moreover have "sint (1 :: 'a word) = 1" using width8 by simp
  then have "get_OFLazy ?s \<noteq> 0 \<longleftrightarrow> \<not> signed_range TYPE('a) (sint a - sint (1 :: 'a word))"
    using single_step_overflow(2) [OF width8, of a] OF_dec [OF i]
    unfolding op_defs res ucast_scast32 [OF width32] by simp
  ultimately show ?thesis
    using lazy_result_flags [OF res width8 width32]
    by (simp add: flags_of_osz ref_sub_flags_def Let_def)
qed

lemma logic_flags:
  fixes r :: "'a word"
  shows "flags_of (SET_FLAGS_OSZAPC_RESULT_SIZE r LOGICn s) = ref_logic_flags r"
proof -
  let ?s = "SET_FLAGS_OSZAPC_RESULT_SIZE r LOGICn s"
  have st: "lf_flags_status ?s = EFlagsOSZAPCMask" and i: "lf_instr (oszapc ?s) = LOGICn"
    and res: "lf_result (oszapc ?s) = scast r"
    by (simp_all add: SET_FLAGS_OSZAPC_RESULT_SIZE_def)
  show ?thesis
    unfolding flags_of_full [OF st] lazy_result_flags [OF res width8 width32] ref_logic_flags_def
      CF_logic [OF i] AF_logic [OF i] OF_logic [OF i] by simp
qed

end

lemmas lazy_defs = get_CFLazy_def get_AFLazy_def get_OFLazy_def Let_def op_defs

lemma all_ones: "(- 1 :: 8 word) = 0xff" "(- 1 :: 16 word) = 0xffff" "(- 1 :: 32 word) = 0xffffffff"
  by simp_all

interpretation lf8: lazy_width "TYPE(8)" 1 2 9 10 17 21 25 29
  by unfold_locales (simp_all add: lazy_defs all_ones, (elim disjE; simp add: lazy_defs)+)

interpretation lf16: lazy_width "TYPE(16)" 3 4 11 12 18 22 26 30
  by unfold_locales (simp_all add: lazy_defs all_ones, (elim disjE; simp add: lazy_defs)+)

interpretation lf32: lazy_width "TYPE(32)" 5 6 13 14 19 23 27 31
  by unfold_locales (simp_all add: lazy_defs all_ones, (elim disjE; simp add: lazy_defs)+)

end
