(* ===== verification/EagerFlags.thy ===== *)
theory EagerFlags
  imports LazyFlagFacts
begin

text \<open>
  The eager view of the flags.  \<open>materialise\<close> is the abstraction function from the
  emulator's state, in which flags may be pending, to the architectural state,
  in which EFLAGS holds them; \<open>flag_neutral\<close> is the class of functions that
  neither read nor write any flag (all memory accesses are in it), closed under
  the monad's combinators, and such functions commute with \<open>materialise\<close>.
\<close>

section \<open>The architectural view of the flags\<close>

text \<open>\<open>materialise\<close> computes every pending flag and forgets the record of the last
  operation: it is the state of a processor that keeps EFLAGS up to date.\<close>

definition lf_none :: bx_lf_flags_entry where
  "lf_none = \<lparr>lf_op1 = 0, lf_op2 = 0, lf_result = 0, lf_instr = 0\<rparr>"

definition materialise :: "bx_cpu_c \<Rightarrow> bx_cpu_c" where
  "materialise s = (snd (force_flags s))\<lparr>oszapc := lf_none\<rparr>"

definition flags_word :: "arith_flags \<Rightarrow> 32 word" where
  "flags_word f = (if fCF f then EFlagsCFMask else 0) OR (if fPF f then EFlagsPFMask else 0) OR
    (if fAF f then EFlagsAFMask else 0) OR (if fZF f then EFlagsZFMask else 0) OR
    (if fSF f then EFlagsSFMask else 0) OR (if fOF f then EFlagsOFMask else 0)"

definition put_flags :: "arith_flags \<Rightarrow> bx_cpu_c \<Rightarrow> bx_cpu_c" where
  "put_flags f s = s\<lparr>eflags := (eflags s AND NOT EFlagsOSZAPCMask) OR flags_word f,
    lf_flags_status := 0, oszapc := lf_none\<rparr>"

lemma bit_mask_if: "bit (if b then push_bit n 1 else 0 :: 32 word) k \<longleftrightarrow> k = n \<and> n < 32 \<and> b"
  by (auto simp: bit_exp_iff)

lemma bit_flags_word:
  "bit (flags_word f) k \<longleftrightarrow> (k = 0 \<and> fCF f) \<or> (k = 2 \<and> fPF f) \<or> (k = 4 \<and> fAF f) \<or>
    (k = 6 \<and> fZF f) \<or> (k = 7 \<and> fSF f) \<or> (k = 11 \<and> fOF f)"
  unfolding flags_word_def EFlagsCFMask_def EFlagsPFMask_def EFlagsAFMask_def EFlagsZFMask_def
    EFlagsSFMask_def EFlagsOFMask_def bit_or_iff bit_mask_if by simp

lemma bit_single_mask: "bit (push_bit n 1 :: 32 word) k \<longleftrightarrow> k = n \<and> n < 32"
  using bit_mask_if [of True n k] by simp

lemma bit_OSZAPCMask: "bit EFlagsOSZAPCMask k \<longleftrightarrow> k \<in> {0, 2, 4, 6, 7, 11}"
  unfolding mask_defs bit_or_iff bit_single_mask by auto

lemma flags_of_bits:
  "flags_of s = \<lparr>
    fCF = (if bit (lf_flags_status s) 0 then get_CFLazy s \<noteq> 0 else bit (eflags s) 0),
    fPF = (if bit (lf_flags_status s) 2 then get_PFLazy s \<noteq> 0 else bit (eflags s) 2),
    fAF = (if bit (lf_flags_status s) 4 then get_AFLazy s \<noteq> 0 else bit (eflags s) 4),
    fZF = (if bit (lf_flags_status s) 6 then get_ZFLazy s \<noteq> 0 else bit (eflags s) 6),
    fSF = (if bit (lf_flags_status s) 7 then get_SFLazy s \<noteq> 0 else bit (eflags s) 7),
    fOF = (if bit (lf_flags_status s) 11 then get_OFLazy s \<noteq> 0 else bit (eflags s) 11)\<rparr>"
  unfolding flags_of_def getB_CF_def getB_PF_def getB_AF_def getB_ZF_def getB_SF_def getB_OF_def
    EFlagsCFMask_def EFlagsPFMask_def EFlagsAFMask_def EFlagsZFMask_def
    EFlagsSFMask_def EFlagsOFMask_def flag_getB_bit by (simp only: of_bool_eq_0_iff not_not)

lemma get_flag_iff:
  "get_CF s \<noteq> 0 \<longleftrightarrow> fCF (flags_of s)" "get_PF s \<noteq> 0 \<longleftrightarrow> fPF (flags_of s)"
  "get_AF s \<noteq> 0 \<longleftrightarrow> fAF (flags_of s)" "get_ZF s \<noteq> 0 \<longleftrightarrow> fZF (flags_of s)"
  "get_SF s \<noteq> 0 \<longleftrightarrow> fSF (flags_of s)" "get_OF s \<noteq> 0 \<longleftrightarrow> fOF (flags_of s)"
  unfolding flags_of_bits get_CF_def get_PF_def get_AF_def get_ZF_def get_SF_def get_OF_def
    EFlagsCFMask_def EFlagsPFMask_def EFlagsAFMask_def EFlagsZFMask_def
    EFlagsSFMask_def EFlagsOFMask_def flag_get_bit by simp_all

lemma getB_flag_eq:
  "getB_CF s = of_bool (fCF (flags_of s))" "getB_PF s = of_bool (fPF (flags_of s))"
  "getB_AF s = of_bool (fAF (flags_of s))" "getB_ZF s = of_bool (fZF (flags_of s))"
  "getB_SF s = of_bool (fSF (flags_of s))" "getB_OF s = of_bool (fOF (flags_of s))"
  unfolding flags_of_bits getB_CF_def getB_PF_def getB_AF_def getB_ZF_def getB_SF_def getB_OF_def
    EFlagsCFMask_def EFlagsPFMask_def EFlagsAFMask_def EFlagsZFMask_def
    EFlagsSFMask_def EFlagsOFMask_def flag_getB_bit by simp_all

lemma eflags_split: "(e AND NOT EFlagsOSZAPCMask) OR
    flags_word \<lparr>fCF = bit e 0, fPF = bit e 2, fAF = bit e 4, fZF = bit e 6, fSF = bit e 7, fOF = bit e 11\<rparr> = e"
proof (rule bit_word_eqI)
  fix k
  assume "k < LENGTH(32)"
  then show "bit ((e AND NOT EFlagsOSZAPCMask) OR flags_word \<lparr>fCF = bit e 0, fPF = bit e 2,
      fAF = bit e 4, fZF = bit e 6, fSF = bit e 7, fOF = bit e 11\<rparr>) k = bit e k"
    by (cases "k \<in> {0, 2, 4, 6, 7, 11}")
      (auto simp: bit_or_iff bit_and_iff bit_not_iff bit_OSZAPCMask bit_flags_word)
qed

lemma materialise_eq: "materialise s = put_flags (flags_of s) s"
proof (cases "lf_flags_status s = 0")
  case True
  then have "flags_of s = \<lparr>fCF = bit (eflags s) 0, fPF = bit (eflags s) 2, fAF = bit (eflags s) 4,
      fZF = bit (eflags s) 6, fSF = bit (eflags s) 7, fOF = bit (eflags s) 11\<rparr>"
    unfolding flags_of_bits by simp
  with True show ?thesis
    unfolding materialise_def put_flags_def force_flags_def Let_def by (simp add: eflags_split)
next
  case False
  have "flags_word f AND EFlagsOSZAPCMask = flags_word f" for f
    by (rule bit_word_eqI) (auto simp: bit_and_iff bit_OSZAPCMask bit_flags_word)
  then have "snd (force_flags s) = setEFlagsOSZAPC (flags_word (flags_of s)) s"
    using False unfolding force_flags_def Let_def flags_word_def get_flag_iff
    by (simp only: if_True snd_conv or.assoc simp_thms)
  then show ?thesis
    unfolding materialise_def setEFlagsOSZAPC_def put_flags_def
    using \<open>\<And>f. flags_word f AND EFlagsOSZAPCMask = flags_word f\<close> by simp
qed

lemma flags_of_put_flags [simp]: "flags_of (put_flags f s) = f"
  unfolding flags_of_bits put_flags_def
  by (simp add: bit_or_iff bit_and_iff bit_not_iff bit_OSZAPCMask bit_flags_word)

lemma put_flags_cong:
  assumes "\<And>k. k \<notin> {0, 2, 4, 6, 7, 11} \<Longrightarrow> bit (eflags s) k = bit e k"
  shows "put_flags f (s\<lparr>eflags := e, lf_flags_status := l, oszapc := z\<rparr>) = put_flags f s"
proof -
  have "(eflags s AND NOT EFlagsOSZAPCMask) = (e AND NOT EFlagsOSZAPCMask)"
    using assms by (intro bit_word_eqI) (auto simp: bit_and_iff bit_not_iff bit_OSZAPCMask)
  then show ?thesis by (simp add: put_flags_def)
qed

lemma put_flags_put_flags [simp]: "put_flags f (put_flags g s) = put_flags f s"
proof -
  have "((eflags s AND NOT EFlagsOSZAPCMask) OR flags_word g) AND NOT EFlagsOSZAPCMask =
      eflags s AND NOT EFlagsOSZAPCMask"
    by (rule bit_word_eqI) (auto simp: bit_or_iff bit_and_iff bit_not_iff bit_OSZAPCMask bit_flags_word)
  then show ?thesis by (simp add: put_flags_def)
qed

lemma put_flags_recorded [simp]:
  "put_flags f (SET_FLAGS_OSZAPC_SIZE a b r ins s) = put_flags f s"
  "put_flags f (SET_FLAGS_OSZAPC_RESULT_SIZE r ins s) = put_flags f s"
  by (simp_all add: put_flags_def SET_FLAGS_OSZAPC_SIZE_def SET_FLAGS_OSZAPC_RESULT_SIZE_def)

lemma put_flags_eflags:
  assumes "e AND NOT EFlagsOSZAPCMask = eflags s AND NOT EFlagsOSZAPCMask"
  shows "put_flags f (s\<lparr>eflags := e\<rparr>) = put_flags f s"
  using assms by (simp add: put_flags_def)

lemma put_flags_force_CF [simp]: "put_flags f (force_CF s) = put_flags f s"
proof -
  have "eflags (force_CF s) AND NOT EFlagsOSZAPCMask = eflags s AND NOT EFlagsOSZAPCMask"
    unfolding force_CF_def EFlagsCFMask_def
    by (rule bit_word_eqI)
      (simp only: bit_and_iff bit_not_iff bit_eflags_force bit_OSZAPCMask zero_less_numeral, auto)
  then show ?thesis
    unfolding put_flags_def by (simp add: force_CF_def flag_force_def flag_set_def split: if_splits)
qed

lemma put_flags_recorded_inc [simp]:
  "put_flags f (SET_FLAGS_OSZAP_RESULT_SIZE r ins s) = put_flags f s"
proof -
  have "put_flags f (SET_FLAGS_OSZAP_RESULT_SIZE r ins s) = put_flags f (force_CF s)"
    by (simp add: put_flags_def SET_FLAGS_OSZAP_RESULT_SIZE_def Let_def)
  then show ?thesis by simp
qed

lemma put_flags_materialise [simp]: "put_flags f (materialise s) = put_flags f s"
  by (simp add: materialise_eq)

lemma flags_of_materialise [simp]: "flags_of (materialise s) = flags_of s"
  by (simp add: materialise_eq)

lemma materialise_idem [simp]: "materialise (materialise s) = materialise s"
  by (simp add: materialise_eq)

section \<open>Functions that neither read nor write the flags\<close>

definition with_flags :: "32 word \<Rightarrow> 32 word \<Rightarrow> bx_lf_flags_entry \<Rightarrow> bx_cpu_c \<Rightarrow> bx_cpu_c" where
  "with_flags e l z s = s\<lparr>eflags := e, lf_flags_status := l, oszapc := z\<rparr>"

definition flag_neutral :: "'a cpu_monad \<Rightarrow> bool" where
  "flag_neutral m \<longleftrightarrow> (\<forall>e l z s. m (with_flags e l z s) = apsnd (with_flags e l z) (m s))"

lemma flag_neutralI:
  "(\<And>e l z s. m (with_flags e l z s) = apsnd (with_flags e l z) (m s)) \<Longrightarrow> flag_neutral m"
  by (simp add: flag_neutral_def)

lemma flag_neutral_returnM [neutral_intros]: "flag_neutral (returnM x)"
  by (simp add: flag_neutral_def monad_simps)

lemma flag_neutral_raiseM [neutral_intros]: "flag_neutral (raiseM x)"
  by (simp add: flag_neutral_def monad_simps)

lemma flag_neutral_getsM [neutral_intros]:
  "(\<And>e l z s. f (with_flags e l z s) = f s) \<Longrightarrow> flag_neutral (getsM f)"
  by (simp add: flag_neutral_def monad_simps)

lemma flag_neutral_modifyM [neutral_intros]:
  "(\<And>e l z s. f (with_flags e l z s) = with_flags e l z (f s)) \<Longrightarrow> flag_neutral (modifyM f)"
  by (simp add: flag_neutral_def monad_simps)

lemma flag_neutral_bindM [neutral_intros]:
  "flag_neutral m \<Longrightarrow> (\<And>x. flag_neutral (k x)) \<Longrightarrow> flag_neutral (bindM m k)"
  unfolding flag_neutral_def by (auto simp: bindM_def split: prod.split sum.split)

lemma flag_neutral_seqM [neutral_intros]:
  "flag_neutral m \<Longrightarrow> flag_neutral n \<Longrightarrow> flag_neutral (seqM m n)"
  unfolding seqM_def by (intro flag_neutral_bindM)

lemma flag_neutral_if [neutral_intros]:
  "(b \<Longrightarrow> flag_neutral m) \<Longrightarrow> (\<not> b \<Longrightarrow> flag_neutral n) \<Longrightarrow> flag_neutral (if b then m else n)"
  by simp

lemma flag_neutral_whenM [neutral_intros]: "(b \<Longrightarrow> flag_neutral m) \<Longrightarrow> flag_neutral (whenM b m)"
  by (simp add: whenM_def flag_neutral_returnM)

lemma flag_neutral_case_prod [neutral_intros]:
  "(\<And>a b. flag_neutral (f a b)) \<Longrightarrow> flag_neutral (case p of (a, b) \<Rightarrow> f a b)"
  by (simp split: prod.split)

lemma flag_neutral_BX_ASSERT [neutral_intros]: "flag_neutral (BX_ASSERT b)"
  by (simp add: BX_ASSERT_def flag_neutral_returnM flag_neutral_raiseM)

lemma with_flags_self: "with_flags (eflags s) (lf_flags_status s) (oszapc s) s = s"
  by (simp add: with_flags_def)

lemma with_flags_fields [simp]:
  "eflags (with_flags e l z s) = e" "lf_flags_status (with_flags e l z s) = l"
  "oszapc (with_flags e l z s) = z"
  by (simp_all add: with_flags_def)

lemma flag_neutral_state:
  assumes "flag_neutral m"
  shows "snd (m s) = with_flags (eflags s) (lf_flags_status s) (oszapc s) (snd (m s))"
proof -
  have "m s = m (with_flags (eflags s) (lf_flags_status s) (oszapc s) s)"
    by (simp only: with_flags_self)
  also have "\<dots> = apsnd (with_flags (eflags s) (lf_flags_status s) (oszapc s)) (m s)"
    using assms unfolding flag_neutral_def by blast
  finally show ?thesis by (metis snd_apsnd)
qed

lemma flag_neutral_keeps:
  assumes "flag_neutral m"
  shows "eflags (snd (m s)) = eflags s" "lf_flags_status (snd (m s)) = lf_flags_status s"
    "oszapc (snd (m s)) = oszapc s"
  by (subst flag_neutral_state [OF assms], simp)+

lemma get_lazy_cong:
  assumes "oszapc s = oszapc t"
  shows "get_CFLazy s = get_CFLazy t" "get_PFLazy s = get_PFLazy t" "get_AFLazy s = get_AFLazy t"
    "get_ZFLazy s = get_ZFLazy t" "get_SFLazy s = get_SFLazy t" "get_OFLazy s = get_OFLazy t"
  by (simp_all only: assms get_CFLazy_def get_PFLazy_def get_AFLazy_def get_ZFLazy_def get_SFLazy_def
    get_OFLazy_def op_defs)

lemma flags_of_cong:
  "eflags s = eflags t \<Longrightarrow> lf_flags_status s = lf_flags_status t \<Longrightarrow> oszapc s = oszapc t \<Longrightarrow>
    flags_of s = flags_of t"
  unfolding flags_of_bits by (simp add: get_lazy_cong [of s t])

lemma flag_neutral_flags_of: "flag_neutral m \<Longrightarrow> flags_of (snd (m s)) = flags_of s"
  by (rule flags_of_cong) (simp_all add: flag_neutral_keeps)

lemma put_flags_with: "put_flags f s =
    with_flags ((eflags s AND NOT EFlagsOSZAPCMask) OR flags_word f) 0 lf_none s"
  by (simp add: put_flags_def with_flags_def)

lemma flag_neutral_put_flags:
  assumes "flag_neutral m"
  shows "m (put_flags f s) = apsnd (put_flags f) (m s)"
proof -
  have "m (put_flags f s) = apsnd (with_flags ((eflags s AND NOT EFlagsOSZAPCMask) OR flags_word f) 0 lf_none) (m s)"
    using assms unfolding put_flags_with flag_neutral_def by blast
  moreover obtain r s' where ms: "m s = (r, s')" by (cases "m s")
  moreover have "eflags s' = eflags s" using flag_neutral_keeps(1) [OF assms, of s] ms by simp
  ultimately show ?thesis by (simp add: put_flags_with)
qed

lemma flag_neutral_materialise:
  assumes "flag_neutral m"
  shows "m (materialise s) = apsnd materialise (m s)"
  unfolding materialise_eq flag_neutral_put_flags [OF assms]
  using flag_neutral_flags_of [OF assms, of s] by (cases "m s") (simp add: materialise_eq)

end
