(* ===== verification/PhysMem.thy ===== *)
theory PhysMem
  imports EagerFlags
begin

text \<open>
  Guest memory: \<open>memory/memory.cc\<close>, the physical accessors of \<open>cpu/paging.cc\<close> and
  the page write stamps of \<open>cpu/icache.h\<close>.  \<open>readPhysicalPage\<close> and
  \<open>writePhysicalPage\<close> are \<open>memcpy\<close> calls that check nothing: the bytes they touch are
  those at the host addresses from \<open>vector + addr\<close> on, in guest memory or not.  At a
  byte that the host does not map, the host stops the emulator: the bytes before it
  have been copied, and the model reports \<open>HostFault\<close> with the host address the access
  started from.  The emulator is a 32-bit process, so host addresses are 32-bit words.
  The local APIC never claims an address in this build (\<open>is_selected\<close> returns 0 under
  \<open>WHITEBOCHS\<close>), so physical accesses always reach the memory object.
\<close>

section \<open>The memory object\<close>

definition physmem_base :: "32 word" where "physmem_base = 0x70000000"

definition mem_mapped :: "bx_mem_c \<Rightarrow> nat" where
  "mem_mapped m = unat (ucast (mem_len m + 4096) :: 32 word)"

definition alloc_vector_aligned :: "32 word \<Rightarrow> unit cpu_monad" where
  "alloc_vector_aligned bytes =
    seqM (BX_ASSERT (bytes mod 4096 = 0))
      (modifyM (\<lambda>s. s\<lparr>bx_mem := (bx_mem s)\<lparr>vector :=
        (\<lambda>a. if a < bytes then 0 else vector (bx_mem s) a)\<rparr>\<rparr>))"

definition init_memory :: "64 word \<Rightarrow> unit cpu_monad" where
  "init_memory guest =
    seqM (alloc_vector_aligned (ucast (guest + 4096)))
      (modifyM (\<lambda>s. s\<lparr>bx_mem := (bx_mem s)\<lparr>mem_len := guest\<rparr>\<rparr>))"

definition BX_MEM_getHostMemAddr :: "32 word \<Rightarrow> 32 word cpu_monad" where
  "BX_MEM_getHostMemAddr addr =
    bindM (getsM (\<lambda>s. mem_len (bx_mem s))) (\<lambda>len.
      seqM (BX_ASSERT (ucast addr < len)) (returnM (physmem_base + addr)))"

text \<open>Whether the host maps the byte at a host address: it belongs to the guest's memory,
  or the host process has something else there.  No process has its first page mapped.\<close>

definition host_mapped :: "bx_mem_c \<Rightarrow> 32 word \<Rightarrow> bool" where
  "host_mapped m h \<longleftrightarrow>
    physmem_base \<le> h \<and> unat (h - physmem_base) < mem_mapped m \<or> 0x1000 \<le> h \<and> elsewhere m h"

text \<open>How many of the \<open>len\<close> bytes from \<open>addr\<close> on a \<open>memcpy\<close> gets through.\<close>

definition copied :: "bx_mem_c \<Rightarrow> 32 word \<Rightarrow> nat \<Rightarrow> nat" where
  "copied m addr len = length (takeWhile (\<lambda>i. host_mapped m (physmem_base + addr + of_nat i)) [0..<len])"

definition writePhysicalPage :: "32 word \<Rightarrow> 8 word list \<Rightarrow> unit cpu_monad" where
  "writePhysicalPage addr data =
    bindM (getsM (\<lambda>s. copied (bx_mem s) addr (length data))) (\<lambda>n.
      seqM (modifyM (\<lambda>s. s\<lparr>bx_mem := (bx_mem s)\<lparr>vector := store_bytes (vector (bx_mem s)) addr (take n data)\<rparr>\<rparr>))
        (whenM (n < length data) (raiseM (HostFault (physmem_base + addr)))))"

definition readPhysicalPage :: "32 word \<Rightarrow> nat \<Rightarrow> 8 word list cpu_monad" where
  "readPhysicalPage addr len =
    bindM (getsM (\<lambda>s. copied (bx_mem s) addr len)) (\<lambda>n.
      if n < len then raiseM (HostFault (physmem_base + addr))
      else getsM (\<lambda>s. load_bytes (vector (bx_mem s)) addr len))"

text \<open>A dereference of a host pointer, as the TLB fast paths do it.\<close>

definition host_read :: "32 word \<Rightarrow> nat \<Rightarrow> 8 word list cpu_monad" where
  "host_read a len = readPhysicalPage (a - physmem_base) len"

definition host_write :: "32 word \<Rightarrow> 8 word list \<Rightarrow> unit cpu_monad" where
  "host_write a data = writePhysicalPage (a - physmem_base) data"

section \<open>Page write stamps\<close>

definition ICacheWriteStampStart :: "32 word" where "ICacheWriteStampStart = 0x7fffffff"
definition ICacheWriteStampFetchModeMask :: "32 word" where
  "ICacheWriteStampFetchModeMask = NOT ICacheWriteStampStart"

definition stamp_hash :: "32 word \<Rightarrow> nat" where
  "stamp_hash pAddr = unat (drop_bit 12 pAddr)"

definition decWriteStamp :: "32 word \<Rightarrow> bx_cpu_c \<Rightarrow> bx_cpu_c" where
  "decWriteStamp pAddr s = (let index = stamp_hash pAddr in
    if pageWriteStampTable s index AND ICacheWriteStampFetchModeMask \<noteq> 0
    then s\<lparr>pageWriteStampTable := (pageWriteStampTable s)(index :=
      (pageWriteStampTable s index - 1) AND NOT ICacheWriteStampFetchModeMask)\<rparr>
    else s)"

section \<open>Physical accesses of the processor\<close>

definition access_write_physical :: "32 word \<Rightarrow> 8 word list \<Rightarrow> unit cpu_monad" where
  "access_write_physical paddr data = writePhysicalPage paddr data"

definition access_read_physical :: "32 word \<Rightarrow> nat \<Rightarrow> 8 word list cpu_monad" where
  "access_read_physical paddr len = readPhysicalPage paddr len"

lemmas phys_defs = access_write_physical_def access_read_physical_def
  writePhysicalPage_def readPhysicalPage_def

section \<open>Accesses on every branch\<close>

definition phys_ok :: "32 word \<Rightarrow> nat \<Rightarrow> bx_cpu_c \<Rightarrow> bool" where
  "phys_ok addr len s \<longleftrightarrow> list_all (\<lambda>i. host_mapped (bx_mem s) (physmem_base + addr + of_nat i)) [0..<len]"

lemma copied_le: "copied m addr len \<le> len"
  unfolding copied_def by (metis length_takeWhile_le length_upt minus_nat.diff_0)

lemma copied_all: "copied (bx_mem s) addr len < len \<longleftrightarrow> \<not> phys_ok addr len s"
proof -
  let ?P = "\<lambda>i. host_mapped (bx_mem s) (physmem_base + addr + of_nat i)"
  have "takeWhile ?P [0..<len] = [0..<len] \<longleftrightarrow> list_all ?P [0..<len]"
    by (simp add: takeWhile_eq_all_conv list_all_iff)
  moreover have "takeWhile ?P [0..<len] = [0..<len] \<longleftrightarrow> length (takeWhile ?P [0..<len]) = len"
    by (metis diff_zero length_upt take_all_iff takeWhile_eq_take order.refl)
  ultimately show ?thesis using copied_le [of "bx_mem s" addr len] unfolding phys_ok_def copied_def by linarith
qed

lemma phys_okI:
  assumes "unat addr + len \<le> mem_mapped (bx_mem s)" "unat addr + len \<le> 0x90000000"
  shows "phys_ok addr len s"
proof -
  have "host_mapped (bx_mem s) (physmem_base + addr + of_nat i)" if i: "i < len" for i
  proof -
    have "unat (of_nat i :: 32 word) = i" using i assms(2) by (intro unat_of_nat_32) simp
    then have a: "unat (addr + of_nat i) = unat addr + i"
      using i assms(2) by (subst unat_plus_simple [THEN iffD1]) (simp_all add: no_olen_add_nat)
    then have "physmem_base \<le> physmem_base + (addr + of_nat i)"
      using i assms(2) by (simp add: no_olen_add_nat physmem_base_def)
    then show ?thesis using a i assms(1) by (simp add: host_mapped_def add.assoc)
  qed
  then show ?thesis by (simp add: phys_ok_def list_all_iff)
qed

lemma access_write_physical_run:
  "access_write_physical addr data s =
    (if phys_ok addr (length data) s
     then (Inr (), s\<lparr>bx_mem := (bx_mem s)\<lparr>vector := store_bytes (vector (bx_mem s)) addr data\<rparr>\<rparr>)
     else (Inl (HostFault (physmem_base + addr)), s\<lparr>bx_mem := (bx_mem s)\<lparr>vector :=
       store_bytes (vector (bx_mem s)) addr (take (copied (bx_mem s) addr (length data)) data)\<rparr>\<rparr>))"
  using copied_all [of s addr "length data"]
  by (cases "phys_ok addr (length data) s") (simp_all add: phys_defs monad_simps whenM_def not_less take_all)

lemma access_read_physical_run:
  "access_read_physical addr len s =
    (if phys_ok addr len s then (Inr (load_bytes (vector (bx_mem s)) addr len), s)
     else (Inl (HostFault (physmem_base + addr)), s))"
  using copied_all [of s addr len] by (simp add: phys_defs monad_simps)

lemma flag_neutral_phys [neutral_intros]:
  "flag_neutral (access_write_physical addr data)" "flag_neutral (access_read_physical addr len)"
  "flag_neutral (host_read a len)" "flag_neutral (host_write a data)"
  unfolding phys_defs host_read_def host_write_def
  by (intro neutral_intros; simp add: with_flags_def)+

end
