(* ===== verification/Paging.thy ===== *)
theory Paging
  imports PhysMem
begin

text \<open>
  Linear to physical translation: \<open>cpu/paging.cc\<close> for a level-5 processor (two
  level page tables of 32-bit entries, optional 4M pages) with the TLB compiled
  out, and the linear memory accesses built on it.  A page fault records the
  address in CR2 and raises \<open>#PF\<close> with the error code of the access.
\<close>

abbreviation (input) BX_READ :: "32 word" where "BX_READ \<equiv> 0"
abbreviation (input) BX_WRITE :: "32 word" where "BX_WRITE \<equiv> 1"
abbreviation (input) BX_EXECUTE :: "32 word" where "BX_EXECUTE \<equiv> 2"
abbreviation (input) BX_RW :: "32 word" where "BX_RW \<equiv> 3"

definition PAGE_OFFSET :: "32 word \<Rightarrow> 32 word" where "PAGE_OFFSET laddr = laddr AND 0xfff"
definition LPFOf :: "32 word \<Rightarrow> 32 word" where "LPFOf laddr = laddr AND 0xfffff000"

definition priv_check :: "8 word list" where
  "priv_check =
   [1, 1, 1, 1, 1, 1, 1, 1, 0, 0, 0, 0, 1, 0, 1, 1,
    1, 0, 1, 1, 1, 0, 1, 1, 0, 0, 0, 0, 1, 0, 1, 1]"

definition ERROR_NOT_PRESENT :: "32 word" where "ERROR_NOT_PRESENT = 0x00"
definition ERROR_PROTECTION :: "32 word" where "ERROR_PROTECTION = 0x01"
definition ERROR_RESERVED :: "32 word" where "ERROR_RESERVED = 0x08"

definition PAGING_PDE4M_RESERVED_BITS :: "32 word" where
  "PAGING_PDE4M_RESERVED_BITS = push_bit (13 + 32 - 32) (push_bit (41 - 32) 1 - 1)"

definition TLB_flush :: "bx_cpu_c \<Rightarrow> bx_cpu_c" where
  "TLB_flush s = s"

definition page_fault :: "32 word \<Rightarrow> 32 word \<Rightarrow> 32 word \<Rightarrow> 32 word \<Rightarrow> 'a cpu_monad" where
  "page_fault fault laddr user rw =
    (let isWrite = rw AND 1;
         error_code = fault OR (push_bit 2 user OR push_bit 1 isWrite)
     in seqM (modifyM (\<lambda>s. s\<lparr>cr2 := laddr\<rparr>)) (exception BX_PF_EXCEPTION (ucast error_code)))"

definition read_entry :: "32 word \<Rightarrow> 32 word cpu_monad" where
  "read_entry addr = bindM (access_read_physical addr 4) (\<lambda>bs. returnM (le_word bs))"

definition write_entry :: "32 word \<Rightarrow> 32 word \<Rightarrow> unit cpu_monad" where
  "write_entry addr e = access_write_physical addr (le_bytes 4 e)"

definition priv_index :: "32 word \<Rightarrow> 32 word \<Rightarrow> 32 word \<Rightarrow> 32 word \<Rightarrow> 32 word" where
  "priv_index wp pl combined_access isWrite =
    push_bit 4 wp OR push_bit 3 pl OR (combined_access OR isWrite)"

text \<open>The branch of \<open>translate_linear\<close> for a 4M page.\<close>

definition translate_linear_4M ::
  "32 word \<Rightarrow> 32 word \<Rightarrow> 32 word \<Rightarrow> 32 word \<Rightarrow> 32 word \<Rightarrow> 32 word cpu_monad" where
  "translate_linear_4M laddr pl rw pde_addr pde =
    (let isWrite = rw AND 1 in
     if pde AND PAGING_PDE4M_RESERVED_BITS \<noteq> 0
     then page_fault (ERROR_RESERVED OR ERROR_PROTECTION) laddr pl rw
     else bindM (getsM cr0_get_WP) (\<lambda>wp.
       let combined_access = pde AND 0x06 in
       if priv_check ! unat (priv_index wp pl combined_access isWrite) = 0
       then page_fault ERROR_PROTECTION laddr pl rw
       else
         seqM (whenM (pde AND 0x20 = 0 \<or> (isWrite \<noteq> 0 \<and> pde AND 0x40 = 0))
           (write_entry pde_addr (pde OR (0x20 OR push_bit 6 isWrite))))
         (seqM (modifyM (\<lambda>s. s\<lparr>TLB_split_large := 1\<rparr>))
           (returnM ((pde AND 0xffc00000) OR (laddr AND 0x003ff000))))))"

text \<open>The branch of \<open>translate_linear\<close> for a 4K page.\<close>

definition translate_linear_4K ::
  "32 word \<Rightarrow> 32 word \<Rightarrow> 32 word \<Rightarrow> 32 word \<Rightarrow> 32 word \<Rightarrow> 32 word cpu_monad" where
  "translate_linear_4K laddr pl rw pde_addr pde =
    (let isWrite = rw AND 1;
         pte_addr = (pde AND 0xfffff000) OR drop_bit 10 (laddr AND 0x003ff000)
     in bindM (read_entry pte_addr) (\<lambda>pte.
       if pte AND 1 = 0 then page_fault ERROR_NOT_PRESENT laddr pl rw
       else bindM (getsM cr0_get_WP) (\<lambda>wp.
         let combined_access = (pde AND pte) AND 0x06 in
         if priv_check ! unat (priv_index wp pl combined_access isWrite) = 0
         then page_fault ERROR_PROTECTION laddr pl rw
         else
           seqM (whenM (pde AND 0x20 = 0) (write_entry pde_addr (pde OR 0x20)))
           (seqM (whenM (pte AND 0x20 = 0 \<or> (isWrite \<noteq> 0 \<and> pte AND 0x40 = 0))
             (write_entry pte_addr (pte OR (0x20 OR push_bit 6 isWrite))))
             (returnM (pte AND 0xfffff000))))))"

definition translate_linear :: "32 word \<Rightarrow> 32 word \<Rightarrow> 32 word \<Rightarrow> 32 word cpu_monad" where
  "translate_linear laddr curr_pl rw =
    (let poffset = PAGE_OFFSET laddr; pl = of_bool (curr_pl = 3); lpf = LPFOf laddr in
     bindM (getsM cr0_get_PG) (\<lambda>pg.
     bindM (if pg \<noteq> 0 then
       bindM (getsM cr3) (\<lambda>cr3_val.
         let cr3_masked = cr3_val AND 0xfffff000;
             pde_addr = cr3_masked OR drop_bit 20 (laddr AND 0xffc00000)
         in bindM (read_entry pde_addr) (\<lambda>pde.
           if pde AND 1 = 0 then page_fault ERROR_NOT_PRESENT laddr pl rw
           else bindM (getsM cr4_get_PSE) (\<lambda>pse.
             if pde AND 0x80 \<noteq> 0 \<and> pse \<noteq> 0
             then translate_linear_4M laddr pl rw pde_addr pde
             else translate_linear_4K laddr pl rw pde_addr pde)))
       else returnM lpf) (\<lambda>ppf.
     returnM (ppf OR poffset))))"

definition dtranslate_linear :: "32 word \<Rightarrow> 32 word \<Rightarrow> 32 word \<Rightarrow> 32 word cpu_monad" where
  "dtranslate_linear laddr curr_pl rw = translate_linear laddr curr_pl rw"

definition xlation :: "(address_xlation_t \<Rightarrow> address_xlation_t) \<Rightarrow> unit cpu_monad" where
  "xlation f = modifyM (\<lambda>s. s\<lparr>address_xlation := f (address_xlation s)\<rparr>)"

definition access_write_linear :: "32 word \<Rightarrow> 32 word \<Rightarrow> 8 word list \<Rightarrow> unit cpu_monad" where
  "access_write_linear laddr curr_pl data =
    (let pageOffset = PAGE_OFFSET laddr; len = of_nat (length data) in
     if pageOffset + len \<le> 4096 then
       bindM (dtranslate_linear laddr curr_pl BX_WRITE) (\<lambda>pa.
       seqM (xlation (\<lambda>x. x\<lparr>paddress1 := pa\<rparr>))
       (seqM (xlation (\<lambda>x. x\<lparr>pages := 1\<rparr>))
         (access_write_physical pa data)))
     else
       bindM (dtranslate_linear laddr curr_pl BX_WRITE) (\<lambda>pa.
       let l1 = 4096 - pageOffset in
       seqM (xlation (\<lambda>x. x\<lparr>paddress1 := pa\<rparr>))
       (seqM (xlation (\<lambda>x. x\<lparr>len1 := l1, len2 := len - l1, pages := 2\<rparr>))
       (bindM (dtranslate_linear (laddr + l1) curr_pl BX_WRITE) (\<lambda>pb.
       seqM (xlation (\<lambda>x. x\<lparr>paddress2 := pb\<rparr>))
       (seqM (access_write_physical pa (take (unat l1) data))
         (access_write_physical pb (drop (unat l1) data))))))))"

definition access_read_linear :: "32 word \<Rightarrow> nat \<Rightarrow> 32 word \<Rightarrow> 32 word \<Rightarrow> 8 word list cpu_monad" where
  "access_read_linear laddr n curr_pl xlate_rw =
    seqM (BX_ASSERT (xlate_rw = BX_READ \<or> xlate_rw = BX_RW))
    (let pageOffset = PAGE_OFFSET laddr; len = of_nat n in
     if pageOffset + len \<le> 4096 then
       bindM (dtranslate_linear laddr curr_pl xlate_rw) (\<lambda>pa.
       seqM (xlation (\<lambda>x. x\<lparr>paddress1 := pa\<rparr>))
       (seqM (xlation (\<lambda>x. x\<lparr>pages := 1\<rparr>))
         (access_read_physical pa n)))
     else
       bindM (dtranslate_linear laddr curr_pl xlate_rw) (\<lambda>pa.
       let l1 = 4096 - pageOffset; l2 = len - l1 in
       seqM (xlation (\<lambda>x. x\<lparr>paddress1 := pa\<rparr>))
       (seqM (xlation (\<lambda>x. x\<lparr>len1 := l1, len2 := l2, pages := 2\<rparr>))
       (bindM (dtranslate_linear (laddr + l1) curr_pl xlate_rw) (\<lambda>pb.
       seqM (xlation (\<lambda>x. x\<lparr>paddress2 := pb\<rparr>))
       (bindM (access_read_physical pa (unat l1)) (\<lambda>bs1.
        bindM (access_read_physical pb (unat l2)) (\<lambda>bs2.
         returnM (bs1 @ bs2)))))))))"

definition getHostMemAddr :: "32 word \<Rightarrow> 32 word cpu_monad" where
  "getHostMemAddr ppf = BX_MEM_getHostMemAddr ppf"

lemma flag_neutral_page_fault [neutral_intros]: "flag_neutral (page_fault f laddr user rw)"
  unfolding page_fault_def Let_def by (intro neutral_intros) (simp add: with_flags_def)

lemma flag_neutral_entries [neutral_intros]:
  "flag_neutral (read_entry a)" "flag_neutral (write_entry a e)"
  unfolding read_entry_def write_entry_def by (intro neutral_intros)+

lemma flag_neutral_xlation [neutral_intros]: "flag_neutral (xlation f)"
  unfolding xlation_def by (intro neutral_intros) (simp add: with_flags_def)

lemma flag_neutral_translate [neutral_intros]: "flag_neutral (dtranslate_linear laddr pl rw)"
  unfolding dtranslate_linear_def translate_linear_def translate_linear_4M_def translate_linear_4K_def Let_def
  by (intro neutral_intros; simp add: with_flags_def cr0_get_PG_def cr0_get_WP_def cr4_get_PSE_def)

lemma flag_neutral_linear [neutral_intros]:
  "flag_neutral (access_write_linear laddr pl data)" "flag_neutral (access_read_linear laddr n pl rw)"
  unfolding access_write_linear_def access_read_linear_def Let_def by (intro neutral_intros)+

end
