(* ===== verification/Access.thy ===== *)
theory Access
  imports Paging
begin

text \<open>
  Segmented memory accesses: the checks of \<open>cpu/access.cc\<close> and the accessors of
  \<open>cpu/access32.cc\<close>.  Each accessor first consults the access rights cached in
  the descriptor (\<open>SegAccessROK\<close>, \<open>SegAccessWOK\<close>), which reduces the check to one
  comparison with the limit, and otherwise makes the full check, which may
  cache the rights.  A failed check raises \<open>#SS\<close> for the stack segment and \<open>#GP\<close>
  for the others; a misaligned access raises \<open>#AC\<close> when alignment checking is
  on.  \<open>BX_PANIC\<close> is empty in \<open>access.cc\<close>, so the unreachable \<open>default\<close> branch of the
  checks falls through to success.
\<close>

section \<open>The full segment checks\<close>

definition upper_limit :: "bx_segment_reg_t \<Rightarrow> 32 word" where
  "upper_limit seg = (if seg_d_b (cache seg) \<noteq> 0 then 0xffffffff else 0x0000ffff)"

definition beyond_limit :: "bx_segment_reg_t \<Rightarrow> 32 word \<Rightarrow> 32 word \<Rightarrow> bool" where
  "beyond_limit seg offset len \<longleftrightarrow>
    offset > limit_scaled (cache seg) - len + 1 \<or> len - 1 > limit_scaled (cache seg)"

definition beyond_limit_ED :: "bx_segment_reg_t \<Rightarrow> 32 word \<Rightarrow> 32 word \<Rightarrow> bool" where
  "beyond_limit_ED seg offset len \<longleftrightarrow>
    offset \<le> limit_scaled (cache seg) \<or> offset > upper_limit seg \<or>
    upper_limit seg - offset < len - 1"

definition mark_valid :: "32 word \<Rightarrow> bx_segment_reg_t \<Rightarrow> bx_segment_reg_t" where
  "mark_valid bits seg = seg\<lparr>cache := (cache seg)\<lparr>valid := valid (cache seg) OR bits\<rparr>\<rparr>"

definition write_virtual_checks ::
  "bx_segment_reg_t \<Rightarrow> 32 word \<Rightarrow> 32 word \<Rightarrow> bool \<times> bx_segment_reg_t" where
  "write_virtual_checks seg offset len =
    (let t = d_type (cache seg) in
     if valid (cache seg) = 0 then (False, seg)
     else if d_p (cache seg) = 0 then (False, seg)
     else if t \<in> {0, 1, 4, 5, 8, 9, 10, 11, 12, 13, 14, 15} then (False, seg)
     else if t \<in> {2, 3} then
       (if beyond_limit seg offset len then (False, seg)
        else if limit_scaled (cache seg) \<ge> 15
             then (True, mark_valid (SegAccessROK OR SegAccessWOK) seg)
        else (True, seg))
     else if t \<in> {6, 7} then
       (if beyond_limit_ED seg offset len then (False, seg) else (True, seg))
     else (True, seg))"

definition read_virtual_checks ::
  "bx_segment_reg_t \<Rightarrow> 32 word \<Rightarrow> 32 word \<Rightarrow> bool \<times> bx_segment_reg_t" where
  "read_virtual_checks seg offset len =
    (let t = d_type (cache seg) in
     if valid (cache seg) = 0 then (False, seg)
     else if d_p (cache seg) = 0 then (False, seg)
     else if t \<in> {0, 1, 2, 3, 10, 11, 14, 15} then
       (if beyond_limit seg offset len then (False, seg)
        else if limit_scaled (cache seg) \<ge> 15 then (True, mark_valid SegAccessROK seg)
        else (True, seg))
     else if t \<in> {4, 5, 6, 7} then
       (if beyond_limit_ED seg offset len then (False, seg) else (True, seg))
     else if t \<in> {8, 9, 12, 13} then (False, seg)
     else (True, seg))"

definition execute_virtual_checks ::
  "bx_segment_reg_t \<Rightarrow> 32 word \<Rightarrow> 32 word \<Rightarrow> bool \<times> bx_segment_reg_t" where
  "execute_virtual_checks seg offset len =
    (let t = d_type (cache seg) in
     if valid (cache seg) = 0 then (False, seg)
     else if d_p (cache seg) = 0 then (False, seg)
     else if t \<in> {0, 1, 2, 3, 10, 11, 14, 15} then
       (if beyond_limit seg offset len then (False, seg)
        else if limit_scaled (cache seg) \<ge> 15 then (True, mark_valid SegAccessROK seg)
        else (True, seg))
     else if t \<in> {8, 9, 12, 13} then
       (if beyond_limit seg offset len then (False, seg) else (True, seg))
     else if t \<in> {4, 5, 6, 7} then
       (if beyond_limit_ED seg offset len then (False, seg) else (True, seg))
     else (True, seg))"

definition int_number :: "nat \<Rightarrow> nat" where
  "int_number s = (if s = BX_SEG_REG_SS then BX_SS_EXCEPTION else BX_GP_EXCEPTION)"

section \<open>Accesses through a segment register\<close>

text \<open>The part the accessors share: the cached rights and the limit test of the
  accessor, or the full check; either may raise, and the full check may update
  the cached rights.\<close>

definition check_segment ::
  "(bx_segment_reg_t \<Rightarrow> 32 word \<Rightarrow> 32 word \<Rightarrow> bool \<times> bx_segment_reg_t) \<Rightarrow> 32 word \<Rightarrow>
    (32 word \<Rightarrow> bool) \<Rightarrow> nat \<Rightarrow> 32 word \<Rightarrow> 32 word \<Rightarrow> unit cpu_monad" where
  "check_segment checks rights limit_ok s offset len =
    bindM (getsM (\<lambda>st. sregs st s)) (\<lambda>seg.
      if valid (cache seg) AND rights \<noteq> 0 then
        (if limit_ok (limit_scaled (cache seg)) then returnM () else exception (int_number s) 0)
      else
        (case checks seg offset len of (ok, seg') \<Rightarrow>
          seqM (modifyM (\<lambda>st. st\<lparr>sregs := (sregs st)(s := seg')\<rparr>))
            (if ok then returnM () else exception (int_number s) 0)))"

definition check_alignment :: "32 word \<Rightarrow> 32 word \<Rightarrow> unit cpu_monad" where
  "check_alignment laddr m =
    bindM (getsM alignment_check) (\<lambda>ac.
      if ac \<noteq> 0 \<and> laddr AND m \<noteq> 0 then exception BX_AC_EXCEPTION 0 else returnM ())"

definition assert_legacy_mode :: "unit cpu_monad" where
  "assert_legacy_mode = bindM (getsM cpu_mode) (\<lambda>m. BX_ASSERT (m \<noteq> BX_MODE_LONG_64))"

definition write_virtual_byte_32 :: "nat \<Rightarrow> 32 word \<Rightarrow> 8 word \<Rightarrow> unit cpu_monad" where
  "write_virtual_byte_32 s offset data =
    seqM assert_legacy_mode
    (seqM (check_segment write_virtual_checks SegAccessWOK (\<lambda>limit. offset \<le> limit) s offset 1)
    (bindM (getsM (get_laddr32 s offset)) (\<lambda>laddr.
    (bindM (getsM CPL) (\<lambda>cpl. access_write_linear laddr (ucast cpl) (le_bytes 1 data))))))"

definition write_virtual_word_32 :: "nat \<Rightarrow> 32 word \<Rightarrow> 16 word \<Rightarrow> unit cpu_monad" where
  "write_virtual_word_32 s offset data =
    seqM assert_legacy_mode
    (seqM (check_segment write_virtual_checks SegAccessWOK (\<lambda>limit. offset < limit) s offset 2)
    (bindM (getsM (get_laddr32 s offset)) (\<lambda>laddr.
    (seqM (check_alignment laddr 1)
    (bindM (getsM CPL) (\<lambda>cpl. access_write_linear laddr (ucast cpl) (le_bytes 2 data)))))))"

definition write_virtual_dword_32 :: "nat \<Rightarrow> 32 word \<Rightarrow> 32 word \<Rightarrow> unit cpu_monad" where
  "write_virtual_dword_32 s offset data =
    seqM assert_legacy_mode
    (seqM (check_segment write_virtual_checks SegAccessWOK (\<lambda>limit. offset < limit - 2) s offset 4)
    (bindM (getsM (get_laddr32 s offset)) (\<lambda>laddr.
    (seqM (check_alignment laddr 3)
    (bindM (getsM CPL) (\<lambda>cpl. access_write_linear laddr (ucast cpl) (le_bytes 4 data)))))))"

definition write_virtual_qword_32 :: "nat \<Rightarrow> 32 word \<Rightarrow> 64 word \<Rightarrow> unit cpu_monad" where
  "write_virtual_qword_32 s offset data =
    seqM assert_legacy_mode
    (seqM (check_segment write_virtual_checks SegAccessWOK (\<lambda>limit. offset \<le> limit - 7) s offset 8)
    (bindM (getsM (get_laddr32 s offset)) (\<lambda>laddr.
    (seqM (check_alignment laddr 7)
    (bindM (getsM CPL) (\<lambda>cpl. access_write_linear laddr (ucast cpl) (le_bytes 8 data)))))))"

definition read_virtual_byte_32 :: "nat \<Rightarrow> 32 word \<Rightarrow> 8 word cpu_monad" where
  "read_virtual_byte_32 s offset =
    seqM assert_legacy_mode
    (seqM (check_segment read_virtual_checks SegAccessROK (\<lambda>limit. offset \<le> limit) s offset 1)
    (bindM (getsM (get_laddr32 s offset)) (\<lambda>laddr.
    (bindM (getsM CPL) (\<lambda>cpl.
      bindM (access_read_linear laddr 1 (ucast cpl) BX_READ) (\<lambda>bs. returnM (le_word bs)))))))"

definition read_virtual_word_32 :: "nat \<Rightarrow> 32 word \<Rightarrow> 16 word cpu_monad" where
  "read_virtual_word_32 s offset =
    seqM assert_legacy_mode
    (seqM (check_segment read_virtual_checks SegAccessROK (\<lambda>limit. offset < limit) s offset 2)
    (bindM (getsM (get_laddr32 s offset)) (\<lambda>laddr.
    (seqM (check_alignment laddr 1)
    (bindM (getsM CPL) (\<lambda>cpl.
      bindM (access_read_linear laddr 2 (ucast cpl) BX_READ) (\<lambda>bs. returnM (le_word bs))))))))"

definition read_virtual_dword_32 :: "nat \<Rightarrow> 32 word \<Rightarrow> 32 word cpu_monad" where
  "read_virtual_dword_32 s offset =
    seqM assert_legacy_mode
    (seqM (check_segment read_virtual_checks SegAccessROK (\<lambda>limit. offset < limit - 2) s offset 4)
    (bindM (getsM (get_laddr32 s offset)) (\<lambda>laddr.
    (seqM (check_alignment laddr 3)
    (bindM (getsM CPL) (\<lambda>cpl.
      bindM (access_read_linear laddr 4 (ucast cpl) BX_READ) (\<lambda>bs. returnM (le_word bs))))))))"

definition read_virtual_qword_32 :: "nat \<Rightarrow> 32 word \<Rightarrow> 64 word cpu_monad" where
  "read_virtual_qword_32 s offset =
    seqM assert_legacy_mode
    (seqM (check_segment read_virtual_checks SegAccessROK (\<lambda>limit. offset \<le> limit - 7) s offset 8)
    (bindM (getsM (get_laddr32 s offset)) (\<lambda>laddr.
    (seqM (check_alignment laddr 7)
    (bindM (getsM CPL) (\<lambda>cpl.
      bindM (access_read_linear laddr 8 (ucast cpl) BX_READ) (\<lambda>bs. returnM (le_word bs))))))))"

section \<open>Read-modify-write accesses\<close>

text \<open>The read half translates for writing and leaves the physical addresses in
  \<open>address_xlation\<close>; the write half uses them.  \<open>read_RMW_virtual_byte_32\<close> differs
  from the wider accessors: its TLB lookup is compiled in exactly when the TLB
  is compiled out (\<open>#ifdef\<close> for \<open>#ifndef\<close>), and so it is part of this build.\<close>

definition BX_TLB_INDEX_OF :: "32 word \<Rightarrow> 32 word \<Rightarrow> nat" where
  "BX_TLB_INDEX_OF lpf len = unat (drop_bit 12 ((lpf + len) AND push_bit 12 (1024 - 1)))"

definition read_RMW_virtual_byte_32 :: "nat \<Rightarrow> 32 word \<Rightarrow> 8 word cpu_monad" where
  "read_RMW_virtual_byte_32 s offset =
    seqM assert_legacy_mode
    (seqM (check_segment write_virtual_checks SegAccessWOK (\<lambda>limit. offset \<le> limit) s offset 1)
    (bindM (getsM (get_laddr32 s offset)) (\<lambda>laddr.
    bindM (getsM (\<lambda>st. TLB_entry st (BX_TLB_INDEX_OF laddr 0))) (\<lambda>tlbEntry.
    bindM (getsM user_pl) (\<lambda>upl.
    if tlb_lpf tlbEntry = LPFOf laddr \<and> accessBits tlbEntry AND (0x2 OR upl) = 0 then
      (let hostAddr = hostPageAddr tlbEntry OR PAGE_OFFSET laddr in
       seqM (modifyM (decWriteStamp (tlb_ppf tlbEntry)))
       (bindM (host_read hostAddr 1) (\<lambda>bs.
       seqM (xlation (\<lambda>x. x\<lparr>pages := hostAddr\<rparr>)) (returnM (le_word bs)))))
    else
      bindM (getsM CPL) (\<lambda>cpl.
      bindM (access_read_linear laddr 1 (ucast cpl) BX_RW) (\<lambda>bs. returnM (le_word bs))))))))"

definition read_RMW_virtual_word_32 :: "nat \<Rightarrow> 32 word \<Rightarrow> 16 word cpu_monad" where
  "read_RMW_virtual_word_32 s offset =
    seqM assert_legacy_mode
    (seqM (check_segment write_virtual_checks SegAccessWOK (\<lambda>limit. offset < limit) s offset 2)
    (bindM (getsM (get_laddr32 s offset)) (\<lambda>laddr.
    (seqM (check_alignment laddr 1)
    (bindM (getsM CPL) (\<lambda>cpl.
      bindM (access_read_linear laddr 2 (ucast cpl) BX_RW) (\<lambda>bs. returnM (le_word bs))))))))"

definition read_RMW_virtual_dword_32 :: "nat \<Rightarrow> 32 word \<Rightarrow> 32 word cpu_monad" where
  "read_RMW_virtual_dword_32 s offset =
    seqM assert_legacy_mode
    (seqM (check_segment write_virtual_checks SegAccessWOK (\<lambda>limit. offset < limit - 2) s offset 4)
    (bindM (getsM (get_laddr32 s offset)) (\<lambda>laddr.
    (seqM (check_alignment laddr 3)
    (bindM (getsM CPL) (\<lambda>cpl.
      bindM (access_read_linear laddr 4 (ucast cpl) BX_RW) (\<lambda>bs. returnM (le_word bs))))))))"

definition read_RMW_virtual_qword_32 :: "nat \<Rightarrow> 32 word \<Rightarrow> 64 word cpu_monad" where
  "read_RMW_virtual_qword_32 s offset =
    seqM assert_legacy_mode
    (seqM (check_segment write_virtual_checks SegAccessWOK (\<lambda>limit. offset \<le> limit - 7) s offset 8)
    (bindM (getsM (get_laddr32 s offset)) (\<lambda>laddr.
    (seqM (check_alignment laddr 7)
    (bindM (getsM CPL) (\<lambda>cpl.
      bindM (access_read_linear laddr 8 (ucast cpl) BX_RW) (\<lambda>bs. returnM (le_word bs))))))))"

definition write_RMW_virtual_byte :: "8 word \<Rightarrow> unit cpu_monad" where
  "write_RMW_virtual_byte val8 =
    bindM (getsM address_xlation) (\<lambda>x.
      if pages x > 2 then host_write (pages x) (le_bytes 1 val8)
      else access_write_physical (paddress1 x) (le_bytes 1 val8))"

definition write_RMW_virtual_word :: "16 word \<Rightarrow> unit cpu_monad" where
  "write_RMW_virtual_word val16 =
    bindM (getsM address_xlation) (\<lambda>x.
      if pages x > 2 then host_write (pages x) (le_bytes 2 val16)
      else if pages x = 1 then access_write_physical (paddress1 x) (le_bytes 2 val16)
      else seqM (access_write_physical (paddress1 x) (take 1 (le_bytes 2 val16)))
        (access_write_physical (paddress2 x) (drop 1 (le_bytes 2 val16))))"

definition write_RMW_virtual_dword :: "32 word \<Rightarrow> unit cpu_monad" where
  "write_RMW_virtual_dword val32 =
    bindM (getsM address_xlation) (\<lambda>x.
      if pages x > 2 then host_write (pages x) (le_bytes 4 val32)
      else if pages x = 1 then access_write_physical (paddress1 x) (le_bytes 4 val32)
      else seqM (access_write_physical (paddress1 x) (take (unat (len1 x)) (le_bytes 4 val32)))
        (access_write_physical (paddress2 x)
          (take (unat (len2 x)) (drop (unat (len1 x)) (le_bytes 4 val32)))))"

definition write_RMW_virtual_qword :: "64 word \<Rightarrow> unit cpu_monad" where
  "write_RMW_virtual_qword val64 =
    bindM (getsM address_xlation) (\<lambda>x.
      if pages x > 2 then host_write (pages x) (le_bytes 8 val64)
      else if pages x = 1 then access_write_physical (paddress1 x) (le_bytes 8 val64)
      else seqM (access_write_physical (paddress1 x) (take (unat (len1 x)) (le_bytes 8 val64)))
        (access_write_physical (paddress2 x)
          (take (unat (len2 x)) (drop (unat (len1 x)) (le_bytes 8 val64)))))"

section \<open>Writes to a new stack\<close>

text \<open>These take the segment register by reference and may update its cached
  rights, so they give it back.\<close>

definition new_stack_violation :: "bx_segment_reg_t \<Rightarrow> 'a cpu_monad" where
  "new_stack_violation seg =
    bindM (getsM CPL) (\<lambda>cpl. exception BX_SS_EXCEPTION
      (if sel_rpl (selector seg) \<noteq> cpl then sel_value (selector seg) AND 0xfffc else 0))"

definition check_new_stack ::
  "(32 word \<Rightarrow> bool) \<Rightarrow> bx_segment_reg_t \<Rightarrow> 32 word \<Rightarrow> 32 word \<Rightarrow> bx_segment_reg_t cpu_monad" where
  "check_new_stack limit_ok seg offset len =
    (if valid (cache seg) AND SegAccessWOK \<noteq> 0 then
       (if limit_ok (limit_scaled (cache seg)) then returnM seg else new_stack_violation seg)
     else
       (case write_virtual_checks seg offset len of (ok, seg') \<Rightarrow>
         if ok then returnM seg' else new_stack_violation seg'))"

definition write_new_stack_word_32 ::
  "bx_segment_reg_t \<Rightarrow> 32 word \<Rightarrow> 32 word \<Rightarrow> 16 word \<Rightarrow> bx_segment_reg_t cpu_monad" where
  "write_new_stack_word_32 seg offset curr_pl data =
    bindM (check_new_stack (\<lambda>limit. offset < limit) seg offset 2) (\<lambda>seg'.
      let laddr = seg_base (cache seg') + offset in
      seqM (if curr_pl = 3 then check_alignment laddr 1 else returnM ())
      (seqM (access_write_linear laddr curr_pl (le_bytes 2 data)) (returnM seg')))"

definition write_new_stack_dword_32 ::
  "bx_segment_reg_t \<Rightarrow> 32 word \<Rightarrow> 32 word \<Rightarrow> 32 word \<Rightarrow> bx_segment_reg_t cpu_monad" where
  "write_new_stack_dword_32 seg offset curr_pl data =
    bindM (check_new_stack (\<lambda>limit. offset < limit - 2) seg offset 4) (\<lambda>seg'.
      let laddr = seg_base (cache seg') + offset in
      seqM (if curr_pl = 3 then check_alignment laddr 3 else returnM ())
      (seqM (access_write_linear laddr curr_pl (le_bytes 4 data)) (returnM seg')))"

definition write_new_stack_qword_32 ::
  "bx_segment_reg_t \<Rightarrow> 32 word \<Rightarrow> 32 word \<Rightarrow> 64 word \<Rightarrow> bx_segment_reg_t cpu_monad" where
  "write_new_stack_qword_32 seg offset curr_pl data =
    bindM (check_new_stack (\<lambda>limit. offset \<le> limit - 7) seg offset 8) (\<lambda>seg'.
      let laddr = seg_base (cache seg') + offset in
      seqM (if curr_pl = 3 then check_alignment laddr 7 else returnM ())
      (seqM (access_write_linear laddr curr_pl (le_bytes 8 data)) (returnM seg')))"

section \<open>Supervisor accesses to linear memory\<close>

text \<open>These accessors of \<open>access.cc\<close> look the address up in the TLB in every
  build.\<close>

definition system_tlb_read :: "32 word \<Rightarrow> nat \<Rightarrow> 8 word list cpu_monad" where
  "system_tlb_read laddr n =
    bindM (getsM (\<lambda>st. TLB_entry st (BX_TLB_INDEX_OF laddr (of_nat n - 1)))) (\<lambda>tlbEntry.
      if tlb_lpf tlbEntry = LPFOf laddr
      then host_read (hostPageAddr tlbEntry OR PAGE_OFFSET laddr) n
      else access_read_linear laddr n 0 BX_READ)"

definition system_tlb_write :: "32 word \<Rightarrow> 8 word list \<Rightarrow> unit cpu_monad" where
  "system_tlb_write laddr data =
    bindM (getsM (\<lambda>st. TLB_entry st (BX_TLB_INDEX_OF laddr (of_nat (length data) - 1)))) (\<lambda>tlbEntry.
      if tlb_lpf tlbEntry = LPFOf laddr \<and> accessBits tlbEntry AND 0x2 = 0
      then seqM (modifyM (decWriteStamp (tlb_ppf tlbEntry)))
        (host_write (hostPageAddr tlbEntry OR PAGE_OFFSET laddr) data)
      else access_write_linear laddr 0 data)"

definition system_read_byte :: "32 word \<Rightarrow> 8 word cpu_monad" where
  "system_read_byte laddr = bindM (system_tlb_read laddr 1) (\<lambda>bs. returnM (le_word bs))"

definition system_read_word :: "32 word \<Rightarrow> 16 word cpu_monad" where
  "system_read_word laddr = bindM (system_tlb_read laddr 2) (\<lambda>bs. returnM (le_word bs))"

definition system_read_dword :: "32 word \<Rightarrow> 32 word cpu_monad" where
  "system_read_dword laddr = bindM (system_tlb_read laddr 4) (\<lambda>bs. returnM (le_word bs))"

definition system_read_qword :: "32 word \<Rightarrow> 64 word cpu_monad" where
  "system_read_qword laddr = bindM (system_tlb_read laddr 8) (\<lambda>bs. returnM (le_word bs))"

definition system_write_byte :: "32 word \<Rightarrow> 8 word \<Rightarrow> unit cpu_monad" where
  "system_write_byte laddr data = system_tlb_write laddr (le_bytes 1 data)"

definition system_write_word :: "32 word \<Rightarrow> 16 word \<Rightarrow> unit cpu_monad" where
  "system_write_word laddr data = system_tlb_write laddr (le_bytes 2 data)"

definition system_write_dword :: "32 word \<Rightarrow> 32 word \<Rightarrow> unit cpu_monad" where
  "system_write_dword laddr data = system_tlb_write laddr (le_bytes 4 data)"

definition v2h_read_byte :: "32 word \<Rightarrow> 32 word \<Rightarrow> 32 word cpu_monad" where
  "v2h_read_byte laddr user =
    bindM (getsM (\<lambda>st. TLB_entry st (BX_TLB_INDEX_OF laddr 0))) (\<lambda>tlbEntry.
      if tlb_lpf tlbEntry = LPFOf laddr \<and> accessBits tlbEntry AND user = 0
      then returnM (hostPageAddr tlbEntry OR PAGE_OFFSET laddr)
      else returnM 0)"

definition v2h_write_byte :: "32 word \<Rightarrow> 32 word \<Rightarrow> 32 word cpu_monad" where
  "v2h_write_byte laddr user =
    bindM (getsM (\<lambda>st. TLB_entry st (BX_TLB_INDEX_OF laddr 0))) (\<lambda>tlbEntry.
      if tlb_lpf tlbEntry = LPFOf laddr \<and> accessBits tlbEntry AND (0x2 OR user) = 0
      then seqM (modifyM (decWriteStamp (tlb_ppf tlbEntry)))
        (returnM (hostPageAddr tlbEntry OR PAGE_OFFSET laddr))
      else returnM 0)"

section \<open>No accessor touches the flags\<close>

lemma flag_neutral_checks [neutral_intros]:
  "flag_neutral (check_segment checks rights limit_ok s offset len)"
  "flag_neutral (check_alignment laddr m)" "flag_neutral assert_legacy_mode"
  unfolding check_segment_def check_alignment_def assert_legacy_mode_def alignment_check_def
  by (intro neutral_intros; simp add: with_flags_def)+

lemma flag_neutral_gets_addr [neutral_intros]:
  "flag_neutral (getsM (get_laddr32 s offset))" "flag_neutral (getsM CPL)" "flag_neutral (getsM user_pl)"
  "flag_neutral (getsM address_xlation)" "flag_neutral (getsM (\<lambda>st. TLB_entry st k))"
  by (intro neutral_intros; simp add: with_flags_def get_laddr32_def CPL_def)+

lemma flag_neutral_decWriteStamp [neutral_intros]: "flag_neutral (modifyM (decWriteStamp p))"
  by (intro neutral_intros) (simp add: decWriteStamp_def with_flags_def Let_def)

lemma flag_neutral_write [neutral_intros]:
  "flag_neutral (write_virtual_byte_32 s offset d_byte)"
  "flag_neutral (write_virtual_word_32 s offset d_word)"
  "flag_neutral (write_virtual_dword_32 s offset d_dword)"
  "flag_neutral (write_virtual_qword_32 s offset d_qword)"
  unfolding write_virtual_byte_32_def write_virtual_word_32_def write_virtual_dword_32_def write_virtual_qword_32_def Let_def
  by (intro neutral_intros)+

lemma flag_neutral_read [neutral_intros]:
  "flag_neutral (read_virtual_byte_32 s offset)"
  "flag_neutral (read_virtual_word_32 s offset)"
  "flag_neutral (read_virtual_dword_32 s offset)"
  "flag_neutral (read_virtual_qword_32 s offset)"
  unfolding read_virtual_byte_32_def read_virtual_word_32_def read_virtual_dword_32_def read_virtual_qword_32_def Let_def
  by (intro neutral_intros)+

lemma flag_neutral_read_RMW [neutral_intros]:
  "flag_neutral (read_RMW_virtual_byte_32 s offset)"
  "flag_neutral (read_RMW_virtual_word_32 s offset)"
  "flag_neutral (read_RMW_virtual_dword_32 s offset)"
  "flag_neutral (read_RMW_virtual_qword_32 s offset)"
  unfolding read_RMW_virtual_byte_32_def read_RMW_virtual_word_32_def read_RMW_virtual_dword_32_def read_RMW_virtual_qword_32_def Let_def
  by (intro neutral_intros)+

lemma flag_neutral_write_RMW [neutral_intros]:
  "flag_neutral (write_RMW_virtual_byte d_byte)"
  "flag_neutral (write_RMW_virtual_word d_word)"
  "flag_neutral (write_RMW_virtual_dword d_dword)"
  "flag_neutral (write_RMW_virtual_qword d_qword)"
  unfolding write_RMW_virtual_byte_def write_RMW_virtual_word_def write_RMW_virtual_dword_def write_RMW_virtual_qword_def Let_def
  by (intro neutral_intros)+

end
