(* ===== verification/SegCheck.thy ===== *)
theory SegCheck
  imports Access
begin

text \<open>
  What the segment checks of \<open>cpu/access.cc\<close> and \<open>cpu/access32.cc\<close> promise.
  \<open>seg_allows\<close> is the architectural rule: the segment is valid, present and of a
  type that allows the access, and every byte of the access is within its
  bounds, without wrap-around.  The access rights cached in the descriptor are
  an optimisation; \<open>seg_cache_ok\<close> is the invariant that makes the short test of
  the accessors agree with the rule.
\<close>

section \<open>The architectural rule\<close>

definition type_writable :: "8 word \<Rightarrow> bool" where
  "type_writable t \<longleftrightarrow> t \<in> {2, 3, 6, 7}"

definition type_readable :: "8 word \<Rightarrow> bool" where
  "type_readable t \<longleftrightarrow> t \<in> {0, 1, 2, 3, 4, 5, 6, 7, 10, 11, 14, 15}"

definition type_expand_down :: "8 word \<Rightarrow> bool" where
  "type_expand_down t \<longleftrightarrow> t \<in> {4, 5, 6, 7}"

definition seg_bounds :: "bx_segment_reg_t \<Rightarrow> nat \<Rightarrow> bool" where
  "seg_bounds seg a \<longleftrightarrow>
    (if type_expand_down (d_type (cache seg))
     then unat (limit_scaled (cache seg)) < a \<and> a \<le> unat (upper_limit seg)
     else a \<le> unat (limit_scaled (cache seg)))"

definition seg_allows :: "(8 word \<Rightarrow> bool) \<Rightarrow> bx_segment_reg_t \<Rightarrow> 32 word \<Rightarrow> nat \<Rightarrow> bool" where
  "seg_allows type_ok seg offset n \<longleftrightarrow>
    valid (cache seg) \<noteq> 0 \<and> d_p (cache seg) \<noteq> 0 \<and> type_ok (d_type (cache seg)) \<and>
    (\<forall>k < n. seg_bounds seg (unat offset + k))"

text \<open>An access of \<open>n\<close> bytes through segment register \<open>k\<close>, as the architecture has
  it: the segment rule, the alignment rule, then the linear access \<open>K\<close> at the
  current privilege level.  \<open>b\<close> are the rights the check leaves in the cached
  descriptor.\<close>

definition segmented_access ::
  "(8 word \<Rightarrow> bool) \<Rightarrow> nat \<Rightarrow> 32 word \<Rightarrow> nat \<Rightarrow> 32 word \<Rightarrow> (32 word \<Rightarrow> 32 word \<Rightarrow> 'a cpu_monad) \<Rightarrow>
    32 word \<Rightarrow> 'a cpu_monad" where
  "segmented_access type_ok n m k offset K b s =
    (let seg = sregs s k; s' = s\<lparr>sregs := (sregs s)(k := mark_valid b seg)\<rparr>;
         laddr = seg_base (cache seg) + offset in
     if \<not> seg_allows type_ok seg offset n then (Inl (Exception (int_number k) 0), s')
     else if alignment_check s \<noteq> 0 \<and> laddr AND m \<noteq> 0 then (Inl (Exception BX_AC_EXCEPTION 0), s')
     else K laddr (ucast (CPL s)) s')"

section \<open>The invariant of the cached rights\<close>

definition seg_cache_ok :: "bx_segment_reg_t \<Rightarrow> bool" where
  "seg_cache_ok seg \<longleftrightarrow> d_type (cache seg) < 16 \<and>
    (valid (cache seg) AND SegAccessROK \<noteq> 0 \<longrightarrow>
      d_p (cache seg) \<noteq> 0 \<and> d_type (cache seg) \<in> {0, 1, 2, 3, 10, 11, 14, 15} \<and>
      15 \<le> limit_scaled (cache seg)) \<and>
    (valid (cache seg) AND SegAccessWOK \<noteq> 0 \<longrightarrow>
      d_p (cache seg) \<noteq> 0 \<and> d_type (cache seg) \<in> {2, 3} \<and> 15 \<le> limit_scaled (cache seg))"

definition seg_caches_ok :: "bx_cpu_c \<Rightarrow> bool" where
  "seg_caches_ok s \<longleftrightarrow> (\<forall>k. seg_cache_ok (sregs s k))"

text \<open>The system state an ordinary instruction must not change: CR0, CR3 and CR4,
  the mode, the size of memory, and the segment registers but for the
  cached rights.  \<open>sys_inv S\<close> says that it is \<open>S\<close> and that the cached rights are
  sound.\<close>

type_synonym sys_state =
  "32 word \<times> 32 word \<times> 32 word \<times> 32 word \<times> 64 word \<times> (nat \<Rightarrow> bx_segment_reg_t)"

definition sys_view :: "bx_cpu_c \<Rightarrow> sys_state" where
  "sys_view s = (cr0 s, cr3 s, cr4 s, cpu_mode s, mem_len (bx_mem s),
    \<lambda>k. (sregs s k)\<lparr>cache := (cache (sregs s k))\<lparr>valid := 0\<rparr>\<rparr>)"

definition sys_inv :: "sys_state \<Rightarrow> bx_cpu_c \<Rightarrow> bool" where
  "sys_inv S s \<longleftrightarrow> seg_caches_ok s \<and> sys_view s = S"

section \<open>The full checks implement the rule\<close>

lemma unat_sub_le: "b \<le> a \<Longrightarrow> unat (a - b) = unat a - unat b" for a b :: "32 word"
  by (simp add: unat_sub word_le_nat_alt)

lemma beyond_limit_iff:
  assumes "0 < n" "n < 2 ^ 32"
  shows "beyond_limit seg offset (of_nat n) \<longleftrightarrow> unat (limit_scaled (cache seg)) < unat offset + (n - 1)"
proof -
  define l where "l = limit_scaled (cache seg)"
  have n1: "(of_nat n :: 32 word) - 1 = of_nat (n - 1)" using assms by (simp add: of_nat_diff)
  have un: "unat (of_nat (n - 1) :: 32 word) = n - 1" using assms by (intro unat_of_nat_32) simp
  show ?thesis
  proof (cases "of_nat (n - 1) > l")
    case True
    then have "unat l < n - 1" using un by (simp add: word_less_nat_alt)
    with True show ?thesis unfolding beyond_limit_def n1 l_def [symmetric] by simp
  next
    case False
    then have le: "of_nat (n - 1) \<le> l" by simp
    have "l - of_nat n + 1 = l - of_nat (n - 1)" using n1 by (simp add: algebra_simps)
    then have "unat (l - of_nat n + 1) = unat l - (n - 1)"
      using unat_sub_le [OF le] un by (simp only:)
    moreover have "n - 1 \<le> unat l" using le un by (simp add: word_le_nat_alt)
    ultimately show ?thesis
      using False unfolding beyond_limit_def n1 l_def [symmetric] by (auto simp: word_less_nat_alt)
  qed
qed

lemma beyond_limit_ED_iff:
  assumes "0 < n" "n < 2 ^ 32"
  shows "beyond_limit_ED seg offset (of_nat n) \<longleftrightarrow>
    \<not> (unat (limit_scaled (cache seg)) < unat offset \<and> unat offset + (n - 1) \<le> unat (upper_limit seg))"
proof -
  have n1: "(of_nat n :: 32 word) - 1 = of_nat (n - 1)" using assms by (simp add: of_nat_diff)
  have un: "unat (of_nat (n - 1) :: 32 word) = n - 1" using assms by (intro unat_of_nat_32) simp
  show ?thesis
  proof (cases "offset \<le> upper_limit seg")
    case True
    then have "unat (upper_limit seg - offset) = unat (upper_limit seg) - unat offset"
      "unat offset \<le> unat (upper_limit seg)"
      by (simp_all add: unat_sub_le word_le_nat_alt)
    with True show ?thesis
      unfolding beyond_limit_ED_def n1 word_less_nat_alt word_le_nat_alt un by auto
  next
    case False
    then show ?thesis unfolding beyond_limit_ED_def word_less_nat_alt word_le_nat_alt by auto
  qed
qed

lemma all_bounds_iff:
  assumes "0 < n"
  shows "(\<forall>k < n. seg_bounds seg (unat offset + k)) \<longleftrightarrow>
    (if type_expand_down (d_type (cache seg))
     then unat (limit_scaled (cache seg)) < unat offset \<and> unat offset + (n - 1) \<le> unat (upper_limit seg)
     else unat offset + (n - 1) \<le> unat (limit_scaled (cache seg)))"
proof -
  have lo: "(\<forall>k < n. a < unat offset + k) \<longleftrightarrow> a < unat offset" for a
    using assms by (metis add.right_neutral trans_less_add1)
  have hi: "(\<forall>k < n. unat offset + k \<le> a) \<longleftrightarrow> unat offset + (n - 1) \<le> a" for a
    using assms by (auto dest!: spec [of _ "n - 1"])
  show ?thesis unfolding seg_bounds_def using lo hi by (simp add: all_conj_distrib imp_conjR)
qed

lemma type_cases16:
  assumes "t < (16 :: 8 word)"
  shows "t \<in> {0, 1, 2, 3, 4, 5, 6, 7, 8, 9, 10, 11, 12, 13, 14, 15}"
proof -
  have "unat t < 16" using assms by (simp add: word_less_nat_alt)
  then have "unat t \<in> {0, 1, 2, 3, 4, 5, 6, 7, 8, 9, 10, 11, 12, 13, 14, 15}"
    unfolding insert_iff empty_iff by presburger
  then have "of_nat (unat t) \<in> (of_nat :: nat \<Rightarrow> 8 word) ` {0, 1, 2, 3, 4, 5, 6, 7, 8, 9, 10, 11, 12, 13, 14, 15}"
    by (rule imageI)
  then show ?thesis by simp
qed

lemma write_checks_iff:
  assumes "d_type (cache seg) < 16" "0 < n" "n < 2 ^ 32"
  shows "fst (write_virtual_checks seg offset (of_nat n)) \<longleftrightarrow> seg_allows type_writable seg offset n"
  using type_cases16 [OF assms(1)] beyond_limit_iff [OF assms(2,3), of seg offset]
    beyond_limit_ED_iff [OF assms(2,3), of seg offset] all_bounds_iff [OF assms(2), of seg offset]
  unfolding write_virtual_checks_def seg_allows_def type_writable_def type_expand_down_def Let_def
  by (elim insertE emptyE; simp add: not_less)

lemma read_checks_iff:
  assumes "d_type (cache seg) < 16" "0 < n" "n < 2 ^ 32"
  shows "fst (read_virtual_checks seg offset (of_nat n)) \<longleftrightarrow> seg_allows type_readable seg offset n"
  using type_cases16 [OF assms(1)] beyond_limit_iff [OF assms(2,3), of seg offset]
    beyond_limit_ED_iff [OF assms(2,3), of seg offset] all_bounds_iff [OF assms(2), of seg offset]
  unfolding read_virtual_checks_def seg_allows_def type_readable_def type_expand_down_def Let_def
  by (elim insertE emptyE; simp add: not_less)

text \<open>A check changes nothing but the cached rights, and never records a right the
  segment does not have.\<close>

lemma mark_valid_fields [simp]:
  "d_p (cache (mark_valid b seg)) = d_p (cache seg)"
  "d_type (cache (mark_valid b seg)) = d_type (cache seg)"
  "limit_scaled (cache (mark_valid b seg)) = limit_scaled (cache seg)"
  "seg_base (cache (mark_valid b seg)) = seg_base (cache seg)"
  "seg_d_b (cache (mark_valid b seg)) = seg_d_b (cache seg)"
  "selector (mark_valid b seg) = selector seg"
  "valid (cache (mark_valid b seg)) = valid (cache seg) OR b"
  by (simp_all add: mark_valid_def)

lemma mark_valid_0 [simp]: "mark_valid 0 seg = seg"
  by (simp add: mark_valid_def)

lemma rights_bits:
  "(v OR SegAccessROK) AND SegAccessROK \<noteq> 0" "(v OR SegAccessROK) AND SegAccessWOK = v AND SegAccessWOK"
  "(v OR (SegAccessROK OR SegAccessWOK)) AND SegAccessROK \<noteq> 0"
  "(v OR (SegAccessROK OR SegAccessWOK)) AND SegAccessWOK \<noteq> 0"
  unfolding SegAccessROK_def SegAccessWOK_def by (simp_all add: bit.conj_disj_distrib2 or_eq_0_iff)

lemma write_checks_result:
  "\<exists>b. snd (write_virtual_checks seg offset len) = mark_valid b seg"
  unfolding write_virtual_checks_def Let_def
  by (auto split: if_splits intro: exI [of _ 0] exI [of _ "SegAccessROK OR SegAccessWOK"])

lemma read_checks_result:
  "\<exists>b. snd (read_virtual_checks seg offset len) = mark_valid b seg"
  unfolding read_virtual_checks_def Let_def
  by (auto split: if_splits intro: exI [of _ 0] exI [of _ SegAccessROK])

lemma checks_keep_cache_ok:
  assumes "seg_cache_ok seg"
  shows "seg_cache_ok (snd (write_virtual_checks seg offset len))"
    and "seg_cache_ok (snd (read_virtual_checks seg offset len))"
    and "seg_cache_ok (snd (execute_virtual_checks seg offset len))"
proof -
  have w: "seg_cache_ok (mark_valid (SegAccessROK OR SegAccessWOK) seg)"
    if "d_type (cache seg) \<in> {2, 3}" "15 \<le> limit_scaled (cache seg)" "d_p (cache seg) \<noteq> 0"
    using that unfolding seg_cache_ok_def by (auto simp: rights_bits)
  have r: "seg_cache_ok (mark_valid SegAccessROK seg)"
    if "d_type (cache seg) \<in> {0, 1, 2, 3, 10, 11, 14, 15}" "15 \<le> limit_scaled (cache seg)" "d_p (cache seg) \<noteq> 0"
    using that assms unfolding seg_cache_ok_def by (auto simp: rights_bits)
  show "seg_cache_ok (snd (write_virtual_checks seg offset len))"
    using assms w unfolding write_virtual_checks_def Let_def by (auto split: if_splits)
  show "seg_cache_ok (snd (read_virtual_checks seg offset len))"
    using assms r unfolding read_virtual_checks_def Let_def by (auto split: if_splits)
  show "seg_cache_ok (snd (execute_virtual_checks seg offset len))"
    using assms r unfolding execute_virtual_checks_def Let_def by (auto split: if_splits)
qed

section \<open>The accessors' test\<close>

text \<open>What an accessor relies on: a full check that implements the rule for its
  width, a right that is recorded only for segments that have it, and a short
  limit test that is exact for the limits such segments have.\<close>

locale segment_check =
  fixes checks :: "bx_segment_reg_t \<Rightarrow> 32 word \<Rightarrow> 32 word \<Rightarrow> bool \<times> bx_segment_reg_t"
    and rights :: "32 word" and type_ok :: "8 word \<Rightarrow> bool"
    and n :: nat and w :: "32 word" and limit_ok :: "32 word \<Rightarrow> 32 word \<Rightarrow> bool"
  assumes width: "0 < n" "w = of_nat n"
    and checks_rule: "d_type (cache seg) < 16 \<Longrightarrow> fst (checks seg offset w) \<longleftrightarrow> seg_allows type_ok seg offset n"
    and checks_result: "\<exists>b. snd (checks seg offset w) = mark_valid b seg"
    and checks_ok: "seg_cache_ok seg \<Longrightarrow> seg_cache_ok (snd (checks seg offset w))"
    and limit_rule: "15 \<le> l \<Longrightarrow> limit_ok offset l \<longleftrightarrow> unat offset + (n - 1) \<le> unat l"
    and rights_rule: "seg_cache_ok seg \<Longrightarrow> valid (cache seg) AND rights \<noteq> 0 \<Longrightarrow>
      d_p (cache seg) \<noteq> 0 \<and> type_ok (d_type (cache seg)) \<and>
      \<not> type_expand_down (d_type (cache seg)) \<and> 15 \<le> limit_scaled (cache seg)"
begin

lemma cached_rule:
  assumes "seg_cache_ok seg" "valid (cache seg) AND rights \<noteq> 0"
  shows "limit_ok offset (limit_scaled (cache seg)) \<longleftrightarrow> seg_allows type_ok seg offset n"
proof -
  have "valid (cache seg) \<noteq> 0" using assms(2) by auto
  then show ?thesis
    using rights_rule [OF assms] limit_rule [of "limit_scaled (cache seg)" offset] all_bounds_iff [OF width(1), of seg offset]
    by (simp add: seg_allows_def)
qed

lemma run:
  assumes "seg_cache_ok (sregs s k)"
  shows "\<exists>b. check_segment checks rights (limit_ok offset) k offset w s =
    (if seg_allows type_ok (sregs s k) offset n then Inr () else Inl (Exception (int_number k) 0),
     s\<lparr>sregs := (sregs s)(k := mark_valid b (sregs s k))\<rparr>)"
proof (cases "valid (cache (sregs s k)) AND rights \<noteq> 0")
  case True
  have "s\<lparr>sregs := (sregs s)(k := mark_valid 0 (sregs s k))\<rparr> = s" by simp
  then show ?thesis
    using cached_rule [OF assms True, of offset] True
    by (intro exI [of _ 0]) (simp add: check_segment_def monad_simps)
next
  case False
  obtain b where "snd (checks (sregs s k) offset w) = mark_valid b (sregs s k)"
    using checks_result by blast
  moreover have "fst (checks (sregs s k) offset w) \<longleftrightarrow> seg_allows type_ok (sregs s k) offset n"
    using assms by (intro checks_rule) (simp add: seg_cache_ok_def)
  ultimately have "checks (sregs s k) offset w = (seg_allows type_ok (sregs s k) offset n, mark_valid b (sregs s k))"
    by (simp add: prod_eq_iff)
  with False show ?thesis by (intro exI [of _ b]) (simp add: check_segment_def monad_simps)
qed

lemma access:
  assumes "seg_cache_ok (sregs s k)" "cpu_mode s \<noteq> BX_MODE_LONG_64"
  shows "\<exists>b. seqM assert_legacy_mode (seqM (check_segment checks rights (limit_ok offset) k offset w)
      (bindM (getsM (get_laddr32 k offset)) (\<lambda>laddr. seqM (check_alignment laddr m)
      (bindM (getsM CPL) (\<lambda>cpl. K laddr (ucast cpl)))))) s =
    segmented_access type_ok n m k offset K b s"
proof -
  obtain b where b: "check_segment checks rights (limit_ok offset) k offset w s =
    (if seg_allows type_ok (sregs s k) offset n then Inr () else Inl (Exception (int_number k) 0),
     s\<lparr>sregs := (sregs s)(k := mark_valid b (sregs s k))\<rparr>)"
    using run [OF assms(1)] by blast
  have "CPL (s\<lparr>sregs := (sregs s)(k := mark_valid b (sregs s k))\<rparr>) = CPL s"
    "alignment_check (s\<lparr>sregs := (sregs s)(k := mark_valid b (sregs s k))\<rparr>) = alignment_check s"
    by (simp_all add: CPL_def alignment_check_def)
  with assms(2) show ?thesis
    by (intro exI [of _ b]) (simp add: segmented_access_def Let_def b assert_legacy_mode_def BX_ASSERT_def
      check_alignment_def get_laddr32_def monad_simps)
qed

lemma keeps_sys: "keeps (sys_inv S) (check_segment checks rights l k offset w)"
proof (rule keepsI)
  fix s assume inv: "sys_inv S s"
  then have ok: "seg_cache_ok (snd (checks (sregs s k) offset w))"
    by (intro checks_ok) (simp add: sys_inv_def seg_caches_ok_def)
  obtain b where "snd (checks (sregs s k) offset w) = mark_valid b (sregs s k)"
    using checks_result by blast
  then have "sys_view (s\<lparr>sregs := (sregs s)(k := snd (checks (sregs s k) offset w))\<rparr>) = sys_view s"
    by (simp add: sys_view_def mark_valid_def fun_eq_iff)
  with inv ok show "sys_inv S (snd (check_segment checks rights l k offset w s))"
    by (auto simp: check_segment_def monad_simps sys_inv_def seg_caches_ok_def split: prod.split)
qed

end

lemma cached_rights:
  assumes "seg_cache_ok seg"
  shows "valid (cache seg) AND SegAccessWOK \<noteq> 0 \<Longrightarrow> d_p (cache seg) \<noteq> 0 \<and> type_writable (d_type (cache seg)) \<and>
      \<not> type_expand_down (d_type (cache seg)) \<and> 15 \<le> limit_scaled (cache seg)"
    and "valid (cache seg) AND SegAccessROK \<noteq> 0 \<Longrightarrow> d_p (cache seg) \<noteq> 0 \<and> type_readable (d_type (cache seg)) \<and>
      \<not> type_expand_down (d_type (cache seg)) \<and> 15 \<le> limit_scaled (cache seg)"
  using assms unfolding seg_cache_ok_def type_writable_def type_readable_def type_expand_down_def by auto

lemma short_limit_tests:
  assumes "15 \<le> (l :: 32 word)"
  shows "offset \<le> l \<longleftrightarrow> unat offset + (1 - 1) \<le> unat l"
    and "offset < l \<longleftrightarrow> unat offset + (2 - 1) \<le> unat l"
    and "offset < l - 2 \<longleftrightarrow> unat offset + (4 - 1) \<le> unat l"
    and "offset \<le> l - 7 \<longleftrightarrow> unat offset + (8 - 1) \<le> unat l"
proof -
  have l: "15 \<le> unat l" using assms by (simp add: word_le_nat_alt)
  have "unat (l - 2) = unat l - 2" "unat (l - 7) = unat l - 7"
    using l by (auto simp: unat_sub_le word_le_nat_alt)
  with l show "offset \<le> l \<longleftrightarrow> unat offset + (1 - 1) \<le> unat l" "offset < l \<longleftrightarrow> unat offset + (2 - 1) \<le> unat l"
    "offset < l - 2 \<longleftrightarrow> unat offset + (4 - 1) \<le> unat l" "offset \<le> l - 7 \<longleftrightarrow> unat offset + (8 - 1) \<le> unat l"
    unfolding word_le_nat_alt word_less_nat_alt by auto
qed

interpretation w1: segment_check write_virtual_checks SegAccessWOK type_writable 1 1 "\<lambda>offset l. offset \<le> l"
  using write_checks_iff [where n = 1] write_checks_result cached_rights
  by unfold_locales (simp_all add: checks_keep_cache_ok word_le_nat_alt)

interpretation w2: segment_check write_virtual_checks SegAccessWOK type_writable 2 2 "\<lambda>offset l. offset < l"
  using write_checks_iff [where n = 2] write_checks_result short_limit_tests(2) cached_rights
  by unfold_locales (simp_all add: checks_keep_cache_ok)

interpretation w4: segment_check write_virtual_checks SegAccessWOK type_writable 4 4 "\<lambda>offset l. offset < l - 2"
  using write_checks_iff [where n = 4] write_checks_result short_limit_tests(3) cached_rights
  by unfold_locales (simp_all add: checks_keep_cache_ok)

interpretation w8: segment_check write_virtual_checks SegAccessWOK type_writable 8 8 "\<lambda>offset l. offset \<le> l - 7"
  using write_checks_iff [where n = 8] write_checks_result short_limit_tests(4) cached_rights
  by unfold_locales (simp_all add: checks_keep_cache_ok)

interpretation r1: segment_check read_virtual_checks SegAccessROK type_readable 1 1 "\<lambda>offset l. offset \<le> l"
  using read_checks_iff [where n = 1] read_checks_result cached_rights
  by unfold_locales (simp_all add: checks_keep_cache_ok word_le_nat_alt)

interpretation r2: segment_check read_virtual_checks SegAccessROK type_readable 2 2 "\<lambda>offset l. offset < l"
  using read_checks_iff [where n = 2] read_checks_result short_limit_tests(2) cached_rights
  by unfold_locales (simp_all add: checks_keep_cache_ok)

interpretation r4: segment_check read_virtual_checks SegAccessROK type_readable 4 4 "\<lambda>offset l. offset < l - 2"
  using read_checks_iff [where n = 4] read_checks_result short_limit_tests(3) cached_rights
  by unfold_locales (simp_all add: checks_keep_cache_ok)

interpretation r8: segment_check read_virtual_checks SegAccessROK type_readable 8 8 "\<lambda>offset l. offset \<le> l - 7"
  using read_checks_iff [where n = 8] read_checks_result short_limit_tests(4) cached_rights
  by unfold_locales (simp_all add: checks_keep_cache_ok)

section \<open>The invariant is kept by every access\<close>

lemma keeps_modify: "(\<And>s. sys_inv S (f s) = sys_inv S s) \<Longrightarrow> keeps (sys_inv S) (modifyM f)"
  by (simp add: keeps_def monad_simps)

lemma sys_inv_fields [simp]:
  "sys_inv S (s\<lparr>gen_reg := r\<rparr>) = sys_inv S s" "sys_inv S (s\<lparr>eflags := x1\<rparr>) = sys_inv S s"
  "sys_inv S (s\<lparr>lf_flags_status := x2\<rparr>) = sys_inv S s" "sys_inv S (s\<lparr>oszapc := x3\<rparr>) = sys_inv S s"
  "sys_inv S (s\<lparr>cr2 := x4\<rparr>) = sys_inv S s" "sys_inv S (s\<lparr>address_xlation := x5\<rparr>) = sys_inv S s"
  "sys_inv S (s\<lparr>TLB_split_large := x6\<rparr>) = sys_inv S s" "sys_inv S (s\<lparr>pageWriteStampTable := x7\<rparr>) = sys_inv S s"
  "sys_inv S (s\<lparr>bx_mem := (bx_mem s)\<lparr>vector := x8\<rparr>\<rparr>) = sys_inv S s"
  "sys_inv S (s\<lparr>lf_flags_status := x2, oszapc := x3\<rparr>) = sys_inv S s"
  "sys_inv S (s\<lparr>eflags := x1, lf_flags_status := x2, oszapc := x3\<rparr>) = sys_inv S s"
  by (simp_all add: sys_inv_def sys_view_def seg_caches_ok_def)

lemma keeps_phys [keeps_intros]:
  "keeps (sys_inv S) (access_write_physical addr data)" "keeps (sys_inv S) (access_read_physical addr len)"
  "keeps (sys_inv S) (host_read a len)" "keeps (sys_inv S) (host_write a data)"
  unfolding phys_defs host_read_def host_write_def
  by (intro keeps_intros keeps_modify; simp)+

lemma keeps_misc [keeps_intros]:
  "keeps (sys_inv S) (page_fault f laddr user rw)" "keeps (sys_inv S) (read_entry a)"
  "keeps (sys_inv S) (write_entry a e)" "keeps (sys_inv S) (xlation g)"
  "keeps (sys_inv S) (modifyM (decWriteStamp p))" "keeps (sys_inv S) (check_alignment laddr m)"
  "keeps (sys_inv S) assert_legacy_mode" "keeps (sys_inv S) (BX_ASSERT b)"
  unfolding page_fault_def read_entry_def write_entry_def xlation_def decWriteStamp_def check_alignment_def
    assert_legacy_mode_def BX_ASSERT_def Let_def
  by (intro keeps_intros keeps_modify; simp)+

lemma keeps_translate [keeps_intros]: "keeps (sys_inv S) (dtranslate_linear laddr pl rw)"
  unfolding dtranslate_linear_def translate_linear_def translate_linear_4M_def translate_linear_4K_def Let_def
  by (intro keeps_intros keeps_modify; simp)

lemma keeps_linear [keeps_intros]:
  "keeps (sys_inv S) (access_write_linear laddr pl data)" "keeps (sys_inv S) (access_read_linear laddr m pl rw)"
  unfolding access_write_linear_def access_read_linear_def Let_def by (intro keeps_intros)+

lemmas keeps_checks [keeps_intros] = w1.keeps_sys w2.keeps_sys w4.keeps_sys w8.keeps_sys
  r1.keeps_sys r2.keeps_sys r4.keeps_sys r8.keeps_sys

lemma keeps_accessors [keeps_intros]:
  "keeps (sys_inv S) (write_virtual_byte_32 k offset v8)" "keeps (sys_inv S) (write_virtual_word_32 k offset v16)"
  "keeps (sys_inv S) (write_virtual_dword_32 k offset v32)" "keeps (sys_inv S) (write_virtual_qword_32 k offset v64)"
  "keeps (sys_inv S) (read_virtual_byte_32 k offset)" "keeps (sys_inv S) (read_virtual_word_32 k offset)"
  "keeps (sys_inv S) (read_virtual_dword_32 k offset)" "keeps (sys_inv S) (read_virtual_qword_32 k offset)"
  "keeps (sys_inv S) (read_RMW_virtual_byte_32 k offset)" "keeps (sys_inv S) (read_RMW_virtual_word_32 k offset)"
  "keeps (sys_inv S) (read_RMW_virtual_dword_32 k offset)" "keeps (sys_inv S) (read_RMW_virtual_qword_32 k offset)"
  "keeps (sys_inv S) (write_RMW_virtual_byte v8)" "keeps (sys_inv S) (write_RMW_virtual_word v16)"
  "keeps (sys_inv S) (write_RMW_virtual_dword v32)" "keeps (sys_inv S) (write_RMW_virtual_qword v64)"
  unfolding write_virtual_byte_32_def write_virtual_word_32_def write_virtual_dword_32_def write_virtual_qword_32_def
    read_virtual_byte_32_def read_virtual_word_32_def read_virtual_dword_32_def read_virtual_qword_32_def
    read_RMW_virtual_byte_32_def read_RMW_virtual_word_32_def read_RMW_virtual_dword_32_def
    read_RMW_virtual_qword_32_def write_RMW_virtual_byte_def write_RMW_virtual_word_def
    write_RMW_virtual_dword_def write_RMW_virtual_qword_def Let_def
  by (intro keeps_intros)+

end
