(* ===== verification/Instr.thy ===== *)
theory Instr
  imports Access
begin

text \<open>
  The decoded instruction (\<open>cpu/instr.h\<close>), the effective-address functions
  (\<open>cpu/resolver.cc\<close>) and the handlers that load a memory operand into the
  temporary register before calling the register form of an instruction
  (\<open>cpu/load32.cc\<close>).  \<open>execute2\<close>, a pointer to a member function in the code, is
  an argument of the three load handlers.
\<close>

section \<open>Decoded instructions\<close>

datatype BxResolvePtr_tR =
    BxResolve_null
  | BxResolve16BaseIndex_ptr
  | BxResolve32Base_ptr
  | BxResolve32BaseIndex_ptr

text \<open>The immediate and displacement unions are their widest member; the
  narrower members read its low bytes (little-endian layout).\<close>

record bxInstruction_c =
  resolve_ptr :: BxResolvePtr_tR
  ia_opcode :: "16 word"
  metaInfo2 :: "8 word"
  metaInfo1 :: "8 word"
  metaData :: "nat \<Rightarrow> 8 word"
  modRMForm_Id :: "32 word"
  modRMForm_displ32u :: "32 word"

definition seg :: "bxInstruction_c \<Rightarrow> nat" where "seg i = unat (metaData i 0)"
definition b1 :: "bxInstruction_c \<Rightarrow> 32 word" where "b1 i = ucast (metaData i 1)"
definition nnn :: "bxInstruction_c \<Rightarrow> nat" where "nnn i = unat (metaData i 2)"
definition rm :: "bxInstruction_c \<Rightarrow> nat" where "rm i = unat (metaData i 3)"
definition opcodeReg :: "bxInstruction_c \<Rightarrow> nat" where "opcodeReg i = unat (metaData i 3)"
definition sibBase :: "bxInstruction_c \<Rightarrow> nat" where "sibBase i = unat (metaData i 4)"
definition sibIndex :: "bxInstruction_c \<Rightarrow> nat" where "sibIndex i = unat (metaData i 5)"
definition sibScale :: "bxInstruction_c \<Rightarrow> nat" where "sibScale i = unat (metaData i 6)"
definition displ32s :: "bxInstruction_c \<Rightarrow> 32 word" where "displ32s i = modRMForm_displ32u i"
definition displ16s :: "bxInstruction_c \<Rightarrow> 16 word" where "displ16s i = ucast (modRMForm_displ32u i)"
definition Id :: "bxInstruction_c \<Rightarrow> 32 word" where "Id i = modRMForm_Id i"
definition Iw :: "bxInstruction_c \<Rightarrow> 16 word" where "Iw i = ucast (modRMForm_Id i)"
definition Ib :: "bxInstruction_c \<Rightarrow> 8 word" where "Ib i = ucast (modRMForm_Id i)"
definition Ib2 :: "bxInstruction_c \<Rightarrow> 8 word" where "Ib2 i = ucast (modRMForm_displ32u i)"

definition init_instr :: "32 word \<Rightarrow> 32 word \<Rightarrow> bxInstruction_c \<Rightarrow> bxInstruction_c" where
  "init_instr os32 as32 i = i\<lparr>metaInfo1 := ucast (push_bit 3 os32 OR push_bit 4 as32)\<rparr>"

definition os32L :: "bxInstruction_c \<Rightarrow> 32 word" where "os32L i = ucast (metaInfo1 i) AND push_bit 3 1"
definition as32L :: "bxInstruction_c \<Rightarrow> 32 word" where "as32L i = ucast (metaInfo1 i) AND push_bit 4 1"
definition ilen :: "bxInstruction_c \<Rightarrow> 32 word" where "ilen i = ucast (metaInfo2 i)"

definition setOs32B :: "32 word \<Rightarrow> bxInstruction_c \<Rightarrow> bxInstruction_c" where
  "setOs32B b i = i\<lparr>metaInfo1 := (metaInfo1 i AND NOT (push_bit 3 1)) OR ucast (push_bit 3 b)\<rparr>"
definition setAs32B :: "32 word \<Rightarrow> bxInstruction_c \<Rightarrow> bxInstruction_c" where
  "setAs32B b i = i\<lparr>metaInfo1 := (metaInfo1 i AND NOT (push_bit 4 1)) OR ucast (push_bit 4 b)\<rparr>"
definition assertModC0 :: "bxInstruction_c \<Rightarrow> bxInstruction_c" where
  "assertModC0 i = i\<lparr>metaInfo1 := metaInfo1 i OR push_bit 2 1\<rparr>"
definition setRepUsed :: "32 word \<Rightarrow> bxInstruction_c \<Rightarrow> bxInstruction_c" where
  "setRepUsed v i = i\<lparr>metaInfo1 := (metaInfo1 i AND NOT 3) OR ucast v\<rparr>"
definition setILen :: "32 word \<Rightarrow> bxInstruction_c \<Rightarrow> bxInstruction_c" where
  "setILen v i = i\<lparr>metaInfo2 := ucast v\<rparr>"

definition setMetaData :: "nat \<Rightarrow> 32 word \<Rightarrow> bxInstruction_c \<Rightarrow> bxInstruction_c" where
  "setMetaData k v i = i\<lparr>metaData := (metaData i)(k := ucast v)\<rparr>"

section \<open>Effective addresses\<close>

definition BxResolve16BaseIndex :: "bxInstruction_c \<Rightarrow> bx_cpu_c \<Rightarrow> 32 word" where
  "BxResolve16BaseIndex i s =
    ucast (BX_READ_16BIT_REG (sibBase i) s + BX_READ_16BIT_REG (sibIndex i) s + displ16s i)"

definition BxResolve32Base :: "bxInstruction_c \<Rightarrow> bx_cpu_c \<Rightarrow> 32 word" where
  "BxResolve32Base i s = BX_READ_32BIT_REG (sibBase i) s + displ32s i"

definition BxResolve32BaseIndex :: "bxInstruction_c \<Rightarrow> bx_cpu_c \<Rightarrow> 32 word" where
  "BxResolve32BaseIndex i s =
    BX_READ_32BIT_REG (sibBase i) s + push_bit (sibScale i) (BX_READ_32BIT_REG (sibIndex i) s) +
    displ32s i"

text \<open>\<open>BX_CPU_CALL_METHODR(i->ResolveModrm, (i))\<close>: the call through the pointer the
  decoder stored; the null pointer is a fault of the host.\<close>

definition ResolveModrm :: "bxInstruction_c \<Rightarrow> 32 word cpu_monad" where
  "ResolveModrm i = (case resolve_ptr i of
      BxResolve_null \<Rightarrow> raiseM (HostFault 0)
    | BxResolve16BaseIndex_ptr \<Rightarrow> getsM (BxResolve16BaseIndex i)
    | BxResolve32Base_ptr \<Rightarrow> getsM (BxResolve32Base i)
    | BxResolve32BaseIndex_ptr \<Rightarrow> getsM (BxResolve32BaseIndex i))"

section \<open>Loading a memory operand\<close>

definition LOAD_Eb ::
  "(bxInstruction_c \<Rightarrow> unit cpu_monad) \<Rightarrow> bxInstruction_c \<Rightarrow> unit cpu_monad" where
  "LOAD_Eb execute2 i =
    bindM (ResolveModrm i) (\<lambda>eaddr.
    bindM (read_virtual_byte_32 (seg i) eaddr) (\<lambda>data.
    seqM (modifyM (set_TMP8L data))
    (execute2 i)))"

definition LOAD_Ew ::
  "(bxInstruction_c \<Rightarrow> unit cpu_monad) \<Rightarrow> bxInstruction_c \<Rightarrow> unit cpu_monad" where
  "LOAD_Ew execute2 i =
    bindM (ResolveModrm i) (\<lambda>eaddr.
    bindM (read_virtual_word_32 (seg i) eaddr) (\<lambda>data.
    seqM (modifyM (set_TMP16 data))
    (execute2 i)))"

definition LOAD_Ed ::
  "(bxInstruction_c \<Rightarrow> unit cpu_monad) \<Rightarrow> bxInstruction_c \<Rightarrow> unit cpu_monad" where
  "LOAD_Ed execute2 i =
    bindM (ResolveModrm i) (\<lambda>eaddr.
    bindM (read_virtual_dword_32 (seg i) eaddr) (\<lambda>data.
    seqM (modifyM (set_TMP32 data))
    (execute2 i)))"

section \<open>Neutrality\<close>

lemma neutral_reg_read [simp]:
  "BX_READ_8BIT_REG k (with_flags e l z s) = BX_READ_8BIT_REG k s"
  "BX_READ_8BIT_REGH k (with_flags e l z s) = BX_READ_8BIT_REGH k s"
  "BX_READ_16BIT_REG k (with_flags e l z s) = BX_READ_16BIT_REG k s"
  "BX_READ_32BIT_REG k (with_flags e l z s) = BX_READ_32BIT_REG k s"
  "AL (with_flags e l z s) = AL s" "AH (with_flags e l z s) = AH s" "AX (with_flags e l z s) = AX s"
  "BX (with_flags e l z s) = BX s" "SP (with_flags e l z s) = SP s" "EAX (with_flags e l z s) = EAX s"
  "ECX (with_flags e l z s) = ECX s" "EDX (with_flags e l z s) = EDX s" "EBX (with_flags e l z s) = EBX s"
  "ESP (with_flags e l z s) = ESP s"
  by (simp_all add: reg_defs with_flags_def)

lemma neutral_reg_write [simp]:
  "BX_WRITE_8BIT_REG k v8 (with_flags e l z s) = with_flags e l z (BX_WRITE_8BIT_REG k v8 s)"
  "BX_WRITE_8BIT_REGH k v8 (with_flags e l z s) = with_flags e l z (BX_WRITE_8BIT_REGH k v8 s)"
  "BX_WRITE_16BIT_REG k v16 (with_flags e l z s) = with_flags e l z (BX_WRITE_16BIT_REG k v16 s)"
  "BX_WRITE_32BIT_REGZ k v32 (with_flags e l z s) = with_flags e l z (BX_WRITE_32BIT_REGZ k v32 s)"
  "set_AL v8 (with_flags e l z s) = with_flags e l z (set_AL v8 s)"
  "set_AH v8 (with_flags e l z s) = with_flags e l z (set_AH v8 s)"
  "set_AX v16 (with_flags e l z s) = with_flags e l z (set_AX v16 s)"
  "set_DX v16 (with_flags e l z s) = with_flags e l z (set_DX v16 s)"
  "set_SP v16 (with_flags e l z s) = with_flags e l z (set_SP v16 s)"
  "set_EAX v32 (with_flags e l z s) = with_flags e l z (set_EAX v32 s)"
  "set_EDX v32 (with_flags e l z s) = with_flags e l z (set_EDX v32 s)"
  "set_ESP v32 (with_flags e l z s) = with_flags e l z (set_ESP v32 s)"
  "set_TMP8L v8 (with_flags e l z s) = with_flags e l z (set_TMP8L v8 s)"
  "set_TMP16 v16 (with_flags e l z s) = with_flags e l z (set_TMP16 v16 s)"
  "set_TMP32 v32 (with_flags e l z s) = with_flags e l z (set_TMP32 v32 s)"
  by (simp_all add: reg_defs with_flags_def)

lemma neutral_sregs [simp]: "sregs (with_flags e l z s) = sregs s"
  by (simp add: with_flags_def)

lemma neutral_resolve [simp]:
  "BxResolve16BaseIndex i (with_flags e l z s) = BxResolve16BaseIndex i s"
  "BxResolve32Base i (with_flags e l z s) = BxResolve32Base i s"
  "BxResolve32BaseIndex i (with_flags e l z s) = BxResolve32BaseIndex i s"
  by (simp_all add: BxResolve16BaseIndex_def BxResolve32Base_def BxResolve32BaseIndex_def)

lemma flag_neutral_ResolveModrm [neutral_intros]: "flag_neutral (ResolveModrm i)"
  unfolding ResolveModrm_def
  by (cases "resolve_ptr i") (simp_all add: flag_neutral_raiseM flag_neutral_getsM)

end
