(* ===== verification/Refine.thy ===== *)
theory Refine
  imports Instr
begin

text \<open>
  The contract of the arithmetic and logical instructions and the refinement
  relation.  The reference processor keeps EFLAGS up to date: it reads its
  operands, computes the result and all six flags at once from the definitions
  of \<open>AluRef\<close>, and writes both.  A handler refines it when materialising the
  pending flags of the handler's final state gives the reference processor's
  outcome, faults included.
\<close>

section \<open>The reference operations\<close>

datatype alu_op = ALU_ADD | ALU_ADC | ALU_SUB | ALU_SBB | ALU_CMP | ALU_AND | ALU_OR | ALU_XOR | ALU_TEST

fun alu_result :: "alu_op \<Rightarrow> bool \<Rightarrow> 'a::len word \<Rightarrow> 'a word \<Rightarrow> 'a word" where
  "alu_result ALU_ADD c x y = x + y"
| "alu_result ALU_ADC c x y = x + y + of_bool c"
| "alu_result ALU_SUB c x y = x - y"
| "alu_result ALU_SBB c x y = x - y - of_bool c"
| "alu_result ALU_CMP c x y = x"
| "alu_result ALU_AND c x y = x AND y"
| "alu_result ALU_OR c x y = x OR y"
| "alu_result ALU_XOR c x y = x XOR y"
| "alu_result ALU_TEST c x y = x"

fun alu_flags :: "alu_op \<Rightarrow> bool \<Rightarrow> 'a::len word \<Rightarrow> 'a word \<Rightarrow> arith_flags" where
  "alu_flags ALU_ADD c x y = ref_add_flags x y False"
| "alu_flags ALU_ADC c x y = ref_add_flags x y c"
| "alu_flags ALU_SUB c x y = ref_sub_flags x y False"
| "alu_flags ALU_SBB c x y = ref_sub_flags x y c"
| "alu_flags ALU_CMP c x y = ref_sub_flags x y False"
| "alu_flags ALU_AND c x y = ref_logic_flags (x AND y)"
| "alu_flags ALU_OR c x y = ref_logic_flags (x OR y)"
| "alu_flags ALU_XOR c x y = ref_logic_flags (x XOR y)"
| "alu_flags ALU_TEST c x y = ref_logic_flags (x AND y)"

fun alu_writes :: "alu_op \<Rightarrow> bool" where
  "alu_writes ALU_CMP = False"
| "alu_writes ALU_TEST = False"
| "alu_writes _ = True"

definition spec_alu ::
  "alu_op \<Rightarrow> 'a::len word cpu_monad \<Rightarrow> 'a word cpu_monad \<Rightarrow> ('a word \<Rightarrow> unit cpu_monad) \<Rightarrow> unit cpu_monad"
where
  "spec_alu f rd1 rd2 wr =
    bindM (getsM (\<lambda>s. fCF (flags_of s))) (\<lambda>c.
    bindM rd1 (\<lambda>x.
    bindM rd2 (\<lambda>y.
    seqM (whenM (alu_writes f) (wr (alu_result f c x y)))
    (modifyM (put_flags (alu_flags f c x y))))))"

text \<open>Exchange-and-add and compare-and-exchange.\<close>

definition spec_xadd ::
  "'a::len word cpu_monad \<Rightarrow> 'a word cpu_monad \<Rightarrow> ('a word \<Rightarrow> 'a word \<Rightarrow> unit cpu_monad) \<Rightarrow> unit cpu_monad"
where
  "spec_xadd rd1 rd2 wr =
    bindM rd1 (\<lambda>x.
    bindM rd2 (\<lambda>y.
    seqM (wr (x + y) x)
    (modifyM (put_flags (ref_add_flags x y False)))))"

definition spec_cmpxchg ::
  "'a::len word cpu_monad \<Rightarrow> 'a word cpu_monad \<Rightarrow> 'a word cpu_monad \<Rightarrow> ('a word \<Rightarrow> unit cpu_monad) \<Rightarrow>
    ('a word \<Rightarrow> unit cpu_monad) \<Rightarrow> unit cpu_monad"
where
  "spec_cmpxchg rd acc src wr wr_acc =
    bindM rd (\<lambda>x.
    bindM acc (\<lambda>a.
    seqM (modifyM (put_flags (ref_sub_flags a x False)))
    (if a = x then bindM src wr else wr_acc x)))"

datatype una_op = ALU_INC | ALU_DEC | ALU_NEG | ALU_NOT

fun una_result :: "una_op \<Rightarrow> 'a::len word \<Rightarrow> 'a word" where
  "una_result ALU_INC x = x + 1"
| "una_result ALU_DEC x = x - 1"
| "una_result ALU_NEG x = - x"
| "una_result ALU_NOT x = NOT x"

fun una_flags :: "una_op \<Rightarrow> 'a::len word \<Rightarrow> arith_flags \<Rightarrow> arith_flags" where
  "una_flags ALU_INC x old = (ref_add_flags x 1 False)\<lparr>fCF := fCF old\<rparr>"
| "una_flags ALU_DEC x old = (ref_sub_flags x 1 False)\<lparr>fCF := fCF old\<rparr>"
| "una_flags ALU_NEG x old = ref_sub_flags 0 x False"
| "una_flags ALU_NOT x old = old"

definition upd_flags :: "(arith_flags \<Rightarrow> arith_flags) \<Rightarrow> bx_cpu_c \<Rightarrow> bx_cpu_c" where
  "upd_flags g s = put_flags (g (flags_of s)) s"

definition spec_una ::
  "una_op \<Rightarrow> 'a::len word cpu_monad \<Rightarrow> ('a word \<Rightarrow> unit cpu_monad) \<Rightarrow> unit cpu_monad" where
  "spec_una f rd wr =
    bindM rd (\<lambda>x.
    seqM (wr (una_result f x))
    (modifyM (upd_flags (una_flags f x))))"

text \<open>Where an operand is: a register, the immediate, or the memory operand of
  the instruction, read for modification or only read.\<close>

definition rmw_b :: "bxInstruction_c \<Rightarrow> 8 word cpu_monad" where
  "rmw_b i = bindM (ResolveModrm i) (read_RMW_virtual_byte_32 (seg i))"
definition rmw_w :: "bxInstruction_c \<Rightarrow> 16 word cpu_monad" where
  "rmw_w i = bindM (ResolveModrm i) (read_RMW_virtual_word_32 (seg i))"
definition rmw_d :: "bxInstruction_c \<Rightarrow> 32 word cpu_monad" where
  "rmw_d i = bindM (ResolveModrm i) (read_RMW_virtual_dword_32 (seg i))"
definition mem_b :: "bxInstruction_c \<Rightarrow> 8 word cpu_monad" where
  "mem_b i = bindM (ResolveModrm i) (read_virtual_byte_32 (seg i))"
definition mem_w :: "bxInstruction_c \<Rightarrow> 16 word cpu_monad" where
  "mem_w i = bindM (ResolveModrm i) (read_virtual_word_32 (seg i))"
definition mem_d :: "bxInstruction_c \<Rightarrow> 32 word cpu_monad" where
  "mem_d i = bindM (ResolveModrm i) (read_virtual_dword_32 (seg i))"

abbreviation (input) reg_b :: "nat \<Rightarrow> 8 word cpu_monad" where "reg_b k \<equiv> getsM (BX_READ_8BIT_REG k)"
abbreviation (input) reg_w :: "nat \<Rightarrow> 16 word cpu_monad" where "reg_w k \<equiv> getsM (BX_READ_16BIT_REG k)"
abbreviation (input) reg_d :: "nat \<Rightarrow> 32 word cpu_monad" where "reg_d k \<equiv> getsM (BX_READ_32BIT_REG k)"
abbreviation (input) put_b :: "nat \<Rightarrow> 8 word \<Rightarrow> unit cpu_monad" where
  "put_b k v \<equiv> modifyM (BX_WRITE_8BIT_REG k v)"
abbreviation (input) put_w :: "nat \<Rightarrow> 16 word \<Rightarrow> unit cpu_monad" where
  "put_w k v \<equiv> modifyM (BX_WRITE_16BIT_REG k v)"
abbreviation (input) put_d :: "nat \<Rightarrow> 32 word \<Rightarrow> unit cpu_monad" where
  "put_d k v \<equiv> modifyM (BX_WRITE_32BIT_REGZ k v)"

section \<open>The refinement relation\<close>

definition refines :: "'a cpu_monad \<Rightarrow> 'a cpu_monad \<Rightarrow> bool" where
  "refines m m' \<longleftrightarrow> (\<forall>s. m' (materialise s) = apsnd materialise (m s))"

named_theorems refine_intros

lemma refinesI: "(\<And>s. m' (materialise s) = apsnd materialise (m s)) \<Longrightarrow> refines m m'"
  by (simp add: refines_def)

lemma refines_neutral: "flag_neutral m \<Longrightarrow> refines m m"
  by (simp add: refines_def flag_neutral_materialise)

lemma refines_bindM [refine_intros]:
  assumes "refines m m'" "\<And>x. refines (k x) (k' x)"
  shows "refines (bindM m k) (bindM m' k')"
proof (rule refinesI)
  fix s
  obtain r t where ms: "m s = (r, t)" by (cases "m s")
  then have "m' (materialise s) = (r, materialise t)"
    using assms(1) by (simp add: refines_def)
  then show "bindM m' k' (materialise s) = apsnd materialise (bindM m k s)"
    using assms(2) ms by (cases r) (simp_all add: bindM_def refines_def)
qed

lemma refines_seqM [refine_intros]:
  "refines m m' \<Longrightarrow> refines n n' \<Longrightarrow> refines (seqM m n) (seqM m' n')"
  unfolding seqM_def by (intro refines_bindM)

lemma refines_if [refine_intros]:
  "b = b' \<Longrightarrow> (b' \<Longrightarrow> refines m m') \<Longrightarrow> (\<not> b' \<Longrightarrow> refines n n') \<Longrightarrow>
    refines (if b then m else n) (if b' then m' else n')"
  by simp

lemma refines_modifyM:
  "(\<And>s. g (materialise s) = materialise (f s)) \<Longrightarrow> refines (modifyM f) (modifyM g)"
  by (simp add: refines_def monad_simps)

lemma refines_getsM:
  "(\<And>s. g (materialise s) = f s) \<Longrightarrow> refines (getsM f) (getsM g)"
  by (simp add: refines_def monad_simps)

text \<open>Reading a flag gives the same value in both machines.\<close>

lemma refines_getB [refine_intros]:
  "refines (getsM getB_CF) (getsM getB_CF)" "refines (getsM getB_PF) (getsM getB_PF)"
  "refines (getsM getB_AF) (getsM getB_AF)" "refines (getsM getB_ZF) (getsM getB_ZF)"
  "refines (getsM getB_SF) (getsM getB_SF)" "refines (getsM getB_OF) (getsM getB_OF)"
  by (rule refines_getsM, simp add: getB_flag_eq)+

lemma refines_read_CF [refine_intros]:
  assumes "\<And>c. refines (k (of_bool c)) (k' c)"
  shows "refines (bindM (getsM getB_CF) k) (bindM (getsM (\<lambda>s. fCF (flags_of s))) k')"
proof (rule refinesI)
  fix s
  show "bindM (getsM (\<lambda>s. fCF (flags_of s))) k' (materialise s) =
      apsnd materialise (bindM (getsM getB_CF) k s)"
    using assms [of "fCF (flags_of s)"]
    by (simp add: bindM_def getsM_def getB_flag_eq refines_def)
qed

lemma refines_get:
  assumes "\<And>s. f (materialise s) = 0 \<longleftrightarrow> f s = 0" "\<And>x y. (x = 0) = (y = 0) \<Longrightarrow> refines (k x) (k' y)"
  shows "refines (bindM (getsM f) k) (bindM (getsM f) k')"
  using assms(1) assms(2) [of "f _" "f (materialise _)"]
  by (intro refinesI) (simp add: bindM_def getsM_def refines_def)

lemma get_flag_materialise:
  "get_CF (materialise s) = 0 \<longleftrightarrow> get_CF s = 0" "get_PF (materialise s) = 0 \<longleftrightarrow> get_PF s = 0"
  "get_AF (materialise s) = 0 \<longleftrightarrow> get_AF s = 0" "get_ZF (materialise s) = 0 \<longleftrightarrow> get_ZF s = 0"
  "get_SF (materialise s) = 0 \<longleftrightarrow> get_SF s = 0" "get_OF (materialise s) = 0 \<longleftrightarrow> get_OF s = 0"
  using get_flag_iff [of s] get_flag_iff [of "materialise s"] by auto

lemmas refines_get_flag [refine_intros] =
  refines_get [of get_CF, OF get_flag_materialise(1)] refines_get [of get_PF, OF get_flag_materialise(2)]
  refines_get [of get_AF, OF get_flag_materialise(3)] refines_get [of get_ZF, OF get_flag_materialise(4)]
  refines_get [of get_SF, OF get_flag_materialise(5)] refines_get [of get_OF, OF get_flag_materialise(6)]

text \<open>Recording an operation in the lazy flags is writing its flags.\<close>

lemma refines_put_flags:
  assumes "\<And>s. flags_of (f s) = v" "\<And>g s. put_flags g (f s) = put_flags g s"
  shows "refines (modifyM f) (modifyM (put_flags v))"
  using assms by (intro refines_modifyM) (simp add: materialise_eq)

lemma refines_upd_flags:
  assumes "\<And>s. flags_of (f s) = v (flags_of s)" "\<And>g s. put_flags g (f s) = put_flags g s"
  shows "refines (modifyM f) (modifyM (upd_flags v))"
  using assms by (intro refines_modifyM) (simp add: materialise_eq upd_flags_def)

lemma refines_keep_flags: "refines (returnM ()) (modifyM (upd_flags (\<lambda>f. f)))"
  by (simp add: refines_def monad_simps upd_flags_def materialise_eq)

lemma refines_not [refine_intros]:
  assumes "flag_neutral m"
  shows "refines m (seqM m (modifyM (upd_flags (una_flags ALU_NOT x))))"
proof -
  have "refines (seqM m (returnM ())) (seqM m (modifyM (upd_flags (una_flags ALU_NOT x))))"
    using refines_seqM [OF refines_neutral [OF assms] refines_keep_flags]
    by (simp add: upd_flags_def [abs_def])
  then show ?thesis by (simp add: seqM_def bindM_return_right)
qed

text \<open>Writing one flag, or OF and CF, directly.\<close>

lemma flag_set_bits:
  assumes "n < 32"
  shows "bit (eflags (flag_set (push_bit n 1) n (of_bool v) s)) k = (if k = n then v else bit (eflags s) k)"
    and "bit (lf_flags_status (flag_set (push_bit n 1) n (of_bool v) s)) k \<longleftrightarrow> k \<noteq> n \<and> bit (lf_flags_status s) k"
    and "oszapc (flag_set (push_bit n 1) n (of_bool v) s) = oszapc s"
proof -
  show "bit (eflags (flag_set (push_bit n 1) n (of_bool v) s)) k = (if k = n then v else bit (eflags s) k)"
  proof (cases "k < 32")
    case True
    with assms show ?thesis
      by (cases v) (auto simp: flag_set_def bit_or_iff bit_and_iff bit_not_iff bit_exp_iff)
  next
    case False
    with assms show ?thesis by (simp add: bit_beyond_length)
  qed
  show "bit (lf_flags_status (flag_set (push_bit n 1) n (of_bool v) s)) k \<longleftrightarrow> k \<noteq> n \<and> bit (lf_flags_status s) k"
    using assms
    by (cases "k < 32") (auto simp: flag_set_def bit_and_iff bit_not_iff bit_exp_iff bit_beyond_length)
  show "oszapc (flag_set (push_bit n 1) n (of_bool v) s) = oszapc s" by (simp add: flag_set_def)
qed

lemmas set_flag_defs = set_CF_def set_PF_def set_AF_def set_ZF_def set_SF_def set_OF_def
  EFlagsCFMask_def EFlagsPFMask_def EFlagsAFMask_def EFlagsZFMask_def EFlagsSFMask_def EFlagsOFMask_def

lemma flags_of_set [simp]:
  "flags_of (set_CF (of_bool v) s) = (flags_of s)\<lparr>fCF := v\<rparr>"
  "flags_of (set_PF (of_bool v) s) = (flags_of s)\<lparr>fPF := v\<rparr>"
  "flags_of (set_AF (of_bool v) s) = (flags_of s)\<lparr>fAF := v\<rparr>"
  "flags_of (set_ZF (of_bool v) s) = (flags_of s)\<lparr>fZF := v\<rparr>"
  "flags_of (set_SF (of_bool v) s) = (flags_of s)\<lparr>fSF := v\<rparr>"
  "flags_of (set_OF (of_bool v) s) = (flags_of s)\<lparr>fOF := v\<rparr>"
  unfolding set_flag_defs flags_of_bits
  by (simp_all only: flag_set_bits get_lazy_cong [OF flag_set_bits(3)]) simp_all

lemma put_flags_flag_set:
  assumes "n \<in> {0, 2, 4, 6, 7, 11}"
  shows "put_flags f (flag_set (push_bit n 1) n (of_bool v) s) = put_flags f s"
proof -
  have "n < 32" using assms by auto
  then have "eflags (flag_set (push_bit n 1) n (of_bool v) s) AND NOT EFlagsOSZAPCMask =
      eflags s AND NOT EFlagsOSZAPCMask"
    using assms by (intro bit_word_eqI)
      (auto simp only: bit_and_iff bit_not_iff flag_set_bits bit_OSZAPCMask split: if_splits)
  then show ?thesis by (simp add: put_flags_def flag_set_def)
qed

lemma put_flags_set [simp]:
  "put_flags f (set_CF (of_bool v) s) = put_flags f s"
  "put_flags f (set_PF (of_bool v) s) = put_flags f s"
  "put_flags f (set_AF (of_bool v) s) = put_flags f s"
  "put_flags f (set_ZF (of_bool v) s) = put_flags f s"
  "put_flags f (set_SF (of_bool v) s) = put_flags f s"
  "put_flags f (set_OF (of_bool v) s) = put_flags f s"
  unfolding set_flag_defs by (simp_all only: put_flags_flag_set insert_iff simp_thms)

lemma flag_clear_set: "flag_clear (push_bit n 1) s = flag_set (push_bit n 1) n (of_bool False) s"
  by (simp add: flag_clear_def flag_set_def)

lemma flag_assert_set: "flag_assert (push_bit n 1) s = flag_set (push_bit n 1) n (of_bool True) s"
proof -
  have "eflags s OR push_bit n 1 = (eflags s AND NOT (push_bit n 1)) OR push_bit n 1"
    by (rule bit_word_eqI) (auto simp: bit_or_iff bit_and_iff bit_not_iff)
  then show ?thesis by (simp add: flag_assert_def flag_set_def)
qed

lemma clear_assert_set:
  "clear_CF = set_CF (of_bool False)" "assert_CF = set_CF (of_bool True)"
  "clear_ZF = set_ZF (of_bool False)" "assert_ZF = set_ZF (of_bool True)"
  unfolding fun_eq_iff clear_CF_def assert_CF_def clear_ZF_def assert_ZF_def set_flag_defs
  by (simp_all only: flag_clear_set flag_assert_set simp_thms)

lemma refines_clear_assert [refine_intros]:
  "refines (modifyM clear_ZF) (modifyM (upd_flags (\<lambda>f. f\<lparr>fZF := False\<rparr>)))"
  "refines (modifyM assert_ZF) (modifyM (upd_flags (\<lambda>f. f\<lparr>fZF := True\<rparr>)))"
  "refines (modifyM clear_CF) (modifyM (upd_flags (\<lambda>f. f\<lparr>fCF := False\<rparr>)))"
  "refines (modifyM assert_CF) (modifyM (upd_flags (\<lambda>f. f\<lparr>fCF := True\<rparr>)))"
  unfolding clear_assert_set by (intro refines_upd_flags flags_of_set put_flags_set)+

lemmas set_flags_defs = SET_FLAGS_OSZAPC_8_def SET_FLAGS_OSZAPC_RESULT_8_def
  SET_FLAGS_OSZAPC_LOGIC_8_def SET_FLAGS_OSZAPC_ADD_8_def SET_FLAGS_OSZAPC_SUB_8_def
  SET_FLAGS_OSZAPC_INC_8_def SET_FLAGS_OSZAPC_DEC_8_def SET_FLAGS_OSZAPC_16_def
  SET_FLAGS_OSZAPC_RESULT_16_def SET_FLAGS_OSZAPC_LOGIC_16_def SET_FLAGS_OSZAPC_ADD_16_def
  SET_FLAGS_OSZAPC_SUB_16_def SET_FLAGS_OSZAPC_INC_16_def SET_FLAGS_OSZAPC_DEC_16_def
  SET_FLAGS_OSZAPC_32_def SET_FLAGS_OSZAPC_RESULT_32_def SET_FLAGS_OSZAPC_LOGIC_32_def
  SET_FLAGS_OSZAPC_ADD_32_def SET_FLAGS_OSZAPC_SUB_32_def SET_FLAGS_OSZAPC_INC_32_def
  SET_FLAGS_OSZAPC_DEC_32_def

lemma adc_instr_codes:
  "BX_LF_INSTR_ADD_ADC8 (of_bool c) = (if c then BX_LF_INSTR_ADC8 else BX_LF_INSTR_ADD8)"
  "BX_LF_INSTR_ADD_ADC16 (of_bool c) = (if c then BX_LF_INSTR_ADC16 else BX_LF_INSTR_ADD16)"
  "BX_LF_INSTR_ADD_ADC32 (of_bool c) = (if c then BX_LF_INSTR_ADC32 else BX_LF_INSTR_ADD32)"
  "BX_LF_INSTR_SUB_SBB8 (of_bool c) = (if c then BX_LF_INSTR_SBB8 else BX_LF_INSTR_SUB8)"
  "BX_LF_INSTR_SUB_SBB16 (of_bool c) = (if c then BX_LF_INSTR_SBB16 else BX_LF_INSTR_SUB16)"
  "BX_LF_INSTR_SUB_SBB32 (of_bool c) = (if c then BX_LF_INSTR_SBB32 else BX_LF_INSTR_SUB32)"
  by (simp_all add: BX_LF_INSTR_ADD_ADC8_def BX_LF_INSTR_ADD_ADC16_def BX_LF_INSTR_ADD_ADC32_def
    BX_LF_INSTR_SUB_SBB8_def BX_LF_INSTR_SUB_SBB16_def BX_LF_INSTR_SUB_SBB32_def)

lemma sbb_assoc: "a - (b + of_bool c) = a - b - of_bool c" for a :: "'a::len word"
  by simp

text \<open>Loading a memory operand and continuing with the register form.\<close>

lemma refines_LOAD:
  "refines (ex i) (sp i) \<Longrightarrow> refines (LOAD_Eb ex i) (LOAD_Eb sp i)"
  "refines (ex i) (sp i) \<Longrightarrow> refines (LOAD_Ew ex i) (LOAD_Ew sp i)"
  "refines (ex i) (sp i) \<Longrightarrow> refines (LOAD_Ed ex i) (LOAD_Ed sp i)"
  unfolding LOAD_Eb_def LOAD_Ew_def LOAD_Ed_def
  by (intro refines_bindM refines_seqM refines_neutral neutral_intros; simp)+

section \<open>Normalising both sides\<close>

lemma bindM_drop: "bindM (getsM f) (\<lambda>_. m) = m"
  by (simp add: fun_eq_iff bindM_def getsM_def)

lemma bindM_gets_twice: "bindM (getsM f) (\<lambda>x. bindM (getsM f) (k x)) = bindM (getsM f) (\<lambda>x. k x x)"
  by (simp add: fun_eq_iff bindM_def getsM_def)

lemma seqM_return: "seqM (returnM u) m = m"
  by (simp add: seqM_def)

lemma seqM_assoc: "seqM (seqM a b) c = seqM a (seqM b c)"
  by (simp add: seqM_def bindM_assoc)

lemma seqM_return_right: "seqM m (returnM ()) = m"
  by (simp add: seqM_def bindM_return_right)

lemma ucast_of_bool: "ucast (of_bool c :: 32 word) = (of_bool c :: 'a::len word)"
  by (cases c) simp_all

lemmas carry_simps = adc_instr_codes sbb_assoc ucast_of_bool

lemmas spec_simps = spec_alu_def spec_una_def spec_xadd_def spec_cmpxchg_def right_minus_eq bindM_gets_twice seqM_assoc rmw_b_def rmw_w_def rmw_d_def mem_b_def mem_w_def
  mem_d_def alu_result.simps alu_flags.simps alu_writes.simps una_result.simps una_flags.simps
  whenM_def if_True if_False Let_def bindM_assoc bindM_return_left bindM_drop seqM_return

lemma refines_flags_8 [refine_intros]:
  "refines (modifyM (SET_FLAGS_OSZAPC_ADD_8 a b (a + b))) (modifyM (put_flags (ref_add_flags a b False)))"
  "refines (modifyM (SET_FLAGS_OSZAPC_SUB_8 a b (a - b))) (modifyM (put_flags (ref_sub_flags a b False)))"
  "refines (modifyM (SET_FLAGS_OSZAPC_8 a b (a + b + of_bool c) (if c then BX_LF_INSTR_ADC8 else BX_LF_INSTR_ADD8)))
    (modifyM (put_flags (ref_add_flags a b c)))"
  "refines (modifyM (SET_FLAGS_OSZAPC_8 a b (a - b - of_bool c) (if c then BX_LF_INSTR_SBB8 else BX_LF_INSTR_SUB8)))
    (modifyM (put_flags (ref_sub_flags a b c)))"
  "refines (modifyM (SET_FLAGS_OSZAPC_RESULT_8 (- a) BX_LF_INSTR_NEG8))
    (modifyM (upd_flags (una_flags ALU_NEG a)))"
  "refines (modifyM (SET_FLAGS_OSZAPC_LOGIC_8 a)) (modifyM (put_flags (ref_logic_flags a)))"
  "refines (modifyM (SET_FLAGS_OSZAPC_INC_8 (a + 1)))
    (modifyM (upd_flags (una_flags ALU_INC a)))"
  "refines (modifyM (SET_FLAGS_OSZAPC_DEC_8 (a - 1)))
    (modifyM (upd_flags (una_flags ALU_DEC a)))"
  using lf8.addc_flags [of _ False a b] lf8.subb_flags [of _ False a b]
    lf8.addc_flags [of _ c a b] lf8.subb_flags [of _ c a b] lf8.neg_flags [of a]
    lf8.logic_flags [of a] lf8.inc_flags [of a] lf8.dec_flags [of a]
  by (intro refines_put_flags refines_upd_flags; simp add: set_flags_defs)+

lemma refines_flags_16 [refine_intros]:
  "refines (modifyM (SET_FLAGS_OSZAPC_ADD_16 a b (a + b))) (modifyM (put_flags (ref_add_flags a b False)))"
  "refines (modifyM (SET_FLAGS_OSZAPC_SUB_16 a b (a - b))) (modifyM (put_flags (ref_sub_flags a b False)))"
  "refines (modifyM (SET_FLAGS_OSZAPC_16 a b (a + b + of_bool c) (if c then BX_LF_INSTR_ADC16 else BX_LF_INSTR_ADD16)))
    (modifyM (put_flags (ref_add_flags a b c)))"
  "refines (modifyM (SET_FLAGS_OSZAPC_16 a b (a - b - of_bool c) (if c then BX_LF_INSTR_SBB16 else BX_LF_INSTR_SUB16)))
    (modifyM (put_flags (ref_sub_flags a b c)))"
  "refines (modifyM (SET_FLAGS_OSZAPC_RESULT_16 (- a) BX_LF_INSTR_NEG16))
    (modifyM (upd_flags (una_flags ALU_NEG a)))"
  "refines (modifyM (SET_FLAGS_OSZAPC_LOGIC_16 a)) (modifyM (put_flags (ref_logic_flags a)))"
  "refines (modifyM (SET_FLAGS_OSZAPC_INC_16 (a + 1)))
    (modifyM (upd_flags (una_flags ALU_INC a)))"
  "refines (modifyM (SET_FLAGS_OSZAPC_DEC_16 (a - 1)))
    (modifyM (upd_flags (una_flags ALU_DEC a)))"
  using lf16.addc_flags [of _ False a b] lf16.subb_flags [of _ False a b]
    lf16.addc_flags [of _ c a b] lf16.subb_flags [of _ c a b] lf16.neg_flags [of a]
    lf16.logic_flags [of a] lf16.inc_flags [of a] lf16.dec_flags [of a]
  by (intro refines_put_flags refines_upd_flags; simp add: set_flags_defs)+

lemma refines_flags_32 [refine_intros]:
  "refines (modifyM (SET_FLAGS_OSZAPC_ADD_32 a b (a + b))) (modifyM (put_flags (ref_add_flags a b False)))"
  "refines (modifyM (SET_FLAGS_OSZAPC_SUB_32 a b (a - b))) (modifyM (put_flags (ref_sub_flags a b False)))"
  "refines (modifyM (SET_FLAGS_OSZAPC_32 a b (a + b + of_bool c) (if c then BX_LF_INSTR_ADC32 else BX_LF_INSTR_ADD32)))
    (modifyM (put_flags (ref_add_flags a b c)))"
  "refines (modifyM (SET_FLAGS_OSZAPC_32 a b (a - b - of_bool c) (if c then BX_LF_INSTR_SBB32 else BX_LF_INSTR_SUB32)))
    (modifyM (put_flags (ref_sub_flags a b c)))"
  "refines (modifyM (SET_FLAGS_OSZAPC_RESULT_32 (- a) BX_LF_INSTR_NEG32))
    (modifyM (upd_flags (una_flags ALU_NEG a)))"
  "refines (modifyM (SET_FLAGS_OSZAPC_LOGIC_32 a)) (modifyM (put_flags (ref_logic_flags a)))"
  "refines (modifyM (SET_FLAGS_OSZAPC_INC_32 (a + 1)))
    (modifyM (upd_flags (una_flags ALU_INC a)))"
  "refines (modifyM (SET_FLAGS_OSZAPC_DEC_32 (a - 1)))
    (modifyM (upd_flags (una_flags ALU_DEC a)))"
  using lf32.addc_flags [of _ False a b] lf32.subb_flags [of _ False a b]
    lf32.addc_flags [of _ c a b] lf32.subb_flags [of _ c a b] lf32.neg_flags [of a]
    lf32.logic_flags [of a] lf32.inc_flags [of a] lf32.dec_flags [of a]
  by (intro refines_put_flags refines_upd_flags; simp add: set_flags_defs)+

end
