(* ===== verification/Arith8.thy ===== *)
theory Arith8
  imports Refine
begin

text \<open>
  The 8-bit arithmetic instructions (\<open>cpu/arith8.cc\<close>), one definition per handler,
  and their refinement of the reference operations.
\<close>

section \<open>\<open>arith8.cc\<close>\<close>

definition ADD_EbGbM :: "bxInstruction_c \<Rightarrow> unit cpu_monad" where
  "ADD_EbGbM i =
    bindM (ResolveModrm i) (\<lambda>eaddr.
    bindM (read_RMW_virtual_byte_32 (seg i) eaddr) (\<lambda>op1.
    bindM (getsM (BX_READ_8BIT_REG (nnn i))) (\<lambda>op2.
    (let sum = op1 + op2 in
    seqM (write_RMW_virtual_byte sum)
    (modifyM (SET_FLAGS_OSZAPC_ADD_8 op1 op2 sum))))))"

definition ADD_GbEbR :: "bxInstruction_c \<Rightarrow> unit cpu_monad" where
  "ADD_GbEbR i =
    bindM (getsM (BX_READ_8BIT_REG (nnn i))) (\<lambda>op1.
    bindM (getsM (BX_READ_8BIT_REG (rm i))) (\<lambda>op2.
    (let sum = op1 + op2 in
    seqM (modifyM (BX_WRITE_8BIT_REG (nnn i) sum))
    (modifyM (SET_FLAGS_OSZAPC_ADD_8 op1 op2 sum)))))"

definition ADD_ALIb :: "bxInstruction_c \<Rightarrow> unit cpu_monad" where
  "ADD_ALIb i =
    bindM (getsM AL) (\<lambda>op1.
    (let op2 = Ib i in
    (let sum = op1 + op2 in
    seqM (modifyM (set_AL sum))
    (modifyM (SET_FLAGS_OSZAPC_ADD_8 op1 op2 sum)))))"

definition ADC_EbGbM :: "bxInstruction_c \<Rightarrow> unit cpu_monad" where
  "ADC_EbGbM i =
    bindM (getsM getB_CF) (\<lambda>temp_CF.
    bindM (ResolveModrm i) (\<lambda>eaddr.
    bindM (read_RMW_virtual_byte_32 (seg i) eaddr) (\<lambda>op1.
    bindM (getsM (BX_READ_8BIT_REG (nnn i))) (\<lambda>op2.
    (let sum = (op1 + op2) + (ucast temp_CF) in
    seqM (write_RMW_virtual_byte sum)
    (modifyM (SET_FLAGS_OSZAPC_8 op1 op2 sum (BX_LF_INSTR_ADD_ADC8 temp_CF))))))))"

definition ADC_GbEbR :: "bxInstruction_c \<Rightarrow> unit cpu_monad" where
  "ADC_GbEbR i =
    bindM (getsM getB_CF) (\<lambda>temp_CF.
    bindM (getsM (BX_READ_8BIT_REG (nnn i))) (\<lambda>op1.
    bindM (getsM (BX_READ_8BIT_REG (rm i))) (\<lambda>op2.
    (let sum = (op1 + op2) + (ucast temp_CF) in
    seqM (modifyM (BX_WRITE_8BIT_REG (nnn i) sum))
    (modifyM (SET_FLAGS_OSZAPC_8 op1 op2 sum (BX_LF_INSTR_ADD_ADC8 temp_CF)))))))"

definition ADC_ALIb :: "bxInstruction_c \<Rightarrow> unit cpu_monad" where
  "ADC_ALIb i =
    bindM (getsM getB_CF) (\<lambda>temp_CF.
    bindM (getsM AL) (\<lambda>op1.
    (let op2 = Ib i in
    (let sum = (op1 + op2) + (ucast temp_CF) in
    seqM (modifyM (set_AL sum))
    (modifyM (SET_FLAGS_OSZAPC_8 op1 op2 sum (BX_LF_INSTR_ADD_ADC8 temp_CF)))))))"

definition SBB_EbGbM :: "bxInstruction_c \<Rightarrow> unit cpu_monad" where
  "SBB_EbGbM i =
    bindM (getsM getB_CF) (\<lambda>temp_CF.
    bindM (ResolveModrm i) (\<lambda>eaddr.
    bindM (read_RMW_virtual_byte_32 (seg i) eaddr) (\<lambda>op1_8.
    bindM (getsM (BX_READ_8BIT_REG (nnn i))) (\<lambda>op2_8.
    (let diff_8 = op1_8 - (op2_8 + (ucast temp_CF)) in
    seqM (write_RMW_virtual_byte diff_8)
    (modifyM (SET_FLAGS_OSZAPC_8 op1_8 op2_8 diff_8 (BX_LF_INSTR_SUB_SBB8 temp_CF))))))))"

definition SBB_GbEbR :: "bxInstruction_c \<Rightarrow> unit cpu_monad" where
  "SBB_GbEbR i =
    bindM (getsM getB_CF) (\<lambda>temp_CF.
    bindM (getsM (BX_READ_8BIT_REG (nnn i))) (\<lambda>op1_8.
    bindM (getsM (BX_READ_8BIT_REG (rm i))) (\<lambda>op2_8.
    (let diff_8 = op1_8 - (op2_8 + (ucast temp_CF)) in
    seqM (modifyM (BX_WRITE_8BIT_REG (nnn i) diff_8))
    (modifyM (SET_FLAGS_OSZAPC_8 op1_8 op2_8 diff_8 (BX_LF_INSTR_SUB_SBB8 temp_CF)))))))"

definition SBB_ALIb :: "bxInstruction_c \<Rightarrow> unit cpu_monad" where
  "SBB_ALIb i =
    bindM (getsM getB_CF) (\<lambda>temp_CF.
    bindM (getsM AL) (\<lambda>op1_8.
    (let op2_8 = Ib i in
    (let diff_8 = op1_8 - (op2_8 + (ucast temp_CF)) in
    seqM (modifyM (set_AL diff_8))
    (modifyM (SET_FLAGS_OSZAPC_8 op1_8 op2_8 diff_8 (BX_LF_INSTR_SUB_SBB8 temp_CF)))))))"

definition SBB_EbIbM :: "bxInstruction_c \<Rightarrow> unit cpu_monad" where
  "SBB_EbIbM i =
    (let op2_8 = Ib i in
    bindM (getsM getB_CF) (\<lambda>temp_CF.
    bindM (ResolveModrm i) (\<lambda>eaddr.
    bindM (read_RMW_virtual_byte_32 (seg i) eaddr) (\<lambda>op1_8.
    (let diff_8 = op1_8 - (op2_8 + (ucast temp_CF)) in
    seqM (write_RMW_virtual_byte diff_8)
    (modifyM (SET_FLAGS_OSZAPC_8 op1_8 op2_8 diff_8 (BX_LF_INSTR_SUB_SBB8 temp_CF))))))))"

definition SBB_EbIbR :: "bxInstruction_c \<Rightarrow> unit cpu_monad" where
  "SBB_EbIbR i =
    (let op2_8 = Ib i in
    bindM (getsM getB_CF) (\<lambda>temp_CF.
    bindM (getsM (BX_READ_8BIT_REG (rm i))) (\<lambda>op1_8.
    (let diff_8 = op1_8 - (op2_8 + (ucast temp_CF)) in
    seqM (modifyM (BX_WRITE_8BIT_REG (rm i) diff_8))
    (modifyM (SET_FLAGS_OSZAPC_8 op1_8 op2_8 diff_8 (BX_LF_INSTR_SUB_SBB8 temp_CF)))))))"

definition SUB_EbGbM :: "bxInstruction_c \<Rightarrow> unit cpu_monad" where
  "SUB_EbGbM i =
    bindM (ResolveModrm i) (\<lambda>eaddr.
    bindM (read_RMW_virtual_byte_32 (seg i) eaddr) (\<lambda>op1_8.
    bindM (getsM (BX_READ_8BIT_REG (nnn i))) (\<lambda>op2_8.
    (let diff_8 = op1_8 - op2_8 in
    seqM (write_RMW_virtual_byte diff_8)
    (modifyM (SET_FLAGS_OSZAPC_SUB_8 op1_8 op2_8 diff_8))))))"

definition SUB_GbEbR :: "bxInstruction_c \<Rightarrow> unit cpu_monad" where
  "SUB_GbEbR i =
    bindM (getsM (BX_READ_8BIT_REG (nnn i))) (\<lambda>op1_8.
    bindM (getsM (BX_READ_8BIT_REG (rm i))) (\<lambda>op2_8.
    (let diff_8 = op1_8 - op2_8 in
    seqM (modifyM (BX_WRITE_8BIT_REG (nnn i) diff_8))
    (modifyM (SET_FLAGS_OSZAPC_SUB_8 op1_8 op2_8 diff_8)))))"

definition SUB_ALIb :: "bxInstruction_c \<Rightarrow> unit cpu_monad" where
  "SUB_ALIb i =
    bindM (getsM AL) (\<lambda>op1_8.
    (let op2_8 = Ib i in
    (let diff_8 = op1_8 - op2_8 in
    seqM (modifyM (set_AL diff_8))
    (modifyM (SET_FLAGS_OSZAPC_SUB_8 op1_8 op2_8 diff_8)))))"

definition CMP_EbGbM :: "bxInstruction_c \<Rightarrow> unit cpu_monad" where
  "CMP_EbGbM i =
    bindM (ResolveModrm i) (\<lambda>eaddr.
    bindM (read_virtual_byte_32 (seg i) eaddr) (\<lambda>op1_8.
    bindM (getsM (BX_READ_8BIT_REG (nnn i))) (\<lambda>op2_8.
    (let diff_8 = op1_8 - op2_8 in
    modifyM (SET_FLAGS_OSZAPC_SUB_8 op1_8 op2_8 diff_8)))))"

definition CMP_GbEbR :: "bxInstruction_c \<Rightarrow> unit cpu_monad" where
  "CMP_GbEbR i =
    bindM (getsM (BX_READ_8BIT_REG (nnn i))) (\<lambda>op1_8.
    bindM (getsM (BX_READ_8BIT_REG (rm i))) (\<lambda>op2_8.
    (let diff_8 = op1_8 - op2_8 in
    modifyM (SET_FLAGS_OSZAPC_SUB_8 op1_8 op2_8 diff_8))))"

definition CMP_ALIb :: "bxInstruction_c \<Rightarrow> unit cpu_monad" where
  "CMP_ALIb i =
    bindM (getsM AL) (\<lambda>op1_8.
    (let op2_8 = Ib i in
    (let diff_8 = op1_8 - op2_8 in
    modifyM (SET_FLAGS_OSZAPC_SUB_8 op1_8 op2_8 diff_8))))"

definition XADD_EbGbM :: "bxInstruction_c \<Rightarrow> unit cpu_monad" where
  "XADD_EbGbM i =
    bindM (ResolveModrm i) (\<lambda>eaddr.
    bindM (read_RMW_virtual_byte_32 (seg i) eaddr) (\<lambda>op1.
    bindM (getsM (BX_READ_8BIT_REG (nnn i))) (\<lambda>op2.
    (let sum = op1 + op2 in
    seqM (write_RMW_virtual_byte sum)
    (seqM (modifyM (BX_WRITE_8BIT_REG (nnn i) op1))
    (modifyM (SET_FLAGS_OSZAPC_ADD_8 op1 op2 sum)))))))"

definition XADD_EbGbR :: "bxInstruction_c \<Rightarrow> unit cpu_monad" where
  "XADD_EbGbR i =
    bindM (getsM (BX_READ_8BIT_REG (rm i))) (\<lambda>op1.
    bindM (getsM (BX_READ_8BIT_REG (nnn i))) (\<lambda>op2.
    (let sum = op1 + op2 in
    seqM (modifyM (BX_WRITE_8BIT_REG (nnn i) op1))
    (seqM (modifyM (BX_WRITE_8BIT_REG (rm i) sum))
    (modifyM (SET_FLAGS_OSZAPC_ADD_8 op1 op2 sum))))))"

definition ADD_EbIbM :: "bxInstruction_c \<Rightarrow> unit cpu_monad" where
  "ADD_EbIbM i =
    (let op2 = Ib i in
    bindM (ResolveModrm i) (\<lambda>eaddr.
    bindM (read_RMW_virtual_byte_32 (seg i) eaddr) (\<lambda>op1.
    (let sum = op1 + op2 in
    seqM (write_RMW_virtual_byte sum)
    (modifyM (SET_FLAGS_OSZAPC_ADD_8 op1 op2 sum))))))"

definition ADD_EbIbR :: "bxInstruction_c \<Rightarrow> unit cpu_monad" where
  "ADD_EbIbR i =
    (let op2 = Ib i in
    bindM (getsM (BX_READ_8BIT_REG (rm i))) (\<lambda>op1.
    (let sum = op1 + op2 in
    seqM (modifyM (BX_WRITE_8BIT_REG (rm i) sum))
    (modifyM (SET_FLAGS_OSZAPC_ADD_8 op1 op2 sum)))))"

definition ADC_EbIbM :: "bxInstruction_c \<Rightarrow> unit cpu_monad" where
  "ADC_EbIbM i =
    (let op2 = Ib i in
    bindM (getsM getB_CF) (\<lambda>temp_CF.
    bindM (ResolveModrm i) (\<lambda>eaddr.
    bindM (read_RMW_virtual_byte_32 (seg i) eaddr) (\<lambda>op1.
    (let sum = (op1 + op2) + (ucast temp_CF) in
    seqM (write_RMW_virtual_byte sum)
    (modifyM (SET_FLAGS_OSZAPC_8 op1 op2 sum (BX_LF_INSTR_ADD_ADC8 temp_CF))))))))"

definition ADC_EbIbR :: "bxInstruction_c \<Rightarrow> unit cpu_monad" where
  "ADC_EbIbR i =
    (let op2 = Ib i in
    bindM (getsM getB_CF) (\<lambda>temp_CF.
    bindM (getsM (BX_READ_8BIT_REG (rm i))) (\<lambda>op1.
    (let sum = (op1 + op2) + (ucast temp_CF) in
    seqM (modifyM (BX_WRITE_8BIT_REG (rm i) sum))
    (modifyM (SET_FLAGS_OSZAPC_8 op1 op2 sum (BX_LF_INSTR_ADD_ADC8 temp_CF)))))))"

definition SUB_EbIbM :: "bxInstruction_c \<Rightarrow> unit cpu_monad" where
  "SUB_EbIbM i =
    (let op2_8 = Ib i in
    bindM (ResolveModrm i) (\<lambda>eaddr.
    bindM (read_RMW_virtual_byte_32 (seg i) eaddr) (\<lambda>op1_8.
    (let diff_8 = op1_8 - op2_8 in
    seqM (write_RMW_virtual_byte diff_8)
    (modifyM (SET_FLAGS_OSZAPC_SUB_8 op1_8 op2_8 diff_8))))))"

definition SUB_EbIbR :: "bxInstruction_c \<Rightarrow> unit cpu_monad" where
  "SUB_EbIbR i =
    (let op2_8 = Ib i in
    bindM (getsM (BX_READ_8BIT_REG (rm i))) (\<lambda>op1_8.
    (let diff_8 = op1_8 - op2_8 in
    seqM (modifyM (BX_WRITE_8BIT_REG (rm i) diff_8))
    (modifyM (SET_FLAGS_OSZAPC_SUB_8 op1_8 op2_8 diff_8)))))"

definition CMP_EbIbM :: "bxInstruction_c \<Rightarrow> unit cpu_monad" where
  "CMP_EbIbM i =
    (let op2_8 = Ib i in
    bindM (ResolveModrm i) (\<lambda>eaddr.
    bindM (read_virtual_byte_32 (seg i) eaddr) (\<lambda>op1_8.
    (let diff_8 = op1_8 - op2_8 in
    modifyM (SET_FLAGS_OSZAPC_SUB_8 op1_8 op2_8 diff_8)))))"

definition CMP_EbIbR :: "bxInstruction_c \<Rightarrow> unit cpu_monad" where
  "CMP_EbIbR i =
    (let op2_8 = Ib i in
    bindM (getsM (BX_READ_8BIT_REG (rm i))) (\<lambda>op1_8.
    (let diff_8 = op1_8 - op2_8 in
    modifyM (SET_FLAGS_OSZAPC_SUB_8 op1_8 op2_8 diff_8))))"

definition NEG_EbM :: "bxInstruction_c \<Rightarrow> unit cpu_monad" where
  "NEG_EbM i =
    bindM (ResolveModrm i) (\<lambda>eaddr.
    bindM (read_RMW_virtual_byte_32 (seg i) eaddr) (\<lambda>op1_8.
    (let op1_8 = - op1_8 in
    seqM (write_RMW_virtual_byte op1_8)
    (modifyM (SET_FLAGS_OSZAPC_RESULT_8 op1_8 BX_LF_INSTR_NEG8)))))"

definition NEG_EbR :: "bxInstruction_c \<Rightarrow> unit cpu_monad" where
  "NEG_EbR i =
    bindM (getsM (BX_READ_8BIT_REG (rm i))) (\<lambda>op1_8.
    (let op1_8 = - op1_8 in
    seqM (modifyM (BX_WRITE_8BIT_REG (rm i) op1_8))
    (modifyM (SET_FLAGS_OSZAPC_RESULT_8 op1_8 BX_LF_INSTR_NEG8))))"

definition INC_EbM :: "bxInstruction_c \<Rightarrow> unit cpu_monad" where
  "INC_EbM i =
    bindM (ResolveModrm i) (\<lambda>eaddr.
    bindM (read_RMW_virtual_byte_32 (seg i) eaddr) (\<lambda>op1_8.
    (let op1_8 = op1_8 + 1 in
    seqM (write_RMW_virtual_byte op1_8)
    (modifyM (SET_FLAGS_OSZAPC_INC_8 op1_8)))))"

definition INC_EbR :: "bxInstruction_c \<Rightarrow> unit cpu_monad" where
  "INC_EbR i =
    bindM (getsM (BX_READ_8BIT_REG (rm i))) (\<lambda>op1_8.
    (let op1_8 = op1_8 + 1 in
    seqM (modifyM (BX_WRITE_8BIT_REG (rm i) op1_8))
    (modifyM (SET_FLAGS_OSZAPC_INC_8 op1_8))))"

definition DEC_EbM :: "bxInstruction_c \<Rightarrow> unit cpu_monad" where
  "DEC_EbM i =
    bindM (ResolveModrm i) (\<lambda>eaddr.
    bindM (read_RMW_virtual_byte_32 (seg i) eaddr) (\<lambda>op1_8.
    (let op1_8 = op1_8 - 1 in
    seqM (write_RMW_virtual_byte op1_8)
    (modifyM (SET_FLAGS_OSZAPC_DEC_8 op1_8)))))"

definition DEC_EbR :: "bxInstruction_c \<Rightarrow> unit cpu_monad" where
  "DEC_EbR i =
    bindM (getsM (BX_READ_8BIT_REG (rm i))) (\<lambda>op1_8.
    (let op1_8 = op1_8 - 1 in
    seqM (modifyM (BX_WRITE_8BIT_REG (rm i) op1_8))
    (modifyM (SET_FLAGS_OSZAPC_DEC_8 op1_8))))"

definition CMPXCHG_EbGbM :: "bxInstruction_c \<Rightarrow> unit cpu_monad" where
  "CMPXCHG_EbGbM i =
    bindM (ResolveModrm i) (\<lambda>eaddr.
    bindM (read_RMW_virtual_byte_32 (seg i) eaddr) (\<lambda>op1_8.
    bindM (getsM AL) (\<lambda>al.
    (let diff_8 = al - op1_8 in
    bindM (getsM AL) (\<lambda>al.
    seqM (modifyM (SET_FLAGS_OSZAPC_SUB_8 al op1_8 diff_8))
    ((if diff_8 = 0 then
      bindM (getsM (BX_READ_8BIT_REG (nnn i))) (\<lambda>op2_8.
      write_RMW_virtual_byte op2_8)
     else
      modifyM (set_AL op1_8))))))))"

definition CMPXCHG_EbGbR :: "bxInstruction_c \<Rightarrow> unit cpu_monad" where
  "CMPXCHG_EbGbR i =
    bindM (getsM (BX_READ_8BIT_REG (rm i))) (\<lambda>op1_8.
    bindM (getsM AL) (\<lambda>al.
    (let diff_8 = al - op1_8 in
    bindM (getsM AL) (\<lambda>al.
    seqM (modifyM (SET_FLAGS_OSZAPC_SUB_8 al op1_8 diff_8))
    ((if diff_8 = 0 then
      bindM (getsM (BX_READ_8BIT_REG (nnn i))) (\<lambda>op2_8.
      modifyM (BX_WRITE_8BIT_REG (rm i) op2_8))
     else
      modifyM (set_AL op1_8)))))))"

section \<open>Refinement\<close>

lemmas arith8_defs =
  ADD_EbGbM_def ADD_GbEbR_def ADD_ALIb_def ADC_EbGbM_def ADC_GbEbR_def ADC_ALIb_def
  SBB_EbGbM_def SBB_GbEbR_def SBB_ALIb_def SBB_EbIbM_def SBB_EbIbR_def SUB_EbGbM_def
  SUB_GbEbR_def SUB_ALIb_def CMP_EbGbM_def CMP_GbEbR_def CMP_ALIb_def XADD_EbGbM_def
  XADD_EbGbR_def ADD_EbIbM_def ADD_EbIbR_def ADC_EbIbM_def ADC_EbIbR_def SUB_EbIbM_def
  SUB_EbIbR_def CMP_EbIbM_def CMP_EbIbR_def NEG_EbM_def NEG_EbR_def INC_EbM_def INC_EbR_def
  DEC_EbM_def DEC_EbR_def CMPXCHG_EbGbM_def CMPXCHG_EbGbR_def

lemma arith8_refines:
  "refines (ADD_EbGbM i) (spec_alu ALU_ADD (rmw_b i) (reg_b (nnn i)) write_RMW_virtual_byte)"
  "refines (ADD_GbEbR i) (spec_alu ALU_ADD (reg_b (nnn i)) (reg_b (rm i)) (put_b (nnn i)))"
  "refines (ADD_ALIb i) (spec_alu ALU_ADD (getsM AL) (returnM (Ib i)) (\<lambda>v. modifyM (set_AL v)))"
  "refines (ADC_EbGbM i) (spec_alu ALU_ADC (rmw_b i) (reg_b (nnn i)) write_RMW_virtual_byte)"
  "refines (ADC_GbEbR i) (spec_alu ALU_ADC (reg_b (nnn i)) (reg_b (rm i)) (put_b (nnn i)))"
  "refines (ADC_ALIb i) (spec_alu ALU_ADC (getsM AL) (returnM (Ib i)) (\<lambda>v. modifyM (set_AL v)))"
  "refines (SBB_EbGbM i) (spec_alu ALU_SBB (rmw_b i) (reg_b (nnn i)) write_RMW_virtual_byte)"
  "refines (SBB_GbEbR i) (spec_alu ALU_SBB (reg_b (nnn i)) (reg_b (rm i)) (put_b (nnn i)))"
  "refines (SBB_ALIb i) (spec_alu ALU_SBB (getsM AL) (returnM (Ib i)) (\<lambda>v. modifyM (set_AL v)))"
  "refines (SBB_EbIbM i) (spec_alu ALU_SBB (rmw_b i) (returnM (Ib i)) write_RMW_virtual_byte)"
  "refines (SBB_EbIbR i) (spec_alu ALU_SBB (reg_b (rm i)) (returnM (Ib i)) (put_b (rm i)))"
  "refines (SUB_EbGbM i) (spec_alu ALU_SUB (rmw_b i) (reg_b (nnn i)) write_RMW_virtual_byte)"
  "refines (SUB_GbEbR i) (spec_alu ALU_SUB (reg_b (nnn i)) (reg_b (rm i)) (put_b (nnn i)))"
  "refines (SUB_ALIb i) (spec_alu ALU_SUB (getsM AL) (returnM (Ib i)) (\<lambda>v. modifyM (set_AL v)))"
  "refines (CMP_EbGbM i) (spec_alu ALU_CMP (mem_b i) (reg_b (nnn i)) (\<lambda>_. returnM ()))"
  "refines (CMP_GbEbR i) (spec_alu ALU_CMP (reg_b (nnn i)) (reg_b (rm i)) (\<lambda>_. returnM ()))"
  "refines (CMP_ALIb i) (spec_alu ALU_CMP (getsM AL) (returnM (Ib i)) (\<lambda>_. returnM ()))"
  "refines (XADD_EbGbM i) (spec_xadd (rmw_b i) (reg_b (nnn i)) (\<lambda>v old. seqM (write_RMW_virtual_byte v) (put_b (nnn i) old)))"
  "refines (XADD_EbGbR i) (spec_xadd (reg_b (rm i)) (reg_b (nnn i)) (\<lambda>v old. seqM (put_b (nnn i) old) (put_b (rm i) v)))"
  "refines (ADD_EbIbM i) (spec_alu ALU_ADD (rmw_b i) (returnM (Ib i)) write_RMW_virtual_byte)"
  "refines (ADD_EbIbR i) (spec_alu ALU_ADD (reg_b (rm i)) (returnM (Ib i)) (put_b (rm i)))"
  "refines (ADC_EbIbM i) (spec_alu ALU_ADC (rmw_b i) (returnM (Ib i)) write_RMW_virtual_byte)"
  "refines (ADC_EbIbR i) (spec_alu ALU_ADC (reg_b (rm i)) (returnM (Ib i)) (put_b (rm i)))"
  "refines (SUB_EbIbM i) (spec_alu ALU_SUB (rmw_b i) (returnM (Ib i)) write_RMW_virtual_byte)"
  "refines (SUB_EbIbR i) (spec_alu ALU_SUB (reg_b (rm i)) (returnM (Ib i)) (put_b (rm i)))"
  "refines (CMP_EbIbM i) (spec_alu ALU_CMP (mem_b i) (returnM (Ib i)) (\<lambda>_. returnM ()))"
  "refines (CMP_EbIbR i) (spec_alu ALU_CMP (reg_b (rm i)) (returnM (Ib i)) (\<lambda>_. returnM ()))"
  "refines (NEG_EbM i) (spec_una ALU_NEG (rmw_b i) write_RMW_virtual_byte)"
  "refines (NEG_EbR i) (spec_una ALU_NEG (reg_b (rm i)) (put_b (rm i)))"
  "refines (INC_EbM i) (spec_una ALU_INC (rmw_b i) write_RMW_virtual_byte)"
  "refines (INC_EbR i) (spec_una ALU_INC (reg_b (rm i)) (put_b (rm i)))"
  "refines (DEC_EbM i) (spec_una ALU_DEC (rmw_b i) write_RMW_virtual_byte)"
  "refines (DEC_EbR i) (spec_una ALU_DEC (reg_b (rm i)) (put_b (rm i)))"
  "refines (CMPXCHG_EbGbM i) (spec_cmpxchg (rmw_b i) (getsM AL) (reg_b (nnn i)) write_RMW_virtual_byte (\<lambda>v. modifyM (set_AL v)))"
  "refines (CMPXCHG_EbGbR i) (spec_cmpxchg (reg_b (rm i)) (getsM AL) (reg_b (nnn i)) (put_b (rm i)) (\<lambda>v. modifyM (set_AL v)))"
  unfolding arith8_defs
  by (simp only: spec_simps, ((rule refines_read_CF)?, simp only: carry_simps)?,
    (intro refine_intros refines_neutral neutral_intros; simp)?)+

end
