(* ===== verification/Arith16.thy ===== *)
theory Arith16
  imports Refine
begin

text \<open>
  The 16-bit arithmetic instructions (\<open>cpu/arith16.cc\<close>), one definition per handler,
  and their refinement of the reference operations.
\<close>

section \<open>\<open>arith16.cc\<close>\<close>

definition INC_RX :: "bxInstruction_c \<Rightarrow> unit cpu_monad" where
  "INC_RX i =
    bindM (getsM (BX_READ_16BIT_REG (opcodeReg i))) (\<lambda>r16.
    (let rx = r16 + 1 in
    seqM (modifyM (BX_WRITE_16BIT_REG (opcodeReg i) rx))
    (modifyM (SET_FLAGS_OSZAPC_INC_16 rx))))"

definition DEC_RX :: "bxInstruction_c \<Rightarrow> unit cpu_monad" where
  "DEC_RX i =
    bindM (getsM (BX_READ_16BIT_REG (opcodeReg i))) (\<lambda>r16.
    (let rx = r16 - 1 in
    seqM (modifyM (BX_WRITE_16BIT_REG (opcodeReg i) rx))
    (modifyM (SET_FLAGS_OSZAPC_DEC_16 rx))))"

definition ADD_EwGwM :: "bxInstruction_c \<Rightarrow> unit cpu_monad" where
  "ADD_EwGwM i =
    bindM (ResolveModrm i) (\<lambda>eaddr.
    bindM (read_RMW_virtual_word_32 (seg i) eaddr) (\<lambda>op1_16.
    bindM (getsM (BX_READ_16BIT_REG (nnn i))) (\<lambda>op2_16.
    (let sum_16 = op1_16 + op2_16 in
    seqM (write_RMW_virtual_word sum_16)
    (modifyM (SET_FLAGS_OSZAPC_ADD_16 op1_16 op2_16 sum_16))))))"

definition ADD_GwEwR :: "bxInstruction_c \<Rightarrow> unit cpu_monad" where
  "ADD_GwEwR i =
    bindM (getsM (BX_READ_16BIT_REG (nnn i))) (\<lambda>op1_16.
    bindM (getsM (BX_READ_16BIT_REG (rm i))) (\<lambda>op2_16.
    (let sum_16 = op1_16 + op2_16 in
    seqM (modifyM (BX_WRITE_16BIT_REG (nnn i) sum_16))
    (modifyM (SET_FLAGS_OSZAPC_ADD_16 op1_16 op2_16 sum_16)))))"

definition ADD_AXIw :: "bxInstruction_c \<Rightarrow> unit cpu_monad" where
  "ADD_AXIw i =
    bindM (getsM AX) (\<lambda>op1_16.
    (let op2_16 = Iw i in
    (let sum_16 = op1_16 + op2_16 in
    seqM (modifyM (set_AX sum_16))
    (modifyM (SET_FLAGS_OSZAPC_ADD_16 op1_16 op2_16 sum_16)))))"

definition ADC_EwGwM :: "bxInstruction_c \<Rightarrow> unit cpu_monad" where
  "ADC_EwGwM i =
    bindM (getsM getB_CF) (\<lambda>temp_CF.
    bindM (ResolveModrm i) (\<lambda>eaddr.
    bindM (read_RMW_virtual_word_32 (seg i) eaddr) (\<lambda>op1_16.
    bindM (getsM (BX_READ_16BIT_REG (nnn i))) (\<lambda>op2_16.
    (let sum_16 = (op1_16 + op2_16) + (ucast temp_CF) in
    seqM (write_RMW_virtual_word sum_16)
    (modifyM (SET_FLAGS_OSZAPC_16 op1_16 op2_16 sum_16 (BX_LF_INSTR_ADD_ADC16 temp_CF))))))))"

definition ADC_GwEwR :: "bxInstruction_c \<Rightarrow> unit cpu_monad" where
  "ADC_GwEwR i =
    bindM (getsM getB_CF) (\<lambda>temp_CF.
    bindM (getsM (BX_READ_16BIT_REG (nnn i))) (\<lambda>op1_16.
    bindM (getsM (BX_READ_16BIT_REG (rm i))) (\<lambda>op2_16.
    (let sum_16 = (op1_16 + op2_16) + (ucast temp_CF) in
    seqM (modifyM (BX_WRITE_16BIT_REG (nnn i) sum_16))
    (modifyM (SET_FLAGS_OSZAPC_16 op1_16 op2_16 sum_16 (BX_LF_INSTR_ADD_ADC16 temp_CF)))))))"

definition ADC_AXIw :: "bxInstruction_c \<Rightarrow> unit cpu_monad" where
  "ADC_AXIw i =
    bindM (getsM getB_CF) (\<lambda>temp_CF.
    bindM (getsM AX) (\<lambda>op1_16.
    (let op2_16 = Iw i in
    (let sum_16 = (op1_16 + op2_16) + (ucast temp_CF) in
    seqM (modifyM (set_AX sum_16))
    (modifyM (SET_FLAGS_OSZAPC_16 op1_16 op2_16 sum_16 (BX_LF_INSTR_ADD_ADC16 temp_CF)))))))"

definition SBB_EwGwM :: "bxInstruction_c \<Rightarrow> unit cpu_monad" where
  "SBB_EwGwM i =
    bindM (getsM getB_CF) (\<lambda>temp_CF.
    bindM (ResolveModrm i) (\<lambda>eaddr.
    bindM (read_RMW_virtual_word_32 (seg i) eaddr) (\<lambda>op1_16.
    bindM (getsM (BX_READ_16BIT_REG (nnn i))) (\<lambda>op2_16.
    (let diff_16 = op1_16 - (op2_16 + (ucast temp_CF)) in
    seqM (write_RMW_virtual_word diff_16)
    (modifyM (SET_FLAGS_OSZAPC_16 op1_16 op2_16 diff_16 (BX_LF_INSTR_SUB_SBB16 temp_CF))))))))"

definition SBB_GwEwR :: "bxInstruction_c \<Rightarrow> unit cpu_monad" where
  "SBB_GwEwR i =
    bindM (getsM getB_CF) (\<lambda>temp_CF.
    bindM (getsM (BX_READ_16BIT_REG (nnn i))) (\<lambda>op1_16.
    bindM (getsM (BX_READ_16BIT_REG (rm i))) (\<lambda>op2_16.
    (let diff_16 = op1_16 - (op2_16 + (ucast temp_CF)) in
    seqM (modifyM (BX_WRITE_16BIT_REG (nnn i) diff_16))
    (modifyM (SET_FLAGS_OSZAPC_16 op1_16 op2_16 diff_16 (BX_LF_INSTR_SUB_SBB16 temp_CF)))))))"

definition SBB_AXIw :: "bxInstruction_c \<Rightarrow> unit cpu_monad" where
  "SBB_AXIw i =
    bindM (getsM getB_CF) (\<lambda>temp_CF.
    bindM (getsM AX) (\<lambda>op1_16.
    (let op2_16 = Iw i in
    (let diff_16 = op1_16 - (op2_16 + (ucast temp_CF)) in
    seqM (modifyM (set_AX diff_16))
    (modifyM (SET_FLAGS_OSZAPC_16 op1_16 op2_16 diff_16 (BX_LF_INSTR_SUB_SBB16 temp_CF)))))))"

definition SBB_EwIwM :: "bxInstruction_c \<Rightarrow> unit cpu_monad" where
  "SBB_EwIwM i =
    bindM (getsM getB_CF) (\<lambda>temp_CF.
    (let op2_16 = Iw i in
    bindM (ResolveModrm i) (\<lambda>eaddr.
    bindM (read_RMW_virtual_word_32 (seg i) eaddr) (\<lambda>op1_16.
    (let diff_16 = op1_16 - (op2_16 + (ucast temp_CF)) in
    seqM (write_RMW_virtual_word diff_16)
    (modifyM (SET_FLAGS_OSZAPC_16 op1_16 op2_16 diff_16 (BX_LF_INSTR_SUB_SBB16 temp_CF))))))))"

definition SBB_EwIwR :: "bxInstruction_c \<Rightarrow> unit cpu_monad" where
  "SBB_EwIwR i =
    bindM (getsM getB_CF) (\<lambda>temp_CF.
    (let op2_16 = Iw i in
    bindM (getsM (BX_READ_16BIT_REG (rm i))) (\<lambda>op1_16.
    (let diff_16 = op1_16 - (op2_16 + (ucast temp_CF)) in
    seqM (modifyM (BX_WRITE_16BIT_REG (rm i) diff_16))
    (modifyM (SET_FLAGS_OSZAPC_16 op1_16 op2_16 diff_16 (BX_LF_INSTR_SUB_SBB16 temp_CF)))))))"

definition SUB_EwGwM :: "bxInstruction_c \<Rightarrow> unit cpu_monad" where
  "SUB_EwGwM i =
    bindM (ResolveModrm i) (\<lambda>eaddr.
    bindM (read_RMW_virtual_word_32 (seg i) eaddr) (\<lambda>op1_16.
    bindM (getsM (BX_READ_16BIT_REG (nnn i))) (\<lambda>op2_16.
    (let diff_16 = op1_16 - op2_16 in
    seqM (write_RMW_virtual_word diff_16)
    (modifyM (SET_FLAGS_OSZAPC_SUB_16 op1_16 op2_16 diff_16))))))"

definition SUB_GwEwR :: "bxInstruction_c \<Rightarrow> unit cpu_monad" where
  "SUB_GwEwR i =
    bindM (getsM (BX_READ_16BIT_REG (nnn i))) (\<lambda>op1_16.
    bindM (getsM (BX_READ_16BIT_REG (rm i))) (\<lambda>op2_16.
    (let diff_16 = op1_16 - op2_16 in
    seqM (modifyM (BX_WRITE_16BIT_REG (nnn i) diff_16))
    (modifyM (SET_FLAGS_OSZAPC_SUB_16 op1_16 op2_16 diff_16)))))"

definition SUB_AXIw :: "bxInstruction_c \<Rightarrow> unit cpu_monad" where
  "SUB_AXIw i =
    bindM (getsM AX) (\<lambda>op1_16.
    (let op2_16 = Iw i in
    (let diff_16 = op1_16 - op2_16 in
    seqM (modifyM (set_AX diff_16))
    (modifyM (SET_FLAGS_OSZAPC_SUB_16 op1_16 op2_16 diff_16)))))"

definition CMP_EwGwM :: "bxInstruction_c \<Rightarrow> unit cpu_monad" where
  "CMP_EwGwM i =
    bindM (ResolveModrm i) (\<lambda>eaddr.
    bindM (read_virtual_word_32 (seg i) eaddr) (\<lambda>op1_16.
    bindM (getsM (BX_READ_16BIT_REG (nnn i))) (\<lambda>op2_16.
    (let diff_16 = op1_16 - op2_16 in
    modifyM (SET_FLAGS_OSZAPC_SUB_16 op1_16 op2_16 diff_16)))))"

definition CMP_GwEwR :: "bxInstruction_c \<Rightarrow> unit cpu_monad" where
  "CMP_GwEwR i =
    bindM (getsM (BX_READ_16BIT_REG (nnn i))) (\<lambda>op1_16.
    bindM (getsM (BX_READ_16BIT_REG (rm i))) (\<lambda>op2_16.
    (let diff_16 = op1_16 - op2_16 in
    modifyM (SET_FLAGS_OSZAPC_SUB_16 op1_16 op2_16 diff_16))))"

definition CMP_AXIw :: "bxInstruction_c \<Rightarrow> unit cpu_monad" where
  "CMP_AXIw i =
    bindM (getsM AX) (\<lambda>op1_16.
    (let op2_16 = Iw i in
    (let diff_16 = op1_16 - op2_16 in
    modifyM (SET_FLAGS_OSZAPC_SUB_16 op1_16 op2_16 diff_16))))"

definition CBW :: "bxInstruction_c \<Rightarrow> unit cpu_monad" where
  "CBW i =
    bindM (getsM AL) (\<lambda>al.
    modifyM (set_AX (scast al)))"

definition CWD :: "bxInstruction_c \<Rightarrow> unit cpu_monad" where
  "CWD i =
    bindM (getsM AX) (\<lambda>ax.
    (if ax AND 0x8000 \<noteq> 0 then
      modifyM (set_DX 0xFFFF)
     else
      modifyM (set_DX 0x0000)))"

definition XADD_EwGwM :: "bxInstruction_c \<Rightarrow> unit cpu_monad" where
  "XADD_EwGwM i =
    bindM (ResolveModrm i) (\<lambda>eaddr.
    bindM (read_RMW_virtual_word_32 (seg i) eaddr) (\<lambda>op1_16.
    bindM (getsM (BX_READ_16BIT_REG (nnn i))) (\<lambda>op2_16.
    (let sum_16 = op1_16 + op2_16 in
    seqM (write_RMW_virtual_word sum_16)
    (seqM (modifyM (BX_WRITE_16BIT_REG (nnn i) op1_16))
    (modifyM (SET_FLAGS_OSZAPC_ADD_16 op1_16 op2_16 sum_16)))))))"

definition XADD_EwGwR :: "bxInstruction_c \<Rightarrow> unit cpu_monad" where
  "XADD_EwGwR i =
    bindM (getsM (BX_READ_16BIT_REG (rm i))) (\<lambda>op1_16.
    bindM (getsM (BX_READ_16BIT_REG (nnn i))) (\<lambda>op2_16.
    (let sum_16 = op1_16 + op2_16 in
    seqM (modifyM (BX_WRITE_16BIT_REG (nnn i) op1_16))
    (seqM (modifyM (BX_WRITE_16BIT_REG (rm i) sum_16))
    (modifyM (SET_FLAGS_OSZAPC_ADD_16 op1_16 op2_16 sum_16))))))"

definition ADD_EwIwM :: "bxInstruction_c \<Rightarrow> unit cpu_monad" where
  "ADD_EwIwM i =
    (let op2_16 = Iw i in
    bindM (ResolveModrm i) (\<lambda>eaddr.
    bindM (read_RMW_virtual_word_32 (seg i) eaddr) (\<lambda>op1_16.
    (let sum_16 = op1_16 + op2_16 in
    seqM (write_RMW_virtual_word sum_16)
    (modifyM (SET_FLAGS_OSZAPC_ADD_16 op1_16 op2_16 sum_16))))))"

definition ADD_EwIwR :: "bxInstruction_c \<Rightarrow> unit cpu_monad" where
  "ADD_EwIwR i =
    (let op2_16 = Iw i in
    bindM (getsM (BX_READ_16BIT_REG (rm i))) (\<lambda>op1_16.
    (let sum_16 = op1_16 + op2_16 in
    seqM (modifyM (BX_WRITE_16BIT_REG (rm i) sum_16))
    (modifyM (SET_FLAGS_OSZAPC_ADD_16 op1_16 op2_16 sum_16)))))"

definition ADC_EwIwM :: "bxInstruction_c \<Rightarrow> unit cpu_monad" where
  "ADC_EwIwM i =
    bindM (getsM getB_CF) (\<lambda>temp_CF.
    (let op2_16 = Iw i in
    bindM (ResolveModrm i) (\<lambda>eaddr.
    bindM (read_RMW_virtual_word_32 (seg i) eaddr) (\<lambda>op1_16.
    (let sum_16 = (op1_16 + op2_16) + (ucast temp_CF) in
    seqM (write_RMW_virtual_word sum_16)
    (modifyM (SET_FLAGS_OSZAPC_16 op1_16 op2_16 sum_16 (BX_LF_INSTR_ADD_ADC16 temp_CF))))))))"

definition ADC_EwIwR :: "bxInstruction_c \<Rightarrow> unit cpu_monad" where
  "ADC_EwIwR i =
    bindM (getsM getB_CF) (\<lambda>temp_CF.
    (let op2_16 = Iw i in
    bindM (getsM (BX_READ_16BIT_REG (rm i))) (\<lambda>op1_16.
    (let sum_16 = (op1_16 + op2_16) + (ucast temp_CF) in
    seqM (modifyM (BX_WRITE_16BIT_REG (rm i) sum_16))
    (modifyM (SET_FLAGS_OSZAPC_16 op1_16 op2_16 sum_16 (BX_LF_INSTR_ADD_ADC16 temp_CF)))))))"

definition SUB_EwIwM :: "bxInstruction_c \<Rightarrow> unit cpu_monad" where
  "SUB_EwIwM i =
    (let op2_16 = Iw i in
    bindM (ResolveModrm i) (\<lambda>eaddr.
    bindM (read_RMW_virtual_word_32 (seg i) eaddr) (\<lambda>op1_16.
    (let diff_16 = op1_16 - op2_16 in
    seqM (write_RMW_virtual_word diff_16)
    (modifyM (SET_FLAGS_OSZAPC_SUB_16 op1_16 op2_16 diff_16))))))"

definition SUB_EwIwR :: "bxInstruction_c \<Rightarrow> unit cpu_monad" where
  "SUB_EwIwR i =
    (let op2_16 = Iw i in
    bindM (getsM (BX_READ_16BIT_REG (rm i))) (\<lambda>op1_16.
    (let diff_16 = op1_16 - op2_16 in
    seqM (modifyM (BX_WRITE_16BIT_REG (rm i) diff_16))
    (modifyM (SET_FLAGS_OSZAPC_SUB_16 op1_16 op2_16 diff_16)))))"

definition CMP_EwIwM :: "bxInstruction_c \<Rightarrow> unit cpu_monad" where
  "CMP_EwIwM i =
    (let op2_16 = Iw i in
    bindM (ResolveModrm i) (\<lambda>eaddr.
    bindM (read_virtual_word_32 (seg i) eaddr) (\<lambda>op1_16.
    (let diff_16 = op1_16 - op2_16 in
    modifyM (SET_FLAGS_OSZAPC_SUB_16 op1_16 op2_16 diff_16)))))"

definition CMP_EwIwR :: "bxInstruction_c \<Rightarrow> unit cpu_monad" where
  "CMP_EwIwR i =
    (let op2_16 = Iw i in
    bindM (getsM (BX_READ_16BIT_REG (rm i))) (\<lambda>op1_16.
    (let diff_16 = op1_16 - op2_16 in
    modifyM (SET_FLAGS_OSZAPC_SUB_16 op1_16 op2_16 diff_16))))"

definition NEG_EwM :: "bxInstruction_c \<Rightarrow> unit cpu_monad" where
  "NEG_EwM i =
    bindM (ResolveModrm i) (\<lambda>eaddr.
    bindM (read_RMW_virtual_word_32 (seg i) eaddr) (\<lambda>op1_16.
    (let op1_16 = - op1_16 in
    seqM (write_RMW_virtual_word op1_16)
    (modifyM (SET_FLAGS_OSZAPC_RESULT_16 op1_16 BX_LF_INSTR_NEG16)))))"

definition NEG_EwR :: "bxInstruction_c \<Rightarrow> unit cpu_monad" where
  "NEG_EwR i =
    bindM (getsM (BX_READ_16BIT_REG (rm i))) (\<lambda>op1_16.
    (let op1_16 = - op1_16 in
    seqM (modifyM (BX_WRITE_16BIT_REG (rm i) op1_16))
    (modifyM (SET_FLAGS_OSZAPC_RESULT_16 op1_16 BX_LF_INSTR_NEG16))))"

definition INC_EwM :: "bxInstruction_c \<Rightarrow> unit cpu_monad" where
  "INC_EwM i =
    bindM (ResolveModrm i) (\<lambda>eaddr.
    bindM (read_RMW_virtual_word_32 (seg i) eaddr) (\<lambda>op1_16.
    (let op1_16 = op1_16 + 1 in
    seqM (write_RMW_virtual_word op1_16)
    (modifyM (SET_FLAGS_OSZAPC_INC_16 op1_16)))))"

definition DEC_EwM :: "bxInstruction_c \<Rightarrow> unit cpu_monad" where
  "DEC_EwM i =
    bindM (ResolveModrm i) (\<lambda>eaddr.
    bindM (read_RMW_virtual_word_32 (seg i) eaddr) (\<lambda>op1_16.
    (let op1_16 = op1_16 - 1 in
    seqM (write_RMW_virtual_word op1_16)
    (modifyM (SET_FLAGS_OSZAPC_DEC_16 op1_16)))))"

definition CMPXCHG_EwGwM :: "bxInstruction_c \<Rightarrow> unit cpu_monad" where
  "CMPXCHG_EwGwM i =
    bindM (ResolveModrm i) (\<lambda>eaddr.
    bindM (read_RMW_virtual_word_32 (seg i) eaddr) (\<lambda>op1_16.
    bindM (getsM AX) (\<lambda>ax.
    (let diff_16 = ax - op1_16 in
    bindM (getsM AX) (\<lambda>ax.
    seqM (modifyM (SET_FLAGS_OSZAPC_SUB_16 ax op1_16 diff_16))
    ((if diff_16 = 0 then
      bindM (getsM (BX_READ_16BIT_REG (nnn i))) (\<lambda>op2_16.
      write_RMW_virtual_word op2_16)
     else
      modifyM (set_AX op1_16))))))))"

definition CMPXCHG_EwGwR :: "bxInstruction_c \<Rightarrow> unit cpu_monad" where
  "CMPXCHG_EwGwR i =
    bindM (getsM (BX_READ_16BIT_REG (rm i))) (\<lambda>op1_16.
    bindM (getsM AX) (\<lambda>ax.
    (let diff_16 = ax - op1_16 in
    bindM (getsM AX) (\<lambda>ax.
    seqM (modifyM (SET_FLAGS_OSZAPC_SUB_16 ax op1_16 diff_16))
    ((if diff_16 = 0 then
      bindM (getsM (BX_READ_16BIT_REG (nnn i))) (\<lambda>op2_16.
      modifyM (BX_WRITE_16BIT_REG (rm i) op2_16))
     else
      modifyM (set_AX op1_16)))))))"

section \<open>Refinement\<close>

lemmas arith16_defs =
  INC_RX_def DEC_RX_def ADD_EwGwM_def ADD_GwEwR_def ADD_AXIw_def ADC_EwGwM_def ADC_GwEwR_def
  ADC_AXIw_def SBB_EwGwM_def SBB_GwEwR_def SBB_AXIw_def SBB_EwIwM_def SBB_EwIwR_def
  SUB_EwGwM_def SUB_GwEwR_def SUB_AXIw_def CMP_EwGwM_def CMP_GwEwR_def CMP_AXIw_def
  XADD_EwGwM_def XADD_EwGwR_def ADD_EwIwM_def ADD_EwIwR_def ADC_EwIwM_def ADC_EwIwR_def
  SUB_EwIwM_def SUB_EwIwR_def CMP_EwIwM_def CMP_EwIwR_def NEG_EwM_def NEG_EwR_def INC_EwM_def
  DEC_EwM_def CMPXCHG_EwGwM_def CMPXCHG_EwGwR_def

lemma arith16_refines:
  "refines (INC_RX i) (spec_una ALU_INC (reg_w (opcodeReg i)) (put_w (opcodeReg i)))"
  "refines (DEC_RX i) (spec_una ALU_DEC (reg_w (opcodeReg i)) (put_w (opcodeReg i)))"
  "refines (ADD_EwGwM i) (spec_alu ALU_ADD (rmw_w i) (reg_w (nnn i)) write_RMW_virtual_word)"
  "refines (ADD_GwEwR i) (spec_alu ALU_ADD (reg_w (nnn i)) (reg_w (rm i)) (put_w (nnn i)))"
  "refines (ADD_AXIw i) (spec_alu ALU_ADD (getsM AX) (returnM (Iw i)) (\<lambda>v. modifyM (set_AX v)))"
  "refines (ADC_EwGwM i) (spec_alu ALU_ADC (rmw_w i) (reg_w (nnn i)) write_RMW_virtual_word)"
  "refines (ADC_GwEwR i) (spec_alu ALU_ADC (reg_w (nnn i)) (reg_w (rm i)) (put_w (nnn i)))"
  "refines (ADC_AXIw i) (spec_alu ALU_ADC (getsM AX) (returnM (Iw i)) (\<lambda>v. modifyM (set_AX v)))"
  "refines (SBB_EwGwM i) (spec_alu ALU_SBB (rmw_w i) (reg_w (nnn i)) write_RMW_virtual_word)"
  "refines (SBB_GwEwR i) (spec_alu ALU_SBB (reg_w (nnn i)) (reg_w (rm i)) (put_w (nnn i)))"
  "refines (SBB_AXIw i) (spec_alu ALU_SBB (getsM AX) (returnM (Iw i)) (\<lambda>v. modifyM (set_AX v)))"
  "refines (SBB_EwIwM i) (spec_alu ALU_SBB (rmw_w i) (returnM (Iw i)) write_RMW_virtual_word)"
  "refines (SBB_EwIwR i) (spec_alu ALU_SBB (reg_w (rm i)) (returnM (Iw i)) (put_w (rm i)))"
  "refines (SUB_EwGwM i) (spec_alu ALU_SUB (rmw_w i) (reg_w (nnn i)) write_RMW_virtual_word)"
  "refines (SUB_GwEwR i) (spec_alu ALU_SUB (reg_w (nnn i)) (reg_w (rm i)) (put_w (nnn i)))"
  "refines (SUB_AXIw i) (spec_alu ALU_SUB (getsM AX) (returnM (Iw i)) (\<lambda>v. modifyM (set_AX v)))"
  "refines (CMP_EwGwM i) (spec_alu ALU_CMP (mem_w i) (reg_w (nnn i)) (\<lambda>_. returnM ()))"
  "refines (CMP_GwEwR i) (spec_alu ALU_CMP (reg_w (nnn i)) (reg_w (rm i)) (\<lambda>_. returnM ()))"
  "refines (CMP_AXIw i) (spec_alu ALU_CMP (getsM AX) (returnM (Iw i)) (\<lambda>_. returnM ()))"
  "refines (XADD_EwGwM i) (spec_xadd (rmw_w i) (reg_w (nnn i)) (\<lambda>v old. seqM (write_RMW_virtual_word v) (put_w (nnn i) old)))"
  "refines (XADD_EwGwR i) (spec_xadd (reg_w (rm i)) (reg_w (nnn i)) (\<lambda>v old. seqM (put_w (nnn i) old) (put_w (rm i) v)))"
  "refines (ADD_EwIwM i) (spec_alu ALU_ADD (rmw_w i) (returnM (Iw i)) write_RMW_virtual_word)"
  "refines (ADD_EwIwR i) (spec_alu ALU_ADD (reg_w (rm i)) (returnM (Iw i)) (put_w (rm i)))"
  "refines (ADC_EwIwM i) (spec_alu ALU_ADC (rmw_w i) (returnM (Iw i)) write_RMW_virtual_word)"
  "refines (ADC_EwIwR i) (spec_alu ALU_ADC (reg_w (rm i)) (returnM (Iw i)) (put_w (rm i)))"
  "refines (SUB_EwIwM i) (spec_alu ALU_SUB (rmw_w i) (returnM (Iw i)) write_RMW_virtual_word)"
  "refines (SUB_EwIwR i) (spec_alu ALU_SUB (reg_w (rm i)) (returnM (Iw i)) (put_w (rm i)))"
  "refines (CMP_EwIwM i) (spec_alu ALU_CMP (mem_w i) (returnM (Iw i)) (\<lambda>_. returnM ()))"
  "refines (CMP_EwIwR i) (spec_alu ALU_CMP (reg_w (rm i)) (returnM (Iw i)) (\<lambda>_. returnM ()))"
  "refines (NEG_EwM i) (spec_una ALU_NEG (rmw_w i) write_RMW_virtual_word)"
  "refines (NEG_EwR i) (spec_una ALU_NEG (reg_w (rm i)) (put_w (rm i)))"
  "refines (INC_EwM i) (spec_una ALU_INC (rmw_w i) write_RMW_virtual_word)"
  "refines (DEC_EwM i) (spec_una ALU_DEC (rmw_w i) write_RMW_virtual_word)"
  "refines (CMPXCHG_EwGwM i) (spec_cmpxchg (rmw_w i) (getsM AX) (reg_w (nnn i)) write_RMW_virtual_word (\<lambda>v. modifyM (set_AX v)))"
  "refines (CMPXCHG_EwGwR i) (spec_cmpxchg (reg_w (rm i)) (getsM AX) (reg_w (nnn i)) (put_w (rm i)) (\<lambda>v. modifyM (set_AX v)))"
  unfolding arith16_defs
  by (simp only: spec_simps, ((rule refines_read_CF)?, simp only: carry_simps)?,
    (intro refine_intros refines_neutral neutral_intros; simp)?)+

lemma arith16_neutral:
  "flag_neutral (CBW i)"
  "flag_neutral (CWD i)"
  unfolding CBW_def CWD_def Let_def
  by (intro neutral_intros; simp)+

end
