(* ===== verification/Arith32.thy ===== *)
theory Arith32
  imports Refine
begin

text \<open>
  The 32-bit arithmetic instructions (\<open>cpu/arith32.cc\<close>), one definition per handler,
  and their refinement of the reference operations.
\<close>

section \<open>\<open>arith32.cc\<close>\<close>

definition INC_ERX :: "bxInstruction_c \<Rightarrow> unit cpu_monad" where
  "INC_ERX i =
    bindM (getsM (BX_READ_32BIT_REG (opcodeReg i))) (\<lambda>r32.
    (let erx = r32 + 1 in
    seqM (modifyM (BX_WRITE_32BIT_REGZ (opcodeReg i) erx))
    (modifyM (SET_FLAGS_OSZAPC_INC_32 erx))))"

definition DEC_ERX :: "bxInstruction_c \<Rightarrow> unit cpu_monad" where
  "DEC_ERX i =
    bindM (getsM (BX_READ_32BIT_REG (opcodeReg i))) (\<lambda>r32.
    (let erx = r32 - 1 in
    seqM (modifyM (BX_WRITE_32BIT_REGZ (opcodeReg i) erx))
    (modifyM (SET_FLAGS_OSZAPC_DEC_32 erx))))"

definition ADD_EdGdM :: "bxInstruction_c \<Rightarrow> unit cpu_monad" where
  "ADD_EdGdM i =
    bindM (ResolveModrm i) (\<lambda>eaddr.
    bindM (read_RMW_virtual_dword_32 (seg i) eaddr) (\<lambda>op1_32.
    bindM (getsM (BX_READ_32BIT_REG (nnn i))) (\<lambda>op2_32.
    (let sum_32 = op1_32 + op2_32 in
    seqM (write_RMW_virtual_dword sum_32)
    (modifyM (SET_FLAGS_OSZAPC_ADD_32 op1_32 op2_32 sum_32))))))"

definition ADD_GdEdR :: "bxInstruction_c \<Rightarrow> unit cpu_monad" where
  "ADD_GdEdR i =
    bindM (getsM (BX_READ_32BIT_REG (nnn i))) (\<lambda>op1_32.
    bindM (getsM (BX_READ_32BIT_REG (rm i))) (\<lambda>op2_32.
    (let sum_32 = op1_32 + op2_32 in
    seqM (modifyM (BX_WRITE_32BIT_REGZ (nnn i) sum_32))
    (modifyM (SET_FLAGS_OSZAPC_ADD_32 op1_32 op2_32 sum_32)))))"

definition ADD_EAXId :: "bxInstruction_c \<Rightarrow> unit cpu_monad" where
  "ADD_EAXId i =
    (let op2_32 = Id i in
    bindM (getsM EAX) (\<lambda>op1_32.
    (let sum_32 = op1_32 + op2_32 in
    seqM (modifyM (set_EAX sum_32))
    (modifyM (SET_FLAGS_OSZAPC_ADD_32 op1_32 op2_32 sum_32)))))"

definition ADC_EdGdM :: "bxInstruction_c \<Rightarrow> unit cpu_monad" where
  "ADC_EdGdM i =
    bindM (getsM getB_CF) (\<lambda>temp_CF.
    bindM (ResolveModrm i) (\<lambda>eaddr.
    bindM (read_RMW_virtual_dword_32 (seg i) eaddr) (\<lambda>op1_32.
    bindM (getsM (BX_READ_32BIT_REG (nnn i))) (\<lambda>op2_32.
    (let sum_32 = (op1_32 + op2_32) + temp_CF in
    seqM (write_RMW_virtual_dword sum_32)
    (modifyM (SET_FLAGS_OSZAPC_32 op1_32 op2_32 sum_32 (BX_LF_INSTR_ADD_ADC32 temp_CF))))))))"

definition ADC_GdEdR :: "bxInstruction_c \<Rightarrow> unit cpu_monad" where
  "ADC_GdEdR i =
    bindM (getsM getB_CF) (\<lambda>temp_CF.
    bindM (getsM (BX_READ_32BIT_REG (nnn i))) (\<lambda>op1_32.
    bindM (getsM (BX_READ_32BIT_REG (rm i))) (\<lambda>op2_32.
    (let sum_32 = (op1_32 + op2_32) + temp_CF in
    seqM (modifyM (BX_WRITE_32BIT_REGZ (nnn i) sum_32))
    (modifyM (SET_FLAGS_OSZAPC_32 op1_32 op2_32 sum_32 (BX_LF_INSTR_ADD_ADC32 temp_CF)))))))"

definition ADC_EAXId :: "bxInstruction_c \<Rightarrow> unit cpu_monad" where
  "ADC_EAXId i =
    bindM (getsM getB_CF) (\<lambda>temp_CF.
    (let op2_32 = Id i in
    bindM (getsM EAX) (\<lambda>op1_32.
    (let sum_32 = (op1_32 + op2_32) + temp_CF in
    seqM (modifyM (set_EAX sum_32))
    (modifyM (SET_FLAGS_OSZAPC_32 op1_32 op2_32 sum_32 (BX_LF_INSTR_ADD_ADC32 temp_CF)))))))"

definition SBB_EdGdM :: "bxInstruction_c \<Rightarrow> unit cpu_monad" where
  "SBB_EdGdM i =
    bindM (getsM getB_CF) (\<lambda>temp_CF.
    bindM (ResolveModrm i) (\<lambda>eaddr.
    bindM (read_RMW_virtual_dword_32 (seg i) eaddr) (\<lambda>op1_32.
    bindM (getsM (BX_READ_32BIT_REG (nnn i))) (\<lambda>op2_32.
    (let diff_32 = op1_32 - (op2_32 + temp_CF) in
    seqM (write_RMW_virtual_dword diff_32)
    (modifyM (SET_FLAGS_OSZAPC_32 op1_32 op2_32 diff_32 (BX_LF_INSTR_SUB_SBB32 temp_CF))))))))"

definition SBB_GdEdR :: "bxInstruction_c \<Rightarrow> unit cpu_monad" where
  "SBB_GdEdR i =
    bindM (getsM getB_CF) (\<lambda>temp_CF.
    bindM (getsM (BX_READ_32BIT_REG (nnn i))) (\<lambda>op1_32.
    bindM (getsM (BX_READ_32BIT_REG (rm i))) (\<lambda>op2_32.
    (let diff_32 = op1_32 - (op2_32 + temp_CF) in
    seqM (modifyM (BX_WRITE_32BIT_REGZ (nnn i) diff_32))
    (modifyM (SET_FLAGS_OSZAPC_32 op1_32 op2_32 diff_32 (BX_LF_INSTR_SUB_SBB32 temp_CF)))))))"

definition SBB_EAXId :: "bxInstruction_c \<Rightarrow> unit cpu_monad" where
  "SBB_EAXId i =
    bindM (getsM getB_CF) (\<lambda>temp_CF.
    bindM (getsM EAX) (\<lambda>op1_32.
    (let op2_32 = Id i in
    (let diff_32 = op1_32 - (op2_32 + temp_CF) in
    seqM (modifyM (set_EAX diff_32))
    (modifyM (SET_FLAGS_OSZAPC_32 op1_32 op2_32 diff_32 (BX_LF_INSTR_SUB_SBB32 temp_CF)))))))"

definition SBB_EdIdM :: "bxInstruction_c \<Rightarrow> unit cpu_monad" where
  "SBB_EdIdM i =
    bindM (getsM getB_CF) (\<lambda>temp_CF.
    (let op2_32 = Id i in
    bindM (ResolveModrm i) (\<lambda>eaddr.
    bindM (read_RMW_virtual_dword_32 (seg i) eaddr) (\<lambda>op1_32.
    (let diff_32 = op1_32 - (op2_32 + temp_CF) in
    seqM (write_RMW_virtual_dword diff_32)
    (modifyM (SET_FLAGS_OSZAPC_32 op1_32 op2_32 diff_32 (BX_LF_INSTR_SUB_SBB32 temp_CF))))))))"

definition SBB_EdIdR :: "bxInstruction_c \<Rightarrow> unit cpu_monad" where
  "SBB_EdIdR i =
    bindM (getsM getB_CF) (\<lambda>temp_CF.
    (let op2_32 = Id i in
    bindM (getsM (BX_READ_32BIT_REG (rm i))) (\<lambda>op1_32.
    (let diff_32 = op1_32 - (op2_32 + temp_CF) in
    seqM (modifyM (BX_WRITE_32BIT_REGZ (rm i) diff_32))
    (modifyM (SET_FLAGS_OSZAPC_32 op1_32 op2_32 diff_32 (BX_LF_INSTR_SUB_SBB32 temp_CF)))))))"

definition SUB_EdGdM :: "bxInstruction_c \<Rightarrow> unit cpu_monad" where
  "SUB_EdGdM i =
    bindM (ResolveModrm i) (\<lambda>eaddr.
    bindM (read_RMW_virtual_dword_32 (seg i) eaddr) (\<lambda>op1_32.
    bindM (getsM (BX_READ_32BIT_REG (nnn i))) (\<lambda>op2_32.
    (let diff_32 = op1_32 - op2_32 in
    seqM (write_RMW_virtual_dword diff_32)
    (modifyM (SET_FLAGS_OSZAPC_SUB_32 op1_32 op2_32 diff_32))))))"

definition SUB_GdEdR :: "bxInstruction_c \<Rightarrow> unit cpu_monad" where
  "SUB_GdEdR i =
    bindM (getsM (BX_READ_32BIT_REG (nnn i))) (\<lambda>op1_32.
    bindM (getsM (BX_READ_32BIT_REG (rm i))) (\<lambda>op2_32.
    (let diff_32 = op1_32 - op2_32 in
    seqM (modifyM (BX_WRITE_32BIT_REGZ (nnn i) diff_32))
    (modifyM (SET_FLAGS_OSZAPC_SUB_32 op1_32 op2_32 diff_32)))))"

definition SUB_EAXId :: "bxInstruction_c \<Rightarrow> unit cpu_monad" where
  "SUB_EAXId i =
    bindM (getsM EAX) (\<lambda>op1_32.
    (let op2_32 = Id i in
    (let diff_32 = op1_32 - op2_32 in
    seqM (modifyM (set_EAX diff_32))
    (modifyM (SET_FLAGS_OSZAPC_SUB_32 op1_32 op2_32 diff_32)))))"

definition CMP_EdGdM :: "bxInstruction_c \<Rightarrow> unit cpu_monad" where
  "CMP_EdGdM i =
    bindM (ResolveModrm i) (\<lambda>eaddr.
    bindM (read_virtual_dword_32 (seg i) eaddr) (\<lambda>op1_32.
    bindM (getsM (BX_READ_32BIT_REG (nnn i))) (\<lambda>op2_32.
    (let diff_32 = op1_32 - op2_32 in
    modifyM (SET_FLAGS_OSZAPC_SUB_32 op1_32 op2_32 diff_32)))))"

definition CMP_GdEdR :: "bxInstruction_c \<Rightarrow> unit cpu_monad" where
  "CMP_GdEdR i =
    bindM (getsM (BX_READ_32BIT_REG (nnn i))) (\<lambda>op1_32.
    bindM (getsM (BX_READ_32BIT_REG (rm i))) (\<lambda>op2_32.
    (let diff_32 = op1_32 - op2_32 in
    modifyM (SET_FLAGS_OSZAPC_SUB_32 op1_32 op2_32 diff_32))))"

definition CMP_EAXId :: "bxInstruction_c \<Rightarrow> unit cpu_monad" where
  "CMP_EAXId i =
    bindM (getsM EAX) (\<lambda>op1_32.
    (let op2_32 = Id i in
    (let diff_32 = op1_32 - op2_32 in
    modifyM (SET_FLAGS_OSZAPC_SUB_32 op1_32 op2_32 diff_32))))"

definition CWDE :: "bxInstruction_c \<Rightarrow> unit cpu_monad" where
  "CWDE i =
    bindM (getsM AX) (\<lambda>ax.
    (let tmp = scast ax in
    modifyM (set_EAX tmp)))"

definition CDQ :: "bxInstruction_c \<Rightarrow> unit cpu_monad" where
  "CDQ i =
    bindM (getsM EAX) (\<lambda>eax.
    (if eax AND 0x80000000 \<noteq> 0 then
      modifyM (set_EDX 0xFFFFFFFF)
     else
      modifyM (set_EDX 0x00000000)))"

definition CMPXCHG_XBTS :: "bxInstruction_c \<Rightarrow> unit cpu_monad" where
  "CMPXCHG_XBTS i =
    exception BX_UD_EXCEPTION 0"

definition CMPXCHG_IBTS :: "bxInstruction_c \<Rightarrow> unit cpu_monad" where
  "CMPXCHG_IBTS i =
    exception BX_UD_EXCEPTION 0"

definition XADD_EdGdM :: "bxInstruction_c \<Rightarrow> unit cpu_monad" where
  "XADD_EdGdM i =
    bindM (ResolveModrm i) (\<lambda>eaddr.
    bindM (read_RMW_virtual_dword_32 (seg i) eaddr) (\<lambda>op1_32.
    bindM (getsM (BX_READ_32BIT_REG (nnn i))) (\<lambda>op2_32.
    (let sum_32 = op1_32 + op2_32 in
    seqM (write_RMW_virtual_dword sum_32)
    (seqM (modifyM (BX_WRITE_32BIT_REGZ (nnn i) op1_32))
    (modifyM (SET_FLAGS_OSZAPC_ADD_32 op1_32 op2_32 sum_32)))))))"

definition XADD_EdGdR :: "bxInstruction_c \<Rightarrow> unit cpu_monad" where
  "XADD_EdGdR i =
    bindM (getsM (BX_READ_32BIT_REG (rm i))) (\<lambda>op1_32.
    bindM (getsM (BX_READ_32BIT_REG (nnn i))) (\<lambda>op2_32.
    (let sum_32 = op1_32 + op2_32 in
    seqM (modifyM (BX_WRITE_32BIT_REGZ (nnn i) op1_32))
    (seqM (modifyM (BX_WRITE_32BIT_REGZ (rm i) sum_32))
    (modifyM (SET_FLAGS_OSZAPC_ADD_32 op1_32 op2_32 sum_32))))))"

definition ADD_EdIdM :: "bxInstruction_c \<Rightarrow> unit cpu_monad" where
  "ADD_EdIdM i =
    bindM (ResolveModrm i) (\<lambda>eaddr.
    bindM (read_RMW_virtual_dword_32 (seg i) eaddr) (\<lambda>op1_32.
    (let op2_32 = Id i in
    (let sum_32 = op1_32 + op2_32 in
    seqM (write_RMW_virtual_dword sum_32)
    (modifyM (SET_FLAGS_OSZAPC_ADD_32 op1_32 op2_32 sum_32))))))"

definition ADD_EdIdR :: "bxInstruction_c \<Rightarrow> unit cpu_monad" where
  "ADD_EdIdR i =
    bindM (getsM (BX_READ_32BIT_REG (rm i))) (\<lambda>op1_32.
    (let op2_32 = Id i in
    (let sum_32 = op1_32 + op2_32 in
    seqM (modifyM (BX_WRITE_32BIT_REGZ (rm i) sum_32))
    (modifyM (SET_FLAGS_OSZAPC_ADD_32 op1_32 op2_32 sum_32)))))"

definition ADC_EdIdM :: "bxInstruction_c \<Rightarrow> unit cpu_monad" where
  "ADC_EdIdM i =
    bindM (getsM getB_CF) (\<lambda>temp_CF.
    (let op2_32 = Id i in
    bindM (ResolveModrm i) (\<lambda>eaddr.
    bindM (read_RMW_virtual_dword_32 (seg i) eaddr) (\<lambda>op1_32.
    (let sum_32 = (op1_32 + op2_32) + temp_CF in
    seqM (write_RMW_virtual_dword sum_32)
    (modifyM (SET_FLAGS_OSZAPC_32 op1_32 op2_32 sum_32 (BX_LF_INSTR_ADD_ADC32 temp_CF))))))))"

definition ADC_EdIdR :: "bxInstruction_c \<Rightarrow> unit cpu_monad" where
  "ADC_EdIdR i =
    bindM (getsM getB_CF) (\<lambda>temp_CF.
    (let op2_32 = Id i in
    bindM (getsM (BX_READ_32BIT_REG (rm i))) (\<lambda>op1_32.
    (let sum_32 = (op1_32 + op2_32) + temp_CF in
    seqM (modifyM (BX_WRITE_32BIT_REGZ (rm i) sum_32))
    (modifyM (SET_FLAGS_OSZAPC_32 op1_32 op2_32 sum_32 (BX_LF_INSTR_ADD_ADC32 temp_CF)))))))"

definition SUB_EdIdM :: "bxInstruction_c \<Rightarrow> unit cpu_monad" where
  "SUB_EdIdM i =
    (let op2_32 = Id i in
    bindM (ResolveModrm i) (\<lambda>eaddr.
    bindM (read_RMW_virtual_dword_32 (seg i) eaddr) (\<lambda>op1_32.
    (let diff_32 = op1_32 - op2_32 in
    seqM (write_RMW_virtual_dword diff_32)
    (modifyM (SET_FLAGS_OSZAPC_SUB_32 op1_32 op2_32 diff_32))))))"

definition SUB_EdIdR :: "bxInstruction_c \<Rightarrow> unit cpu_monad" where
  "SUB_EdIdR i =
    (let op2_32 = Id i in
    bindM (getsM (BX_READ_32BIT_REG (rm i))) (\<lambda>op1_32.
    (let diff_32 = op1_32 - op2_32 in
    seqM (modifyM (BX_WRITE_32BIT_REGZ (rm i) diff_32))
    (modifyM (SET_FLAGS_OSZAPC_SUB_32 op1_32 op2_32 diff_32)))))"

definition CMP_EdIdM :: "bxInstruction_c \<Rightarrow> unit cpu_monad" where
  "CMP_EdIdM i =
    bindM (ResolveModrm i) (\<lambda>eaddr.
    bindM (read_virtual_dword_32 (seg i) eaddr) (\<lambda>op1_32.
    (let op2_32 = Id i in
    (let diff_32 = op1_32 - op2_32 in
    modifyM (SET_FLAGS_OSZAPC_SUB_32 op1_32 op2_32 diff_32)))))"

definition CMP_EdIdR :: "bxInstruction_c \<Rightarrow> unit cpu_monad" where
  "CMP_EdIdR i =
    bindM (getsM (BX_READ_32BIT_REG (rm i))) (\<lambda>op1_32.
    (let op2_32 = Id i in
    (let diff_32 = op1_32 - op2_32 in
    modifyM (SET_FLAGS_OSZAPC_SUB_32 op1_32 op2_32 diff_32))))"

definition NEG_EdM :: "bxInstruction_c \<Rightarrow> unit cpu_monad" where
  "NEG_EdM i =
    bindM (ResolveModrm i) (\<lambda>eaddr.
    bindM (read_RMW_virtual_dword_32 (seg i) eaddr) (\<lambda>op1_32.
    (let op1_32 = - op1_32 in
    seqM (write_RMW_virtual_dword op1_32)
    (modifyM (SET_FLAGS_OSZAPC_RESULT_32 op1_32 BX_LF_INSTR_NEG32)))))"

definition NEG_EdR :: "bxInstruction_c \<Rightarrow> unit cpu_monad" where
  "NEG_EdR i =
    bindM (getsM (BX_READ_32BIT_REG (rm i))) (\<lambda>op1_32.
    (let op1_32 = - op1_32 in
    seqM (modifyM (BX_WRITE_32BIT_REGZ (rm i) op1_32))
    (modifyM (SET_FLAGS_OSZAPC_RESULT_32 op1_32 BX_LF_INSTR_NEG32))))"

definition INC_EdM :: "bxInstruction_c \<Rightarrow> unit cpu_monad" where
  "INC_EdM i =
    bindM (ResolveModrm i) (\<lambda>eaddr.
    bindM (read_RMW_virtual_dword_32 (seg i) eaddr) (\<lambda>op1_32.
    (let op1_32 = op1_32 + 1 in
    seqM (write_RMW_virtual_dword op1_32)
    (modifyM (SET_FLAGS_OSZAPC_INC_32 op1_32)))))"

definition DEC_EdM :: "bxInstruction_c \<Rightarrow> unit cpu_monad" where
  "DEC_EdM i =
    bindM (ResolveModrm i) (\<lambda>eaddr.
    bindM (read_RMW_virtual_dword_32 (seg i) eaddr) (\<lambda>op1_32.
    (let op1_32 = op1_32 - 1 in
    seqM (write_RMW_virtual_dword op1_32)
    (modifyM (SET_FLAGS_OSZAPC_DEC_32 op1_32)))))"

definition CMPXCHG_EdGdM :: "bxInstruction_c \<Rightarrow> unit cpu_monad" where
  "CMPXCHG_EdGdM i =
    bindM (ResolveModrm i) (\<lambda>eaddr.
    bindM (read_RMW_virtual_dword_32 (seg i) eaddr) (\<lambda>op1_32.
    bindM (getsM EAX) (\<lambda>eax.
    (let diff_32 = eax - op1_32 in
    bindM (getsM EAX) (\<lambda>eax.
    seqM (modifyM (SET_FLAGS_OSZAPC_SUB_32 eax op1_32 diff_32))
    ((if diff_32 = 0 then
      bindM (getsM (BX_READ_32BIT_REG (nnn i))) (\<lambda>op2_32.
      write_RMW_virtual_dword op2_32)
     else
      modifyM (set_EAX op1_32))))))))"

definition CMPXCHG_EdGdR :: "bxInstruction_c \<Rightarrow> unit cpu_monad" where
  "CMPXCHG_EdGdR i =
    bindM (getsM (BX_READ_32BIT_REG (rm i))) (\<lambda>op1_32.
    bindM (getsM EAX) (\<lambda>eax.
    (let diff_32 = eax - op1_32 in
    bindM (getsM EAX) (\<lambda>eax.
    seqM (modifyM (SET_FLAGS_OSZAPC_SUB_32 eax op1_32 diff_32))
    ((if diff_32 = 0 then
      bindM (getsM (BX_READ_32BIT_REG (nnn i))) (\<lambda>op2_32.
      modifyM (BX_WRITE_32BIT_REGZ (rm i) op2_32))
     else
      modifyM (set_EAX op1_32)))))))"

definition CMPXCHG8B :: "bxInstruction_c \<Rightarrow> unit cpu_monad" where
  "CMPXCHG8B i =
    bindM (ResolveModrm i) (\<lambda>eaddr.
    bindM (read_RMW_virtual_qword_32 (seg i) eaddr) (\<lambda>op1_64.
    bindM (getsM EDX) (\<lambda>edx.
    bindM (getsM EAX) (\<lambda>eax.
    (let op2_64 = (push_bit 32 (ucast edx)) OR (ucast eax) in
    (if op1_64 = op2_64 then
      bindM (getsM ECX) (\<lambda>ecx.
      bindM (getsM EBX) (\<lambda>ebx.
      (let op2_64 = (push_bit 32 (ucast ecx)) OR (ucast ebx) in
      seqM (write_RMW_virtual_qword op2_64)
      (modifyM assert_ZF))))
     else
      seqM (modifyM (set_EAX (ucast op1_64)))
      (seqM (modifyM (set_EDX (ucast (drop_bit 32 op1_64))))
      (modifyM clear_ZF))))))))"

section \<open>Refinement\<close>

lemmas arith32_defs =
  INC_ERX_def DEC_ERX_def ADD_EdGdM_def ADD_GdEdR_def ADD_EAXId_def ADC_EdGdM_def
  ADC_GdEdR_def ADC_EAXId_def SBB_EdGdM_def SBB_GdEdR_def SBB_EAXId_def SBB_EdIdM_def
  SBB_EdIdR_def SUB_EdGdM_def SUB_GdEdR_def SUB_EAXId_def CMP_EdGdM_def CMP_GdEdR_def
  CMP_EAXId_def XADD_EdGdM_def XADD_EdGdR_def ADD_EdIdM_def ADD_EdIdR_def ADC_EdIdM_def
  ADC_EdIdR_def SUB_EdIdM_def SUB_EdIdR_def CMP_EdIdM_def CMP_EdIdR_def NEG_EdM_def
  NEG_EdR_def INC_EdM_def DEC_EdM_def CMPXCHG_EdGdM_def CMPXCHG_EdGdR_def

lemma arith32_refines:
  "refines (INC_ERX i) (spec_una ALU_INC (reg_d (opcodeReg i)) (put_d (opcodeReg i)))"
  "refines (DEC_ERX i) (spec_una ALU_DEC (reg_d (opcodeReg i)) (put_d (opcodeReg i)))"
  "refines (ADD_EdGdM i) (spec_alu ALU_ADD (rmw_d i) (reg_d (nnn i)) write_RMW_virtual_dword)"
  "refines (ADD_GdEdR i) (spec_alu ALU_ADD (reg_d (nnn i)) (reg_d (rm i)) (put_d (nnn i)))"
  "refines (ADD_EAXId i) (spec_alu ALU_ADD (getsM EAX) (returnM (Id i)) (\<lambda>v. modifyM (set_EAX v)))"
  "refines (ADC_EdGdM i) (spec_alu ALU_ADC (rmw_d i) (reg_d (nnn i)) write_RMW_virtual_dword)"
  "refines (ADC_GdEdR i) (spec_alu ALU_ADC (reg_d (nnn i)) (reg_d (rm i)) (put_d (nnn i)))"
  "refines (ADC_EAXId i) (spec_alu ALU_ADC (getsM EAX) (returnM (Id i)) (\<lambda>v. modifyM (set_EAX v)))"
  "refines (SBB_EdGdM i) (spec_alu ALU_SBB (rmw_d i) (reg_d (nnn i)) write_RMW_virtual_dword)"
  "refines (SBB_GdEdR i) (spec_alu ALU_SBB (reg_d (nnn i)) (reg_d (rm i)) (put_d (nnn i)))"
  "refines (SBB_EAXId i) (spec_alu ALU_SBB (getsM EAX) (returnM (Id i)) (\<lambda>v. modifyM (set_EAX v)))"
  "refines (SBB_EdIdM i) (spec_alu ALU_SBB (rmw_d i) (returnM (Id i)) write_RMW_virtual_dword)"
  "refines (SBB_EdIdR i) (spec_alu ALU_SBB (reg_d (rm i)) (returnM (Id i)) (put_d (rm i)))"
  "refines (SUB_EdGdM i) (spec_alu ALU_SUB (rmw_d i) (reg_d (nnn i)) write_RMW_virtual_dword)"
  "refines (SUB_GdEdR i) (spec_alu ALU_SUB (reg_d (nnn i)) (reg_d (rm i)) (put_d (nnn i)))"
  "refines (SUB_EAXId i) (spec_alu ALU_SUB (getsM EAX) (returnM (Id i)) (\<lambda>v. modifyM (set_EAX v)))"
  "refines (CMP_EdGdM i) (spec_alu ALU_CMP (mem_d i) (reg_d (nnn i)) (\<lambda>_. returnM ()))"
  "refines (CMP_GdEdR i) (spec_alu ALU_CMP (reg_d (nnn i)) (reg_d (rm i)) (\<lambda>_. returnM ()))"
  "refines (CMP_EAXId i) (spec_alu ALU_CMP (getsM EAX) (returnM (Id i)) (\<lambda>_. returnM ()))"
  "refines (XADD_EdGdM i) (spec_xadd (rmw_d i) (reg_d (nnn i)) (\<lambda>v old. seqM (write_RMW_virtual_dword v) (put_d (nnn i) old)))"
  "refines (XADD_EdGdR i) (spec_xadd (reg_d (rm i)) (reg_d (nnn i)) (\<lambda>v old. seqM (put_d (nnn i) old) (put_d (rm i) v)))"
  "refines (ADD_EdIdM i) (spec_alu ALU_ADD (rmw_d i) (returnM (Id i)) write_RMW_virtual_dword)"
  "refines (ADD_EdIdR i) (spec_alu ALU_ADD (reg_d (rm i)) (returnM (Id i)) (put_d (rm i)))"
  "refines (ADC_EdIdM i) (spec_alu ALU_ADC (rmw_d i) (returnM (Id i)) write_RMW_virtual_dword)"
  "refines (ADC_EdIdR i) (spec_alu ALU_ADC (reg_d (rm i)) (returnM (Id i)) (put_d (rm i)))"
  "refines (SUB_EdIdM i) (spec_alu ALU_SUB (rmw_d i) (returnM (Id i)) write_RMW_virtual_dword)"
  "refines (SUB_EdIdR i) (spec_alu ALU_SUB (reg_d (rm i)) (returnM (Id i)) (put_d (rm i)))"
  "refines (CMP_EdIdM i) (spec_alu ALU_CMP (mem_d i) (returnM (Id i)) (\<lambda>_. returnM ()))"
  "refines (CMP_EdIdR i) (spec_alu ALU_CMP (reg_d (rm i)) (returnM (Id i)) (\<lambda>_. returnM ()))"
  "refines (NEG_EdM i) (spec_una ALU_NEG (rmw_d i) write_RMW_virtual_dword)"
  "refines (NEG_EdR i) (spec_una ALU_NEG (reg_d (rm i)) (put_d (rm i)))"
  "refines (INC_EdM i) (spec_una ALU_INC (rmw_d i) write_RMW_virtual_dword)"
  "refines (DEC_EdM i) (spec_una ALU_DEC (rmw_d i) write_RMW_virtual_dword)"
  "refines (CMPXCHG_EdGdM i) (spec_cmpxchg (rmw_d i) (getsM EAX) (reg_d (nnn i)) write_RMW_virtual_dword (\<lambda>v. modifyM (set_EAX v)))"
  "refines (CMPXCHG_EdGdR i) (spec_cmpxchg (reg_d (rm i)) (getsM EAX) (reg_d (nnn i)) (put_d (rm i)) (\<lambda>v. modifyM (set_EAX v)))"
  unfolding arith32_defs
  by (simp only: spec_simps, ((rule refines_read_CF)?, simp only: carry_simps)?,
    (intro refine_intros refines_neutral neutral_intros; simp)?)+

lemma arith32_neutral:
  "flag_neutral (CWDE i)"
  "flag_neutral (CDQ i)"
  "flag_neutral (CMPXCHG_XBTS i)"
  "flag_neutral (CMPXCHG_IBTS i)"
  unfolding CWDE_def CDQ_def CMPXCHG_XBTS_def CMPXCHG_IBTS_def Let_def
  by (intro neutral_intros; simp)+

definition spec_cmpxchg8b :: "bxInstruction_c \<Rightarrow> unit cpu_monad" where
  "spec_cmpxchg8b i =
    bindM (ResolveModrm i) (\<lambda>eaddr.
    bindM (read_RMW_virtual_qword_32 (seg i) eaddr) (\<lambda>x.
    bindM (getsM (\<lambda>s. push_bit 32 (ucast (EDX s)) OR ucast (EAX s))) (\<lambda>a.
    if x = a then
      bindM (getsM (\<lambda>s. push_bit 32 (ucast (ECX s)) OR ucast (EBX s))) (\<lambda>v.
      seqM (write_RMW_virtual_qword v)
      (modifyM (upd_flags (\<lambda>f. f\<lparr>fZF := True\<rparr>))))
    else
      seqM (modifyM (set_EAX (ucast x)))
      (seqM (modifyM (set_EDX (ucast (drop_bit 32 x))))
      (modifyM (upd_flags (\<lambda>f. f\<lparr>fZF := False\<rparr>)))))))"

lemma bindM_gets_pair:
  "bindM (getsM (\<lambda>s. h (f s) (g s))) k = bindM (getsM f) (\<lambda>x. bindM (getsM g) (\<lambda>y. k (h x y)))"
  by (simp add: fun_eq_iff bindM_def getsM_def)

lemma CMPXCHG8B_refines: "refines (CMPXCHG8B i) (spec_cmpxchg8b i)"
  unfolding CMPXCHG8B_def spec_cmpxchg8b_def Let_def
    bindM_gets_pair [where h = "\<lambda>d a. push_bit 32 (ucast d) OR ucast a :: 64 word"]
  by (intro refine_intros refines_neutral neutral_intros; simp)

end
