(* ===== verification/Logical.thy ===== *)
theory Logical
  imports Refine
begin

text \<open>
  The logical instructions (\<open>cpu/logical8.cc\<close>, \<open>logical16.cc\<close>, \<open>logical32.cc\<close>), one
  definition per handler, and their refinement of the reference operations.
\<close>

section \<open>\<open>logical8.cc\<close>\<close>

definition XOR_EbGbM :: "bxInstruction_c \<Rightarrow> unit cpu_monad" where
  "XOR_EbGbM i =
    bindM (ResolveModrm i) (\<lambda>eaddr.
    bindM (read_RMW_virtual_byte_32 (seg i) eaddr) (\<lambda>op1.
    bindM (getsM (BX_READ_8BIT_REG (nnn i))) (\<lambda>op2.
    (let op1 = op1 XOR op2 in
    seqM (write_RMW_virtual_byte op1)
    (modifyM (SET_FLAGS_OSZAPC_LOGIC_8 op1))))))"

definition XOR_GbEbR :: "bxInstruction_c \<Rightarrow> unit cpu_monad" where
  "XOR_GbEbR i =
    bindM (getsM (BX_READ_8BIT_REG (nnn i))) (\<lambda>op1.
    bindM (getsM (BX_READ_8BIT_REG (rm i))) (\<lambda>op2.
    (let op1 = op1 XOR op2 in
    seqM (modifyM (BX_WRITE_8BIT_REG (nnn i) op1))
    (modifyM (SET_FLAGS_OSZAPC_LOGIC_8 op1)))))"

definition XOR_ALIb :: "bxInstruction_c \<Rightarrow> unit cpu_monad" where
  "XOR_ALIb i =
    bindM (getsM AL) (\<lambda>op1.
    (let op1 = op1 XOR Ib i in
    seqM (modifyM (set_AL op1))
    (modifyM (SET_FLAGS_OSZAPC_LOGIC_8 op1))))"

definition XOR_EbIbM :: "bxInstruction_c \<Rightarrow> unit cpu_monad" where
  "XOR_EbIbM i =
    (let op2 = Ib i in
    bindM (ResolveModrm i) (\<lambda>eaddr.
    bindM (read_RMW_virtual_byte_32 (seg i) eaddr) (\<lambda>op1.
    (let op1 = op1 XOR op2 in
    seqM (write_RMW_virtual_byte op1)
    (modifyM (SET_FLAGS_OSZAPC_LOGIC_8 op1))))))"

definition XOR_EbIbR :: "bxInstruction_c \<Rightarrow> unit cpu_monad" where
  "XOR_EbIbR i =
    (let op2 = Ib i in
    bindM (getsM (BX_READ_8BIT_REG (rm i))) (\<lambda>op1.
    (let op1 = op1 XOR op2 in
    seqM (modifyM (BX_WRITE_8BIT_REG (rm i) op1))
    (modifyM (SET_FLAGS_OSZAPC_LOGIC_8 op1)))))"

definition OR_EbIbM :: "bxInstruction_c \<Rightarrow> unit cpu_monad" where
  "OR_EbIbM i =
    (let op2 = Ib i in
    bindM (ResolveModrm i) (\<lambda>eaddr.
    bindM (read_RMW_virtual_byte_32 (seg i) eaddr) (\<lambda>op1.
    (let op1 = op1 OR op2 in
    seqM (write_RMW_virtual_byte op1)
    (modifyM (SET_FLAGS_OSZAPC_LOGIC_8 op1))))))"

definition OR_EbIbR :: "bxInstruction_c \<Rightarrow> unit cpu_monad" where
  "OR_EbIbR i =
    (let op2 = Ib i in
    bindM (getsM (BX_READ_8BIT_REG (rm i))) (\<lambda>op1.
    (let op1 = op1 OR op2 in
    seqM (modifyM (BX_WRITE_8BIT_REG (rm i) op1))
    (modifyM (SET_FLAGS_OSZAPC_LOGIC_8 op1)))))"

definition NOT_EbM :: "bxInstruction_c \<Rightarrow> unit cpu_monad" where
  "NOT_EbM i =
    bindM (ResolveModrm i) (\<lambda>eaddr.
    bindM (read_RMW_virtual_byte_32 (seg i) eaddr) (\<lambda>op1_8.
    (let op1_8 = NOT op1_8 in
    write_RMW_virtual_byte op1_8)))"

definition NOT_EbR :: "bxInstruction_c \<Rightarrow> unit cpu_monad" where
  "NOT_EbR i =
    bindM (getsM (BX_READ_8BIT_REG (rm i))) (\<lambda>op1_8.
    (let op1_8 = NOT op1_8 in
    modifyM (BX_WRITE_8BIT_REG (rm i) op1_8)))"

definition OR_EbGbM :: "bxInstruction_c \<Rightarrow> unit cpu_monad" where
  "OR_EbGbM i =
    bindM (ResolveModrm i) (\<lambda>eaddr.
    bindM (read_RMW_virtual_byte_32 (seg i) eaddr) (\<lambda>op1.
    bindM (getsM (BX_READ_8BIT_REG (nnn i))) (\<lambda>op2.
    (let op1 = op1 OR op2 in
    seqM (write_RMW_virtual_byte op1)
    (modifyM (SET_FLAGS_OSZAPC_LOGIC_8 op1))))))"

definition OR_GbEbR :: "bxInstruction_c \<Rightarrow> unit cpu_monad" where
  "OR_GbEbR i =
    bindM (getsM (BX_READ_8BIT_REG (nnn i))) (\<lambda>op1.
    bindM (getsM (BX_READ_8BIT_REG (rm i))) (\<lambda>op2.
    (let op1 = op1 OR op2 in
    seqM (modifyM (BX_WRITE_8BIT_REG (nnn i) op1))
    (modifyM (SET_FLAGS_OSZAPC_LOGIC_8 op1)))))"

definition OR_ALIb :: "bxInstruction_c \<Rightarrow> unit cpu_monad" where
  "OR_ALIb i =
    bindM (getsM AL) (\<lambda>op1.
    (let op2 = Ib i in
    (let op1 = op1 OR op2 in
    seqM (modifyM (set_AL op1))
    (modifyM (SET_FLAGS_OSZAPC_LOGIC_8 op1)))))"

definition AND_EbGbM :: "bxInstruction_c \<Rightarrow> unit cpu_monad" where
  "AND_EbGbM i =
    bindM (ResolveModrm i) (\<lambda>eaddr.
    bindM (read_RMW_virtual_byte_32 (seg i) eaddr) (\<lambda>op1.
    bindM (getsM (BX_READ_8BIT_REG (nnn i))) (\<lambda>op2.
    (let op1 = op1 AND op2 in
    seqM (write_RMW_virtual_byte op1)
    (modifyM (SET_FLAGS_OSZAPC_LOGIC_8 op1))))))"

definition AND_GbEbR :: "bxInstruction_c \<Rightarrow> unit cpu_monad" where
  "AND_GbEbR i =
    bindM (getsM (BX_READ_8BIT_REG (nnn i))) (\<lambda>op1.
    bindM (getsM (BX_READ_8BIT_REG (rm i))) (\<lambda>op2.
    (let op1 = op1 AND op2 in
    seqM (modifyM (BX_WRITE_8BIT_REG (nnn i) op1))
    (modifyM (SET_FLAGS_OSZAPC_LOGIC_8 op1)))))"

definition AND_ALIb :: "bxInstruction_c \<Rightarrow> unit cpu_monad" where
  "AND_ALIb i =
    bindM (getsM AL) (\<lambda>op1.
    (let op2 = Ib i in
    (let op1 = op1 AND op2 in
    seqM (modifyM (set_AL op1))
    (modifyM (SET_FLAGS_OSZAPC_LOGIC_8 op1)))))"

definition AND_EbIbM :: "bxInstruction_c \<Rightarrow> unit cpu_monad" where
  "AND_EbIbM i =
    (let op2 = Ib i in
    bindM (ResolveModrm i) (\<lambda>eaddr.
    bindM (read_RMW_virtual_byte_32 (seg i) eaddr) (\<lambda>op1.
    (let op1 = op1 AND op2 in
    seqM (write_RMW_virtual_byte op1)
    (modifyM (SET_FLAGS_OSZAPC_LOGIC_8 op1))))))"

definition AND_EbIbR :: "bxInstruction_c \<Rightarrow> unit cpu_monad" where
  "AND_EbIbR i =
    (let op2 = Ib i in
    bindM (getsM (BX_READ_8BIT_REG (rm i))) (\<lambda>op1.
    (let op1 = op1 AND op2 in
    seqM (modifyM (BX_WRITE_8BIT_REG (rm i) op1))
    (modifyM (SET_FLAGS_OSZAPC_LOGIC_8 op1)))))"

definition TEST_EbGbR :: "bxInstruction_c \<Rightarrow> unit cpu_monad" where
  "TEST_EbGbR i =
    bindM (getsM (BX_READ_8BIT_REG (rm i))) (\<lambda>op1.
    bindM (getsM (BX_READ_8BIT_REG (nnn i))) (\<lambda>op2.
    (let op1 = op1 AND op2 in
    modifyM (SET_FLAGS_OSZAPC_LOGIC_8 op1))))"

definition TEST_ALIb :: "bxInstruction_c \<Rightarrow> unit cpu_monad" where
  "TEST_ALIb i =
    bindM (getsM AL) (\<lambda>op1.
    (let op2 = Ib i in
    (let op1 = op1 AND op2 in
    modifyM (SET_FLAGS_OSZAPC_LOGIC_8 op1))))"

definition TEST_EbIbR :: "bxInstruction_c \<Rightarrow> unit cpu_monad" where
  "TEST_EbIbR i =
    bindM (getsM (BX_READ_8BIT_REG (rm i))) (\<lambda>op1.
    (let op1 = op1 AND Ib i in
    modifyM (SET_FLAGS_OSZAPC_LOGIC_8 op1)))"

section \<open>\<open>logical16.cc\<close>\<close>

definition XOR_EwGwM :: "bxInstruction_c \<Rightarrow> unit cpu_monad" where
  "XOR_EwGwM i =
    bindM (ResolveModrm i) (\<lambda>eaddr.
    bindM (read_RMW_virtual_word_32 (seg i) eaddr) (\<lambda>op1_16.
    bindM (getsM (BX_READ_16BIT_REG (nnn i))) (\<lambda>op2_16.
    (let op1_16 = op1_16 XOR op2_16 in
    seqM (write_RMW_virtual_word op1_16)
    (modifyM (SET_FLAGS_OSZAPC_LOGIC_16 op1_16))))))"

definition XOR_GwEwR :: "bxInstruction_c \<Rightarrow> unit cpu_monad" where
  "XOR_GwEwR i =
    bindM (getsM (BX_READ_16BIT_REG (nnn i))) (\<lambda>op1_16.
    bindM (getsM (BX_READ_16BIT_REG (rm i))) (\<lambda>op2_16.
    (let op1_16 = op1_16 XOR op2_16 in
    seqM (modifyM (BX_WRITE_16BIT_REG (nnn i) op1_16))
    (modifyM (SET_FLAGS_OSZAPC_LOGIC_16 op1_16)))))"

definition XOR_AXIw :: "bxInstruction_c \<Rightarrow> unit cpu_monad" where
  "XOR_AXIw i =
    bindM (getsM AX) (\<lambda>op1_16.
    (let op1_16 = op1_16 XOR Iw i in
    seqM (modifyM (set_AX op1_16))
    (modifyM (SET_FLAGS_OSZAPC_LOGIC_16 op1_16))))"

definition XOR_EwIwM :: "bxInstruction_c \<Rightarrow> unit cpu_monad" where
  "XOR_EwIwM i =
    bindM (ResolveModrm i) (\<lambda>eaddr.
    bindM (read_RMW_virtual_word_32 (seg i) eaddr) (\<lambda>op1_16.
    (let op1_16 = op1_16 XOR Iw i in
    seqM (write_RMW_virtual_word op1_16)
    (modifyM (SET_FLAGS_OSZAPC_LOGIC_16 op1_16)))))"

definition XOR_EwIwR :: "bxInstruction_c \<Rightarrow> unit cpu_monad" where
  "XOR_EwIwR i =
    bindM (getsM (BX_READ_16BIT_REG (rm i))) (\<lambda>op1_16.
    (let op1_16 = op1_16 XOR Iw i in
    seqM (modifyM (BX_WRITE_16BIT_REG (rm i) op1_16))
    (modifyM (SET_FLAGS_OSZAPC_LOGIC_16 op1_16))))"

definition OR_EwIwM :: "bxInstruction_c \<Rightarrow> unit cpu_monad" where
  "OR_EwIwM i =
    bindM (ResolveModrm i) (\<lambda>eaddr.
    bindM (read_RMW_virtual_word_32 (seg i) eaddr) (\<lambda>op1_16.
    (let op1_16 = op1_16 OR Iw i in
    seqM (write_RMW_virtual_word op1_16)
    (modifyM (SET_FLAGS_OSZAPC_LOGIC_16 op1_16)))))"

definition OR_EwIwR :: "bxInstruction_c \<Rightarrow> unit cpu_monad" where
  "OR_EwIwR i =
    bindM (getsM (BX_READ_16BIT_REG (rm i))) (\<lambda>op1_16.
    (let op1_16 = op1_16 OR Iw i in
    seqM (modifyM (BX_WRITE_16BIT_REG (rm i) op1_16))
    (modifyM (SET_FLAGS_OSZAPC_LOGIC_16 op1_16))))"

definition NOT_EwM :: "bxInstruction_c \<Rightarrow> unit cpu_monad" where
  "NOT_EwM i =
    bindM (ResolveModrm i) (\<lambda>eaddr.
    bindM (read_RMW_virtual_word_32 (seg i) eaddr) (\<lambda>op1_16.
    (let op1_16 = NOT op1_16 in
    write_RMW_virtual_word op1_16)))"

definition NOT_EwR :: "bxInstruction_c \<Rightarrow> unit cpu_monad" where
  "NOT_EwR i =
    bindM (getsM (BX_READ_16BIT_REG (rm i))) (\<lambda>op1_16.
    (let op1_16 = NOT op1_16 in
    modifyM (BX_WRITE_16BIT_REG (rm i) op1_16)))"

definition OR_EwGwM :: "bxInstruction_c \<Rightarrow> unit cpu_monad" where
  "OR_EwGwM i =
    bindM (ResolveModrm i) (\<lambda>eaddr.
    bindM (read_RMW_virtual_word_32 (seg i) eaddr) (\<lambda>op1_16.
    bindM (getsM (BX_READ_16BIT_REG (nnn i))) (\<lambda>op2_16.
    (let op1_16 = op1_16 OR op2_16 in
    seqM (write_RMW_virtual_word op1_16)
    (modifyM (SET_FLAGS_OSZAPC_LOGIC_16 op1_16))))))"

definition OR_GwEwR :: "bxInstruction_c \<Rightarrow> unit cpu_monad" where
  "OR_GwEwR i =
    bindM (getsM (BX_READ_16BIT_REG (nnn i))) (\<lambda>op1_16.
    bindM (getsM (BX_READ_16BIT_REG (rm i))) (\<lambda>op2_16.
    (let op1_16 = op1_16 OR op2_16 in
    seqM (modifyM (BX_WRITE_16BIT_REG (nnn i) op1_16))
    (modifyM (SET_FLAGS_OSZAPC_LOGIC_16 op1_16)))))"

definition OR_AXIw :: "bxInstruction_c \<Rightarrow> unit cpu_monad" where
  "OR_AXIw i =
    bindM (getsM AX) (\<lambda>op1_16.
    (let op2_16 = Iw i in
    (let op1_16 = op1_16 OR op2_16 in
    seqM (modifyM (set_AX op1_16))
    (modifyM (SET_FLAGS_OSZAPC_LOGIC_16 op1_16)))))"

definition AND_EwGwM :: "bxInstruction_c \<Rightarrow> unit cpu_monad" where
  "AND_EwGwM i =
    bindM (ResolveModrm i) (\<lambda>eaddr.
    bindM (read_RMW_virtual_word_32 (seg i) eaddr) (\<lambda>op1_16.
    bindM (getsM (BX_READ_16BIT_REG (nnn i))) (\<lambda>op2_16.
    (let op1_16 = op1_16 AND op2_16 in
    seqM (write_RMW_virtual_word op1_16)
    (modifyM (SET_FLAGS_OSZAPC_LOGIC_16 op1_16))))))"

definition AND_GwEwR :: "bxInstruction_c \<Rightarrow> unit cpu_monad" where
  "AND_GwEwR i =
    bindM (getsM (BX_READ_16BIT_REG (nnn i))) (\<lambda>op1_16.
    bindM (getsM (BX_READ_16BIT_REG (rm i))) (\<lambda>op2_16.
    (let op1_16 = op1_16 AND op2_16 in
    seqM (modifyM (BX_WRITE_16BIT_REG (nnn i) op1_16))
    (modifyM (SET_FLAGS_OSZAPC_LOGIC_16 op1_16)))))"

definition AND_AXIw :: "bxInstruction_c \<Rightarrow> unit cpu_monad" where
  "AND_AXIw i =
    bindM (getsM AX) (\<lambda>op1_16.
    (let op2_16 = Iw i in
    (let op1_16 = op1_16 AND op2_16 in
    seqM (modifyM (set_AX op1_16))
    (modifyM (SET_FLAGS_OSZAPC_LOGIC_16 op1_16)))))"

definition AND_EwIwM :: "bxInstruction_c \<Rightarrow> unit cpu_monad" where
  "AND_EwIwM i =
    bindM (ResolveModrm i) (\<lambda>eaddr.
    bindM (read_RMW_virtual_word_32 (seg i) eaddr) (\<lambda>op1_16.
    (let op1_16 = op1_16 AND Iw i in
    seqM (write_RMW_virtual_word op1_16)
    (modifyM (SET_FLAGS_OSZAPC_LOGIC_16 op1_16)))))"

definition AND_EwIwR :: "bxInstruction_c \<Rightarrow> unit cpu_monad" where
  "AND_EwIwR i =
    bindM (getsM (BX_READ_16BIT_REG (rm i))) (\<lambda>op1_16.
    (let op1_16 = op1_16 AND Iw i in
    seqM (modifyM (BX_WRITE_16BIT_REG (rm i) op1_16))
    (modifyM (SET_FLAGS_OSZAPC_LOGIC_16 op1_16))))"

definition TEST_EwGwR :: "bxInstruction_c \<Rightarrow> unit cpu_monad" where
  "TEST_EwGwR i =
    bindM (getsM (BX_READ_16BIT_REG (rm i))) (\<lambda>op1_16.
    bindM (getsM (BX_READ_16BIT_REG (nnn i))) (\<lambda>op2_16.
    (let op1_16 = op1_16 AND op2_16 in
    modifyM (SET_FLAGS_OSZAPC_LOGIC_16 op1_16))))"

definition TEST_AXIw :: "bxInstruction_c \<Rightarrow> unit cpu_monad" where
  "TEST_AXIw i =
    bindM (getsM AX) (\<lambda>op1_16.
    (let op2_16 = Iw i in
    (let op1_16 = op1_16 AND op2_16 in
    modifyM (SET_FLAGS_OSZAPC_LOGIC_16 op1_16))))"

definition TEST_EwIwR :: "bxInstruction_c \<Rightarrow> unit cpu_monad" where
  "TEST_EwIwR i =
    bindM (getsM (BX_READ_16BIT_REG (rm i))) (\<lambda>op1_16.
    (let op1_16 = op1_16 AND Iw i in
    modifyM (SET_FLAGS_OSZAPC_LOGIC_16 op1_16)))"

section \<open>\<open>logical32.cc\<close>\<close>

definition XOR_EdGdM :: "bxInstruction_c \<Rightarrow> unit cpu_monad" where
  "XOR_EdGdM i =
    bindM (ResolveModrm i) (\<lambda>eaddr.
    bindM (read_RMW_virtual_dword_32 (seg i) eaddr) (\<lambda>op1_32.
    bindM (getsM (BX_READ_32BIT_REG (nnn i))) (\<lambda>op2_32.
    (let op1_32 = op1_32 XOR op2_32 in
    seqM (write_RMW_virtual_dword op1_32)
    (modifyM (SET_FLAGS_OSZAPC_LOGIC_32 op1_32))))))"

definition XOR_GdEdR :: "bxInstruction_c \<Rightarrow> unit cpu_monad" where
  "XOR_GdEdR i =
    bindM (getsM (BX_READ_32BIT_REG (nnn i))) (\<lambda>op1_32.
    bindM (getsM (BX_READ_32BIT_REG (rm i))) (\<lambda>op2_32.
    (let op1_32 = op1_32 XOR op2_32 in
    seqM (modifyM (BX_WRITE_32BIT_REGZ (nnn i) op1_32))
    (modifyM (SET_FLAGS_OSZAPC_LOGIC_32 op1_32)))))"

definition XOR_EAXId :: "bxInstruction_c \<Rightarrow> unit cpu_monad" where
  "XOR_EAXId i =
    bindM (getsM EAX) (\<lambda>op1_32.
    (let op1_32 = op1_32 XOR Id i in
    seqM (modifyM (set_EAX op1_32))
    (modifyM (SET_FLAGS_OSZAPC_LOGIC_32 op1_32))))"

definition XOR_EdIdM :: "bxInstruction_c \<Rightarrow> unit cpu_monad" where
  "XOR_EdIdM i =
    bindM (ResolveModrm i) (\<lambda>eaddr.
    bindM (read_RMW_virtual_dword_32 (seg i) eaddr) (\<lambda>op1_32.
    (let op1_32 = op1_32 XOR Id i in
    seqM (write_RMW_virtual_dword op1_32)
    (modifyM (SET_FLAGS_OSZAPC_LOGIC_32 op1_32)))))"

definition XOR_EdIdR :: "bxInstruction_c \<Rightarrow> unit cpu_monad" where
  "XOR_EdIdR i =
    bindM (getsM (BX_READ_32BIT_REG (rm i))) (\<lambda>op1_32.
    (let op1_32 = op1_32 XOR Id i in
    seqM (modifyM (BX_WRITE_32BIT_REGZ (rm i) op1_32))
    (modifyM (SET_FLAGS_OSZAPC_LOGIC_32 op1_32))))"

definition OR_EdIdM :: "bxInstruction_c \<Rightarrow> unit cpu_monad" where
  "OR_EdIdM i =
    bindM (ResolveModrm i) (\<lambda>eaddr.
    bindM (read_RMW_virtual_dword_32 (seg i) eaddr) (\<lambda>op1_32.
    (let op1_32 = op1_32 OR Id i in
    seqM (write_RMW_virtual_dword op1_32)
    (modifyM (SET_FLAGS_OSZAPC_LOGIC_32 op1_32)))))"

definition OR_EdIdR :: "bxInstruction_c \<Rightarrow> unit cpu_monad" where
  "OR_EdIdR i =
    bindM (getsM (BX_READ_32BIT_REG (rm i))) (\<lambda>op1_32.
    (let op1_32 = op1_32 OR Id i in
    seqM (modifyM (BX_WRITE_32BIT_REGZ (rm i) op1_32))
    (modifyM (SET_FLAGS_OSZAPC_LOGIC_32 op1_32))))"

definition NOT_EdM :: "bxInstruction_c \<Rightarrow> unit cpu_monad" where
  "NOT_EdM i =
    bindM (ResolveModrm i) (\<lambda>eaddr.
    bindM (read_RMW_virtual_dword_32 (seg i) eaddr) (\<lambda>op1_32.
    (let op1_32 = NOT op1_32 in
    write_RMW_virtual_dword op1_32)))"

definition NOT_EdR :: "bxInstruction_c \<Rightarrow> unit cpu_monad" where
  "NOT_EdR i =
    bindM (getsM (BX_READ_32BIT_REG (rm i))) (\<lambda>op1_32.
    (let op1_32 = NOT op1_32 in
    modifyM (BX_WRITE_32BIT_REGZ (rm i) op1_32)))"

definition OR_EdGdM :: "bxInstruction_c \<Rightarrow> unit cpu_monad" where
  "OR_EdGdM i =
    bindM (ResolveModrm i) (\<lambda>eaddr.
    bindM (read_RMW_virtual_dword_32 (seg i) eaddr) (\<lambda>op1_32.
    bindM (getsM (BX_READ_32BIT_REG (nnn i))) (\<lambda>op2_32.
    (let op1_32 = op1_32 OR op2_32 in
    seqM (write_RMW_virtual_dword op1_32)
    (modifyM (SET_FLAGS_OSZAPC_LOGIC_32 op1_32))))))"

definition OR_GdEdR :: "bxInstruction_c \<Rightarrow> unit cpu_monad" where
  "OR_GdEdR i =
    bindM (getsM (BX_READ_32BIT_REG (nnn i))) (\<lambda>op1_32.
    bindM (getsM (BX_READ_32BIT_REG (rm i))) (\<lambda>op2_32.
    (let op1_32 = op1_32 OR op2_32 in
    seqM (modifyM (BX_WRITE_32BIT_REGZ (nnn i) op1_32))
    (modifyM (SET_FLAGS_OSZAPC_LOGIC_32 op1_32)))))"

definition OR_EAXId :: "bxInstruction_c \<Rightarrow> unit cpu_monad" where
  "OR_EAXId i =
    bindM (getsM EAX) (\<lambda>op1_32.
    (let op2_32 = Id i in
    (let op1_32 = op1_32 OR op2_32 in
    seqM (modifyM (set_EAX op1_32))
    (modifyM (SET_FLAGS_OSZAPC_LOGIC_32 op1_32)))))"

definition AND_EdGdM :: "bxInstruction_c \<Rightarrow> unit cpu_monad" where
  "AND_EdGdM i =
    bindM (ResolveModrm i) (\<lambda>eaddr.
    bindM (read_RMW_virtual_dword_32 (seg i) eaddr) (\<lambda>op1_32.
    bindM (getsM (BX_READ_32BIT_REG (nnn i))) (\<lambda>op2_32.
    (let op1_32 = op1_32 AND op2_32 in
    seqM (write_RMW_virtual_dword op1_32)
    (modifyM (SET_FLAGS_OSZAPC_LOGIC_32 op1_32))))))"

definition AND_GdEdR :: "bxInstruction_c \<Rightarrow> unit cpu_monad" where
  "AND_GdEdR i =
    bindM (getsM (BX_READ_32BIT_REG (nnn i))) (\<lambda>op1_32.
    bindM (getsM (BX_READ_32BIT_REG (rm i))) (\<lambda>op2_32.
    (let op1_32 = op1_32 AND op2_32 in
    seqM (modifyM (BX_WRITE_32BIT_REGZ (nnn i) op1_32))
    (modifyM (SET_FLAGS_OSZAPC_LOGIC_32 op1_32)))))"

definition AND_EAXId :: "bxInstruction_c \<Rightarrow> unit cpu_monad" where
  "AND_EAXId i =
    bindM (getsM EAX) (\<lambda>op1_32.
    (let op2_32 = Id i in
    (let op1_32 = op1_32 AND op2_32 in
    seqM (modifyM (set_EAX op1_32))
    (modifyM (SET_FLAGS_OSZAPC_LOGIC_32 op1_32)))))"

definition AND_EdIdM :: "bxInstruction_c \<Rightarrow> unit cpu_monad" where
  "AND_EdIdM i =
    bindM (ResolveModrm i) (\<lambda>eaddr.
    bindM (read_RMW_virtual_dword_32 (seg i) eaddr) (\<lambda>op1_32.
    (let op1_32 = op1_32 AND Id i in
    seqM (write_RMW_virtual_dword op1_32)
    (modifyM (SET_FLAGS_OSZAPC_LOGIC_32 op1_32)))))"

definition AND_EdIdR :: "bxInstruction_c \<Rightarrow> unit cpu_monad" where
  "AND_EdIdR i =
    bindM (getsM (BX_READ_32BIT_REG (rm i))) (\<lambda>op1_32.
    (let op1_32 = op1_32 AND Id i in
    seqM (modifyM (BX_WRITE_32BIT_REGZ (rm i) op1_32))
    (modifyM (SET_FLAGS_OSZAPC_LOGIC_32 op1_32))))"

definition TEST_EdGdR :: "bxInstruction_c \<Rightarrow> unit cpu_monad" where
  "TEST_EdGdR i =
    bindM (getsM (BX_READ_32BIT_REG (rm i))) (\<lambda>op1_32.
    bindM (getsM (BX_READ_32BIT_REG (nnn i))) (\<lambda>op2_32.
    (let op1_32 = op1_32 AND op2_32 in
    modifyM (SET_FLAGS_OSZAPC_LOGIC_32 op1_32))))"

definition TEST_EAXId :: "bxInstruction_c \<Rightarrow> unit cpu_monad" where
  "TEST_EAXId i =
    bindM (getsM EAX) (\<lambda>op1_32.
    (let op2_32 = Id i in
    (let op1_32 = op1_32 AND op2_32 in
    modifyM (SET_FLAGS_OSZAPC_LOGIC_32 op1_32))))"

definition TEST_EdIdR :: "bxInstruction_c \<Rightarrow> unit cpu_monad" where
  "TEST_EdIdR i =
    bindM (getsM (BX_READ_32BIT_REG (rm i))) (\<lambda>op1_32.
    (let op1_32 = op1_32 AND Id i in
    modifyM (SET_FLAGS_OSZAPC_LOGIC_32 op1_32)))"

section \<open>Refinement\<close>

lemmas logical_defs =
  XOR_EbGbM_def XOR_GbEbR_def XOR_ALIb_def XOR_EbIbM_def XOR_EbIbR_def OR_EbIbM_def
  OR_EbIbR_def NOT_EbM_def NOT_EbR_def OR_EbGbM_def OR_GbEbR_def OR_ALIb_def AND_EbGbM_def
  AND_GbEbR_def AND_ALIb_def AND_EbIbM_def AND_EbIbR_def TEST_EbGbR_def TEST_ALIb_def
  TEST_EbIbR_def XOR_EwGwM_def XOR_GwEwR_def XOR_AXIw_def XOR_EwIwM_def XOR_EwIwR_def
  OR_EwIwM_def OR_EwIwR_def NOT_EwM_def NOT_EwR_def OR_EwGwM_def OR_GwEwR_def OR_AXIw_def
  AND_EwGwM_def AND_GwEwR_def AND_AXIw_def AND_EwIwM_def AND_EwIwR_def TEST_EwGwR_def
  TEST_AXIw_def TEST_EwIwR_def XOR_EdGdM_def XOR_GdEdR_def XOR_EAXId_def XOR_EdIdM_def
  XOR_EdIdR_def OR_EdIdM_def OR_EdIdR_def NOT_EdM_def NOT_EdR_def OR_EdGdM_def OR_GdEdR_def
  OR_EAXId_def AND_EdGdM_def AND_GdEdR_def AND_EAXId_def AND_EdIdM_def AND_EdIdR_def
  TEST_EdGdR_def TEST_EAXId_def TEST_EdIdR_def

lemma logical_refines:
  "refines (XOR_EbGbM i) (spec_alu ALU_XOR (rmw_b i) (reg_b (nnn i)) write_RMW_virtual_byte)"
  "refines (XOR_GbEbR i) (spec_alu ALU_XOR (reg_b (nnn i)) (reg_b (rm i)) (put_b (nnn i)))"
  "refines (XOR_ALIb i) (spec_alu ALU_XOR (getsM AL) (returnM (Ib i)) (\<lambda>v. modifyM (set_AL v)))"
  "refines (XOR_EbIbM i) (spec_alu ALU_XOR (rmw_b i) (returnM (Ib i)) write_RMW_virtual_byte)"
  "refines (XOR_EbIbR i) (spec_alu ALU_XOR (reg_b (rm i)) (returnM (Ib i)) (put_b (rm i)))"
  "refines (OR_EbIbM i) (spec_alu ALU_OR (rmw_b i) (returnM (Ib i)) write_RMW_virtual_byte)"
  "refines (OR_EbIbR i) (spec_alu ALU_OR (reg_b (rm i)) (returnM (Ib i)) (put_b (rm i)))"
  "refines (NOT_EbM i) (spec_una ALU_NOT (rmw_b i) write_RMW_virtual_byte)"
  "refines (NOT_EbR i) (spec_una ALU_NOT (reg_b (rm i)) (put_b (rm i)))"
  "refines (OR_EbGbM i) (spec_alu ALU_OR (rmw_b i) (reg_b (nnn i)) write_RMW_virtual_byte)"
  "refines (OR_GbEbR i) (spec_alu ALU_OR (reg_b (nnn i)) (reg_b (rm i)) (put_b (nnn i)))"
  "refines (OR_ALIb i) (spec_alu ALU_OR (getsM AL) (returnM (Ib i)) (\<lambda>v. modifyM (set_AL v)))"
  "refines (AND_EbGbM i) (spec_alu ALU_AND (rmw_b i) (reg_b (nnn i)) write_RMW_virtual_byte)"
  "refines (AND_GbEbR i) (spec_alu ALU_AND (reg_b (nnn i)) (reg_b (rm i)) (put_b (nnn i)))"
  "refines (AND_ALIb i) (spec_alu ALU_AND (getsM AL) (returnM (Ib i)) (\<lambda>v. modifyM (set_AL v)))"
  "refines (AND_EbIbM i) (spec_alu ALU_AND (rmw_b i) (returnM (Ib i)) write_RMW_virtual_byte)"
  "refines (AND_EbIbR i) (spec_alu ALU_AND (reg_b (rm i)) (returnM (Ib i)) (put_b (rm i)))"
  "refines (TEST_EbGbR i) (spec_alu ALU_TEST (reg_b (rm i)) (reg_b (nnn i)) (\<lambda>_. returnM ()))"
  "refines (TEST_ALIb i) (spec_alu ALU_TEST (getsM AL) (returnM (Ib i)) (\<lambda>_. returnM ()))"
  "refines (TEST_EbIbR i) (spec_alu ALU_TEST (reg_b (rm i)) (returnM (Ib i)) (\<lambda>_. returnM ()))"
  "refines (XOR_EwGwM i) (spec_alu ALU_XOR (rmw_w i) (reg_w (nnn i)) write_RMW_virtual_word)"
  "refines (XOR_GwEwR i) (spec_alu ALU_XOR (reg_w (nnn i)) (reg_w (rm i)) (put_w (nnn i)))"
  "refines (XOR_AXIw i) (spec_alu ALU_XOR (getsM AX) (returnM (Iw i)) (\<lambda>v. modifyM (set_AX v)))"
  "refines (XOR_EwIwM i) (spec_alu ALU_XOR (rmw_w i) (returnM (Iw i)) write_RMW_virtual_word)"
  "refines (XOR_EwIwR i) (spec_alu ALU_XOR (reg_w (rm i)) (returnM (Iw i)) (put_w (rm i)))"
  "refines (OR_EwIwM i) (spec_alu ALU_OR (rmw_w i) (returnM (Iw i)) write_RMW_virtual_word)"
  "refines (OR_EwIwR i) (spec_alu ALU_OR (reg_w (rm i)) (returnM (Iw i)) (put_w (rm i)))"
  "refines (NOT_EwM i) (spec_una ALU_NOT (rmw_w i) write_RMW_virtual_word)"
  "refines (NOT_EwR i) (spec_una ALU_NOT (reg_w (rm i)) (put_w (rm i)))"
  "refines (OR_EwGwM i) (spec_alu ALU_OR (rmw_w i) (reg_w (nnn i)) write_RMW_virtual_word)"
  "refines (OR_GwEwR i) (spec_alu ALU_OR (reg_w (nnn i)) (reg_w (rm i)) (put_w (nnn i)))"
  "refines (OR_AXIw i) (spec_alu ALU_OR (getsM AX) (returnM (Iw i)) (\<lambda>v. modifyM (set_AX v)))"
  "refines (AND_EwGwM i) (spec_alu ALU_AND (rmw_w i) (reg_w (nnn i)) write_RMW_virtual_word)"
  "refines (AND_GwEwR i) (spec_alu ALU_AND (reg_w (nnn i)) (reg_w (rm i)) (put_w (nnn i)))"
  "refines (AND_AXIw i) (spec_alu ALU_AND (getsM AX) (returnM (Iw i)) (\<lambda>v. modifyM (set_AX v)))"
  "refines (AND_EwIwM i) (spec_alu ALU_AND (rmw_w i) (returnM (Iw i)) write_RMW_virtual_word)"
  "refines (AND_EwIwR i) (spec_alu ALU_AND (reg_w (rm i)) (returnM (Iw i)) (put_w (rm i)))"
  "refines (TEST_EwGwR i) (spec_alu ALU_TEST (reg_w (rm i)) (reg_w (nnn i)) (\<lambda>_. returnM ()))"
  "refines (TEST_AXIw i) (spec_alu ALU_TEST (getsM AX) (returnM (Iw i)) (\<lambda>_. returnM ()))"
  "refines (TEST_EwIwR i) (spec_alu ALU_TEST (reg_w (rm i)) (returnM (Iw i)) (\<lambda>_. returnM ()))"
  "refines (XOR_EdGdM i) (spec_alu ALU_XOR (rmw_d i) (reg_d (nnn i)) write_RMW_virtual_dword)"
  "refines (XOR_GdEdR i) (spec_alu ALU_XOR (reg_d (nnn i)) (reg_d (rm i)) (put_d (nnn i)))"
  "refines (XOR_EAXId i) (spec_alu ALU_XOR (getsM EAX) (returnM (Id i)) (\<lambda>v. modifyM (set_EAX v)))"
  "refines (XOR_EdIdM i) (spec_alu ALU_XOR (rmw_d i) (returnM (Id i)) write_RMW_virtual_dword)"
  "refines (XOR_EdIdR i) (spec_alu ALU_XOR (reg_d (rm i)) (returnM (Id i)) (put_d (rm i)))"
  "refines (OR_EdIdM i) (spec_alu ALU_OR (rmw_d i) (returnM (Id i)) write_RMW_virtual_dword)"
  "refines (OR_EdIdR i) (spec_alu ALU_OR (reg_d (rm i)) (returnM (Id i)) (put_d (rm i)))"
  "refines (NOT_EdM i) (spec_una ALU_NOT (rmw_d i) write_RMW_virtual_dword)"
  "refines (NOT_EdR i) (spec_una ALU_NOT (reg_d (rm i)) (put_d (rm i)))"
  "refines (OR_EdGdM i) (spec_alu ALU_OR (rmw_d i) (reg_d (nnn i)) write_RMW_virtual_dword)"
  "refines (OR_GdEdR i) (spec_alu ALU_OR (reg_d (nnn i)) (reg_d (rm i)) (put_d (nnn i)))"
  "refines (OR_EAXId i) (spec_alu ALU_OR (getsM EAX) (returnM (Id i)) (\<lambda>v. modifyM (set_EAX v)))"
  "refines (AND_EdGdM i) (spec_alu ALU_AND (rmw_d i) (reg_d (nnn i)) write_RMW_virtual_dword)"
  "refines (AND_GdEdR i) (spec_alu ALU_AND (reg_d (nnn i)) (reg_d (rm i)) (put_d (nnn i)))"
  "refines (AND_EAXId i) (spec_alu ALU_AND (getsM EAX) (returnM (Id i)) (\<lambda>v. modifyM (set_EAX v)))"
  "refines (AND_EdIdM i) (spec_alu ALU_AND (rmw_d i) (returnM (Id i)) write_RMW_virtual_dword)"
  "refines (AND_EdIdR i) (spec_alu ALU_AND (reg_d (rm i)) (returnM (Id i)) (put_d (rm i)))"
  "refines (TEST_EdGdR i) (spec_alu ALU_TEST (reg_d (rm i)) (reg_d (nnn i)) (\<lambda>_. returnM ()))"
  "refines (TEST_EAXId i) (spec_alu ALU_TEST (getsM EAX) (returnM (Id i)) (\<lambda>_. returnM ()))"
  "refines (TEST_EdIdR i) (spec_alu ALU_TEST (reg_d (rm i)) (returnM (Id i)) (\<lambda>_. returnM ()))"
  unfolding logical_defs
  by (simp only: spec_simps, ((rule refines_read_CF)?, simp only: carry_simps)?,
    (intro refine_intros refines_neutral neutral_intros; simp)?)+

end
