(* ===== verification/DataXfer.thy ===== *)
theory DataXfer
  imports Refine
begin

text \<open>
  The data transfer instructions (\<open>cpu/data_xfer8.cc\<close>, \<open>data_xfer16.cc\<close>,
  \<open>data_xfer32.cc\<close>; without the moves to a segment register), one definition per handler.
  They leave the flags alone; the conditional moves read them.
\<close>

section \<open>\<open>data_xfer8.cc\<close>\<close>

definition MOV_RLIb :: "bxInstruction_c \<Rightarrow> unit cpu_monad" where
  "MOV_RLIb i =
    modifyM (BX_WRITE_8BIT_REG (opcodeReg i) (Ib i))"

definition MOV_RHIb :: "bxInstruction_c \<Rightarrow> unit cpu_monad" where
  "MOV_RHIb i =
    modifyM (BX_WRITE_8BIT_REGH (unat (b1 i AND 0x03)) (Ib i))"

definition MOV_EbGbM :: "bxInstruction_c \<Rightarrow> unit cpu_monad" where
  "MOV_EbGbM i =
    bindM (ResolveModrm i) (\<lambda>eaddr.
    bindM (getsM (BX_READ_8BIT_REG (nnn i))) (\<lambda>r8.
    write_virtual_byte_32 (seg i) eaddr r8))"

definition MOV_GbEbM :: "bxInstruction_c \<Rightarrow> unit cpu_monad" where
  "MOV_GbEbM i =
    bindM (ResolveModrm i) (\<lambda>eaddr.
    bindM (read_virtual_byte_32 (seg i) eaddr) (\<lambda>val8.
    modifyM (BX_WRITE_8BIT_REG (nnn i) val8)))"

definition MOV_GbEbR :: "bxInstruction_c \<Rightarrow> unit cpu_monad" where
  "MOV_GbEbR i =
    bindM (getsM (BX_READ_8BIT_REG (rm i))) (\<lambda>op2.
    modifyM (BX_WRITE_8BIT_REG (nnn i) op2))"

definition MOV_ALOd :: "bxInstruction_c \<Rightarrow> unit cpu_monad" where
  "MOV_ALOd i =
    bindM (read_virtual_byte_32 (seg i) (Id i)) (\<lambda>data.
    modifyM (set_AL data))"

definition MOV_OdAL :: "bxInstruction_c \<Rightarrow> unit cpu_monad" where
  "MOV_OdAL i =
    bindM (getsM AL) (\<lambda>al.
    write_virtual_byte_32 (seg i) (Id i) al)"

definition MOV_EbIbM :: "bxInstruction_c \<Rightarrow> unit cpu_monad" where
  "MOV_EbIbM i =
    bindM (ResolveModrm i) (\<lambda>eaddr.
    write_virtual_byte_32 (seg i) eaddr (Ib i))"

definition XLAT :: "bxInstruction_c \<Rightarrow> unit cpu_monad" where
  "XLAT i =
    (if as32L i \<noteq> 0 then
      bindM (getsM EBX) (\<lambda>ebx.
      bindM (getsM AL) (\<lambda>al.
      bindM (read_virtual_byte_32 (seg i) (ebx + (ucast al))) (\<lambda>data.
      modifyM (set_AL data))))
     else
      bindM (getsM BX) (\<lambda>bx.
      bindM (getsM AL) (\<lambda>al.
      bindM (read_virtual_byte_32 (seg i) (ucast (bx + (ucast al)))) (\<lambda>data.
      modifyM (set_AL data)))))"

definition XCHG_EbGbM :: "bxInstruction_c \<Rightarrow> unit cpu_monad" where
  "XCHG_EbGbM i =
    bindM (ResolveModrm i) (\<lambda>eaddr.
    bindM (read_RMW_virtual_byte_32 (seg i) eaddr) (\<lambda>op1.
    bindM (getsM (BX_READ_8BIT_REG (nnn i))) (\<lambda>op2.
    seqM (write_RMW_virtual_byte op2)
    (modifyM (BX_WRITE_8BIT_REG (nnn i) op1)))))"

definition XCHG_EbGbR :: "bxInstruction_c \<Rightarrow> unit cpu_monad" where
  "XCHG_EbGbR i =
    bindM (getsM (BX_READ_8BIT_REG (rm i))) (\<lambda>op1.
    bindM (getsM (BX_READ_8BIT_REG (nnn i))) (\<lambda>op2.
    seqM (modifyM (BX_WRITE_8BIT_REG (nnn i) op1))
    (modifyM (BX_WRITE_8BIT_REG (rm i) op2))))"

section \<open>\<open>data_xfer16.cc\<close>\<close>

definition MOV_RXIw :: "bxInstruction_c \<Rightarrow> unit cpu_monad" where
  "MOV_RXIw i =
    modifyM (BX_WRITE_16BIT_REG (opcodeReg i) (Iw i))"

definition XCHG_RXAX :: "bxInstruction_c \<Rightarrow> unit cpu_monad" where
  "XCHG_RXAX i =
    bindM (getsM AX) (\<lambda>temp16.
    bindM (getsM (BX_READ_16BIT_REG (opcodeReg i))) (\<lambda>r16.
    seqM (modifyM (set_AX r16))
    (modifyM (BX_WRITE_16BIT_REG (opcodeReg i) temp16))))"

definition MOV_EwGwM :: "bxInstruction_c \<Rightarrow> unit cpu_monad" where
  "MOV_EwGwM i =
    bindM (ResolveModrm i) (\<lambda>eaddr.
    bindM (getsM (BX_READ_16BIT_REG (nnn i))) (\<lambda>r16.
    write_virtual_word_32 (seg i) eaddr r16))"

definition MOV_GwEwR :: "bxInstruction_c \<Rightarrow> unit cpu_monad" where
  "MOV_GwEwR i =
    bindM (getsM (BX_READ_16BIT_REG (rm i))) (\<lambda>r16.
    modifyM (BX_WRITE_16BIT_REG (nnn i) r16))"

definition MOV_GwEwM :: "bxInstruction_c \<Rightarrow> unit cpu_monad" where
  "MOV_GwEwM i =
    bindM (ResolveModrm i) (\<lambda>eaddr.
    bindM (read_virtual_word_32 (seg i) eaddr) (\<lambda>val16.
    modifyM (BX_WRITE_16BIT_REG (nnn i) val16)))"

definition MOV_EwSwR :: "bxInstruction_c \<Rightarrow> unit cpu_monad" where
  "MOV_EwSwR i =
    (if (nnn i) \<ge> 6 then
      exception BX_UD_EXCEPTION 0
     else
      bindM (getsM (\<lambda>s. sel_value (selector (sregs s (nnn i))))) (\<lambda>seg_reg.
      (if os32L i \<noteq> 0 then
        modifyM (BX_WRITE_32BIT_REGZ (rm i) (ucast seg_reg))
       else
        modifyM (BX_WRITE_16BIT_REG (rm i) seg_reg))))"

definition MOV_EwSwM :: "bxInstruction_c \<Rightarrow> unit cpu_monad" where
  "MOV_EwSwM i =
    (if (nnn i) \<ge> 6 then
      exception BX_UD_EXCEPTION 0
     else
      bindM (ResolveModrm i) (\<lambda>eaddr.
      bindM (getsM (\<lambda>s. sel_value (selector (sregs s (nnn i))))) (\<lambda>seg_reg.
      write_virtual_word_32 (seg i) eaddr seg_reg)))"

definition LEA_GwM :: "bxInstruction_c \<Rightarrow> unit cpu_monad" where
  "LEA_GwM i =
    bindM (ResolveModrm i) (\<lambda>eaddr.
    modifyM (BX_WRITE_16BIT_REG (nnn i) (ucast eaddr)))"

definition MOV_AXOd :: "bxInstruction_c \<Rightarrow> unit cpu_monad" where
  "MOV_AXOd i =
    bindM (read_virtual_word_32 (seg i) (Id i)) (\<lambda>data.
    modifyM (set_AX data))"

definition MOV_OdAX :: "bxInstruction_c \<Rightarrow> unit cpu_monad" where
  "MOV_OdAX i =
    bindM (getsM AX) (\<lambda>ax.
    write_virtual_word_32 (seg i) (Id i) ax)"

definition MOV_EwIwM :: "bxInstruction_c \<Rightarrow> unit cpu_monad" where
  "MOV_EwIwM i =
    bindM (ResolveModrm i) (\<lambda>eaddr.
    write_virtual_word_32 (seg i) eaddr (Iw i))"

definition MOVZX_GwEbM :: "bxInstruction_c \<Rightarrow> unit cpu_monad" where
  "MOVZX_GwEbM i =
    bindM (ResolveModrm i) (\<lambda>eaddr.
    bindM (read_virtual_byte_32 (seg i) eaddr) (\<lambda>op2_8.
    modifyM (BX_WRITE_16BIT_REG (nnn i) (ucast op2_8))))"

definition MOVZX_GwEbR :: "bxInstruction_c \<Rightarrow> unit cpu_monad" where
  "MOVZX_GwEbR i =
    bindM (getsM (BX_READ_8BIT_REG (rm i))) (\<lambda>op2_8.
    modifyM (BX_WRITE_16BIT_REG (nnn i) (ucast op2_8)))"

definition MOVSX_GwEbM :: "bxInstruction_c \<Rightarrow> unit cpu_monad" where
  "MOVSX_GwEbM i =
    bindM (ResolveModrm i) (\<lambda>eaddr.
    bindM (read_virtual_byte_32 (seg i) eaddr) (\<lambda>op2_8.
    modifyM (BX_WRITE_16BIT_REG (nnn i) (scast op2_8))))"

definition MOVSX_GwEbR :: "bxInstruction_c \<Rightarrow> unit cpu_monad" where
  "MOVSX_GwEbR i =
    bindM (getsM (BX_READ_8BIT_REG (rm i))) (\<lambda>op2_8.
    modifyM (BX_WRITE_16BIT_REG (nnn i) (scast op2_8)))"

definition XCHG_EwGwM :: "bxInstruction_c \<Rightarrow> unit cpu_monad" where
  "XCHG_EwGwM i =
    bindM (ResolveModrm i) (\<lambda>eaddr.
    bindM (read_RMW_virtual_word_32 (seg i) eaddr) (\<lambda>op1_16.
    bindM (getsM (BX_READ_16BIT_REG (nnn i))) (\<lambda>op2_16.
    seqM (write_RMW_virtual_word op2_16)
    (modifyM (BX_WRITE_16BIT_REG (nnn i) op1_16)))))"

definition XCHG_EwGwR :: "bxInstruction_c \<Rightarrow> unit cpu_monad" where
  "XCHG_EwGwR i =
    bindM (getsM (BX_READ_16BIT_REG (rm i))) (\<lambda>op1_16.
    bindM (getsM (BX_READ_16BIT_REG (nnn i))) (\<lambda>op2_16.
    seqM (modifyM (BX_WRITE_16BIT_REG (nnn i) op1_16))
    (modifyM (BX_WRITE_16BIT_REG (rm i) op2_16))))"

definition CMOVO_GwEwR :: "bxInstruction_c \<Rightarrow> unit cpu_monad" where
  "CMOVO_GwEwR i =
    bindM (getsM get_OF) (\<lambda>ovf.
    (if ovf \<noteq> 0 then
      bindM (getsM (BX_READ_16BIT_REG (rm i))) (\<lambda>r16.
      modifyM (BX_WRITE_16BIT_REG (nnn i) r16))
     else
      returnM ()))"

definition CMOVNO_GwEwR :: "bxInstruction_c \<Rightarrow> unit cpu_monad" where
  "CMOVNO_GwEwR i =
    bindM (getsM get_OF) (\<lambda>ovf.
    (if ovf = 0 then
      bindM (getsM (BX_READ_16BIT_REG (rm i))) (\<lambda>r16.
      modifyM (BX_WRITE_16BIT_REG (nnn i) r16))
     else
      returnM ()))"

definition CMOVB_GwEwR :: "bxInstruction_c \<Rightarrow> unit cpu_monad" where
  "CMOVB_GwEwR i =
    bindM (getsM get_CF) (\<lambda>cf.
    (if cf \<noteq> 0 then
      bindM (getsM (BX_READ_16BIT_REG (rm i))) (\<lambda>r16.
      modifyM (BX_WRITE_16BIT_REG (nnn i) r16))
     else
      returnM ()))"

definition CMOVNB_GwEwR :: "bxInstruction_c \<Rightarrow> unit cpu_monad" where
  "CMOVNB_GwEwR i =
    bindM (getsM get_CF) (\<lambda>cf.
    (if cf = 0 then
      bindM (getsM (BX_READ_16BIT_REG (rm i))) (\<lambda>r16.
      modifyM (BX_WRITE_16BIT_REG (nnn i) r16))
     else
      returnM ()))"

definition CMOVZ_GwEwR :: "bxInstruction_c \<Rightarrow> unit cpu_monad" where
  "CMOVZ_GwEwR i =
    bindM (getsM get_ZF) (\<lambda>zf.
    (if zf \<noteq> 0 then
      bindM (getsM (BX_READ_16BIT_REG (rm i))) (\<lambda>r16.
      modifyM (BX_WRITE_16BIT_REG (nnn i) r16))
     else
      returnM ()))"

definition CMOVNZ_GwEwR :: "bxInstruction_c \<Rightarrow> unit cpu_monad" where
  "CMOVNZ_GwEwR i =
    bindM (getsM get_ZF) (\<lambda>zf.
    (if zf = 0 then
      bindM (getsM (BX_READ_16BIT_REG (rm i))) (\<lambda>r16.
      modifyM (BX_WRITE_16BIT_REG (nnn i) r16))
     else
      returnM ()))"

definition CMOVBE_GwEwR :: "bxInstruction_c \<Rightarrow> unit cpu_monad" where
  "CMOVBE_GwEwR i =
    bindM (getsM get_CF) (\<lambda>cf.
    bindM (getsM get_ZF) (\<lambda>zf.
    (if cf \<noteq> 0 \<or> zf \<noteq> 0 then
      bindM (getsM (BX_READ_16BIT_REG (rm i))) (\<lambda>r16.
      modifyM (BX_WRITE_16BIT_REG (nnn i) r16))
     else
      returnM ())))"

definition CMOVNBE_GwEwR :: "bxInstruction_c \<Rightarrow> unit cpu_monad" where
  "CMOVNBE_GwEwR i =
    bindM (getsM get_CF) (\<lambda>cf.
    bindM (getsM get_ZF) (\<lambda>zf.
    (if \<not> (cf \<noteq> 0 \<or> zf \<noteq> 0) then
      bindM (getsM (BX_READ_16BIT_REG (rm i))) (\<lambda>r16.
      modifyM (BX_WRITE_16BIT_REG (nnn i) r16))
     else
      returnM ())))"

definition CMOVS_GwEwR :: "bxInstruction_c \<Rightarrow> unit cpu_monad" where
  "CMOVS_GwEwR i =
    bindM (getsM get_SF) (\<lambda>sf.
    (if sf \<noteq> 0 then
      bindM (getsM (BX_READ_16BIT_REG (rm i))) (\<lambda>r16.
      modifyM (BX_WRITE_16BIT_REG (nnn i) r16))
     else
      returnM ()))"

definition CMOVNS_GwEwR :: "bxInstruction_c \<Rightarrow> unit cpu_monad" where
  "CMOVNS_GwEwR i =
    bindM (getsM get_SF) (\<lambda>sf.
    (if sf = 0 then
      bindM (getsM (BX_READ_16BIT_REG (rm i))) (\<lambda>r16.
      modifyM (BX_WRITE_16BIT_REG (nnn i) r16))
     else
      returnM ()))"

definition CMOVP_GwEwR :: "bxInstruction_c \<Rightarrow> unit cpu_monad" where
  "CMOVP_GwEwR i =
    bindM (getsM get_PF) (\<lambda>pf.
    (if pf \<noteq> 0 then
      bindM (getsM (BX_READ_16BIT_REG (rm i))) (\<lambda>r16.
      modifyM (BX_WRITE_16BIT_REG (nnn i) r16))
     else
      returnM ()))"

definition CMOVNP_GwEwR :: "bxInstruction_c \<Rightarrow> unit cpu_monad" where
  "CMOVNP_GwEwR i =
    bindM (getsM get_PF) (\<lambda>pf.
    (if pf = 0 then
      bindM (getsM (BX_READ_16BIT_REG (rm i))) (\<lambda>r16.
      modifyM (BX_WRITE_16BIT_REG (nnn i) r16))
     else
      returnM ()))"

definition CMOVL_GwEwR :: "bxInstruction_c \<Rightarrow> unit cpu_monad" where
  "CMOVL_GwEwR i =
    bindM (getsM getB_SF) (\<lambda>sf.
    bindM (getsM getB_OF) (\<lambda>ovf.
    (if sf \<noteq> ovf then
      bindM (getsM (BX_READ_16BIT_REG (rm i))) (\<lambda>r16.
      modifyM (BX_WRITE_16BIT_REG (nnn i) r16))
     else
      returnM ())))"

definition CMOVNL_GwEwR :: "bxInstruction_c \<Rightarrow> unit cpu_monad" where
  "CMOVNL_GwEwR i =
    bindM (getsM getB_SF) (\<lambda>sf.
    bindM (getsM getB_OF) (\<lambda>ovf.
    (if sf = ovf then
      bindM (getsM (BX_READ_16BIT_REG (rm i))) (\<lambda>r16.
      modifyM (BX_WRITE_16BIT_REG (nnn i) r16))
     else
      returnM ())))"

definition CMOVLE_GwEwR :: "bxInstruction_c \<Rightarrow> unit cpu_monad" where
  "CMOVLE_GwEwR i =
    bindM (getsM get_ZF) (\<lambda>zf.
    bindM (getsM getB_SF) (\<lambda>sf.
    bindM (getsM getB_OF) (\<lambda>ovf.
    (if zf \<noteq> 0 \<or> sf \<noteq> ovf then
      bindM (getsM (BX_READ_16BIT_REG (rm i))) (\<lambda>r16.
      modifyM (BX_WRITE_16BIT_REG (nnn i) r16))
     else
      returnM ()))))"

definition CMOVNLE_GwEwR :: "bxInstruction_c \<Rightarrow> unit cpu_monad" where
  "CMOVNLE_GwEwR i =
    bindM (getsM get_ZF) (\<lambda>zf.
    bindM (getsM getB_SF) (\<lambda>sf.
    bindM (getsM getB_OF) (\<lambda>ovf.
    (if zf = 0 \<and> sf = ovf then
      bindM (getsM (BX_READ_16BIT_REG (rm i))) (\<lambda>r16.
      modifyM (BX_WRITE_16BIT_REG (nnn i) r16))
     else
      returnM ()))))"

section \<open>\<open>data_xfer32.cc\<close>\<close>

definition XCHG_ERXEAX :: "bxInstruction_c \<Rightarrow> unit cpu_monad" where
  "XCHG_ERXEAX i =
    bindM (getsM EAX) (\<lambda>temp32.
    bindM (getsM (BX_READ_32BIT_REG (opcodeReg i))) (\<lambda>r32.
    seqM (modifyM (set_EAX r32))
    (modifyM (BX_WRITE_32BIT_REGZ (opcodeReg i) temp32))))"

definition MOV_ERXId :: "bxInstruction_c \<Rightarrow> unit cpu_monad" where
  "MOV_ERXId i =
    modifyM (BX_WRITE_32BIT_REGZ (opcodeReg i) (Id i))"

definition MOV32_EdGdM :: "bxInstruction_c \<Rightarrow> unit cpu_monad" where
  "MOV32_EdGdM i =
    bindM (ResolveModrm i) (\<lambda>data.
    (let eaddr = data in
    bindM (getsM (BX_READ_32BIT_REG (nnn i))) (\<lambda>r32.
    write_virtual_dword_32 (seg i) eaddr r32)))"

definition MOV_GdEdR :: "bxInstruction_c \<Rightarrow> unit cpu_monad" where
  "MOV_GdEdR i =
    bindM (getsM (BX_READ_32BIT_REG (rm i))) (\<lambda>r32.
    modifyM (BX_WRITE_32BIT_REGZ (nnn i) r32))"

definition MOV32_GdEdM :: "bxInstruction_c \<Rightarrow> unit cpu_monad" where
  "MOV32_GdEdM i =
    bindM (ResolveModrm i) (\<lambda>data.
    (let eaddr = data in
    bindM (read_virtual_dword_32 (seg i) eaddr) (\<lambda>val32.
    modifyM (BX_WRITE_32BIT_REGZ (nnn i) val32))))"

definition LEA_GdM :: "bxInstruction_c \<Rightarrow> unit cpu_monad" where
  "LEA_GdM i =
    bindM (ResolveModrm i) (\<lambda>eaddr.
    modifyM (BX_WRITE_32BIT_REGZ (nnn i) eaddr))"

definition MOV_EAXOd :: "bxInstruction_c \<Rightarrow> unit cpu_monad" where
  "MOV_EAXOd i =
    bindM (read_virtual_dword_32 (seg i) (Id i)) (\<lambda>data.
    modifyM (set_EAX data))"

definition MOV_OdEAX :: "bxInstruction_c \<Rightarrow> unit cpu_monad" where
  "MOV_OdEAX i =
    bindM (getsM EAX) (\<lambda>eax.
    write_virtual_dword_32 (seg i) (Id i) eax)"

definition MOV_EdIdM :: "bxInstruction_c \<Rightarrow> unit cpu_monad" where
  "MOV_EdIdM i =
    bindM (ResolveModrm i) (\<lambda>eaddr.
    write_virtual_dword_32 (seg i) eaddr (Id i))"

definition MOVZX_GdEbM :: "bxInstruction_c \<Rightarrow> unit cpu_monad" where
  "MOVZX_GdEbM i =
    bindM (ResolveModrm i) (\<lambda>eaddr.
    bindM (read_virtual_byte_32 (seg i) eaddr) (\<lambda>op2_8.
    modifyM (BX_WRITE_32BIT_REGZ (nnn i) (ucast op2_8))))"

definition MOVZX_GdEbR :: "bxInstruction_c \<Rightarrow> unit cpu_monad" where
  "MOVZX_GdEbR i =
    bindM (getsM (BX_READ_8BIT_REG (rm i))) (\<lambda>op2_8.
    modifyM (BX_WRITE_32BIT_REGZ (nnn i) (ucast op2_8)))"

definition MOVZX_GdEwM :: "bxInstruction_c \<Rightarrow> unit cpu_monad" where
  "MOVZX_GdEwM i =
    bindM (ResolveModrm i) (\<lambda>eaddr.
    bindM (read_virtual_word_32 (seg i) eaddr) (\<lambda>op2_16.
    modifyM (BX_WRITE_32BIT_REGZ (nnn i) (ucast op2_16))))"

definition MOVZX_GdEwR :: "bxInstruction_c \<Rightarrow> unit cpu_monad" where
  "MOVZX_GdEwR i =
    bindM (getsM (BX_READ_16BIT_REG (rm i))) (\<lambda>op2_16.
    modifyM (BX_WRITE_32BIT_REGZ (nnn i) (ucast op2_16)))"

definition MOVSX_GdEbM :: "bxInstruction_c \<Rightarrow> unit cpu_monad" where
  "MOVSX_GdEbM i =
    bindM (ResolveModrm i) (\<lambda>eaddr.
    bindM (read_virtual_byte_32 (seg i) eaddr) (\<lambda>op2_8.
    modifyM (BX_WRITE_32BIT_REGZ (nnn i) (scast op2_8))))"

definition MOVSX_GdEbR :: "bxInstruction_c \<Rightarrow> unit cpu_monad" where
  "MOVSX_GdEbR i =
    bindM (getsM (BX_READ_8BIT_REG (rm i))) (\<lambda>op2_8.
    modifyM (BX_WRITE_32BIT_REGZ (nnn i) (scast op2_8)))"

definition MOVSX_GdEwM :: "bxInstruction_c \<Rightarrow> unit cpu_monad" where
  "MOVSX_GdEwM i =
    bindM (ResolveModrm i) (\<lambda>eaddr.
    bindM (read_virtual_word_32 (seg i) eaddr) (\<lambda>op2_16.
    modifyM (BX_WRITE_32BIT_REGZ (nnn i) (scast op2_16))))"

definition MOVSX_GdEwR :: "bxInstruction_c \<Rightarrow> unit cpu_monad" where
  "MOVSX_GdEwR i =
    bindM (getsM (BX_READ_16BIT_REG (rm i))) (\<lambda>op2_16.
    modifyM (BX_WRITE_32BIT_REGZ (nnn i) (scast op2_16)))"

definition XCHG_EdGdM :: "bxInstruction_c \<Rightarrow> unit cpu_monad" where
  "XCHG_EdGdM i =
    bindM (ResolveModrm i) (\<lambda>eaddr.
    bindM (read_RMW_virtual_dword_32 (seg i) eaddr) (\<lambda>op1_32.
    bindM (getsM (BX_READ_32BIT_REG (nnn i))) (\<lambda>op2_32.
    seqM (write_RMW_virtual_dword op2_32)
    (modifyM (BX_WRITE_32BIT_REGZ (nnn i) op1_32)))))"

definition XCHG_EdGdR :: "bxInstruction_c \<Rightarrow> unit cpu_monad" where
  "XCHG_EdGdR i =
    bindM (getsM (BX_READ_32BIT_REG (rm i))) (\<lambda>op1_32.
    bindM (getsM (BX_READ_32BIT_REG (nnn i))) (\<lambda>op2_32.
    seqM (modifyM (BX_WRITE_32BIT_REGZ (nnn i) op1_32))
    (modifyM (BX_WRITE_32BIT_REGZ (rm i) op2_32))))"

definition CMOVO_GdEdR :: "bxInstruction_c \<Rightarrow> unit cpu_monad" where
  "CMOVO_GdEdR i =
    bindM (getsM get_OF) (\<lambda>ovf.
    (if ovf \<noteq> 0 then
      bindM (getsM (BX_READ_32BIT_REG (rm i))) (\<lambda>r32.
      modifyM (BX_WRITE_32BIT_REGZ (nnn i) r32))
     else
      returnM ()))"

definition CMOVNO_GdEdR :: "bxInstruction_c \<Rightarrow> unit cpu_monad" where
  "CMOVNO_GdEdR i =
    bindM (getsM get_OF) (\<lambda>ovf.
    (if ovf = 0 then
      bindM (getsM (BX_READ_32BIT_REG (rm i))) (\<lambda>r32.
      modifyM (BX_WRITE_32BIT_REGZ (nnn i) r32))
     else
      returnM ()))"

definition CMOVB_GdEdR :: "bxInstruction_c \<Rightarrow> unit cpu_monad" where
  "CMOVB_GdEdR i =
    bindM (getsM get_CF) (\<lambda>cf.
    (if cf \<noteq> 0 then
      bindM (getsM (BX_READ_32BIT_REG (rm i))) (\<lambda>r32.
      modifyM (BX_WRITE_32BIT_REGZ (nnn i) r32))
     else
      returnM ()))"

definition CMOVNB_GdEdR :: "bxInstruction_c \<Rightarrow> unit cpu_monad" where
  "CMOVNB_GdEdR i =
    bindM (getsM get_CF) (\<lambda>cf.
    (if cf = 0 then
      bindM (getsM (BX_READ_32BIT_REG (rm i))) (\<lambda>r32.
      modifyM (BX_WRITE_32BIT_REGZ (nnn i) r32))
     else
      returnM ()))"

definition CMOVZ_GdEdR :: "bxInstruction_c \<Rightarrow> unit cpu_monad" where
  "CMOVZ_GdEdR i =
    bindM (getsM get_ZF) (\<lambda>zf.
    (if zf \<noteq> 0 then
      bindM (getsM (BX_READ_32BIT_REG (rm i))) (\<lambda>r32.
      modifyM (BX_WRITE_32BIT_REGZ (nnn i) r32))
     else
      returnM ()))"

definition CMOVNZ_GdEdR :: "bxInstruction_c \<Rightarrow> unit cpu_monad" where
  "CMOVNZ_GdEdR i =
    bindM (getsM get_ZF) (\<lambda>zf.
    (if zf = 0 then
      bindM (getsM (BX_READ_32BIT_REG (rm i))) (\<lambda>r32.
      modifyM (BX_WRITE_32BIT_REGZ (nnn i) r32))
     else
      returnM ()))"

definition CMOVBE_GdEdR :: "bxInstruction_c \<Rightarrow> unit cpu_monad" where
  "CMOVBE_GdEdR i =
    bindM (getsM get_CF) (\<lambda>cf.
    bindM (getsM get_ZF) (\<lambda>zf.
    (if cf \<noteq> 0 \<or> zf \<noteq> 0 then
      bindM (getsM (BX_READ_32BIT_REG (rm i))) (\<lambda>r32.
      modifyM (BX_WRITE_32BIT_REGZ (nnn i) r32))
     else
      returnM ())))"

definition CMOVNBE_GdEdR :: "bxInstruction_c \<Rightarrow> unit cpu_monad" where
  "CMOVNBE_GdEdR i =
    bindM (getsM get_CF) (\<lambda>cf.
    bindM (getsM get_ZF) (\<lambda>zf.
    (if \<not> (cf \<noteq> 0 \<or> zf \<noteq> 0) then
      bindM (getsM (BX_READ_32BIT_REG (rm i))) (\<lambda>r32.
      modifyM (BX_WRITE_32BIT_REGZ (nnn i) r32))
     else
      returnM ())))"

definition CMOVS_GdEdR :: "bxInstruction_c \<Rightarrow> unit cpu_monad" where
  "CMOVS_GdEdR i =
    bindM (getsM get_SF) (\<lambda>sf.
    (if sf \<noteq> 0 then
      bindM (getsM (BX_READ_32BIT_REG (rm i))) (\<lambda>r32.
      modifyM (BX_WRITE_32BIT_REGZ (nnn i) r32))
     else
      returnM ()))"

definition CMOVNS_GdEdR :: "bxInstruction_c \<Rightarrow> unit cpu_monad" where
  "CMOVNS_GdEdR i =
    bindM (getsM get_SF) (\<lambda>sf.
    (if sf = 0 then
      bindM (getsM (BX_READ_32BIT_REG (rm i))) (\<lambda>r32.
      modifyM (BX_WRITE_32BIT_REGZ (nnn i) r32))
     else
      returnM ()))"

definition CMOVP_GdEdR :: "bxInstruction_c \<Rightarrow> unit cpu_monad" where
  "CMOVP_GdEdR i =
    bindM (getsM get_PF) (\<lambda>pf.
    (if pf \<noteq> 0 then
      bindM (getsM (BX_READ_32BIT_REG (rm i))) (\<lambda>r32.
      modifyM (BX_WRITE_32BIT_REGZ (nnn i) r32))
     else
      returnM ()))"

definition CMOVNP_GdEdR :: "bxInstruction_c \<Rightarrow> unit cpu_monad" where
  "CMOVNP_GdEdR i =
    bindM (getsM get_PF) (\<lambda>pf.
    (if pf = 0 then
      bindM (getsM (BX_READ_32BIT_REG (rm i))) (\<lambda>r32.
      modifyM (BX_WRITE_32BIT_REGZ (nnn i) r32))
     else
      returnM ()))"

definition CMOVL_GdEdR :: "bxInstruction_c \<Rightarrow> unit cpu_monad" where
  "CMOVL_GdEdR i =
    bindM (getsM getB_SF) (\<lambda>sf.
    bindM (getsM getB_OF) (\<lambda>ovf.
    (if sf \<noteq> ovf then
      bindM (getsM (BX_READ_32BIT_REG (rm i))) (\<lambda>r32.
      modifyM (BX_WRITE_32BIT_REGZ (nnn i) r32))
     else
      returnM ())))"

definition CMOVNL_GdEdR :: "bxInstruction_c \<Rightarrow> unit cpu_monad" where
  "CMOVNL_GdEdR i =
    bindM (getsM getB_SF) (\<lambda>sf.
    bindM (getsM getB_OF) (\<lambda>ovf.
    (if sf = ovf then
      bindM (getsM (BX_READ_32BIT_REG (rm i))) (\<lambda>r32.
      modifyM (BX_WRITE_32BIT_REGZ (nnn i) r32))
     else
      returnM ())))"

definition CMOVLE_GdEdR :: "bxInstruction_c \<Rightarrow> unit cpu_monad" where
  "CMOVLE_GdEdR i =
    bindM (getsM get_ZF) (\<lambda>zf.
    bindM (getsM getB_SF) (\<lambda>sf.
    bindM (getsM getB_OF) (\<lambda>ovf.
    (if zf \<noteq> 0 \<or> sf \<noteq> ovf then
      bindM (getsM (BX_READ_32BIT_REG (rm i))) (\<lambda>r32.
      modifyM (BX_WRITE_32BIT_REGZ (nnn i) r32))
     else
      returnM ()))))"

definition CMOVNLE_GdEdR :: "bxInstruction_c \<Rightarrow> unit cpu_monad" where
  "CMOVNLE_GdEdR i =
    bindM (getsM get_ZF) (\<lambda>zf.
    bindM (getsM getB_SF) (\<lambda>sf.
    bindM (getsM getB_OF) (\<lambda>ovf.
    (if zf = 0 \<and> sf = ovf then
      bindM (getsM (BX_READ_32BIT_REG (rm i))) (\<lambda>r32.
      modifyM (BX_WRITE_32BIT_REGZ (nnn i) r32))
     else
      returnM ()))))"

section \<open>The flags\<close>

lemmas data_xfer_defs =
  MOV_RLIb_def MOV_RHIb_def MOV_EbGbM_def MOV_GbEbM_def MOV_GbEbR_def MOV_ALOd_def
  MOV_OdAL_def MOV_EbIbM_def XLAT_def XCHG_EbGbM_def XCHG_EbGbR_def MOV_RXIw_def XCHG_RXAX_def
  MOV_EwGwM_def MOV_GwEwR_def MOV_GwEwM_def MOV_EwSwR_def MOV_EwSwM_def LEA_GwM_def
  MOV_AXOd_def MOV_OdAX_def MOV_EwIwM_def MOVZX_GwEbM_def MOVZX_GwEbR_def MOVSX_GwEbM_def
  MOVSX_GwEbR_def XCHG_EwGwM_def XCHG_EwGwR_def XCHG_ERXEAX_def MOV_ERXId_def MOV32_EdGdM_def
  MOV_GdEdR_def MOV32_GdEdM_def LEA_GdM_def MOV_EAXOd_def MOV_OdEAX_def MOV_EdIdM_def
  MOVZX_GdEbM_def MOVZX_GdEbR_def MOVZX_GdEwM_def MOVZX_GdEwR_def MOVSX_GdEbM_def
  MOVSX_GdEbR_def MOVSX_GdEwM_def MOVSX_GdEwR_def XCHG_EdGdM_def XCHG_EdGdR_def

lemmas cmov_defs =
  CMOVO_GwEwR_def CMOVNO_GwEwR_def CMOVB_GwEwR_def CMOVNB_GwEwR_def CMOVZ_GwEwR_def
  CMOVNZ_GwEwR_def CMOVBE_GwEwR_def CMOVNBE_GwEwR_def CMOVS_GwEwR_def CMOVNS_GwEwR_def
  CMOVP_GwEwR_def CMOVNP_GwEwR_def CMOVL_GwEwR_def CMOVNL_GwEwR_def CMOVLE_GwEwR_def
  CMOVNLE_GwEwR_def CMOVO_GdEdR_def CMOVNO_GdEdR_def CMOVB_GdEdR_def CMOVNB_GdEdR_def
  CMOVZ_GdEdR_def CMOVNZ_GdEdR_def CMOVBE_GdEdR_def CMOVNBE_GdEdR_def CMOVS_GdEdR_def
  CMOVNS_GdEdR_def CMOVP_GdEdR_def CMOVNP_GdEdR_def CMOVL_GdEdR_def CMOVNL_GdEdR_def
  CMOVLE_GdEdR_def CMOVNLE_GdEdR_def

lemma data_xfer_neutral:
  "flag_neutral (MOV_RLIb i)"
  "flag_neutral (MOV_RHIb i)"
  "flag_neutral (MOV_EbGbM i)"
  "flag_neutral (MOV_GbEbM i)"
  "flag_neutral (MOV_GbEbR i)"
  "flag_neutral (MOV_ALOd i)"
  "flag_neutral (MOV_OdAL i)"
  "flag_neutral (MOV_EbIbM i)"
  "flag_neutral (XLAT i)"
  "flag_neutral (XCHG_EbGbM i)"
  "flag_neutral (XCHG_EbGbR i)"
  "flag_neutral (MOV_RXIw i)"
  "flag_neutral (XCHG_RXAX i)"
  "flag_neutral (MOV_EwGwM i)"
  "flag_neutral (MOV_GwEwR i)"
  "flag_neutral (MOV_GwEwM i)"
  "flag_neutral (MOV_EwSwR i)"
  "flag_neutral (MOV_EwSwM i)"
  "flag_neutral (LEA_GwM i)"
  "flag_neutral (MOV_AXOd i)"
  "flag_neutral (MOV_OdAX i)"
  "flag_neutral (MOV_EwIwM i)"
  "flag_neutral (MOVZX_GwEbM i)"
  "flag_neutral (MOVZX_GwEbR i)"
  "flag_neutral (MOVSX_GwEbM i)"
  "flag_neutral (MOVSX_GwEbR i)"
  "flag_neutral (XCHG_EwGwM i)"
  "flag_neutral (XCHG_EwGwR i)"
  "flag_neutral (XCHG_ERXEAX i)"
  "flag_neutral (MOV_ERXId i)"
  "flag_neutral (MOV32_EdGdM i)"
  "flag_neutral (MOV_GdEdR i)"
  "flag_neutral (MOV32_GdEdM i)"
  "flag_neutral (LEA_GdM i)"
  "flag_neutral (MOV_EAXOd i)"
  "flag_neutral (MOV_OdEAX i)"
  "flag_neutral (MOV_EdIdM i)"
  "flag_neutral (MOVZX_GdEbM i)"
  "flag_neutral (MOVZX_GdEbR i)"
  "flag_neutral (MOVZX_GdEwM i)"
  "flag_neutral (MOVZX_GdEwR i)"
  "flag_neutral (MOVSX_GdEbM i)"
  "flag_neutral (MOVSX_GdEbR i)"
  "flag_neutral (MOVSX_GdEwM i)"
  "flag_neutral (MOVSX_GdEwR i)"
  "flag_neutral (XCHG_EdGdM i)"
  "flag_neutral (XCHG_EdGdR i)"
  unfolding data_xfer_defs Let_def
  by (intro neutral_intros; simp)+

lemma cmov_refines:
  "refines (CMOVO_GwEwR i) (CMOVO_GwEwR i)"
  "refines (CMOVNO_GwEwR i) (CMOVNO_GwEwR i)"
  "refines (CMOVB_GwEwR i) (CMOVB_GwEwR i)"
  "refines (CMOVNB_GwEwR i) (CMOVNB_GwEwR i)"
  "refines (CMOVZ_GwEwR i) (CMOVZ_GwEwR i)"
  "refines (CMOVNZ_GwEwR i) (CMOVNZ_GwEwR i)"
  "refines (CMOVBE_GwEwR i) (CMOVBE_GwEwR i)"
  "refines (CMOVNBE_GwEwR i) (CMOVNBE_GwEwR i)"
  "refines (CMOVS_GwEwR i) (CMOVS_GwEwR i)"
  "refines (CMOVNS_GwEwR i) (CMOVNS_GwEwR i)"
  "refines (CMOVP_GwEwR i) (CMOVP_GwEwR i)"
  "refines (CMOVNP_GwEwR i) (CMOVNP_GwEwR i)"
  "refines (CMOVL_GwEwR i) (CMOVL_GwEwR i)"
  "refines (CMOVNL_GwEwR i) (CMOVNL_GwEwR i)"
  "refines (CMOVLE_GwEwR i) (CMOVLE_GwEwR i)"
  "refines (CMOVNLE_GwEwR i) (CMOVNLE_GwEwR i)"
  "refines (CMOVO_GdEdR i) (CMOVO_GdEdR i)"
  "refines (CMOVNO_GdEdR i) (CMOVNO_GdEdR i)"
  "refines (CMOVB_GdEdR i) (CMOVB_GdEdR i)"
  "refines (CMOVNB_GdEdR i) (CMOVNB_GdEdR i)"
  "refines (CMOVZ_GdEdR i) (CMOVZ_GdEdR i)"
  "refines (CMOVNZ_GdEdR i) (CMOVNZ_GdEdR i)"
  "refines (CMOVBE_GdEdR i) (CMOVBE_GdEdR i)"
  "refines (CMOVNBE_GdEdR i) (CMOVNBE_GdEdR i)"
  "refines (CMOVS_GdEdR i) (CMOVS_GdEdR i)"
  "refines (CMOVNS_GdEdR i) (CMOVNS_GdEdR i)"
  "refines (CMOVP_GdEdR i) (CMOVP_GdEdR i)"
  "refines (CMOVNP_GdEdR i) (CMOVNP_GdEdR i)"
  "refines (CMOVL_GdEdR i) (CMOVL_GdEdR i)"
  "refines (CMOVNL_GdEdR i) (CMOVNL_GdEdR i)"
  "refines (CMOVLE_GdEdR i) (CMOVLE_GdEdR i)"
  "refines (CMOVNLE_GdEdR i) (CMOVNLE_GdEdR i)"
  unfolding cmov_defs Let_def
  by (intro refine_intros refines_neutral neutral_intros; simp)+

end
