(* ===== verification/Opcodes.thy ===== *)
theory Opcodes
  imports Arith8 Arith16 Arith32 Logical DataXfer
begin

text \<open>
  The dispatch table \<open>BxOpcodesTable\<close> (\<open>cpu/ia_opcodes.h\<close>, \<open>cpu/fetchdecode.cc\<close>): for each
  opcode of the arithmetic, logical and data transfer handlers its entry point and its
  feature word, in the order of the file.  Each list is a run of consecutive lines of the
  file, named after its first opcode; the lines between the runs belong to other
  handlers, the moves to segment, control, debug and test registers among them.  An entry whose handler is \<open>LOAD_Eb\<close>, \<open>LOAD_Ew\<close> or \<open>LOAD_Ed\<close> has its
  second pointer, \<open>execute2\<close>, as the argument of the load.  The reference table gives the
  reference operation of every arithmetic and logical opcode.
\<close>

type_synonym opcode_entry = "string \<times> (bxInstruction_c \<Rightarrow> unit cpu_monad) \<times> 32 word"

definition BX_CPU_486 :: "32 word" where "BX_CPU_486 = 0x00000002"
definition BX_CPU_PENTIUM :: "32 word" where "BX_CPU_PENTIUM = 0x00000004"
definition BX_CPU_P6 :: "32 word" where "BX_CPU_P6 = 0x00000008"

definition opcodes_ADC_ALIb :: "opcode_entry list" where
  "opcodes_ADC_ALIb = [
    (''BX_IA_ADC_ALIb'', ADC_ALIb, 0),
    (''BX_IA_ADC_AXIw'', ADC_AXIw, 0),
    (''BX_IA_ADC_EAXId'', ADC_EAXId, 0),
    (''BX_IA_ADC_EbGbM'', ADC_EbGbM, 0),
    (''BX_IA_ADC_EbIbM'', ADC_EbIbM, 0),
    (''BX_IA_ADC_EbIbR'', ADC_EbIbR, 0),
    (''BX_IA_ADC_EdGdM'', ADC_EdGdM, 0),
    (''BX_IA_ADC_EdIdM'', ADC_EdIdM, 0),
    (''BX_IA_ADC_EdIdR'', ADC_EdIdR, 0),
    (''BX_IA_ADC_EwGwM'', ADC_EwGwM, 0),
    (''BX_IA_ADC_EwIwM'', ADC_EwIwM, 0),
    (''BX_IA_ADC_EwIwR'', ADC_EwIwR, 0),
    (''BX_IA_ADC_GbEbM'', LOAD_Eb ADC_GbEbR, 0),
    (''BX_IA_ADC_GbEbR'', ADC_GbEbR, 0),
    (''BX_IA_ADC_GdEdM'', LOAD_Ed ADC_GdEdR, 0),
    (''BX_IA_ADC_GdEdR'', ADC_GdEdR, 0),
    (''BX_IA_ADC_GwEwM'', LOAD_Ew ADC_GwEwR, 0),
    (''BX_IA_ADC_GwEwR'', ADC_GwEwR, 0),
    (''BX_IA_ADD_ALIb'', ADD_ALIb, 0),
    (''BX_IA_ADD_AXIw'', ADD_AXIw, 0),
    (''BX_IA_ADD_EAXId'', ADD_EAXId, 0),
    (''BX_IA_ADD_EbGbM'', ADD_EbGbM, 0),
    (''BX_IA_ADD_EbIbM'', ADD_EbIbM, 0),
    (''BX_IA_ADD_EbIbR'', ADD_EbIbR, 0),
    (''BX_IA_ADD_EdGdM'', ADD_EdGdM, 0),
    (''BX_IA_ADD_EdIdM'', ADD_EdIdM, 0),
    (''BX_IA_ADD_EdIdR'', ADD_EdIdR, 0),
    (''BX_IA_ADD_EwGwM'', ADD_EwGwM, 0),
    (''BX_IA_ADD_EwIwM'', ADD_EwIwM, 0),
    (''BX_IA_ADD_EwIwR'', ADD_EwIwR, 0),
    (''BX_IA_ADD_GbEbM'', LOAD_Eb ADD_GbEbR, 0),
    (''BX_IA_ADD_GbEbR'', ADD_GbEbR, 0),
    (''BX_IA_ADD_GdEdM'', LOAD_Ed ADD_GdEdR, 0),
    (''BX_IA_ADD_GdEdR'', ADD_GdEdR, 0),
    (''BX_IA_ADD_GwEwM'', LOAD_Ew ADD_GwEwR, 0),
    (''BX_IA_ADD_GwEwR'', ADD_GwEwR, 0),
    (''BX_IA_AND_ALIb'', AND_ALIb, 0),
    (''BX_IA_AND_AXIw'', AND_AXIw, 0),
    (''BX_IA_AND_EAXId'', AND_EAXId, 0),
    (''BX_IA_AND_EbGbM'', AND_EbGbM, 0),
    (''BX_IA_AND_EbIbM'', AND_EbIbM, 0),
    (''BX_IA_AND_EbIbR'', AND_EbIbR, 0),
    (''BX_IA_AND_EdGdM'', AND_EdGdM, 0),
    (''BX_IA_AND_EdIdM'', AND_EdIdM, 0),
    (''BX_IA_AND_EdIdR'', AND_EdIdR, 0),
    (''BX_IA_AND_EwGwM'', AND_EwGwM, 0),
    (''BX_IA_AND_EwIwM'', AND_EwIwM, 0),
    (''BX_IA_AND_EwIwR'', AND_EwIwR, 0),
    (''BX_IA_AND_GbEbM'', LOAD_Eb AND_GbEbR, 0),
    (''BX_IA_AND_GbEbR'', AND_GbEbR, 0),
    (''BX_IA_AND_GdEdM'', LOAD_Ed AND_GdEdR, 0),
    (''BX_IA_AND_GdEdR'', AND_GdEdR, 0),
    (''BX_IA_AND_GwEwM'', LOAD_Ew AND_GwEwR, 0),
    (''BX_IA_AND_GwEwR'', AND_GwEwR, 0)]"

definition opcodes_CBW :: "opcode_entry list" where
  "opcodes_CBW = [
    (''BX_IA_CBW'', CBW, 0),
    (''BX_IA_CDQ'', CDQ, 0)]"

definition opcodes_CMP_ALIb :: "opcode_entry list" where
  "opcodes_CMP_ALIb = [
    (''BX_IA_CMP_ALIb'', CMP_ALIb, 0),
    (''BX_IA_CMP_AXIw'', CMP_AXIw, 0),
    (''BX_IA_CMP_EAXId'', CMP_EAXId, 0),
    (''BX_IA_CMP_EbGbM'', CMP_EbGbM, 0),
    (''BX_IA_CMP_EbIbM'', CMP_EbIbM, 0),
    (''BX_IA_CMP_EbIbR'', CMP_EbIbR, 0),
    (''BX_IA_CMP_EdGdM'', CMP_EdGdM, 0),
    (''BX_IA_CMP_EdIdM'', CMP_EdIdM, 0),
    (''BX_IA_CMP_EdIdR'', CMP_EdIdR, 0),
    (''BX_IA_CMP_EwGwM'', CMP_EwGwM, 0),
    (''BX_IA_CMP_EwIwM'', CMP_EwIwM, 0),
    (''BX_IA_CMP_EwIwR'', CMP_EwIwR, 0),
    (''BX_IA_CMP_GbEbM'', LOAD_Eb CMP_GbEbR, 0),
    (''BX_IA_CMP_GbEbR'', CMP_GbEbR, 0),
    (''BX_IA_CMP_GdEdM'', LOAD_Ed CMP_GdEdR, 0),
    (''BX_IA_CMP_GdEdR'', CMP_GdEdR, 0),
    (''BX_IA_CMP_GwEwM'', LOAD_Ew CMP_GwEwR, 0),
    (''BX_IA_CMP_GwEwR'', CMP_GwEwR, 0),
    (''BX_IA_CMPXCHG_IBTS'', CMPXCHG_IBTS, 0),
    (''BX_IA_CMPXCHG_XBTS'', CMPXCHG_XBTS, 0),
    (''BX_IA_CWD'', CWD, 0),
    (''BX_IA_CWDE'', CWDE, 0),
    (''BX_IA_DEC_EbM'', DEC_EbM, 0),
    (''BX_IA_DEC_EbR'', DEC_EbR, 0),
    (''BX_IA_DEC_EdR'', DEC_ERX, 0),
    (''BX_IA_DEC_EdM'', DEC_EdM, 0),
    (''BX_IA_DEC_ERX'', DEC_ERX, 0),
    (''BX_IA_DEC_EwR'', DEC_RX, 0),
    (''BX_IA_DEC_EwM'', DEC_EwM, 0),
    (''BX_IA_DEC_RX'', DEC_RX, 0)]"

definition opcodes_INC_EbM :: "opcode_entry list" where
  "opcodes_INC_EbM = [
    (''BX_IA_INC_EbM'', INC_EbM, 0),
    (''BX_IA_INC_EbR'', INC_EbR, 0),
    (''BX_IA_INC_EdR'', INC_ERX, 0),
    (''BX_IA_INC_EdM'', INC_EdM, 0),
    (''BX_IA_INC_ERX'', INC_ERX, 0),
    (''BX_IA_INC_EwR'', INC_RX, 0),
    (''BX_IA_INC_EwM'', INC_EwM, 0),
    (''BX_IA_INC_RX'', INC_RX, 0)]"

definition opcodes_LEA_GdM :: "opcode_entry list" where
  "opcodes_LEA_GdM = [
    (''BX_IA_LEA_GdM'', LEA_GdM, 0),
    (''BX_IA_LEA_GwM'', LEA_GwM, 0)]"

definition opcodes_MOV_ALOd :: "opcode_entry list" where
  "opcodes_MOV_ALOd = [
    (''BX_IA_MOV_ALOd'', MOV_ALOd, 0),
    (''BX_IA_MOV_AXOd'', MOV_AXOd, 0)]"

definition opcodes_MOV_EAXOd :: "opcode_entry list" where
  "opcodes_MOV_EAXOd = [
    (''BX_IA_MOV_EAXOd'', MOV_EAXOd, 0),
    (''BX_IA_MOV_EbGbM'', MOV_EbGbM, 0),
    (''BX_IA_MOV_EbIbM'', MOV_EbIbM, 0),
    (''BX_IA_MOV_EbIbR'', MOV_RLIb, 0),
    (''BX_IA_MOV_EdIdM'', MOV_EdIdM, 0),
    (''BX_IA_MOV_EdIdR'', MOV_ERXId, 0),
    (''BX_IA_MOV_ERXId'', MOV_ERXId, 0),
    (''BX_IA_MOV_EwGwM'', MOV_EwGwM, 0),
    (''BX_IA_MOV_EwIwM'', MOV_EwIwM, 0),
    (''BX_IA_MOV_EwIwR'', MOV_RXIw, 0),
    (''BX_IA_MOV_EwSwM'', MOV_EwSwM, 0),
    (''BX_IA_MOV_EwSwR'', MOV_EwSwR, 0),
    (''BX_IA_MOV_GbEbM'', MOV_GbEbM, 0),
    (''BX_IA_MOV_GbEbR'', MOV_GbEbR, 0),
    (''BX_IA_MOV32_EdGdM'', MOV32_EdGdM, 0),
    (''BX_IA_MOV32_GdEdM'', MOV32_GdEdM, 0),
    (''BX_IA_MOV_GdEdR'', MOV_GdEdR, 0),
    (''BX_IA_MOV_GwEwM'', MOV_GwEwM, 0),
    (''BX_IA_MOV_GwEwR'', MOV_GwEwR, 0),
    (''BX_IA_MOV_OdAL'', MOV_OdAL, 0),
    (''BX_IA_MOV_OdAX'', MOV_OdAX, 0),
    (''BX_IA_MOV_OdEAX'', MOV_OdEAX, 0)]"

definition opcodes_MOV_RHIb :: "opcode_entry list" where
  "opcodes_MOV_RHIb = [
    (''BX_IA_MOV_RHIb'', MOV_RHIb, 0),
    (''BX_IA_MOV_RLIb'', MOV_RLIb, 0),
    (''BX_IA_MOV_RXIw'', MOV_RXIw, 0)]"

definition opcodes_MOVSX_GdEbM :: "opcode_entry list" where
  "opcodes_MOVSX_GdEbM = [
    (''BX_IA_MOVSX_GdEbM'', MOVSX_GdEbM, 0),
    (''BX_IA_MOVSX_GdEbR'', MOVSX_GdEbR, 0),
    (''BX_IA_MOVSX_GdEwM'', MOVSX_GdEwM, 0),
    (''BX_IA_MOVSX_GdEwR'', MOVSX_GdEwR, 0),
    (''BX_IA_MOVSX_GwEbM'', MOVSX_GwEbM, 0),
    (''BX_IA_MOVSX_GwEbR'', MOVSX_GwEbR, 0),
    (''BX_IA_MOVZX_GdEbM'', MOVZX_GdEbM, 0),
    (''BX_IA_MOVZX_GdEbR'', MOVZX_GdEbR, 0),
    (''BX_IA_MOVZX_GdEwM'', MOVZX_GdEwM, 0),
    (''BX_IA_MOVZX_GdEwR'', MOVZX_GdEwR, 0),
    (''BX_IA_MOVZX_GwEbM'', MOVZX_GwEbM, 0),
    (''BX_IA_MOVZX_GwEbR'', MOVZX_GwEbR, 0)]"

definition opcodes_NEG_EbM :: "opcode_entry list" where
  "opcodes_NEG_EbM = [
    (''BX_IA_NEG_EbM'', NEG_EbM, 0),
    (''BX_IA_NEG_EbR'', NEG_EbR, 0),
    (''BX_IA_NEG_EdM'', NEG_EdM, 0),
    (''BX_IA_NEG_EdR'', NEG_EdR, 0),
    (''BX_IA_NEG_EwM'', NEG_EwM, 0),
    (''BX_IA_NEG_EwR'', NEG_EwR, 0)]"

definition opcodes_NOT_EbM :: "opcode_entry list" where
  "opcodes_NOT_EbM = [
    (''BX_IA_NOT_EbM'', NOT_EbM, 0),
    (''BX_IA_NOT_EbR'', NOT_EbR, 0),
    (''BX_IA_NOT_EdM'', NOT_EdM, 0),
    (''BX_IA_NOT_EdR'', NOT_EdR, 0),
    (''BX_IA_NOT_EwM'', NOT_EwM, 0),
    (''BX_IA_NOT_EwR'', NOT_EwR, 0),
    (''BX_IA_OR_ALIb'', OR_ALIb, 0),
    (''BX_IA_OR_AXIw'', OR_AXIw, 0),
    (''BX_IA_OR_EAXId'', OR_EAXId, 0),
    (''BX_IA_OR_EbGbM'', OR_EbGbM, 0),
    (''BX_IA_OR_EbIbM'', OR_EbIbM, 0),
    (''BX_IA_OR_EbIbR'', OR_EbIbR, 0),
    (''BX_IA_OR_EdGdM'', OR_EdGdM, 0),
    (''BX_IA_OR_EdIdM'', OR_EdIdM, 0),
    (''BX_IA_OR_EdIdR'', OR_EdIdR, 0),
    (''BX_IA_OR_EwGwM'', OR_EwGwM, 0),
    (''BX_IA_OR_EwIwM'', OR_EwIwM, 0),
    (''BX_IA_OR_EwIwR'', OR_EwIwR, 0),
    (''BX_IA_OR_GbEbM'', LOAD_Eb OR_GbEbR, 0),
    (''BX_IA_OR_GbEbR'', OR_GbEbR, 0),
    (''BX_IA_OR_GdEdM'', LOAD_Ed OR_GdEdR, 0),
    (''BX_IA_OR_GdEdR'', OR_GdEdR, 0),
    (''BX_IA_OR_GwEwM'', LOAD_Ew OR_GwEwR, 0),
    (''BX_IA_OR_GwEwR'', OR_GwEwR, 0)]"

definition opcodes_SBB_ALIb :: "opcode_entry list" where
  "opcodes_SBB_ALIb = [
    (''BX_IA_SBB_ALIb'', SBB_ALIb, 0),
    (''BX_IA_SBB_AXIw'', SBB_AXIw, 0),
    (''BX_IA_SBB_EAXId'', SBB_EAXId, 0),
    (''BX_IA_SBB_EbGbM'', SBB_EbGbM, 0),
    (''BX_IA_SBB_EbIbM'', SBB_EbIbM, 0),
    (''BX_IA_SBB_EbIbR'', SBB_EbIbR, 0),
    (''BX_IA_SBB_EdGdM'', SBB_EdGdM, 0),
    (''BX_IA_SBB_EdIdM'', SBB_EdIdM, 0),
    (''BX_IA_SBB_EdIdR'', SBB_EdIdR, 0),
    (''BX_IA_SBB_EwGwM'', SBB_EwGwM, 0),
    (''BX_IA_SBB_EwIwM'', SBB_EwIwM, 0),
    (''BX_IA_SBB_EwIwR'', SBB_EwIwR, 0),
    (''BX_IA_SBB_GbEbM'', LOAD_Eb SBB_GbEbR, 0),
    (''BX_IA_SBB_GbEbR'', SBB_GbEbR, 0),
    (''BX_IA_SBB_GdEdM'', LOAD_Ed SBB_GdEdR, 0),
    (''BX_IA_SBB_GdEdR'', SBB_GdEdR, 0),
    (''BX_IA_SBB_GwEwM'', LOAD_Ew SBB_GwEwR, 0),
    (''BX_IA_SBB_GwEwR'', SBB_GwEwR, 0)]"

definition opcodes_SUB_ALIb :: "opcode_entry list" where
  "opcodes_SUB_ALIb = [
    (''BX_IA_SUB_ALIb'', SUB_ALIb, 0),
    (''BX_IA_SUB_AXIw'', SUB_AXIw, 0),
    (''BX_IA_SUB_EAXId'', SUB_EAXId, 0),
    (''BX_IA_SUB_EbGbM'', SUB_EbGbM, 0),
    (''BX_IA_SUB_EbIbM'', SUB_EbIbM, 0),
    (''BX_IA_SUB_EbIbR'', SUB_EbIbR, 0),
    (''BX_IA_SUB_EdGdM'', SUB_EdGdM, 0),
    (''BX_IA_SUB_EdIdM'', SUB_EdIdM, 0),
    (''BX_IA_SUB_EdIdR'', SUB_EdIdR, 0),
    (''BX_IA_SUB_EwGwM'', SUB_EwGwM, 0),
    (''BX_IA_SUB_EwIwM'', SUB_EwIwM, 0),
    (''BX_IA_SUB_EwIwR'', SUB_EwIwR, 0),
    (''BX_IA_SUB_GbEbM'', LOAD_Eb SUB_GbEbR, 0),
    (''BX_IA_SUB_GbEbR'', SUB_GbEbR, 0),
    (''BX_IA_SUB_GdEdM'', LOAD_Ed SUB_GdEdR, 0),
    (''BX_IA_SUB_GdEdR'', SUB_GdEdR, 0),
    (''BX_IA_SUB_GwEwM'', LOAD_Ew SUB_GwEwR, 0),
    (''BX_IA_SUB_GwEwR'', SUB_GwEwR, 0)]"

definition opcodes_TEST_ALIb :: "opcode_entry list" where
  "opcodes_TEST_ALIb = [
    (''BX_IA_TEST_ALIb'', TEST_ALIb, 0),
    (''BX_IA_TEST_AXIw'', TEST_AXIw, 0),
    (''BX_IA_TEST_EAXId'', TEST_EAXId, 0),
    (''BX_IA_TEST_EbGbM'', LOAD_Eb TEST_EbGbR, 0),
    (''BX_IA_TEST_EbGbR'', TEST_EbGbR, 0),
    (''BX_IA_TEST_EbIbM'', LOAD_Eb TEST_EbIbR, 0),
    (''BX_IA_TEST_EbIbR'', TEST_EbIbR, 0),
    (''BX_IA_TEST_EdGdM'', LOAD_Ed TEST_EdGdR, 0),
    (''BX_IA_TEST_EdGdR'', TEST_EdGdR, 0),
    (''BX_IA_TEST_EdIdM'', LOAD_Ed TEST_EdIdR, 0),
    (''BX_IA_TEST_EdIdR'', TEST_EdIdR, 0),
    (''BX_IA_TEST_EwGwM'', LOAD_Ew TEST_EwGwR, 0),
    (''BX_IA_TEST_EwGwR'', TEST_EwGwR, 0),
    (''BX_IA_TEST_EwIwM'', LOAD_Ew TEST_EwIwR, 0),
    (''BX_IA_TEST_EwIwR'', TEST_EwIwR, 0)]"

definition opcodes_XCHG_EbGbM :: "opcode_entry list" where
  "opcodes_XCHG_EbGbM = [
    (''BX_IA_XCHG_EbGbM'', XCHG_EbGbM, 0),
    (''BX_IA_XCHG_EbGbR'', XCHG_EbGbR, 0),
    (''BX_IA_XCHG_EdGdM'', XCHG_EdGdM, 0),
    (''BX_IA_XCHG_EdGdR'', XCHG_EdGdR, 0),
    (''BX_IA_XCHG_ERXEAX'', XCHG_ERXEAX, 0),
    (''BX_IA_XCHG_EwGwM'', XCHG_EwGwM, 0),
    (''BX_IA_XCHG_EwGwR'', XCHG_EwGwR, 0),
    (''BX_IA_XCHG_RXAX'', XCHG_RXAX, 0),
    (''BX_IA_XLAT'', XLAT, 0),
    (''BX_IA_XOR_ALIb'', XOR_ALIb, 0),
    (''BX_IA_XOR_AXIw'', XOR_AXIw, 0),
    (''BX_IA_XOR_EAXId'', XOR_EAXId, 0),
    (''BX_IA_XOR_EbGbM'', XOR_EbGbM, 0),
    (''BX_IA_XOR_EbIbM'', XOR_EbIbM, 0),
    (''BX_IA_XOR_EbIbR'', XOR_EbIbR, 0),
    (''BX_IA_XOR_EdGdM'', XOR_EdGdM, 0),
    (''BX_IA_XOR_EdIdM'', XOR_EdIdM, 0),
    (''BX_IA_XOR_EdIdR'', XOR_EdIdR, 0),
    (''BX_IA_XOR_EwGwM'', XOR_EwGwM, 0),
    (''BX_IA_XOR_EwIwM'', XOR_EwIwM, 0),
    (''BX_IA_XOR_EwIwR'', XOR_EwIwR, 0),
    (''BX_IA_XOR_GbEbM'', LOAD_Eb XOR_GbEbR, 0),
    (''BX_IA_XOR_GbEbR'', XOR_GbEbR, 0),
    (''BX_IA_XOR_GdEdM'', LOAD_Ed XOR_GdEdR, 0),
    (''BX_IA_XOR_GdEdR'', XOR_GdEdR, 0),
    (''BX_IA_XOR_GwEwM'', LOAD_Ew XOR_GwEwR, 0),
    (''BX_IA_XOR_GwEwR'', XOR_GwEwR, 0)]"

definition opcodes_XADD_EbGbM :: "opcode_entry list" where
  "opcodes_XADD_EbGbM = [
    (''BX_IA_XADD_EbGbM'', XADD_EbGbM, BX_CPU_486),
    (''BX_IA_XADD_EbGbR'', XADD_EbGbR, BX_CPU_486),
    (''BX_IA_XADD_EdGdM'', XADD_EdGdM, BX_CPU_486),
    (''BX_IA_XADD_EdGdR'', XADD_EdGdR, BX_CPU_486),
    (''BX_IA_XADD_EwGwM'', XADD_EwGwM, BX_CPU_486),
    (''BX_IA_XADD_EwGwR'', XADD_EwGwR, BX_CPU_486),
    (''BX_IA_CMPXCHG_EbGbM'', CMPXCHG_EbGbM, BX_CPU_486),
    (''BX_IA_CMPXCHG_EbGbR'', CMPXCHG_EbGbR, BX_CPU_486),
    (''BX_IA_CMPXCHG_EdGdM'', CMPXCHG_EdGdM, BX_CPU_486),
    (''BX_IA_CMPXCHG_EdGdR'', CMPXCHG_EdGdR, BX_CPU_486),
    (''BX_IA_CMPXCHG_EwGwM'', CMPXCHG_EwGwM, BX_CPU_486),
    (''BX_IA_CMPXCHG_EwGwR'', CMPXCHG_EwGwR, BX_CPU_486)]"

definition opcodes_CMPXCHG8B :: "opcode_entry list" where
  "opcodes_CMPXCHG8B = [
    (''BX_IA_CMPXCHG8B'', CMPXCHG8B, BX_CPU_PENTIUM)]"

definition opcodes_CMOVB_GdEdM :: "opcode_entry list" where
  "opcodes_CMOVB_GdEdM = [
    (''BX_IA_CMOVB_GdEdM'', LOAD_Ed CMOVB_GdEdR, BX_CPU_P6),
    (''BX_IA_CMOVB_GdEdR'', CMOVB_GdEdR, BX_CPU_P6),
    (''BX_IA_CMOVB_GwEwM'', LOAD_Ew CMOVB_GwEwR, BX_CPU_P6),
    (''BX_IA_CMOVB_GwEwR'', CMOVB_GwEwR, BX_CPU_P6),
    (''BX_IA_CMOVBE_GdEdM'', LOAD_Ed CMOVBE_GdEdR, BX_CPU_P6),
    (''BX_IA_CMOVBE_GdEdR'', CMOVBE_GdEdR, BX_CPU_P6),
    (''BX_IA_CMOVBE_GwEwM'', LOAD_Ew CMOVBE_GwEwR, BX_CPU_P6),
    (''BX_IA_CMOVBE_GwEwR'', CMOVBE_GwEwR, BX_CPU_P6),
    (''BX_IA_CMOVL_GdEdM'', LOAD_Ed CMOVL_GdEdR, BX_CPU_P6),
    (''BX_IA_CMOVL_GdEdR'', CMOVL_GdEdR, BX_CPU_P6),
    (''BX_IA_CMOVL_GwEwM'', LOAD_Ew CMOVL_GwEwR, BX_CPU_P6),
    (''BX_IA_CMOVL_GwEwR'', CMOVL_GwEwR, BX_CPU_P6),
    (''BX_IA_CMOVLE_GdEdM'', LOAD_Ed CMOVLE_GdEdR, BX_CPU_P6),
    (''BX_IA_CMOVLE_GdEdR'', CMOVLE_GdEdR, BX_CPU_P6),
    (''BX_IA_CMOVLE_GwEwM'', LOAD_Ew CMOVLE_GwEwR, BX_CPU_P6),
    (''BX_IA_CMOVLE_GwEwR'', CMOVLE_GwEwR, BX_CPU_P6),
    (''BX_IA_CMOVNB_GdEdM'', LOAD_Ed CMOVNB_GdEdR, BX_CPU_P6),
    (''BX_IA_CMOVNB_GdEdR'', CMOVNB_GdEdR, BX_CPU_P6),
    (''BX_IA_CMOVNB_GwEwM'', LOAD_Ew CMOVNB_GwEwR, BX_CPU_P6),
    (''BX_IA_CMOVNB_GwEwR'', CMOVNB_GwEwR, BX_CPU_P6),
    (''BX_IA_CMOVNBE_GdEdM'', LOAD_Ed CMOVNBE_GdEdR, BX_CPU_P6),
    (''BX_IA_CMOVNBE_GdEdR'', CMOVNBE_GdEdR, BX_CPU_P6),
    (''BX_IA_CMOVNBE_GwEwM'', LOAD_Ew CMOVNBE_GwEwR, BX_CPU_P6),
    (''BX_IA_CMOVNBE_GwEwR'', CMOVNBE_GwEwR, BX_CPU_P6),
    (''BX_IA_CMOVNL_GdEdM'', LOAD_Ed CMOVNL_GdEdR, BX_CPU_P6),
    (''BX_IA_CMOVNL_GdEdR'', CMOVNL_GdEdR, BX_CPU_P6),
    (''BX_IA_CMOVNL_GwEwM'', LOAD_Ew CMOVNL_GwEwR, BX_CPU_P6),
    (''BX_IA_CMOVNL_GwEwR'', CMOVNL_GwEwR, BX_CPU_P6),
    (''BX_IA_CMOVNLE_GdEdM'', LOAD_Ed CMOVNLE_GdEdR, BX_CPU_P6),
    (''BX_IA_CMOVNLE_GdEdR'', CMOVNLE_GdEdR, BX_CPU_P6),
    (''BX_IA_CMOVNLE_GwEwM'', LOAD_Ew CMOVNLE_GwEwR, BX_CPU_P6),
    (''BX_IA_CMOVNLE_GwEwR'', CMOVNLE_GwEwR, BX_CPU_P6),
    (''BX_IA_CMOVNO_GdEdM'', LOAD_Ed CMOVNO_GdEdR, BX_CPU_P6),
    (''BX_IA_CMOVNO_GdEdR'', CMOVNO_GdEdR, BX_CPU_P6),
    (''BX_IA_CMOVNO_GwEwM'', LOAD_Ew CMOVNO_GwEwR, BX_CPU_P6),
    (''BX_IA_CMOVNO_GwEwR'', CMOVNO_GwEwR, BX_CPU_P6),
    (''BX_IA_CMOVNP_GdEdM'', LOAD_Ed CMOVNP_GdEdR, BX_CPU_P6),
    (''BX_IA_CMOVNP_GdEdR'', CMOVNP_GdEdR, BX_CPU_P6),
    (''BX_IA_CMOVNP_GwEwM'', LOAD_Ew CMOVNP_GwEwR, BX_CPU_P6),
    (''BX_IA_CMOVNP_GwEwR'', CMOVNP_GwEwR, BX_CPU_P6),
    (''BX_IA_CMOVNS_GdEdM'', LOAD_Ed CMOVNS_GdEdR, BX_CPU_P6),
    (''BX_IA_CMOVNS_GdEdR'', CMOVNS_GdEdR, BX_CPU_P6),
    (''BX_IA_CMOVNS_GwEwM'', LOAD_Ew CMOVNS_GwEwR, BX_CPU_P6),
    (''BX_IA_CMOVNS_GwEwR'', CMOVNS_GwEwR, BX_CPU_P6),
    (''BX_IA_CMOVNZ_GdEdM'', LOAD_Ed CMOVNZ_GdEdR, BX_CPU_P6),
    (''BX_IA_CMOVNZ_GdEdR'', CMOVNZ_GdEdR, BX_CPU_P6),
    (''BX_IA_CMOVNZ_GwEwM'', LOAD_Ew CMOVNZ_GwEwR, BX_CPU_P6),
    (''BX_IA_CMOVNZ_GwEwR'', CMOVNZ_GwEwR, BX_CPU_P6),
    (''BX_IA_CMOVO_GdEdM'', LOAD_Ed CMOVO_GdEdR, BX_CPU_P6),
    (''BX_IA_CMOVO_GdEdR'', CMOVO_GdEdR, BX_CPU_P6),
    (''BX_IA_CMOVO_GwEwM'', LOAD_Ew CMOVO_GwEwR, BX_CPU_P6),
    (''BX_IA_CMOVO_GwEwR'', CMOVO_GwEwR, BX_CPU_P6),
    (''BX_IA_CMOVP_GdEdM'', LOAD_Ed CMOVP_GdEdR, BX_CPU_P6),
    (''BX_IA_CMOVP_GdEdR'', CMOVP_GdEdR, BX_CPU_P6),
    (''BX_IA_CMOVP_GwEwM'', LOAD_Ew CMOVP_GwEwR, BX_CPU_P6),
    (''BX_IA_CMOVP_GwEwR'', CMOVP_GwEwR, BX_CPU_P6),
    (''BX_IA_CMOVS_GdEdM'', LOAD_Ed CMOVS_GdEdR, BX_CPU_P6),
    (''BX_IA_CMOVS_GdEdR'', CMOVS_GdEdR, BX_CPU_P6),
    (''BX_IA_CMOVS_GwEwM'', LOAD_Ew CMOVS_GwEwR, BX_CPU_P6),
    (''BX_IA_CMOVS_GwEwR'', CMOVS_GwEwR, BX_CPU_P6),
    (''BX_IA_CMOVZ_GdEdM'', LOAD_Ed CMOVZ_GdEdR, BX_CPU_P6),
    (''BX_IA_CMOVZ_GdEdR'', CMOVZ_GdEdR, BX_CPU_P6),
    (''BX_IA_CMOVZ_GwEwM'', LOAD_Ew CMOVZ_GwEwR, BX_CPU_P6),
    (''BX_IA_CMOVZ_GwEwR'', CMOVZ_GwEwR, BX_CPU_P6)]"

definition BxOpcodesTable :: "opcode_entry list" where
  "BxOpcodesTable = concat [
    opcodes_ADC_ALIb,
    opcodes_CBW,
    opcodes_CMP_ALIb,
    opcodes_INC_EbM,
    opcodes_LEA_GdM,
    opcodes_MOV_ALOd,
    opcodes_MOV_EAXOd,
    opcodes_MOV_RHIb,
    opcodes_MOVSX_GdEbM,
    opcodes_NEG_EbM,
    opcodes_NOT_EbM,
    opcodes_SBB_ALIb,
    opcodes_SUB_ALIb,
    opcodes_TEST_ALIb,
    opcodes_XCHG_EbGbM,
    opcodes_XADD_EbGbM,
    opcodes_CMPXCHG8B,
    opcodes_CMOVB_GdEdM]"

text \<open>\<open>init_FetchDecodeTables\<close> replaces the handler of every opcode whose features
  the configured processor lacks by \<open>BxError\<close>, which raises \<open>#UD\<close>.\<close>

definition BxError :: "bxInstruction_c \<Rightarrow> unit cpu_monad" where
  "BxError i = exception BX_UD_EXCEPTION 0"

definition init_FetchDecodeTables :: "32 word \<Rightarrow> opcode_entry list \<Rightarrow> opcode_entry list" where
  "init_FetchDecodeTables features = map (\<lambda>(n, execute1, f).
    (n, if f \<noteq> 0 \<and> f AND features = 0 then BxError else execute1, f))"

section \<open>The reference table\<close>

text \<open>An opcode that writes no flag is its own reference: what is left to show for
  it is that pending flags do not influence it.\<close>

type_synonym reference_entry = "string \<times> (bxInstruction_c \<Rightarrow> unit cpu_monad)"

definition specs_ADC_ALIb :: "reference_entry list" where
  "specs_ADC_ALIb = [
    (''BX_IA_ADC_ALIb'', \<lambda>i. spec_alu ALU_ADC (getsM AL) (returnM (Ib i)) (\<lambda>v. modifyM (set_AL v))),
    (''BX_IA_ADC_AXIw'', \<lambda>i. spec_alu ALU_ADC (getsM AX) (returnM (Iw i)) (\<lambda>v. modifyM (set_AX v))),
    (''BX_IA_ADC_EAXId'', \<lambda>i. spec_alu ALU_ADC (getsM EAX) (returnM (Id i)) (\<lambda>v. modifyM (set_EAX v))),
    (''BX_IA_ADC_EbGbM'', \<lambda>i. spec_alu ALU_ADC (rmw_b i) (reg_b (nnn i)) write_RMW_virtual_byte),
    (''BX_IA_ADC_EbIbM'', \<lambda>i. spec_alu ALU_ADC (rmw_b i) (returnM (Ib i)) write_RMW_virtual_byte),
    (''BX_IA_ADC_EbIbR'', \<lambda>i. spec_alu ALU_ADC (reg_b (rm i)) (returnM (Ib i)) (put_b (rm i))),
    (''BX_IA_ADC_EdGdM'', \<lambda>i. spec_alu ALU_ADC (rmw_d i) (reg_d (nnn i)) write_RMW_virtual_dword),
    (''BX_IA_ADC_EdIdM'', \<lambda>i. spec_alu ALU_ADC (rmw_d i) (returnM (Id i)) write_RMW_virtual_dword),
    (''BX_IA_ADC_EdIdR'', \<lambda>i. spec_alu ALU_ADC (reg_d (rm i)) (returnM (Id i)) (put_d (rm i))),
    (''BX_IA_ADC_EwGwM'', \<lambda>i. spec_alu ALU_ADC (rmw_w i) (reg_w (nnn i)) write_RMW_virtual_word),
    (''BX_IA_ADC_EwIwM'', \<lambda>i. spec_alu ALU_ADC (rmw_w i) (returnM (Iw i)) write_RMW_virtual_word),
    (''BX_IA_ADC_EwIwR'', \<lambda>i. spec_alu ALU_ADC (reg_w (rm i)) (returnM (Iw i)) (put_w (rm i))),
    (''BX_IA_ADC_GbEbM'', LOAD_Eb (\<lambda>i. spec_alu ALU_ADC (reg_b (nnn i)) (reg_b (rm i)) (put_b (nnn i)))),
    (''BX_IA_ADC_GbEbR'', \<lambda>i. spec_alu ALU_ADC (reg_b (nnn i)) (reg_b (rm i)) (put_b (nnn i))),
    (''BX_IA_ADC_GdEdM'', LOAD_Ed (\<lambda>i. spec_alu ALU_ADC (reg_d (nnn i)) (reg_d (rm i)) (put_d (nnn i)))),
    (''BX_IA_ADC_GdEdR'', \<lambda>i. spec_alu ALU_ADC (reg_d (nnn i)) (reg_d (rm i)) (put_d (nnn i))),
    (''BX_IA_ADC_GwEwM'', LOAD_Ew (\<lambda>i. spec_alu ALU_ADC (reg_w (nnn i)) (reg_w (rm i)) (put_w (nnn i)))),
    (''BX_IA_ADC_GwEwR'', \<lambda>i. spec_alu ALU_ADC (reg_w (nnn i)) (reg_w (rm i)) (put_w (nnn i))),
    (''BX_IA_ADD_ALIb'', \<lambda>i. spec_alu ALU_ADD (getsM AL) (returnM (Ib i)) (\<lambda>v. modifyM (set_AL v))),
    (''BX_IA_ADD_AXIw'', \<lambda>i. spec_alu ALU_ADD (getsM AX) (returnM (Iw i)) (\<lambda>v. modifyM (set_AX v))),
    (''BX_IA_ADD_EAXId'', \<lambda>i. spec_alu ALU_ADD (getsM EAX) (returnM (Id i)) (\<lambda>v. modifyM (set_EAX v))),
    (''BX_IA_ADD_EbGbM'', \<lambda>i. spec_alu ALU_ADD (rmw_b i) (reg_b (nnn i)) write_RMW_virtual_byte),
    (''BX_IA_ADD_EbIbM'', \<lambda>i. spec_alu ALU_ADD (rmw_b i) (returnM (Ib i)) write_RMW_virtual_byte),
    (''BX_IA_ADD_EbIbR'', \<lambda>i. spec_alu ALU_ADD (reg_b (rm i)) (returnM (Ib i)) (put_b (rm i))),
    (''BX_IA_ADD_EdGdM'', \<lambda>i. spec_alu ALU_ADD (rmw_d i) (reg_d (nnn i)) write_RMW_virtual_dword),
    (''BX_IA_ADD_EdIdM'', \<lambda>i. spec_alu ALU_ADD (rmw_d i) (returnM (Id i)) write_RMW_virtual_dword),
    (''BX_IA_ADD_EdIdR'', \<lambda>i. spec_alu ALU_ADD (reg_d (rm i)) (returnM (Id i)) (put_d (rm i))),
    (''BX_IA_ADD_EwGwM'', \<lambda>i. spec_alu ALU_ADD (rmw_w i) (reg_w (nnn i)) write_RMW_virtual_word),
    (''BX_IA_ADD_EwIwM'', \<lambda>i. spec_alu ALU_ADD (rmw_w i) (returnM (Iw i)) write_RMW_virtual_word),
    (''BX_IA_ADD_EwIwR'', \<lambda>i. spec_alu ALU_ADD (reg_w (rm i)) (returnM (Iw i)) (put_w (rm i))),
    (''BX_IA_ADD_GbEbM'', LOAD_Eb (\<lambda>i. spec_alu ALU_ADD (reg_b (nnn i)) (reg_b (rm i)) (put_b (nnn i)))),
    (''BX_IA_ADD_GbEbR'', \<lambda>i. spec_alu ALU_ADD (reg_b (nnn i)) (reg_b (rm i)) (put_b (nnn i))),
    (''BX_IA_ADD_GdEdM'', LOAD_Ed (\<lambda>i. spec_alu ALU_ADD (reg_d (nnn i)) (reg_d (rm i)) (put_d (nnn i)))),
    (''BX_IA_ADD_GdEdR'', \<lambda>i. spec_alu ALU_ADD (reg_d (nnn i)) (reg_d (rm i)) (put_d (nnn i))),
    (''BX_IA_ADD_GwEwM'', LOAD_Ew (\<lambda>i. spec_alu ALU_ADD (reg_w (nnn i)) (reg_w (rm i)) (put_w (nnn i)))),
    (''BX_IA_ADD_GwEwR'', \<lambda>i. spec_alu ALU_ADD (reg_w (nnn i)) (reg_w (rm i)) (put_w (nnn i))),
    (''BX_IA_AND_ALIb'', \<lambda>i. spec_alu ALU_AND (getsM AL) (returnM (Ib i)) (\<lambda>v. modifyM (set_AL v))),
    (''BX_IA_AND_AXIw'', \<lambda>i. spec_alu ALU_AND (getsM AX) (returnM (Iw i)) (\<lambda>v. modifyM (set_AX v))),
    (''BX_IA_AND_EAXId'', \<lambda>i. spec_alu ALU_AND (getsM EAX) (returnM (Id i)) (\<lambda>v. modifyM (set_EAX v))),
    (''BX_IA_AND_EbGbM'', \<lambda>i. spec_alu ALU_AND (rmw_b i) (reg_b (nnn i)) write_RMW_virtual_byte),
    (''BX_IA_AND_EbIbM'', \<lambda>i. spec_alu ALU_AND (rmw_b i) (returnM (Ib i)) write_RMW_virtual_byte),
    (''BX_IA_AND_EbIbR'', \<lambda>i. spec_alu ALU_AND (reg_b (rm i)) (returnM (Ib i)) (put_b (rm i))),
    (''BX_IA_AND_EdGdM'', \<lambda>i. spec_alu ALU_AND (rmw_d i) (reg_d (nnn i)) write_RMW_virtual_dword),
    (''BX_IA_AND_EdIdM'', \<lambda>i. spec_alu ALU_AND (rmw_d i) (returnM (Id i)) write_RMW_virtual_dword),
    (''BX_IA_AND_EdIdR'', \<lambda>i. spec_alu ALU_AND (reg_d (rm i)) (returnM (Id i)) (put_d (rm i))),
    (''BX_IA_AND_EwGwM'', \<lambda>i. spec_alu ALU_AND (rmw_w i) (reg_w (nnn i)) write_RMW_virtual_word),
    (''BX_IA_AND_EwIwM'', \<lambda>i. spec_alu ALU_AND (rmw_w i) (returnM (Iw i)) write_RMW_virtual_word),
    (''BX_IA_AND_EwIwR'', \<lambda>i. spec_alu ALU_AND (reg_w (rm i)) (returnM (Iw i)) (put_w (rm i))),
    (''BX_IA_AND_GbEbM'', LOAD_Eb (\<lambda>i. spec_alu ALU_AND (reg_b (nnn i)) (reg_b (rm i)) (put_b (nnn i)))),
    (''BX_IA_AND_GbEbR'', \<lambda>i. spec_alu ALU_AND (reg_b (nnn i)) (reg_b (rm i)) (put_b (nnn i))),
    (''BX_IA_AND_GdEdM'', LOAD_Ed (\<lambda>i. spec_alu ALU_AND (reg_d (nnn i)) (reg_d (rm i)) (put_d (nnn i)))),
    (''BX_IA_AND_GdEdR'', \<lambda>i. spec_alu ALU_AND (reg_d (nnn i)) (reg_d (rm i)) (put_d (nnn i))),
    (''BX_IA_AND_GwEwM'', LOAD_Ew (\<lambda>i. spec_alu ALU_AND (reg_w (nnn i)) (reg_w (rm i)) (put_w (nnn i)))),
    (''BX_IA_AND_GwEwR'', \<lambda>i. spec_alu ALU_AND (reg_w (nnn i)) (reg_w (rm i)) (put_w (nnn i)))]"

definition specs_CBW :: "reference_entry list" where
  "specs_CBW = [
    (''BX_IA_CBW'', CBW),
    (''BX_IA_CDQ'', CDQ)]"

definition specs_CMP_ALIb :: "reference_entry list" where
  "specs_CMP_ALIb = [
    (''BX_IA_CMP_ALIb'', \<lambda>i. spec_alu ALU_CMP (getsM AL) (returnM (Ib i)) (\<lambda>_. returnM ())),
    (''BX_IA_CMP_AXIw'', \<lambda>i. spec_alu ALU_CMP (getsM AX) (returnM (Iw i)) (\<lambda>_. returnM ())),
    (''BX_IA_CMP_EAXId'', \<lambda>i. spec_alu ALU_CMP (getsM EAX) (returnM (Id i)) (\<lambda>_. returnM ())),
    (''BX_IA_CMP_EbGbM'', \<lambda>i. spec_alu ALU_CMP (mem_b i) (reg_b (nnn i)) (\<lambda>_. returnM ())),
    (''BX_IA_CMP_EbIbM'', \<lambda>i. spec_alu ALU_CMP (mem_b i) (returnM (Ib i)) (\<lambda>_. returnM ())),
    (''BX_IA_CMP_EbIbR'', \<lambda>i. spec_alu ALU_CMP (reg_b (rm i)) (returnM (Ib i)) (\<lambda>_. returnM ())),
    (''BX_IA_CMP_EdGdM'', \<lambda>i. spec_alu ALU_CMP (mem_d i) (reg_d (nnn i)) (\<lambda>_. returnM ())),
    (''BX_IA_CMP_EdIdM'', \<lambda>i. spec_alu ALU_CMP (mem_d i) (returnM (Id i)) (\<lambda>_. returnM ())),
    (''BX_IA_CMP_EdIdR'', \<lambda>i. spec_alu ALU_CMP (reg_d (rm i)) (returnM (Id i)) (\<lambda>_. returnM ())),
    (''BX_IA_CMP_EwGwM'', \<lambda>i. spec_alu ALU_CMP (mem_w i) (reg_w (nnn i)) (\<lambda>_. returnM ())),
    (''BX_IA_CMP_EwIwM'', \<lambda>i. spec_alu ALU_CMP (mem_w i) (returnM (Iw i)) (\<lambda>_. returnM ())),
    (''BX_IA_CMP_EwIwR'', \<lambda>i. spec_alu ALU_CMP (reg_w (rm i)) (returnM (Iw i)) (\<lambda>_. returnM ())),
    (''BX_IA_CMP_GbEbM'', LOAD_Eb (\<lambda>i. spec_alu ALU_CMP (reg_b (nnn i)) (reg_b (rm i)) (\<lambda>_. returnM ()))),
    (''BX_IA_CMP_GbEbR'', \<lambda>i. spec_alu ALU_CMP (reg_b (nnn i)) (reg_b (rm i)) (\<lambda>_. returnM ())),
    (''BX_IA_CMP_GdEdM'', LOAD_Ed (\<lambda>i. spec_alu ALU_CMP (reg_d (nnn i)) (reg_d (rm i)) (\<lambda>_. returnM ()))),
    (''BX_IA_CMP_GdEdR'', \<lambda>i. spec_alu ALU_CMP (reg_d (nnn i)) (reg_d (rm i)) (\<lambda>_. returnM ())),
    (''BX_IA_CMP_GwEwM'', LOAD_Ew (\<lambda>i. spec_alu ALU_CMP (reg_w (nnn i)) (reg_w (rm i)) (\<lambda>_. returnM ()))),
    (''BX_IA_CMP_GwEwR'', \<lambda>i. spec_alu ALU_CMP (reg_w (nnn i)) (reg_w (rm i)) (\<lambda>_. returnM ())),
    (''BX_IA_CMPXCHG_IBTS'', CMPXCHG_IBTS),
    (''BX_IA_CMPXCHG_XBTS'', CMPXCHG_XBTS),
    (''BX_IA_CWD'', CWD),
    (''BX_IA_CWDE'', CWDE),
    (''BX_IA_DEC_EbM'', \<lambda>i. spec_una ALU_DEC (rmw_b i) write_RMW_virtual_byte),
    (''BX_IA_DEC_EbR'', \<lambda>i. spec_una ALU_DEC (reg_b (rm i)) (put_b (rm i))),
    (''BX_IA_DEC_EdR'', \<lambda>i. spec_una ALU_DEC (reg_d (opcodeReg i)) (put_d (opcodeReg i))),
    (''BX_IA_DEC_EdM'', \<lambda>i. spec_una ALU_DEC (rmw_d i) write_RMW_virtual_dword),
    (''BX_IA_DEC_ERX'', \<lambda>i. spec_una ALU_DEC (reg_d (opcodeReg i)) (put_d (opcodeReg i))),
    (''BX_IA_DEC_EwR'', \<lambda>i. spec_una ALU_DEC (reg_w (opcodeReg i)) (put_w (opcodeReg i))),
    (''BX_IA_DEC_EwM'', \<lambda>i. spec_una ALU_DEC (rmw_w i) write_RMW_virtual_word),
    (''BX_IA_DEC_RX'', \<lambda>i. spec_una ALU_DEC (reg_w (opcodeReg i)) (put_w (opcodeReg i)))]"

definition specs_INC_EbM :: "reference_entry list" where
  "specs_INC_EbM = [
    (''BX_IA_INC_EbM'', \<lambda>i. spec_una ALU_INC (rmw_b i) write_RMW_virtual_byte),
    (''BX_IA_INC_EbR'', \<lambda>i. spec_una ALU_INC (reg_b (rm i)) (put_b (rm i))),
    (''BX_IA_INC_EdR'', \<lambda>i. spec_una ALU_INC (reg_d (opcodeReg i)) (put_d (opcodeReg i))),
    (''BX_IA_INC_EdM'', \<lambda>i. spec_una ALU_INC (rmw_d i) write_RMW_virtual_dword),
    (''BX_IA_INC_ERX'', \<lambda>i. spec_una ALU_INC (reg_d (opcodeReg i)) (put_d (opcodeReg i))),
    (''BX_IA_INC_EwR'', \<lambda>i. spec_una ALU_INC (reg_w (opcodeReg i)) (put_w (opcodeReg i))),
    (''BX_IA_INC_EwM'', \<lambda>i. spec_una ALU_INC (rmw_w i) write_RMW_virtual_word),
    (''BX_IA_INC_RX'', \<lambda>i. spec_una ALU_INC (reg_w (opcodeReg i)) (put_w (opcodeReg i)))]"

definition specs_LEA_GdM :: "reference_entry list" where
  "specs_LEA_GdM = [
    (''BX_IA_LEA_GdM'', LEA_GdM),
    (''BX_IA_LEA_GwM'', LEA_GwM)]"

definition specs_MOV_ALOd :: "reference_entry list" where
  "specs_MOV_ALOd = [
    (''BX_IA_MOV_ALOd'', MOV_ALOd),
    (''BX_IA_MOV_AXOd'', MOV_AXOd)]"

definition specs_MOV_EAXOd :: "reference_entry list" where
  "specs_MOV_EAXOd = [
    (''BX_IA_MOV_EAXOd'', MOV_EAXOd),
    (''BX_IA_MOV_EbGbM'', MOV_EbGbM),
    (''BX_IA_MOV_EbIbM'', MOV_EbIbM),
    (''BX_IA_MOV_EbIbR'', MOV_RLIb),
    (''BX_IA_MOV_EdIdM'', MOV_EdIdM),
    (''BX_IA_MOV_EdIdR'', MOV_ERXId),
    (''BX_IA_MOV_ERXId'', MOV_ERXId),
    (''BX_IA_MOV_EwGwM'', MOV_EwGwM),
    (''BX_IA_MOV_EwIwM'', MOV_EwIwM),
    (''BX_IA_MOV_EwIwR'', MOV_RXIw),
    (''BX_IA_MOV_EwSwM'', MOV_EwSwM),
    (''BX_IA_MOV_EwSwR'', MOV_EwSwR),
    (''BX_IA_MOV_GbEbM'', MOV_GbEbM),
    (''BX_IA_MOV_GbEbR'', MOV_GbEbR),
    (''BX_IA_MOV32_EdGdM'', MOV32_EdGdM),
    (''BX_IA_MOV32_GdEdM'', MOV32_GdEdM),
    (''BX_IA_MOV_GdEdR'', MOV_GdEdR),
    (''BX_IA_MOV_GwEwM'', MOV_GwEwM),
    (''BX_IA_MOV_GwEwR'', MOV_GwEwR),
    (''BX_IA_MOV_OdAL'', MOV_OdAL),
    (''BX_IA_MOV_OdAX'', MOV_OdAX),
    (''BX_IA_MOV_OdEAX'', MOV_OdEAX)]"

definition specs_MOV_RHIb :: "reference_entry list" where
  "specs_MOV_RHIb = [
    (''BX_IA_MOV_RHIb'', MOV_RHIb),
    (''BX_IA_MOV_RLIb'', MOV_RLIb),
    (''BX_IA_MOV_RXIw'', MOV_RXIw)]"

definition specs_MOVSX_GdEbM :: "reference_entry list" where
  "specs_MOVSX_GdEbM = [
    (''BX_IA_MOVSX_GdEbM'', MOVSX_GdEbM),
    (''BX_IA_MOVSX_GdEbR'', MOVSX_GdEbR),
    (''BX_IA_MOVSX_GdEwM'', MOVSX_GdEwM),
    (''BX_IA_MOVSX_GdEwR'', MOVSX_GdEwR),
    (''BX_IA_MOVSX_GwEbM'', MOVSX_GwEbM),
    (''BX_IA_MOVSX_GwEbR'', MOVSX_GwEbR),
    (''BX_IA_MOVZX_GdEbM'', MOVZX_GdEbM),
    (''BX_IA_MOVZX_GdEbR'', MOVZX_GdEbR),
    (''BX_IA_MOVZX_GdEwM'', MOVZX_GdEwM),
    (''BX_IA_MOVZX_GdEwR'', MOVZX_GdEwR),
    (''BX_IA_MOVZX_GwEbM'', MOVZX_GwEbM),
    (''BX_IA_MOVZX_GwEbR'', MOVZX_GwEbR)]"

definition specs_NEG_EbM :: "reference_entry list" where
  "specs_NEG_EbM = [
    (''BX_IA_NEG_EbM'', \<lambda>i. spec_una ALU_NEG (rmw_b i) write_RMW_virtual_byte),
    (''BX_IA_NEG_EbR'', \<lambda>i. spec_una ALU_NEG (reg_b (rm i)) (put_b (rm i))),
    (''BX_IA_NEG_EdM'', \<lambda>i. spec_una ALU_NEG (rmw_d i) write_RMW_virtual_dword),
    (''BX_IA_NEG_EdR'', \<lambda>i. spec_una ALU_NEG (reg_d (rm i)) (put_d (rm i))),
    (''BX_IA_NEG_EwM'', \<lambda>i. spec_una ALU_NEG (rmw_w i) write_RMW_virtual_word),
    (''BX_IA_NEG_EwR'', \<lambda>i. spec_una ALU_NEG (reg_w (rm i)) (put_w (rm i)))]"

definition specs_NOT_EbM :: "reference_entry list" where
  "specs_NOT_EbM = [
    (''BX_IA_NOT_EbM'', \<lambda>i. spec_una ALU_NOT (rmw_b i) write_RMW_virtual_byte),
    (''BX_IA_NOT_EbR'', \<lambda>i. spec_una ALU_NOT (reg_b (rm i)) (put_b (rm i))),
    (''BX_IA_NOT_EdM'', \<lambda>i. spec_una ALU_NOT (rmw_d i) write_RMW_virtual_dword),
    (''BX_IA_NOT_EdR'', \<lambda>i. spec_una ALU_NOT (reg_d (rm i)) (put_d (rm i))),
    (''BX_IA_NOT_EwM'', \<lambda>i. spec_una ALU_NOT (rmw_w i) write_RMW_virtual_word),
    (''BX_IA_NOT_EwR'', \<lambda>i. spec_una ALU_NOT (reg_w (rm i)) (put_w (rm i))),
    (''BX_IA_OR_ALIb'', \<lambda>i. spec_alu ALU_OR (getsM AL) (returnM (Ib i)) (\<lambda>v. modifyM (set_AL v))),
    (''BX_IA_OR_AXIw'', \<lambda>i. spec_alu ALU_OR (getsM AX) (returnM (Iw i)) (\<lambda>v. modifyM (set_AX v))),
    (''BX_IA_OR_EAXId'', \<lambda>i. spec_alu ALU_OR (getsM EAX) (returnM (Id i)) (\<lambda>v. modifyM (set_EAX v))),
    (''BX_IA_OR_EbGbM'', \<lambda>i. spec_alu ALU_OR (rmw_b i) (reg_b (nnn i)) write_RMW_virtual_byte),
    (''BX_IA_OR_EbIbM'', \<lambda>i. spec_alu ALU_OR (rmw_b i) (returnM (Ib i)) write_RMW_virtual_byte),
    (''BX_IA_OR_EbIbR'', \<lambda>i. spec_alu ALU_OR (reg_b (rm i)) (returnM (Ib i)) (put_b (rm i))),
    (''BX_IA_OR_EdGdM'', \<lambda>i. spec_alu ALU_OR (rmw_d i) (reg_d (nnn i)) write_RMW_virtual_dword),
    (''BX_IA_OR_EdIdM'', \<lambda>i. spec_alu ALU_OR (rmw_d i) (returnM (Id i)) write_RMW_virtual_dword),
    (''BX_IA_OR_EdIdR'', \<lambda>i. spec_alu ALU_OR (reg_d (rm i)) (returnM (Id i)) (put_d (rm i))),
    (''BX_IA_OR_EwGwM'', \<lambda>i. spec_alu ALU_OR (rmw_w i) (reg_w (nnn i)) write_RMW_virtual_word),
    (''BX_IA_OR_EwIwM'', \<lambda>i. spec_alu ALU_OR (rmw_w i) (returnM (Iw i)) write_RMW_virtual_word),
    (''BX_IA_OR_EwIwR'', \<lambda>i. spec_alu ALU_OR (reg_w (rm i)) (returnM (Iw i)) (put_w (rm i))),
    (''BX_IA_OR_GbEbM'', LOAD_Eb (\<lambda>i. spec_alu ALU_OR (reg_b (nnn i)) (reg_b (rm i)) (put_b (nnn i)))),
    (''BX_IA_OR_GbEbR'', \<lambda>i. spec_alu ALU_OR (reg_b (nnn i)) (reg_b (rm i)) (put_b (nnn i))),
    (''BX_IA_OR_GdEdM'', LOAD_Ed (\<lambda>i. spec_alu ALU_OR (reg_d (nnn i)) (reg_d (rm i)) (put_d (nnn i)))),
    (''BX_IA_OR_GdEdR'', \<lambda>i. spec_alu ALU_OR (reg_d (nnn i)) (reg_d (rm i)) (put_d (nnn i))),
    (''BX_IA_OR_GwEwM'', LOAD_Ew (\<lambda>i. spec_alu ALU_OR (reg_w (nnn i)) (reg_w (rm i)) (put_w (nnn i)))),
    (''BX_IA_OR_GwEwR'', \<lambda>i. spec_alu ALU_OR (reg_w (nnn i)) (reg_w (rm i)) (put_w (nnn i)))]"

definition specs_SBB_ALIb :: "reference_entry list" where
  "specs_SBB_ALIb = [
    (''BX_IA_SBB_ALIb'', \<lambda>i. spec_alu ALU_SBB (getsM AL) (returnM (Ib i)) (\<lambda>v. modifyM (set_AL v))),
    (''BX_IA_SBB_AXIw'', \<lambda>i. spec_alu ALU_SBB (getsM AX) (returnM (Iw i)) (\<lambda>v. modifyM (set_AX v))),
    (''BX_IA_SBB_EAXId'', \<lambda>i. spec_alu ALU_SBB (getsM EAX) (returnM (Id i)) (\<lambda>v. modifyM (set_EAX v))),
    (''BX_IA_SBB_EbGbM'', \<lambda>i. spec_alu ALU_SBB (rmw_b i) (reg_b (nnn i)) write_RMW_virtual_byte),
    (''BX_IA_SBB_EbIbM'', \<lambda>i. spec_alu ALU_SBB (rmw_b i) (returnM (Ib i)) write_RMW_virtual_byte),
    (''BX_IA_SBB_EbIbR'', \<lambda>i. spec_alu ALU_SBB (reg_b (rm i)) (returnM (Ib i)) (put_b (rm i))),
    (''BX_IA_SBB_EdGdM'', \<lambda>i. spec_alu ALU_SBB (rmw_d i) (reg_d (nnn i)) write_RMW_virtual_dword),
    (''BX_IA_SBB_EdIdM'', \<lambda>i. spec_alu ALU_SBB (rmw_d i) (returnM (Id i)) write_RMW_virtual_dword),
    (''BX_IA_SBB_EdIdR'', \<lambda>i. spec_alu ALU_SBB (reg_d (rm i)) (returnM (Id i)) (put_d (rm i))),
    (''BX_IA_SBB_EwGwM'', \<lambda>i. spec_alu ALU_SBB (rmw_w i) (reg_w (nnn i)) write_RMW_virtual_word),
    (''BX_IA_SBB_EwIwM'', \<lambda>i. spec_alu ALU_SBB (rmw_w i) (returnM (Iw i)) write_RMW_virtual_word),
    (''BX_IA_SBB_EwIwR'', \<lambda>i. spec_alu ALU_SBB (reg_w (rm i)) (returnM (Iw i)) (put_w (rm i))),
    (''BX_IA_SBB_GbEbM'', LOAD_Eb (\<lambda>i. spec_alu ALU_SBB (reg_b (nnn i)) (reg_b (rm i)) (put_b (nnn i)))),
    (''BX_IA_SBB_GbEbR'', \<lambda>i. spec_alu ALU_SBB (reg_b (nnn i)) (reg_b (rm i)) (put_b (nnn i))),
    (''BX_IA_SBB_GdEdM'', LOAD_Ed (\<lambda>i. spec_alu ALU_SBB (reg_d (nnn i)) (reg_d (rm i)) (put_d (nnn i)))),
    (''BX_IA_SBB_GdEdR'', \<lambda>i. spec_alu ALU_SBB (reg_d (nnn i)) (reg_d (rm i)) (put_d (nnn i))),
    (''BX_IA_SBB_GwEwM'', LOAD_Ew (\<lambda>i. spec_alu ALU_SBB (reg_w (nnn i)) (reg_w (rm i)) (put_w (nnn i)))),
    (''BX_IA_SBB_GwEwR'', \<lambda>i. spec_alu ALU_SBB (reg_w (nnn i)) (reg_w (rm i)) (put_w (nnn i)))]"

definition specs_SUB_ALIb :: "reference_entry list" where
  "specs_SUB_ALIb = [
    (''BX_IA_SUB_ALIb'', \<lambda>i. spec_alu ALU_SUB (getsM AL) (returnM (Ib i)) (\<lambda>v. modifyM (set_AL v))),
    (''BX_IA_SUB_AXIw'', \<lambda>i. spec_alu ALU_SUB (getsM AX) (returnM (Iw i)) (\<lambda>v. modifyM (set_AX v))),
    (''BX_IA_SUB_EAXId'', \<lambda>i. spec_alu ALU_SUB (getsM EAX) (returnM (Id i)) (\<lambda>v. modifyM (set_EAX v))),
    (''BX_IA_SUB_EbGbM'', \<lambda>i. spec_alu ALU_SUB (rmw_b i) (reg_b (nnn i)) write_RMW_virtual_byte),
    (''BX_IA_SUB_EbIbM'', \<lambda>i. spec_alu ALU_SUB (rmw_b i) (returnM (Ib i)) write_RMW_virtual_byte),
    (''BX_IA_SUB_EbIbR'', \<lambda>i. spec_alu ALU_SUB (reg_b (rm i)) (returnM (Ib i)) (put_b (rm i))),
    (''BX_IA_SUB_EdGdM'', \<lambda>i. spec_alu ALU_SUB (rmw_d i) (reg_d (nnn i)) write_RMW_virtual_dword),
    (''BX_IA_SUB_EdIdM'', \<lambda>i. spec_alu ALU_SUB (rmw_d i) (returnM (Id i)) write_RMW_virtual_dword),
    (''BX_IA_SUB_EdIdR'', \<lambda>i. spec_alu ALU_SUB (reg_d (rm i)) (returnM (Id i)) (put_d (rm i))),
    (''BX_IA_SUB_EwGwM'', \<lambda>i. spec_alu ALU_SUB (rmw_w i) (reg_w (nnn i)) write_RMW_virtual_word),
    (''BX_IA_SUB_EwIwM'', \<lambda>i. spec_alu ALU_SUB (rmw_w i) (returnM (Iw i)) write_RMW_virtual_word),
    (''BX_IA_SUB_EwIwR'', \<lambda>i. spec_alu ALU_SUB (reg_w (rm i)) (returnM (Iw i)) (put_w (rm i))),
    (''BX_IA_SUB_GbEbM'', LOAD_Eb (\<lambda>i. spec_alu ALU_SUB (reg_b (nnn i)) (reg_b (rm i)) (put_b (nnn i)))),
    (''BX_IA_SUB_GbEbR'', \<lambda>i. spec_alu ALU_SUB (reg_b (nnn i)) (reg_b (rm i)) (put_b (nnn i))),
    (''BX_IA_SUB_GdEdM'', LOAD_Ed (\<lambda>i. spec_alu ALU_SUB (reg_d (nnn i)) (reg_d (rm i)) (put_d (nnn i)))),
    (''BX_IA_SUB_GdEdR'', \<lambda>i. spec_alu ALU_SUB (reg_d (nnn i)) (reg_d (rm i)) (put_d (nnn i))),
    (''BX_IA_SUB_GwEwM'', LOAD_Ew (\<lambda>i. spec_alu ALU_SUB (reg_w (nnn i)) (reg_w (rm i)) (put_w (nnn i)))),
    (''BX_IA_SUB_GwEwR'', \<lambda>i. spec_alu ALU_SUB (reg_w (nnn i)) (reg_w (rm i)) (put_w (nnn i)))]"

definition specs_TEST_ALIb :: "reference_entry list" where
  "specs_TEST_ALIb = [
    (''BX_IA_TEST_ALIb'', \<lambda>i. spec_alu ALU_TEST (getsM AL) (returnM (Ib i)) (\<lambda>_. returnM ())),
    (''BX_IA_TEST_AXIw'', \<lambda>i. spec_alu ALU_TEST (getsM AX) (returnM (Iw i)) (\<lambda>_. returnM ())),
    (''BX_IA_TEST_EAXId'', \<lambda>i. spec_alu ALU_TEST (getsM EAX) (returnM (Id i)) (\<lambda>_. returnM ())),
    (''BX_IA_TEST_EbGbM'', LOAD_Eb (\<lambda>i. spec_alu ALU_TEST (reg_b (rm i)) (reg_b (nnn i)) (\<lambda>_. returnM ()))),
    (''BX_IA_TEST_EbGbR'', \<lambda>i. spec_alu ALU_TEST (reg_b (rm i)) (reg_b (nnn i)) (\<lambda>_. returnM ())),
    (''BX_IA_TEST_EbIbM'', LOAD_Eb (\<lambda>i. spec_alu ALU_TEST (reg_b (rm i)) (returnM (Ib i)) (\<lambda>_. returnM ()))),
    (''BX_IA_TEST_EbIbR'', \<lambda>i. spec_alu ALU_TEST (reg_b (rm i)) (returnM (Ib i)) (\<lambda>_. returnM ())),
    (''BX_IA_TEST_EdGdM'', LOAD_Ed (\<lambda>i. spec_alu ALU_TEST (reg_d (rm i)) (reg_d (nnn i)) (\<lambda>_. returnM ()))),
    (''BX_IA_TEST_EdGdR'', \<lambda>i. spec_alu ALU_TEST (reg_d (rm i)) (reg_d (nnn i)) (\<lambda>_. returnM ())),
    (''BX_IA_TEST_EdIdM'', LOAD_Ed (\<lambda>i. spec_alu ALU_TEST (reg_d (rm i)) (returnM (Id i)) (\<lambda>_. returnM ()))),
    (''BX_IA_TEST_EdIdR'', \<lambda>i. spec_alu ALU_TEST (reg_d (rm i)) (returnM (Id i)) (\<lambda>_. returnM ())),
    (''BX_IA_TEST_EwGwM'', LOAD_Ew (\<lambda>i. spec_alu ALU_TEST (reg_w (rm i)) (reg_w (nnn i)) (\<lambda>_. returnM ()))),
    (''BX_IA_TEST_EwGwR'', \<lambda>i. spec_alu ALU_TEST (reg_w (rm i)) (reg_w (nnn i)) (\<lambda>_. returnM ())),
    (''BX_IA_TEST_EwIwM'', LOAD_Ew (\<lambda>i. spec_alu ALU_TEST (reg_w (rm i)) (returnM (Iw i)) (\<lambda>_. returnM ()))),
    (''BX_IA_TEST_EwIwR'', \<lambda>i. spec_alu ALU_TEST (reg_w (rm i)) (returnM (Iw i)) (\<lambda>_. returnM ()))]"

definition specs_XCHG_EbGbM :: "reference_entry list" where
  "specs_XCHG_EbGbM = [
    (''BX_IA_XCHG_EbGbM'', XCHG_EbGbM),
    (''BX_IA_XCHG_EbGbR'', XCHG_EbGbR),
    (''BX_IA_XCHG_EdGdM'', XCHG_EdGdM),
    (''BX_IA_XCHG_EdGdR'', XCHG_EdGdR),
    (''BX_IA_XCHG_ERXEAX'', XCHG_ERXEAX),
    (''BX_IA_XCHG_EwGwM'', XCHG_EwGwM),
    (''BX_IA_XCHG_EwGwR'', XCHG_EwGwR),
    (''BX_IA_XCHG_RXAX'', XCHG_RXAX),
    (''BX_IA_XLAT'', XLAT),
    (''BX_IA_XOR_ALIb'', \<lambda>i. spec_alu ALU_XOR (getsM AL) (returnM (Ib i)) (\<lambda>v. modifyM (set_AL v))),
    (''BX_IA_XOR_AXIw'', \<lambda>i. spec_alu ALU_XOR (getsM AX) (returnM (Iw i)) (\<lambda>v. modifyM (set_AX v))),
    (''BX_IA_XOR_EAXId'', \<lambda>i. spec_alu ALU_XOR (getsM EAX) (returnM (Id i)) (\<lambda>v. modifyM (set_EAX v))),
    (''BX_IA_XOR_EbGbM'', \<lambda>i. spec_alu ALU_XOR (rmw_b i) (reg_b (nnn i)) write_RMW_virtual_byte),
    (''BX_IA_XOR_EbIbM'', \<lambda>i. spec_alu ALU_XOR (rmw_b i) (returnM (Ib i)) write_RMW_virtual_byte),
    (''BX_IA_XOR_EbIbR'', \<lambda>i. spec_alu ALU_XOR (reg_b (rm i)) (returnM (Ib i)) (put_b (rm i))),
    (''BX_IA_XOR_EdGdM'', \<lambda>i. spec_alu ALU_XOR (rmw_d i) (reg_d (nnn i)) write_RMW_virtual_dword),
    (''BX_IA_XOR_EdIdM'', \<lambda>i. spec_alu ALU_XOR (rmw_d i) (returnM (Id i)) write_RMW_virtual_dword),
    (''BX_IA_XOR_EdIdR'', \<lambda>i. spec_alu ALU_XOR (reg_d (rm i)) (returnM (Id i)) (put_d (rm i))),
    (''BX_IA_XOR_EwGwM'', \<lambda>i. spec_alu ALU_XOR (rmw_w i) (reg_w (nnn i)) write_RMW_virtual_word),
    (''BX_IA_XOR_EwIwM'', \<lambda>i. spec_alu ALU_XOR (rmw_w i) (returnM (Iw i)) write_RMW_virtual_word),
    (''BX_IA_XOR_EwIwR'', \<lambda>i. spec_alu ALU_XOR (reg_w (rm i)) (returnM (Iw i)) (put_w (rm i))),
    (''BX_IA_XOR_GbEbM'', LOAD_Eb (\<lambda>i. spec_alu ALU_XOR (reg_b (nnn i)) (reg_b (rm i)) (put_b (nnn i)))),
    (''BX_IA_XOR_GbEbR'', \<lambda>i. spec_alu ALU_XOR (reg_b (nnn i)) (reg_b (rm i)) (put_b (nnn i))),
    (''BX_IA_XOR_GdEdM'', LOAD_Ed (\<lambda>i. spec_alu ALU_XOR (reg_d (nnn i)) (reg_d (rm i)) (put_d (nnn i)))),
    (''BX_IA_XOR_GdEdR'', \<lambda>i. spec_alu ALU_XOR (reg_d (nnn i)) (reg_d (rm i)) (put_d (nnn i))),
    (''BX_IA_XOR_GwEwM'', LOAD_Ew (\<lambda>i. spec_alu ALU_XOR (reg_w (nnn i)) (reg_w (rm i)) (put_w (nnn i)))),
    (''BX_IA_XOR_GwEwR'', \<lambda>i. spec_alu ALU_XOR (reg_w (nnn i)) (reg_w (rm i)) (put_w (nnn i)))]"

definition specs_XADD_EbGbM :: "reference_entry list" where
  "specs_XADD_EbGbM = [
    (''BX_IA_XADD_EbGbM'', \<lambda>i. spec_xadd (rmw_b i) (reg_b (nnn i)) (\<lambda>v old. seqM (write_RMW_virtual_byte v) (put_b (nnn i) old))),
    (''BX_IA_XADD_EbGbR'', \<lambda>i. spec_xadd (reg_b (rm i)) (reg_b (nnn i)) (\<lambda>v old. seqM (put_b (nnn i) old) (put_b (rm i) v))),
    (''BX_IA_XADD_EdGdM'', \<lambda>i. spec_xadd (rmw_d i) (reg_d (nnn i)) (\<lambda>v old. seqM (write_RMW_virtual_dword v) (put_d (nnn i) old))),
    (''BX_IA_XADD_EdGdR'', \<lambda>i. spec_xadd (reg_d (rm i)) (reg_d (nnn i)) (\<lambda>v old. seqM (put_d (nnn i) old) (put_d (rm i) v))),
    (''BX_IA_XADD_EwGwM'', \<lambda>i. spec_xadd (rmw_w i) (reg_w (nnn i)) (\<lambda>v old. seqM (write_RMW_virtual_word v) (put_w (nnn i) old))),
    (''BX_IA_XADD_EwGwR'', \<lambda>i. spec_xadd (reg_w (rm i)) (reg_w (nnn i)) (\<lambda>v old. seqM (put_w (nnn i) old) (put_w (rm i) v))),
    (''BX_IA_CMPXCHG_EbGbM'', \<lambda>i. spec_cmpxchg (rmw_b i) (getsM AL) (reg_b (nnn i)) write_RMW_virtual_byte (\<lambda>v. modifyM (set_AL v))),
    (''BX_IA_CMPXCHG_EbGbR'', \<lambda>i. spec_cmpxchg (reg_b (rm i)) (getsM AL) (reg_b (nnn i)) (put_b (rm i)) (\<lambda>v. modifyM (set_AL v))),
    (''BX_IA_CMPXCHG_EdGdM'', \<lambda>i. spec_cmpxchg (rmw_d i) (getsM EAX) (reg_d (nnn i)) write_RMW_virtual_dword (\<lambda>v. modifyM (set_EAX v))),
    (''BX_IA_CMPXCHG_EdGdR'', \<lambda>i. spec_cmpxchg (reg_d (rm i)) (getsM EAX) (reg_d (nnn i)) (put_d (rm i)) (\<lambda>v. modifyM (set_EAX v))),
    (''BX_IA_CMPXCHG_EwGwM'', \<lambda>i. spec_cmpxchg (rmw_w i) (getsM AX) (reg_w (nnn i)) write_RMW_virtual_word (\<lambda>v. modifyM (set_AX v))),
    (''BX_IA_CMPXCHG_EwGwR'', \<lambda>i. spec_cmpxchg (reg_w (rm i)) (getsM AX) (reg_w (nnn i)) (put_w (rm i)) (\<lambda>v. modifyM (set_AX v)))]"

definition specs_CMPXCHG8B :: "reference_entry list" where
  "specs_CMPXCHG8B = [
    (''BX_IA_CMPXCHG8B'', \<lambda>i. spec_cmpxchg8b i)]"

definition specs_CMOVB_GdEdM :: "reference_entry list" where
  "specs_CMOVB_GdEdM = [
    (''BX_IA_CMOVB_GdEdM'', LOAD_Ed CMOVB_GdEdR),
    (''BX_IA_CMOVB_GdEdR'', CMOVB_GdEdR),
    (''BX_IA_CMOVB_GwEwM'', LOAD_Ew CMOVB_GwEwR),
    (''BX_IA_CMOVB_GwEwR'', CMOVB_GwEwR),
    (''BX_IA_CMOVBE_GdEdM'', LOAD_Ed CMOVBE_GdEdR),
    (''BX_IA_CMOVBE_GdEdR'', CMOVBE_GdEdR),
    (''BX_IA_CMOVBE_GwEwM'', LOAD_Ew CMOVBE_GwEwR),
    (''BX_IA_CMOVBE_GwEwR'', CMOVBE_GwEwR),
    (''BX_IA_CMOVL_GdEdM'', LOAD_Ed CMOVL_GdEdR),
    (''BX_IA_CMOVL_GdEdR'', CMOVL_GdEdR),
    (''BX_IA_CMOVL_GwEwM'', LOAD_Ew CMOVL_GwEwR),
    (''BX_IA_CMOVL_GwEwR'', CMOVL_GwEwR),
    (''BX_IA_CMOVLE_GdEdM'', LOAD_Ed CMOVLE_GdEdR),
    (''BX_IA_CMOVLE_GdEdR'', CMOVLE_GdEdR),
    (''BX_IA_CMOVLE_GwEwM'', LOAD_Ew CMOVLE_GwEwR),
    (''BX_IA_CMOVLE_GwEwR'', CMOVLE_GwEwR),
    (''BX_IA_CMOVNB_GdEdM'', LOAD_Ed CMOVNB_GdEdR),
    (''BX_IA_CMOVNB_GdEdR'', CMOVNB_GdEdR),
    (''BX_IA_CMOVNB_GwEwM'', LOAD_Ew CMOVNB_GwEwR),
    (''BX_IA_CMOVNB_GwEwR'', CMOVNB_GwEwR),
    (''BX_IA_CMOVNBE_GdEdM'', LOAD_Ed CMOVNBE_GdEdR),
    (''BX_IA_CMOVNBE_GdEdR'', CMOVNBE_GdEdR),
    (''BX_IA_CMOVNBE_GwEwM'', LOAD_Ew CMOVNBE_GwEwR),
    (''BX_IA_CMOVNBE_GwEwR'', CMOVNBE_GwEwR),
    (''BX_IA_CMOVNL_GdEdM'', LOAD_Ed CMOVNL_GdEdR),
    (''BX_IA_CMOVNL_GdEdR'', CMOVNL_GdEdR),
    (''BX_IA_CMOVNL_GwEwM'', LOAD_Ew CMOVNL_GwEwR),
    (''BX_IA_CMOVNL_GwEwR'', CMOVNL_GwEwR),
    (''BX_IA_CMOVNLE_GdEdM'', LOAD_Ed CMOVNLE_GdEdR),
    (''BX_IA_CMOVNLE_GdEdR'', CMOVNLE_GdEdR),
    (''BX_IA_CMOVNLE_GwEwM'', LOAD_Ew CMOVNLE_GwEwR),
    (''BX_IA_CMOVNLE_GwEwR'', CMOVNLE_GwEwR),
    (''BX_IA_CMOVNO_GdEdM'', LOAD_Ed CMOVNO_GdEdR),
    (''BX_IA_CMOVNO_GdEdR'', CMOVNO_GdEdR),
    (''BX_IA_CMOVNO_GwEwM'', LOAD_Ew CMOVNO_GwEwR),
    (''BX_IA_CMOVNO_GwEwR'', CMOVNO_GwEwR),
    (''BX_IA_CMOVNP_GdEdM'', LOAD_Ed CMOVNP_GdEdR),
    (''BX_IA_CMOVNP_GdEdR'', CMOVNP_GdEdR),
    (''BX_IA_CMOVNP_GwEwM'', LOAD_Ew CMOVNP_GwEwR),
    (''BX_IA_CMOVNP_GwEwR'', CMOVNP_GwEwR),
    (''BX_IA_CMOVNS_GdEdM'', LOAD_Ed CMOVNS_GdEdR),
    (''BX_IA_CMOVNS_GdEdR'', CMOVNS_GdEdR),
    (''BX_IA_CMOVNS_GwEwM'', LOAD_Ew CMOVNS_GwEwR),
    (''BX_IA_CMOVNS_GwEwR'', CMOVNS_GwEwR),
    (''BX_IA_CMOVNZ_GdEdM'', LOAD_Ed CMOVNZ_GdEdR),
    (''BX_IA_CMOVNZ_GdEdR'', CMOVNZ_GdEdR),
    (''BX_IA_CMOVNZ_GwEwM'', LOAD_Ew CMOVNZ_GwEwR),
    (''BX_IA_CMOVNZ_GwEwR'', CMOVNZ_GwEwR),
    (''BX_IA_CMOVO_GdEdM'', LOAD_Ed CMOVO_GdEdR),
    (''BX_IA_CMOVO_GdEdR'', CMOVO_GdEdR),
    (''BX_IA_CMOVO_GwEwM'', LOAD_Ew CMOVO_GwEwR),
    (''BX_IA_CMOVO_GwEwR'', CMOVO_GwEwR),
    (''BX_IA_CMOVP_GdEdM'', LOAD_Ed CMOVP_GdEdR),
    (''BX_IA_CMOVP_GdEdR'', CMOVP_GdEdR),
    (''BX_IA_CMOVP_GwEwM'', LOAD_Ew CMOVP_GwEwR),
    (''BX_IA_CMOVP_GwEwR'', CMOVP_GwEwR),
    (''BX_IA_CMOVS_GdEdM'', LOAD_Ed CMOVS_GdEdR),
    (''BX_IA_CMOVS_GdEdR'', CMOVS_GdEdR),
    (''BX_IA_CMOVS_GwEwM'', LOAD_Ew CMOVS_GwEwR),
    (''BX_IA_CMOVS_GwEwR'', CMOVS_GwEwR),
    (''BX_IA_CMOVZ_GdEdM'', LOAD_Ed CMOVZ_GdEdR),
    (''BX_IA_CMOVZ_GdEdR'', CMOVZ_GdEdR),
    (''BX_IA_CMOVZ_GwEwM'', LOAD_Ew CMOVZ_GwEwR),
    (''BX_IA_CMOVZ_GwEwR'', CMOVZ_GwEwR)]"

definition reference_table :: "reference_entry list" where
  "reference_table = concat [
    specs_ADC_ALIb,
    specs_CBW,
    specs_CMP_ALIb,
    specs_INC_EbM,
    specs_LEA_GdM,
    specs_MOV_ALOd,
    specs_MOV_EAXOd,
    specs_MOV_RHIb,
    specs_MOVSX_GdEbM,
    specs_NEG_EbM,
    specs_NOT_EbM,
    specs_SBB_ALIb,
    specs_SUB_ALIb,
    specs_TEST_ALIb,
    specs_XCHG_EbGbM,
    specs_XADD_EbGbM,
    specs_CMPXCHG8B,
    specs_CMOVB_GdEdM]"

section \<open>Every entry refines its reference operation\<close>

definition entry_refines ::
  "opcode_entry \<Rightarrow> string \<times> (bxInstruction_c \<Rightarrow> unit cpu_monad) \<Rightarrow> bool" where
  "entry_refines e r \<longleftrightarrow> fst e = fst r \<and> (\<forall>i. refines (fst (snd e) i) (snd r i))"

lemma entry_refinesI: "(\<And>i. refines (ex i) (sp i)) \<Longrightarrow> entry_refines (n, ex, f) (n, sp)"
  by (simp add: entry_refines_def)

lemmas handler_refines = arith8_refines arith16_refines arith32_refines logical_refines
  CMPXCHG8B_refines cmov_refines

lemmas handler_neutral = arith16_neutral [THEN refines_neutral] arith32_neutral [THEN refines_neutral]
  data_xfer_neutral [THEN refines_neutral]

lemma opcodes_ADC_ALIb_refine: "list_all2 entry_refines opcodes_ADC_ALIb specs_ADC_ALIb"
  unfolding opcodes_ADC_ALIb_def specs_ADC_ALIb_def
  by (intro list.rel_intros entry_refinesI refines_LOAD handler_refines handler_neutral)

lemma opcodes_CBW_refine: "list_all2 entry_refines opcodes_CBW specs_CBW"
  unfolding opcodes_CBW_def specs_CBW_def
  by (intro list.rel_intros entry_refinesI refines_LOAD handler_refines handler_neutral)

lemma opcodes_CMP_ALIb_refine: "list_all2 entry_refines opcodes_CMP_ALIb specs_CMP_ALIb"
  unfolding opcodes_CMP_ALIb_def specs_CMP_ALIb_def
  by (intro list.rel_intros entry_refinesI refines_LOAD handler_refines handler_neutral)

lemma opcodes_INC_EbM_refine: "list_all2 entry_refines opcodes_INC_EbM specs_INC_EbM"
  unfolding opcodes_INC_EbM_def specs_INC_EbM_def
  by (intro list.rel_intros entry_refinesI refines_LOAD handler_refines handler_neutral)

lemma opcodes_LEA_GdM_refine: "list_all2 entry_refines opcodes_LEA_GdM specs_LEA_GdM"
  unfolding opcodes_LEA_GdM_def specs_LEA_GdM_def
  by (intro list.rel_intros entry_refinesI refines_LOAD handler_refines handler_neutral)

lemma opcodes_MOV_ALOd_refine: "list_all2 entry_refines opcodes_MOV_ALOd specs_MOV_ALOd"
  unfolding opcodes_MOV_ALOd_def specs_MOV_ALOd_def
  by (intro list.rel_intros entry_refinesI refines_LOAD handler_refines handler_neutral)

lemma opcodes_MOV_EAXOd_refine: "list_all2 entry_refines opcodes_MOV_EAXOd specs_MOV_EAXOd"
  unfolding opcodes_MOV_EAXOd_def specs_MOV_EAXOd_def
  by (intro list.rel_intros entry_refinesI refines_LOAD handler_refines handler_neutral)

lemma opcodes_MOV_RHIb_refine: "list_all2 entry_refines opcodes_MOV_RHIb specs_MOV_RHIb"
  unfolding opcodes_MOV_RHIb_def specs_MOV_RHIb_def
  by (intro list.rel_intros entry_refinesI refines_LOAD handler_refines handler_neutral)

lemma opcodes_MOVSX_GdEbM_refine: "list_all2 entry_refines opcodes_MOVSX_GdEbM specs_MOVSX_GdEbM"
  unfolding opcodes_MOVSX_GdEbM_def specs_MOVSX_GdEbM_def
  by (intro list.rel_intros entry_refinesI refines_LOAD handler_refines handler_neutral)

lemma opcodes_NEG_EbM_refine: "list_all2 entry_refines opcodes_NEG_EbM specs_NEG_EbM"
  unfolding opcodes_NEG_EbM_def specs_NEG_EbM_def
  by (intro list.rel_intros entry_refinesI refines_LOAD handler_refines handler_neutral)

lemma opcodes_NOT_EbM_refine: "list_all2 entry_refines opcodes_NOT_EbM specs_NOT_EbM"
  unfolding opcodes_NOT_EbM_def specs_NOT_EbM_def
  by (intro list.rel_intros entry_refinesI refines_LOAD handler_refines handler_neutral)

lemma opcodes_SBB_ALIb_refine: "list_all2 entry_refines opcodes_SBB_ALIb specs_SBB_ALIb"
  unfolding opcodes_SBB_ALIb_def specs_SBB_ALIb_def
  by (intro list.rel_intros entry_refinesI refines_LOAD handler_refines handler_neutral)

lemma opcodes_SUB_ALIb_refine: "list_all2 entry_refines opcodes_SUB_ALIb specs_SUB_ALIb"
  unfolding opcodes_SUB_ALIb_def specs_SUB_ALIb_def
  by (intro list.rel_intros entry_refinesI refines_LOAD handler_refines handler_neutral)

lemma opcodes_TEST_ALIb_refine: "list_all2 entry_refines opcodes_TEST_ALIb specs_TEST_ALIb"
  unfolding opcodes_TEST_ALIb_def specs_TEST_ALIb_def
  by (intro list.rel_intros entry_refinesI refines_LOAD handler_refines handler_neutral)

lemma opcodes_XCHG_EbGbM_refine: "list_all2 entry_refines opcodes_XCHG_EbGbM specs_XCHG_EbGbM"
  unfolding opcodes_XCHG_EbGbM_def specs_XCHG_EbGbM_def
  by (intro list.rel_intros entry_refinesI refines_LOAD handler_refines handler_neutral)

lemma opcodes_XADD_EbGbM_refine: "list_all2 entry_refines opcodes_XADD_EbGbM specs_XADD_EbGbM"
  unfolding opcodes_XADD_EbGbM_def specs_XADD_EbGbM_def
  by (intro list.rel_intros entry_refinesI refines_LOAD handler_refines handler_neutral)

lemma opcodes_CMPXCHG8B_refine: "list_all2 entry_refines opcodes_CMPXCHG8B specs_CMPXCHG8B"
  unfolding opcodes_CMPXCHG8B_def specs_CMPXCHG8B_def
  by (intro list.rel_intros entry_refinesI refines_LOAD handler_refines handler_neutral)

lemma opcodes_CMOVB_GdEdM_refine: "list_all2 entry_refines opcodes_CMOVB_GdEdM specs_CMOVB_GdEdM"
  unfolding opcodes_CMOVB_GdEdM_def specs_CMOVB_GdEdM_def
  by (intro list.rel_intros entry_refinesI refines_LOAD handler_refines handler_neutral)

lemmas opcode_refines = opcodes_ADC_ALIb_refine
  opcodes_CBW_refine
  opcodes_CMP_ALIb_refine
  opcodes_INC_EbM_refine
  opcodes_LEA_GdM_refine
  opcodes_MOV_ALOd_refine
  opcodes_MOV_EAXOd_refine
  opcodes_MOV_RHIb_refine
  opcodes_MOVSX_GdEbM_refine
  opcodes_NEG_EbM_refine
  opcodes_NOT_EbM_refine
  opcodes_SBB_ALIb_refine
  opcodes_SUB_ALIb_refine
  opcodes_TEST_ALIb_refine
  opcodes_XCHG_EbGbM_refine
  opcodes_XADD_EbGbM_refine
  opcodes_CMPXCHG8B_refine
  opcodes_CMOVB_GdEdM_refine

end
