(* ===== verification/SysInv.thy ===== *)
theory SysInv
  imports SegCheck Opcodes
begin

text \<open>
  What no opcode of the dispatch table changes: whatever the handler does and
  however it ends, the control registers, the mode, the segment registers and the
  size of memory stay as they were, and the access rights cached in the
  descriptors stay sound.
\<close>

section \<open>Updates of registers and flags\<close>

lemma sys_inv_regs [simp]:
  "sys_inv S (BX_WRITE_8BIT_REG k v8 s) = sys_inv S s" "sys_inv S (BX_WRITE_8BIT_REGH k v8 s) = sys_inv S s"
  "sys_inv S (BX_WRITE_16BIT_REG k v16 s) = sys_inv S s" "sys_inv S (BX_WRITE_32BIT_REGZ k v32 s) = sys_inv S s"
  "sys_inv S (set_AL v8 s) = sys_inv S s" "sys_inv S (set_AH v8 s) = sys_inv S s"
  "sys_inv S (set_AX v16 s) = sys_inv S s" "sys_inv S (set_DX v16 s) = sys_inv S s"
  "sys_inv S (set_SP v16 s) = sys_inv S s" "sys_inv S (set_EAX v32 s) = sys_inv S s"
  "sys_inv S (set_EDX v32 s) = sys_inv S s" "sys_inv S (set_ESP v32 s) = sys_inv S s"
  "sys_inv S (set_TMP8L v8 s) = sys_inv S s" "sys_inv S (set_TMP16 v16 s) = sys_inv S s"
  "sys_inv S (set_TMP32 v32 s) = sys_inv S s"
  by (simp_all add: reg_defs)

lemma sys_inv_flag_set [simp]:
  "sys_inv S (flag_set m k v s) = sys_inv S s" "sys_inv S (flag_clear m s) = sys_inv S s"
  "sys_inv S (flag_assert m s) = sys_inv S s" "sys_inv S (force_CF s) = sys_inv S s"
  "sys_inv S (clear_ZF s) = sys_inv S s" "sys_inv S (assert_ZF s) = sys_inv S s"
  "sys_inv S (SET_FLAGS_OxxxxC x y s) = sys_inv S s" "sys_inv S (ASSERT_FLAGS_OxxxxC s) = sys_inv S s"
  by (simp_all add: flag_set_def flag_clear_def flag_assert_def force_CF_def flag_force_def clear_ZF_def
    assert_ZF_def SET_FLAGS_OxxxxC_def ASSERT_FLAGS_OxxxxC_def)

lemma sys_inv_sizes [simp]:
  "sys_inv S (SET_FLAGS_OSZAPC_SIZE a b r c s) = sys_inv S s"
  "sys_inv S (SET_FLAGS_OSZAPC_RESULT_SIZE r c s) = sys_inv S s"
  "sys_inv S (SET_FLAGS_OSZAP_RESULT_SIZE r c s) = sys_inv S s"
  by (simp_all add: SET_FLAGS_OSZAPC_SIZE_def SET_FLAGS_OSZAPC_RESULT_SIZE_def SET_FLAGS_OSZAP_RESULT_SIZE_def Let_def)

lemma sys_inv_set_flags [simp]:
  "sys_inv S (SET_FLAGS_OSZAPC_8 a8 b8 r8 c s) = sys_inv S s" "sys_inv S (SET_FLAGS_OSZAPC_RESULT_8 r8 c s) = sys_inv S s"
  "sys_inv S (SET_FLAGS_OSZAPC_LOGIC_8 r8 s) = sys_inv S s" "sys_inv S (SET_FLAGS_OSZAPC_ADD_8 a8 b8 r8 s) = sys_inv S s"
  "sys_inv S (SET_FLAGS_OSZAPC_SUB_8 a8 b8 r8 s) = sys_inv S s" "sys_inv S (SET_FLAGS_OSZAPC_INC_8 r8 s) = sys_inv S s"
  "sys_inv S (SET_FLAGS_OSZAPC_DEC_8 r8 s) = sys_inv S s" "sys_inv S (SET_FLAGS_OSZAPC_16 a16 b16 r16 c s) = sys_inv S s"
  "sys_inv S (SET_FLAGS_OSZAPC_RESULT_16 r16 c s) = sys_inv S s" "sys_inv S (SET_FLAGS_OSZAPC_LOGIC_16 r16 s) = sys_inv S s"
  "sys_inv S (SET_FLAGS_OSZAPC_ADD_16 a16 b16 r16 s) = sys_inv S s" "sys_inv S (SET_FLAGS_OSZAPC_SUB_16 a16 b16 r16 s) = sys_inv S s"
  "sys_inv S (SET_FLAGS_OSZAPC_INC_16 r16 s) = sys_inv S s" "sys_inv S (SET_FLAGS_OSZAPC_DEC_16 r16 s) = sys_inv S s"
  "sys_inv S (SET_FLAGS_OSZAPC_32 a32 b32 r32 c s) = sys_inv S s" "sys_inv S (SET_FLAGS_OSZAPC_RESULT_32 r32 c s) = sys_inv S s"
  "sys_inv S (SET_FLAGS_OSZAPC_LOGIC_32 r32 s) = sys_inv S s" "sys_inv S (SET_FLAGS_OSZAPC_ADD_32 a32 b32 r32 s) = sys_inv S s"
  "sys_inv S (SET_FLAGS_OSZAPC_SUB_32 a32 b32 r32 s) = sys_inv S s" "sys_inv S (SET_FLAGS_OSZAPC_INC_32 r32 s) = sys_inv S s"
  "sys_inv S (SET_FLAGS_OSZAPC_DEC_32 r32 s) = sys_inv S s"
  by (simp_all add: set_flags_defs)

section \<open>Operands\<close>

lemma keeps_ResolveModrm [keeps_intros]: "keeps (sys_inv S) (ResolveModrm i)"
  unfolding ResolveModrm_def by (cases "resolve_ptr i") (simp_all add: keeps_raiseM keeps_getsM)

lemma keeps_LOAD:
  assumes "keeps (sys_inv S) (execute2 i)"
  shows "keeps (sys_inv S) (LOAD_Eb execute2 i)" "keeps (sys_inv S) (LOAD_Ew execute2 i)"
    "keeps (sys_inv S) (LOAD_Ed execute2 i)"
  unfolding LOAD_Eb_def LOAD_Ew_def LOAD_Ed_def
  by (intro keeps_intros keeps_modify assms; simp)+

section \<open>The handlers\<close>

definition entry_keeps :: "sys_state \<Rightarrow> opcode_entry \<Rightarrow> bool" where
  "entry_keeps S e \<longleftrightarrow> (\<forall>i. keeps (sys_inv S) (fst (snd e) i))"

lemma entry_keepsI: "(\<And>i. keeps (sys_inv S) (ex i)) \<Longrightarrow> entry_keeps S (n, ex, f)"
  by (simp add: entry_keeps_def)

lemma arith8_keeps:
  "keeps (sys_inv S) (ADD_EbGbM i)" "keeps (sys_inv S) (ADD_GbEbR i)" "keeps (sys_inv S) (ADD_ALIb i)"
  "keeps (sys_inv S) (ADC_EbGbM i)" "keeps (sys_inv S) (ADC_GbEbR i)" "keeps (sys_inv S) (ADC_ALIb i)"
  "keeps (sys_inv S) (SBB_EbGbM i)" "keeps (sys_inv S) (SBB_GbEbR i)" "keeps (sys_inv S) (SBB_ALIb i)"
  "keeps (sys_inv S) (SBB_EbIbM i)" "keeps (sys_inv S) (SBB_EbIbR i)" "keeps (sys_inv S) (SUB_EbGbM i)"
  "keeps (sys_inv S) (SUB_GbEbR i)" "keeps (sys_inv S) (SUB_ALIb i)" "keeps (sys_inv S) (CMP_EbGbM i)"
  "keeps (sys_inv S) (CMP_GbEbR i)" "keeps (sys_inv S) (CMP_ALIb i)" "keeps (sys_inv S) (XADD_EbGbM i)"
  "keeps (sys_inv S) (XADD_EbGbR i)" "keeps (sys_inv S) (ADD_EbIbM i)" "keeps (sys_inv S) (ADD_EbIbR i)"
  "keeps (sys_inv S) (ADC_EbIbM i)" "keeps (sys_inv S) (ADC_EbIbR i)" "keeps (sys_inv S) (SUB_EbIbM i)"
  "keeps (sys_inv S) (SUB_EbIbR i)" "keeps (sys_inv S) (CMP_EbIbM i)" "keeps (sys_inv S) (CMP_EbIbR i)"
  "keeps (sys_inv S) (NEG_EbM i)" "keeps (sys_inv S) (NEG_EbR i)" "keeps (sys_inv S) (INC_EbM i)"
  "keeps (sys_inv S) (INC_EbR i)" "keeps (sys_inv S) (DEC_EbM i)" "keeps (sys_inv S) (DEC_EbR i)"
  "keeps (sys_inv S) (CMPXCHG_EbGbM i)" "keeps (sys_inv S) (CMPXCHG_EbGbR i)"
  unfolding ADD_EbGbM_def ADD_GbEbR_def ADD_ALIb_def ADC_EbGbM_def ADC_GbEbR_def
    ADC_ALIb_def SBB_EbGbM_def SBB_GbEbR_def SBB_ALIb_def SBB_EbIbM_def
    SBB_EbIbR_def SUB_EbGbM_def SUB_GbEbR_def SUB_ALIb_def CMP_EbGbM_def
    CMP_GbEbR_def CMP_ALIb_def XADD_EbGbM_def XADD_EbGbR_def ADD_EbIbM_def
    ADD_EbIbR_def ADC_EbIbM_def ADC_EbIbR_def SUB_EbIbM_def SUB_EbIbR_def
    CMP_EbIbM_def CMP_EbIbR_def NEG_EbM_def NEG_EbR_def INC_EbM_def
    INC_EbR_def DEC_EbM_def DEC_EbR_def CMPXCHG_EbGbM_def CMPXCHG_EbGbR_def Let_def
  by (intro keeps_intros keeps_modify; simp)+

lemma arith16_keeps:
  "keeps (sys_inv S) (INC_RX i)" "keeps (sys_inv S) (DEC_RX i)" "keeps (sys_inv S) (ADD_EwGwM i)"
  "keeps (sys_inv S) (ADD_GwEwR i)" "keeps (sys_inv S) (ADD_AXIw i)" "keeps (sys_inv S) (ADC_EwGwM i)"
  "keeps (sys_inv S) (ADC_GwEwR i)" "keeps (sys_inv S) (ADC_AXIw i)" "keeps (sys_inv S) (SBB_EwGwM i)"
  "keeps (sys_inv S) (SBB_GwEwR i)" "keeps (sys_inv S) (SBB_AXIw i)" "keeps (sys_inv S) (SBB_EwIwM i)"
  "keeps (sys_inv S) (SBB_EwIwR i)" "keeps (sys_inv S) (SUB_EwGwM i)" "keeps (sys_inv S) (SUB_GwEwR i)"
  "keeps (sys_inv S) (SUB_AXIw i)" "keeps (sys_inv S) (CMP_EwGwM i)" "keeps (sys_inv S) (CMP_GwEwR i)"
  "keeps (sys_inv S) (CMP_AXIw i)" "keeps (sys_inv S) (CBW i)" "keeps (sys_inv S) (CWD i)"
  "keeps (sys_inv S) (XADD_EwGwM i)" "keeps (sys_inv S) (XADD_EwGwR i)" "keeps (sys_inv S) (ADD_EwIwM i)"
  "keeps (sys_inv S) (ADD_EwIwR i)" "keeps (sys_inv S) (ADC_EwIwM i)" "keeps (sys_inv S) (ADC_EwIwR i)"
  "keeps (sys_inv S) (SUB_EwIwM i)" "keeps (sys_inv S) (SUB_EwIwR i)" "keeps (sys_inv S) (CMP_EwIwM i)"
  "keeps (sys_inv S) (CMP_EwIwR i)" "keeps (sys_inv S) (NEG_EwM i)" "keeps (sys_inv S) (NEG_EwR i)"
  "keeps (sys_inv S) (INC_EwM i)" "keeps (sys_inv S) (DEC_EwM i)" "keeps (sys_inv S) (CMPXCHG_EwGwM i)"
  "keeps (sys_inv S) (CMPXCHG_EwGwR i)"
  unfolding INC_RX_def DEC_RX_def ADD_EwGwM_def ADD_GwEwR_def ADD_AXIw_def
    ADC_EwGwM_def ADC_GwEwR_def ADC_AXIw_def SBB_EwGwM_def SBB_GwEwR_def
    SBB_AXIw_def SBB_EwIwM_def SBB_EwIwR_def SUB_EwGwM_def SUB_GwEwR_def
    SUB_AXIw_def CMP_EwGwM_def CMP_GwEwR_def CMP_AXIw_def CBW_def
    CWD_def XADD_EwGwM_def XADD_EwGwR_def ADD_EwIwM_def ADD_EwIwR_def
    ADC_EwIwM_def ADC_EwIwR_def SUB_EwIwM_def SUB_EwIwR_def CMP_EwIwM_def
    CMP_EwIwR_def NEG_EwM_def NEG_EwR_def INC_EwM_def DEC_EwM_def
    CMPXCHG_EwGwM_def CMPXCHG_EwGwR_def Let_def
  by (intro keeps_intros keeps_modify; simp)+

lemma arith32_keeps:
  "keeps (sys_inv S) (INC_ERX i)" "keeps (sys_inv S) (DEC_ERX i)" "keeps (sys_inv S) (ADD_EdGdM i)"
  "keeps (sys_inv S) (ADD_GdEdR i)" "keeps (sys_inv S) (ADD_EAXId i)" "keeps (sys_inv S) (ADC_EdGdM i)"
  "keeps (sys_inv S) (ADC_GdEdR i)" "keeps (sys_inv S) (ADC_EAXId i)" "keeps (sys_inv S) (SBB_EdGdM i)"
  "keeps (sys_inv S) (SBB_GdEdR i)" "keeps (sys_inv S) (SBB_EAXId i)" "keeps (sys_inv S) (SBB_EdIdM i)"
  "keeps (sys_inv S) (SBB_EdIdR i)" "keeps (sys_inv S) (SUB_EdGdM i)" "keeps (sys_inv S) (SUB_GdEdR i)"
  "keeps (sys_inv S) (SUB_EAXId i)" "keeps (sys_inv S) (CMP_EdGdM i)" "keeps (sys_inv S) (CMP_GdEdR i)"
  "keeps (sys_inv S) (CMP_EAXId i)" "keeps (sys_inv S) (CWDE i)" "keeps (sys_inv S) (CDQ i)"
  "keeps (sys_inv S) (CMPXCHG_XBTS i)" "keeps (sys_inv S) (CMPXCHG_IBTS i)" "keeps (sys_inv S) (XADD_EdGdM i)"
  "keeps (sys_inv S) (XADD_EdGdR i)" "keeps (sys_inv S) (ADD_EdIdM i)" "keeps (sys_inv S) (ADD_EdIdR i)"
  "keeps (sys_inv S) (ADC_EdIdM i)" "keeps (sys_inv S) (ADC_EdIdR i)" "keeps (sys_inv S) (SUB_EdIdM i)"
  "keeps (sys_inv S) (SUB_EdIdR i)" "keeps (sys_inv S) (CMP_EdIdM i)" "keeps (sys_inv S) (CMP_EdIdR i)"
  "keeps (sys_inv S) (NEG_EdM i)" "keeps (sys_inv S) (NEG_EdR i)" "keeps (sys_inv S) (INC_EdM i)"
  "keeps (sys_inv S) (DEC_EdM i)" "keeps (sys_inv S) (CMPXCHG_EdGdM i)" "keeps (sys_inv S) (CMPXCHG_EdGdR i)"
  "keeps (sys_inv S) (CMPXCHG8B i)"
  unfolding INC_ERX_def DEC_ERX_def ADD_EdGdM_def ADD_GdEdR_def ADD_EAXId_def
    ADC_EdGdM_def ADC_GdEdR_def ADC_EAXId_def SBB_EdGdM_def SBB_GdEdR_def
    SBB_EAXId_def SBB_EdIdM_def SBB_EdIdR_def SUB_EdGdM_def SUB_GdEdR_def
    SUB_EAXId_def CMP_EdGdM_def CMP_GdEdR_def CMP_EAXId_def CWDE_def
    CDQ_def CMPXCHG_XBTS_def CMPXCHG_IBTS_def XADD_EdGdM_def XADD_EdGdR_def
    ADD_EdIdM_def ADD_EdIdR_def ADC_EdIdM_def ADC_EdIdR_def SUB_EdIdM_def
    SUB_EdIdR_def CMP_EdIdM_def CMP_EdIdR_def NEG_EdM_def NEG_EdR_def
    INC_EdM_def DEC_EdM_def CMPXCHG_EdGdM_def CMPXCHG_EdGdR_def CMPXCHG8B_def Let_def
  by (intro keeps_intros keeps_modify; simp)+

lemma logical_keeps:
  "keeps (sys_inv S) (XOR_EbGbM i)" "keeps (sys_inv S) (XOR_GbEbR i)" "keeps (sys_inv S) (XOR_ALIb i)"
  "keeps (sys_inv S) (XOR_EbIbM i)" "keeps (sys_inv S) (XOR_EbIbR i)" "keeps (sys_inv S) (OR_EbIbM i)"
  "keeps (sys_inv S) (OR_EbIbR i)" "keeps (sys_inv S) (NOT_EbM i)" "keeps (sys_inv S) (NOT_EbR i)"
  "keeps (sys_inv S) (OR_EbGbM i)" "keeps (sys_inv S) (OR_GbEbR i)" "keeps (sys_inv S) (OR_ALIb i)"
  "keeps (sys_inv S) (AND_EbGbM i)" "keeps (sys_inv S) (AND_GbEbR i)" "keeps (sys_inv S) (AND_ALIb i)"
  "keeps (sys_inv S) (AND_EbIbM i)" "keeps (sys_inv S) (AND_EbIbR i)" "keeps (sys_inv S) (TEST_EbGbR i)"
  "keeps (sys_inv S) (TEST_ALIb i)" "keeps (sys_inv S) (TEST_EbIbR i)" "keeps (sys_inv S) (XOR_EwGwM i)"
  "keeps (sys_inv S) (XOR_GwEwR i)" "keeps (sys_inv S) (XOR_AXIw i)" "keeps (sys_inv S) (XOR_EwIwM i)"
  "keeps (sys_inv S) (XOR_EwIwR i)" "keeps (sys_inv S) (OR_EwIwM i)" "keeps (sys_inv S) (OR_EwIwR i)"
  "keeps (sys_inv S) (NOT_EwM i)" "keeps (sys_inv S) (NOT_EwR i)" "keeps (sys_inv S) (OR_EwGwM i)"
  "keeps (sys_inv S) (OR_GwEwR i)" "keeps (sys_inv S) (OR_AXIw i)" "keeps (sys_inv S) (AND_EwGwM i)"
  "keeps (sys_inv S) (AND_GwEwR i)" "keeps (sys_inv S) (AND_AXIw i)" "keeps (sys_inv S) (AND_EwIwM i)"
  "keeps (sys_inv S) (AND_EwIwR i)" "keeps (sys_inv S) (TEST_EwGwR i)" "keeps (sys_inv S) (TEST_AXIw i)"
  "keeps (sys_inv S) (TEST_EwIwR i)" "keeps (sys_inv S) (XOR_EdGdM i)" "keeps (sys_inv S) (XOR_GdEdR i)"
  "keeps (sys_inv S) (XOR_EAXId i)" "keeps (sys_inv S) (XOR_EdIdM i)" "keeps (sys_inv S) (XOR_EdIdR i)"
  "keeps (sys_inv S) (OR_EdIdM i)" "keeps (sys_inv S) (OR_EdIdR i)" "keeps (sys_inv S) (NOT_EdM i)"
  "keeps (sys_inv S) (NOT_EdR i)" "keeps (sys_inv S) (OR_EdGdM i)" "keeps (sys_inv S) (OR_GdEdR i)"
  "keeps (sys_inv S) (OR_EAXId i)" "keeps (sys_inv S) (AND_EdGdM i)" "keeps (sys_inv S) (AND_GdEdR i)"
  "keeps (sys_inv S) (AND_EAXId i)" "keeps (sys_inv S) (AND_EdIdM i)" "keeps (sys_inv S) (AND_EdIdR i)"
  "keeps (sys_inv S) (TEST_EdGdR i)" "keeps (sys_inv S) (TEST_EAXId i)" "keeps (sys_inv S) (TEST_EdIdR i)"
  unfolding XOR_EbGbM_def XOR_GbEbR_def XOR_ALIb_def XOR_EbIbM_def XOR_EbIbR_def
    OR_EbIbM_def OR_EbIbR_def NOT_EbM_def NOT_EbR_def OR_EbGbM_def
    OR_GbEbR_def OR_ALIb_def AND_EbGbM_def AND_GbEbR_def AND_ALIb_def
    AND_EbIbM_def AND_EbIbR_def TEST_EbGbR_def TEST_ALIb_def TEST_EbIbR_def
    XOR_EwGwM_def XOR_GwEwR_def XOR_AXIw_def XOR_EwIwM_def XOR_EwIwR_def
    OR_EwIwM_def OR_EwIwR_def NOT_EwM_def NOT_EwR_def OR_EwGwM_def
    OR_GwEwR_def OR_AXIw_def AND_EwGwM_def AND_GwEwR_def AND_AXIw_def
    AND_EwIwM_def AND_EwIwR_def TEST_EwGwR_def TEST_AXIw_def TEST_EwIwR_def
    XOR_EdGdM_def XOR_GdEdR_def XOR_EAXId_def XOR_EdIdM_def XOR_EdIdR_def
    OR_EdIdM_def OR_EdIdR_def NOT_EdM_def NOT_EdR_def OR_EdGdM_def
    OR_GdEdR_def OR_EAXId_def AND_EdGdM_def AND_GdEdR_def AND_EAXId_def
    AND_EdIdM_def AND_EdIdR_def TEST_EdGdR_def TEST_EAXId_def TEST_EdIdR_def Let_def
  by (intro keeps_intros keeps_modify; simp)+

lemma data_xfer_keeps:
  "keeps (sys_inv S) (MOV_RLIb i)" "keeps (sys_inv S) (MOV_RHIb i)" "keeps (sys_inv S) (MOV_EbGbM i)"
  "keeps (sys_inv S) (MOV_GbEbM i)" "keeps (sys_inv S) (MOV_GbEbR i)" "keeps (sys_inv S) (MOV_ALOd i)"
  "keeps (sys_inv S) (MOV_OdAL i)" "keeps (sys_inv S) (MOV_EbIbM i)" "keeps (sys_inv S) (XLAT i)"
  "keeps (sys_inv S) (XCHG_EbGbM i)" "keeps (sys_inv S) (XCHG_EbGbR i)" "keeps (sys_inv S) (MOV_RXIw i)"
  "keeps (sys_inv S) (XCHG_RXAX i)" "keeps (sys_inv S) (MOV_EwGwM i)" "keeps (sys_inv S) (MOV_GwEwR i)"
  "keeps (sys_inv S) (MOV_GwEwM i)" "keeps (sys_inv S) (MOV_EwSwR i)" "keeps (sys_inv S) (MOV_EwSwM i)"
  "keeps (sys_inv S) (LEA_GwM i)" "keeps (sys_inv S) (MOV_AXOd i)" "keeps (sys_inv S) (MOV_OdAX i)"
  "keeps (sys_inv S) (MOV_EwIwM i)" "keeps (sys_inv S) (MOVZX_GwEbM i)" "keeps (sys_inv S) (MOVZX_GwEbR i)"
  "keeps (sys_inv S) (MOVSX_GwEbM i)" "keeps (sys_inv S) (MOVSX_GwEbR i)" "keeps (sys_inv S) (XCHG_EwGwM i)"
  "keeps (sys_inv S) (XCHG_EwGwR i)" "keeps (sys_inv S) (CMOVO_GwEwR i)" "keeps (sys_inv S) (CMOVNO_GwEwR i)"
  "keeps (sys_inv S) (CMOVB_GwEwR i)" "keeps (sys_inv S) (CMOVNB_GwEwR i)" "keeps (sys_inv S) (CMOVZ_GwEwR i)"
  "keeps (sys_inv S) (CMOVNZ_GwEwR i)" "keeps (sys_inv S) (CMOVBE_GwEwR i)" "keeps (sys_inv S) (CMOVNBE_GwEwR i)"
  "keeps (sys_inv S) (CMOVS_GwEwR i)" "keeps (sys_inv S) (CMOVNS_GwEwR i)" "keeps (sys_inv S) (CMOVP_GwEwR i)"
  "keeps (sys_inv S) (CMOVNP_GwEwR i)" "keeps (sys_inv S) (CMOVL_GwEwR i)" "keeps (sys_inv S) (CMOVNL_GwEwR i)"
  "keeps (sys_inv S) (CMOVLE_GwEwR i)" "keeps (sys_inv S) (CMOVNLE_GwEwR i)" "keeps (sys_inv S) (XCHG_ERXEAX i)"
  "keeps (sys_inv S) (MOV_ERXId i)" "keeps (sys_inv S) (MOV32_EdGdM i)" "keeps (sys_inv S) (MOV_GdEdR i)"
  "keeps (sys_inv S) (MOV32_GdEdM i)" "keeps (sys_inv S) (LEA_GdM i)" "keeps (sys_inv S) (MOV_EAXOd i)"
  "keeps (sys_inv S) (MOV_OdEAX i)" "keeps (sys_inv S) (MOV_EdIdM i)" "keeps (sys_inv S) (MOVZX_GdEbM i)"
  "keeps (sys_inv S) (MOVZX_GdEbR i)" "keeps (sys_inv S) (MOVZX_GdEwM i)" "keeps (sys_inv S) (MOVZX_GdEwR i)"
  "keeps (sys_inv S) (MOVSX_GdEbM i)" "keeps (sys_inv S) (MOVSX_GdEbR i)" "keeps (sys_inv S) (MOVSX_GdEwM i)"
  "keeps (sys_inv S) (MOVSX_GdEwR i)" "keeps (sys_inv S) (XCHG_EdGdM i)" "keeps (sys_inv S) (XCHG_EdGdR i)"
  "keeps (sys_inv S) (CMOVO_GdEdR i)" "keeps (sys_inv S) (CMOVNO_GdEdR i)" "keeps (sys_inv S) (CMOVB_GdEdR i)"
  "keeps (sys_inv S) (CMOVNB_GdEdR i)" "keeps (sys_inv S) (CMOVZ_GdEdR i)" "keeps (sys_inv S) (CMOVNZ_GdEdR i)"
  "keeps (sys_inv S) (CMOVBE_GdEdR i)" "keeps (sys_inv S) (CMOVNBE_GdEdR i)" "keeps (sys_inv S) (CMOVS_GdEdR i)"
  "keeps (sys_inv S) (CMOVNS_GdEdR i)" "keeps (sys_inv S) (CMOVP_GdEdR i)" "keeps (sys_inv S) (CMOVNP_GdEdR i)"
  "keeps (sys_inv S) (CMOVL_GdEdR i)" "keeps (sys_inv S) (CMOVNL_GdEdR i)" "keeps (sys_inv S) (CMOVLE_GdEdR i)"
  "keeps (sys_inv S) (CMOVNLE_GdEdR i)"
  unfolding MOV_RLIb_def MOV_RHIb_def MOV_EbGbM_def MOV_GbEbM_def MOV_GbEbR_def
    MOV_ALOd_def MOV_OdAL_def MOV_EbIbM_def XLAT_def XCHG_EbGbM_def
    XCHG_EbGbR_def MOV_RXIw_def XCHG_RXAX_def MOV_EwGwM_def MOV_GwEwR_def
    MOV_GwEwM_def MOV_EwSwR_def MOV_EwSwM_def LEA_GwM_def MOV_AXOd_def
    MOV_OdAX_def MOV_EwIwM_def MOVZX_GwEbM_def MOVZX_GwEbR_def MOVSX_GwEbM_def
    MOVSX_GwEbR_def XCHG_EwGwM_def XCHG_EwGwR_def CMOVO_GwEwR_def CMOVNO_GwEwR_def
    CMOVB_GwEwR_def CMOVNB_GwEwR_def CMOVZ_GwEwR_def CMOVNZ_GwEwR_def CMOVBE_GwEwR_def
    CMOVNBE_GwEwR_def CMOVS_GwEwR_def CMOVNS_GwEwR_def CMOVP_GwEwR_def CMOVNP_GwEwR_def
    CMOVL_GwEwR_def CMOVNL_GwEwR_def CMOVLE_GwEwR_def CMOVNLE_GwEwR_def XCHG_ERXEAX_def
    MOV_ERXId_def MOV32_EdGdM_def MOV_GdEdR_def MOV32_GdEdM_def LEA_GdM_def
    MOV_EAXOd_def MOV_OdEAX_def MOV_EdIdM_def MOVZX_GdEbM_def MOVZX_GdEbR_def
    MOVZX_GdEwM_def MOVZX_GdEwR_def MOVSX_GdEbM_def MOVSX_GdEbR_def MOVSX_GdEwM_def
    MOVSX_GdEwR_def XCHG_EdGdM_def XCHG_EdGdR_def CMOVO_GdEdR_def CMOVNO_GdEdR_def
    CMOVB_GdEdR_def CMOVNB_GdEdR_def CMOVZ_GdEdR_def CMOVNZ_GdEdR_def CMOVBE_GdEdR_def
    CMOVNBE_GdEdR_def CMOVS_GdEdR_def CMOVNS_GdEdR_def CMOVP_GdEdR_def CMOVNP_GdEdR_def
    CMOVL_GdEdR_def CMOVNL_GdEdR_def CMOVLE_GdEdR_def CMOVNLE_GdEdR_def Let_def
  by (intro keeps_intros keeps_modify; simp)+

lemmas handler_keeps = arith8_keeps arith16_keeps arith32_keeps logical_keeps data_xfer_keeps

lemma opcodes_ADC_ALIb_keep: "list_all (entry_keeps S) opcodes_ADC_ALIb"
  unfolding opcodes_ADC_ALIb_def list.pred_inject(2)
  by (intro conjI list.pred_inject(1) entry_keepsI keeps_LOAD handler_keeps)

lemma opcodes_CBW_keep: "list_all (entry_keeps S) opcodes_CBW"
  unfolding opcodes_CBW_def list.pred_inject(2)
  by (intro conjI list.pred_inject(1) entry_keepsI keeps_LOAD handler_keeps)

lemma opcodes_CMP_ALIb_keep: "list_all (entry_keeps S) opcodes_CMP_ALIb"
  unfolding opcodes_CMP_ALIb_def list.pred_inject(2)
  by (intro conjI list.pred_inject(1) entry_keepsI keeps_LOAD handler_keeps)

lemma opcodes_INC_EbM_keep: "list_all (entry_keeps S) opcodes_INC_EbM"
  unfolding opcodes_INC_EbM_def list.pred_inject(2)
  by (intro conjI list.pred_inject(1) entry_keepsI keeps_LOAD handler_keeps)

lemma opcodes_LEA_GdM_keep: "list_all (entry_keeps S) opcodes_LEA_GdM"
  unfolding opcodes_LEA_GdM_def list.pred_inject(2)
  by (intro conjI list.pred_inject(1) entry_keepsI keeps_LOAD handler_keeps)

lemma opcodes_MOV_ALOd_keep: "list_all (entry_keeps S) opcodes_MOV_ALOd"
  unfolding opcodes_MOV_ALOd_def list.pred_inject(2)
  by (intro conjI list.pred_inject(1) entry_keepsI keeps_LOAD handler_keeps)

lemma opcodes_MOV_EAXOd_keep: "list_all (entry_keeps S) opcodes_MOV_EAXOd"
  unfolding opcodes_MOV_EAXOd_def list.pred_inject(2)
  by (intro conjI list.pred_inject(1) entry_keepsI keeps_LOAD handler_keeps)

lemma opcodes_MOV_RHIb_keep: "list_all (entry_keeps S) opcodes_MOV_RHIb"
  unfolding opcodes_MOV_RHIb_def list.pred_inject(2)
  by (intro conjI list.pred_inject(1) entry_keepsI keeps_LOAD handler_keeps)

lemma opcodes_MOVSX_GdEbM_keep: "list_all (entry_keeps S) opcodes_MOVSX_GdEbM"
  unfolding opcodes_MOVSX_GdEbM_def list.pred_inject(2)
  by (intro conjI list.pred_inject(1) entry_keepsI keeps_LOAD handler_keeps)

lemma opcodes_NEG_EbM_keep: "list_all (entry_keeps S) opcodes_NEG_EbM"
  unfolding opcodes_NEG_EbM_def list.pred_inject(2)
  by (intro conjI list.pred_inject(1) entry_keepsI keeps_LOAD handler_keeps)

lemma opcodes_NOT_EbM_keep: "list_all (entry_keeps S) opcodes_NOT_EbM"
  unfolding opcodes_NOT_EbM_def list.pred_inject(2)
  by (intro conjI list.pred_inject(1) entry_keepsI keeps_LOAD handler_keeps)

lemma opcodes_SBB_ALIb_keep: "list_all (entry_keeps S) opcodes_SBB_ALIb"
  unfolding opcodes_SBB_ALIb_def list.pred_inject(2)
  by (intro conjI list.pred_inject(1) entry_keepsI keeps_LOAD handler_keeps)

lemma opcodes_SUB_ALIb_keep: "list_all (entry_keeps S) opcodes_SUB_ALIb"
  unfolding opcodes_SUB_ALIb_def list.pred_inject(2)
  by (intro conjI list.pred_inject(1) entry_keepsI keeps_LOAD handler_keeps)

lemma opcodes_TEST_ALIb_keep: "list_all (entry_keeps S) opcodes_TEST_ALIb"
  unfolding opcodes_TEST_ALIb_def list.pred_inject(2)
  by (intro conjI list.pred_inject(1) entry_keepsI keeps_LOAD handler_keeps)

lemma opcodes_XCHG_EbGbM_keep: "list_all (entry_keeps S) opcodes_XCHG_EbGbM"
  unfolding opcodes_XCHG_EbGbM_def list.pred_inject(2)
  by (intro conjI list.pred_inject(1) entry_keepsI keeps_LOAD handler_keeps)

lemma opcodes_XADD_EbGbM_keep: "list_all (entry_keeps S) opcodes_XADD_EbGbM"
  unfolding opcodes_XADD_EbGbM_def list.pred_inject(2)
  by (intro conjI list.pred_inject(1) entry_keepsI keeps_LOAD handler_keeps)

lemma opcodes_CMPXCHG8B_keep: "list_all (entry_keeps S) opcodes_CMPXCHG8B"
  unfolding opcodes_CMPXCHG8B_def list.pred_inject(2)
  by (intro conjI list.pred_inject(1) entry_keepsI keeps_LOAD handler_keeps)

lemma opcodes_CMOVB_GdEdM_keep: "list_all (entry_keeps S) opcodes_CMOVB_GdEdM"
  unfolding opcodes_CMOVB_GdEdM_def list.pred_inject(2)
  by (intro conjI list.pred_inject(1) entry_keepsI keeps_LOAD handler_keeps)

lemmas opcodes_keep = opcodes_ADC_ALIb_keep
  opcodes_CBW_keep
  opcodes_CMP_ALIb_keep
  opcodes_INC_EbM_keep
  opcodes_LEA_GdM_keep
  opcodes_MOV_ALOd_keep
  opcodes_MOV_EAXOd_keep
  opcodes_MOV_RHIb_keep
  opcodes_MOVSX_GdEbM_keep
  opcodes_NEG_EbM_keep
  opcodes_NOT_EbM_keep
  opcodes_SBB_ALIb_keep
  opcodes_SUB_ALIb_keep
  opcodes_TEST_ALIb_keep
  opcodes_XCHG_EbGbM_keep
  opcodes_XADD_EbGbM_keep
  opcodes_CMPXCHG8B_keep
  opcodes_CMOVB_GdEdM_keep

end
