(* ===== verification/CpuCtl.thy ===== *)
theory CpuCtl
  imports SegCheck
begin

text \<open>
  Modes, EFLAGS and control registers: \<open>cpu/proc_ctrl.cc\<close> (mode and alignment
  bookkeeping), \<open>cpu/flag_ctrl_pro.cc\<close> (writes of EFLAGS), \<open>cpu/crregs.cc\<close> (writes of
  CR0, CR3 and CR4) and the part of \<open>cpu/init.cc\<close> that resets the modelled state.
  \<open>mode_ok\<close> ties the cached mode to CR0.PE and EFLAGS.VM and the cached alignment
  mask to CPL, CR0.AM and EFLAGS.AC; every operation here establishes or keeps it.
  \<open>TLB_flush\<close> and \<open>flushICaches\<close> are empty in this build.
\<close>

section \<open>Modes\<close>

definition get_eflag :: "nat \<Rightarrow> bx_cpu_c \<Rightarrow> 32 word" where
  "get_eflag bitnum s = eflags s AND push_bit bitnum 1"

definition handleAlignmentCheck :: "bx_cpu_c \<Rightarrow> bx_cpu_c" where
  "handleAlignmentCheck s =
    (if CPL s = 3 \<and> cr0_get_AM s \<noteq> 0 \<and> get_eflag 18 s \<noteq> 0 then
       (if alignment_check_mask s = 0 then s\<lparr>alignment_check_mask := 0xF\<rparr> else s)
     else
       (if alignment_check_mask s \<noteq> 0 then s\<lparr>alignment_check_mask := 0\<rparr> else s))"

definition real_mode_CS :: "bx_segment_reg_t \<Rightarrow> bx_segment_reg_t" where
  "real_mode_CS seg = seg\<lparr>cache := (cache seg)\<lparr>d_p := 1, d_segment := 1, d_type := 3\<rparr>\<rparr>"

definition handleCpuModeChange :: "unit cpu_monad" where
  "handleCpuModeChange =
    seqM (bindM (getsM (\<lambda>s. get_bit32 0 (cr0 s))) (\<lambda>PE.
      if PE \<noteq> 0 then
        bindM (getsM (get_eflag 17)) (\<lambda>VM.
          if VM \<noteq> 0 then modifyM (\<lambda>s. s\<lparr>cpu_mode := BX_MODE_IA32_V8086\<rparr>)
          else modifyM (\<lambda>s. s\<lparr>cpu_mode := BX_MODE_IA32_PROTECTED\<rparr>))
      else
        seqM (modifyM (\<lambda>s. s\<lparr>cpu_mode := BX_MODE_IA32_REAL\<rparr>))
        (seqM (modifyM (\<lambda>s. s\<lparr>sregs := (sregs s)(BX_SEG_REG_CS := real_mode_CS (sregs s BX_SEG_REG_CS))\<rparr>))
        (bindM (getsM CPL) (\<lambda>cpl. BX_ASSERT (cpl = 0))))))
    (modifyM updateFetchModeMask)"

section \<open>Writes of EFLAGS\<close>

definition setEFlags :: "32 word \<Rightarrow> unit cpu_monad" where
  "setEFlags val =
    seqM (whenM (val AND (push_bit 8 1 OR push_bit 16 1) \<noteq> 0) (modifyM (\<lambda>s. s\<lparr>async_event := 1\<rparr>)))
    (seqM (whenM (val AND push_bit 9 1 \<noteq> 0)
      (bindM (getsM (get_eflag 9)) (\<lambda>IF. whenM (IF = 0) (modifyM (\<lambda>s. s\<lparr>async_event := 1\<rparr>)))))
    (seqM (modifyM (\<lambda>s. s\<lparr>eflags := val\<rparr>))
    (seqM (modifyM (\<lambda>s. s\<lparr>lf_flags_status := 0\<rparr>))
    (seqM (modifyM handleAlignmentCheck)
    handleCpuModeChange))))"

definition supportMask :: "32 word" where
  "supportMask = (0x00037fd5 OR (push_bit 21 1 OR push_bit 18 1)) OR (push_bit 20 1 OR push_bit 19 1)"

definition writeEFlags :: "32 word \<Rightarrow> 32 word \<Rightarrow> unit cpu_monad" where
  "writeEFlags flags changeMask =
    (let changeMask = changeMask AND supportMask in
     bindM (getsM eflags) (\<lambda>e. setEFlags ((e AND NOT changeMask) OR (flags AND changeMask))))"

definition write_flags :: "16 word \<Rightarrow> bool \<Rightarrow> bool \<Rightarrow> unit cpu_monad" where
  "write_flags flags change_IOPL change_IF =
    (let changeMask = 0x0dd5;
         changeMask = changeMask OR push_bit 14 1;
         changeMask = (if change_IOPL then changeMask OR push_bit 12 3 else changeMask);
         changeMask = (if change_IF then changeMask OR push_bit 9 1 else changeMask)
     in writeEFlags (ucast flags) changeMask)"

section \<open>Writes of the control registers\<close>

definition check_CR0 :: "32 word \<Rightarrow> bool" where
  "check_CR0 cr0_val =
    (let temp_cr0 = cr0_val OR 0x10 in
     if get_bit32 31 temp_cr0 \<noteq> 0 \<and> get_bit32 0 temp_cr0 = 0 then False
     else if get_bit32 29 temp_cr0 \<noteq> 0 \<and> get_bit32 30 temp_cr0 = 0 then False
     else True)"

definition SetCR0 :: "32 word \<Rightarrow> bool cpu_monad" where
  "SetCR0 val =
    (if \<not> check_CR0 val then returnM False
     else
       (let val_32 = val OR 0x10 in
        seqM (modifyM (\<lambda>s. s\<lparr>cr0 := val_32 OR 0x10\<rparr>))
        (seqM (modifyM handleAlignmentCheck)
        (seqM handleCpuModeChange
        (returnM True)))))"

definition get_cr4_allow_mask :: "32 word" where
  "get_cr4_allow_mask = push_bit 0 1 OR push_bit 1 1 OR push_bit 2 1 OR push_bit 3 1 OR push_bit 4 1 OR push_bit 6 1"

definition check_CR4 :: "32 word \<Rightarrow> bool" where
  "check_CR4 cr4_val = (if cr4_val AND NOT get_cr4_allow_mask \<noteq> 0 then False else True)"

definition SetCR4 :: "32 word \<Rightarrow> bool cpu_monad" where
  "SetCR4 val =
    (if \<not> check_CR4 val then returnM False
     else seqM (modifyM (\<lambda>s. s\<lparr>cr4 := val\<rparr>)) (returnM True))"

definition SetCR3 :: "32 word \<Rightarrow> bool cpu_monad" where
  "SetCR3 val = seqM (modifyM (\<lambda>s. s\<lparr>cr3 := val\<rparr>)) (returnM True)"

section \<open>Reset\<close>

definition parse_selector :: "16 word \<Rightarrow> bx_selector_t" where
  "parse_selector raw_selector = \<lparr>
    sel_value = raw_selector,
    sel_index = drop_bit 3 raw_selector,
    sel_ti = ucast (drop_bit 2 raw_selector AND 0x01),
    sel_rpl = ucast (raw_selector AND 0x03)\<rparr>"

definition get_cpu_version_information :: "32 word \<Rightarrow> 32 word" where
  "get_cpu_version_information isa_extensions_bitmask =
    (let family = 5;
         model = (if isa_extensions_bitmask AND 0x10 \<noteq> 0 then 4 else 1);
         stepping = 3
     in push_bit 20 0 OR push_bit 16 0 OR push_bit 8 family OR push_bit 4 model OR stepping)"

definition reset_registers :: "32 word \<Rightarrow> bx_cpu_c \<Rightarrow> bx_cpu_c" where
  "reset_registers isa s = s\<lparr>gen_reg := (gen_reg s)(
    0 := 0, 3 := 0, 1 := 0, 2 := get_cpu_version_information isa, 5 := 0, 6 := 0, 7 := 0, 4 := 0,
    BX_NIL_REGISTER := 0)\<rparr>"

definition reset_segment :: "16 word \<Rightarrow> 32 word \<Rightarrow> bx_segment_reg_t \<Rightarrow> bx_segment_reg_t" where
  "reset_segment raw base seg = seg\<lparr>selector := parse_selector raw,
    cache := (cache seg)\<lparr>
      valid := SegValidCache OR SegAccessROK OR SegAccessWOK, d_p := 1, d_dpl := 0, d_segment := 1,
      d_type := 3, seg_base := base, limit_scaled := 0xFFFF, seg_g := 0, seg_d_b := 0, seg_avl := 0\<rparr>\<rparr>"

definition reset_segments :: "bx_cpu_c \<Rightarrow> bx_cpu_c" where
  "reset_segments s =
    (let s = updateFetchModeMask (s\<lparr>sregs := (sregs s)(BX_SEG_REG_CS :=
          reset_segment 0xf000 0xFFFF0000 (sregs s BX_SEG_REG_CS))\<rparr>);
         ds = reset_segment 0x0000 0x00000000 (sregs s BX_SEG_REG_DS)
     in s\<lparr>sregs := (sregs s)(BX_SEG_REG_DS := ds, BX_SEG_REG_SS := ds, BX_SEG_REG_ES := ds,
          BX_SEG_REG_FS := ds, BX_SEG_REG_GS := ds)\<rparr>)"

definition reset_system_segment :: "8 word \<Rightarrow> bx_segment_reg_t \<Rightarrow> bx_segment_reg_t" where
  "reset_system_segment type seg = seg\<lparr>
    selector := \<lparr>sel_value = 0, sel_index = 0, sel_ti = 0, sel_rpl = 0\<rparr>,
    cache := (cache seg)\<lparr>valid := 1, d_p := 1, d_dpl := 0, d_segment := 0, d_type := type,
      seg_base := 0, limit_scaled := 0xFFFF, seg_avl := 0, seg_g := 0\<rparr>\<rparr>"

definition reset_tables :: "bx_cpu_c \<Rightarrow> bx_cpu_c" where
  "reset_tables s = s\<lparr>
    gdtr := \<lparr>gseg_base = 0, gseg_limit = 0xFFFF\<rparr>,
    idtr := \<lparr>gseg_base = 0, gseg_limit = 0xFFFF\<rparr>,
    ldtr := reset_system_segment 0x2 (ldtr s),
    task_reg := reset_system_segment 0xb (task_reg s)\<rparr>"

abbreviation (input) BX_RESET_SOFTWARE :: nat where "BX_RESET_SOFTWARE \<equiv> 10"
abbreviation (input) BX_RESET_HARDWARE :: nat where "BX_RESET_HARDWARE \<equiv> 11"
abbreviation (input) BX_ACTIVITY_STATE_ACTIVE :: "32 word" where "BX_ACTIVITY_STATE_ACTIVE \<equiv> 0"

definition reset_debug :: "nat \<Rightarrow> bx_cpu_c \<Rightarrow> bx_cpu_c" where
  "reset_debug source s =
    (let s = s\<lparr>dr := (dr s)(0 := 0, 1 := 0, 2 := 0, 3 := 0), dr7 := 0x00000400, dr6 := 0xFFFF0FF0,
           in_smm := 0, disable_SMI := 0, pending_SMI := 0, disable_NMI := 0, pending_NMI := 0,
           disable_INIT := 0, pending_INIT := 0, alignment_check_mask := 0\<rparr>
     in if source = BX_RESET_HARDWARE then s\<lparr>smbase := 0x30000\<rparr> else s)"

definition reset_control :: "bx_cpu_c \<Rightarrow> bx_cpu_c" where
  "reset_control s = s\<lparr>cr0 := 0x60000010 OR 0x10, cr2 := 0, cr3 := 0, cr4 := 0\<rparr>"

text \<open>The first part of \<open>reset\<close>, up to the control registers.  Between it and the end of the
  function stand the MSRs, the local APIC and the time stamp, which belong to state outside the
  model, as do the trace flag, the floating point unit and the CPUID tables that follow the
  change of mode.\<close>

definition reset_start :: "nat \<Rightarrow> 32 word \<Rightarrow> unit cpu_monad" where
  "reset_start source isa =
    seqM (modifyM (reset_registers isa))
    (seqM (setEFlags 0x2)
    (seqM (modifyM (\<lambda>s. s\<lparr>inhibit_mask := 0, activity_state := BX_ACTIVITY_STATE_ACTIVE, debug_trap := 0\<rparr>))
    (seqM (modifyM (\<lambda>s. s\<lparr>gen_reg := (gen_reg s)(BX_32BIT_REG_EIP := 0x0000FFF0), prev_rip := 0x0000FFF0\<rparr>))
    (seqM (modifyM reset_segments)
    (seqM (modifyM reset_tables)
    (seqM (modifyM (reset_debug source))
    (modifyM reset_control)))))))"

definition reset :: "nat \<Rightarrow> 32 word \<Rightarrow> unit cpu_monad" where
  "reset source isa =
    seqM (reset_start source isa)
    (seqM (modifyM (\<lambda>s. s\<lparr>EXT := 0, errorno := 0\<rparr>))
    (seqM (modifyM (\<lambda>s. s\<lparr>eipPageBias := 0, eipPageWindowSize := 0, eipFetchPtr := 0\<rparr>))
    handleCpuModeChange))"

section \<open>The mode invariant\<close>

definition mode_of :: "bx_cpu_c \<Rightarrow> 32 word" where
  "mode_of s = (if \<not> bit (cr0 s) 0 then BX_MODE_IA32_REAL
    else if bit (eflags s) 17 then BX_MODE_IA32_V8086 else BX_MODE_IA32_PROTECTED)"

definition mode_ok :: "bx_cpu_c \<Rightarrow> bool" where
  "mode_ok s \<longleftrightarrow> cpu_mode s = mode_of s \<and> (\<not> bit (cr0 s) 0 \<longrightarrow> CPL s = 0) \<and>
    (alignment_check s \<noteq> 0 \<longleftrightarrow> CPL s = 3 \<and> bit (cr0 s) 18 \<and> bit (eflags s) 18) \<and>
    user_pl s = of_bool (CPL s = 3)"

lemma get_bit32_iff: "get_bit32 n w = 0 \<longleftrightarrow> \<not> bit w n"
  unfolding get_bit32_def by (subst and.commute) (simp only: drop_bit_and_1 of_bool_eq_0_iff)

lemma get_eflag_iff: "get_eflag n s = 0 \<longleftrightarrow> \<not> bit (eflags s) n"
  unfolding get_eflag_def by (rule and_single_bit)

lemmas mode_bits = get_bit32_iff get_eflag_iff cr0_get_AM_def

lemma CPL_fields [simp]:
  "CPL (s\<lparr>cpu_mode := m\<rparr>) = CPL s" "CPL (s\<lparr>alignment_check_mask := a\<rparr>) = CPL s"
  "CPL (s\<lparr>cr0 := c\<rparr>) = CPL s" "CPL (s\<lparr>eflags := e\<rparr>) = CPL s" "CPL (s\<lparr>lf_flags_status := l\<rparr>) = CPL s"
  "CPL (updateFetchModeMask s) = CPL s" "CPL (handleAlignmentCheck s) = CPL s"
  "CPL (s\<lparr>sregs := (sregs s)(Suc 0 := real_mode_CS (sregs s (Suc 0)))\<rparr>) = CPL s"
  "CPL (s\<lparr>cpu_mode := m, sregs := (sregs s)(Suc 0 := real_mode_CS (sregs s (Suc 0)))\<rparr>) = CPL s"
  by (simp_all add: CPL_def updateFetchModeMask_def handleAlignmentCheck_def real_mode_CS_def)

definition mode_state :: "bx_cpu_c \<Rightarrow> bx_cpu_c" where
  "mode_state s = (if bit (cr0 s) 0 then s\<lparr>cpu_mode := mode_of s\<rparr>
    else s\<lparr>cpu_mode := mode_of s, sregs := (sregs s)(1 := real_mode_CS (sregs s 1))\<rparr>)"

lemma handleCpuModeChange_run:
  "handleCpuModeChange s =
    (if \<not> bit (cr0 s) 0 \<and> CPL s \<noteq> 0 then (Inl AssertFail, mode_state s)
     else (Inr (), updateFetchModeMask (mode_state s)))"
  unfolding handleCpuModeChange_def mode_state_def mode_of_def
  by (simp add: monad_simps mode_bits BX_ASSERT_def)

lemma handleAlignmentCheck_ok:
  "alignment_check (handleAlignmentCheck s) \<noteq> 0 \<longleftrightarrow> CPL s = 3 \<and> bit (cr0 s) 18 \<and> bit (eflags s) 18"
  unfolding handleAlignmentCheck_def alignment_check_def by (simp add: mode_bits)

lemma handleAlignmentCheck_fields [simp]:
  "cr0 (handleAlignmentCheck s) = cr0 s" "eflags (handleAlignmentCheck s) = eflags s"
  "sregs (handleAlignmentCheck s) = sregs s" "lf_flags_status (handleAlignmentCheck s) = lf_flags_status s"
  "cr3 (handleAlignmentCheck s) = cr3 s" "cr4 (handleAlignmentCheck s) = cr4 s"
  by (simp_all add: handleAlignmentCheck_def)

lemma mode_change_ok:
  assumes "handleCpuModeChange s = (Inr (), s')"
    and "alignment_check s \<noteq> 0 \<longleftrightarrow> CPL s = 3 \<and> bit (cr0 s) 18 \<and> bit (eflags s) 18"
  shows "mode_ok s'"
proof -
  have s': "s' = updateFetchModeMask (mode_state s)" and cpl: "bit (cr0 s) 0 \<or> CPL s = 0"
    using assms(1) by (auto simp: handleCpuModeChange_run split: if_splits)
  have "CPL s' = CPL s" "cr0 s' = cr0 s" "eflags s' = eflags s" "cpu_mode s' = mode_of s"
    "alignment_check s' = alignment_check s" "user_pl s' = of_bool (CPL s' = 3)"
    by (simp_all add: s' mode_state_def) (simp_all add: updateFetchModeMask_def alignment_check_def CPL_def real_mode_CS_def)
  then show ?thesis using assms(2) cpl by (auto simp: mode_ok_def mode_of_def)
qed

lemma setEFlags_run:
  "setEFlags val s = handleCpuModeChange (handleAlignmentCheck (s\<lparr>
    async_event := (if val AND (push_bit 8 1 OR push_bit 16 1) \<noteq> 0 \<or>
      val AND push_bit 9 1 \<noteq> 0 \<and> \<not> bit (eflags s) 9 then 1 else async_event s),
    eflags := val, lf_flags_status := 0\<rparr>))"
proof -
  define a where "a \<longleftrightarrow> val AND (push_bit 8 1 OR push_bit 16 1) \<noteq> 0"
  define b where "b \<longleftrightarrow> val AND push_bit 9 1 \<noteq> 0"
  show ?thesis
    unfolding setEFlags_def a_def [symmetric] b_def [symmetric]
    by (cases a; cases b; cases "bit (eflags s) 9"; simp add: whenM_def monad_simps get_eflag_iff)
qed

lemma setEFlags_ok:
  assumes "setEFlags val s = (Inr (), s')"
  shows "mode_ok s'" "eflags s' = val" "lf_flags_status s' = 0" "cr0 s' = cr0 s"
proof -
  define t where "t = s\<lparr>
    async_event := (if val AND (push_bit 8 1 OR push_bit 16 1) \<noteq> 0 \<or>
      val AND push_bit 9 1 \<noteq> 0 \<and> \<not> bit (eflags s) 9 then 1 else async_event s),
    eflags := val, lf_flags_status := 0\<rparr>"
  have t: "eflags t = val" "lf_flags_status t = 0" "cr0 t = cr0 s" by (simp_all add: t_def)
  have run: "handleCpuModeChange (handleAlignmentCheck t) = (Inr (), s')"
    using assms unfolding setEFlags_run t_def .
  show "mode_ok s'" using mode_change_ok [OF run] handleAlignmentCheck_ok [of t] by (simp add: alignment_check_def)
  show "eflags s' = val" "lf_flags_status s' = 0" "cr0 s' = cr0 s"
    using run t by (auto simp: handleCpuModeChange_run mode_state_def updateFetchModeMask_def split: if_splits)
qed

lemma SetCR0_ok:
  assumes "SetCR0 val s = (Inr True, s')"
  shows "mode_ok s'" "cr0 s' = val OR 0x10" "bit (cr0 s') 31 \<longrightarrow> bit (cr0 s') 0" "CPL s' = CPL s"
proof -
  have chk: "check_CR0 val"
    and run: "handleCpuModeChange (handleAlignmentCheck (s\<lparr>cr0 := val OR 0x10\<rparr>)) = (Inr (), s')"
    using assms unfolding SetCR0_def Let_def by (auto simp: monad_simps split: if_splits prod.splits sum.splits)
  show "mode_ok s'"
    using mode_change_ok [OF run] handleAlignmentCheck_ok [of "s\<lparr>cr0 := val OR 0x10\<rparr>"] by (simp add: alignment_check_def)
  show cr: "cr0 s' = val OR 0x10"
    using run by (auto simp: handleCpuModeChange_run mode_state_def updateFetchModeMask_def split: if_splits)
  show "bit (cr0 s') 31 \<longrightarrow> bit (cr0 s') 0"
    using chk unfolding cr check_CR0_def Let_def by (simp add: get_bit32_iff split: if_splits)
  show "CPL s' = CPL s"
    using run by (auto simp: handleCpuModeChange_run mode_state_def updateFetchModeMask_def CPL_def real_mode_CS_def split: if_splits)
qed

section \<open>Which bits a write of the flags changes\<close>

definition mask_of :: "nat list \<Rightarrow> 32 word" where
  "mask_of ks = foldr (\<lambda>k m. push_bit k 1 OR m) ks 0"

lemma bit_mask_of: "bit (mask_of ks) k \<longleftrightarrow> k \<in> set ks \<and> k < 32"
  unfolding mask_of_def by (induction ks) (auto simp only: foldr.simps comp_apply bit_or_iff bit_single_mask
    list.set insert_iff empty_iff id_apply bit_0_eq bot_apply bot_bool_def)

lemma flag_mask_bits:
  "bit (0x0dd5 :: 32 word) k \<longleftrightarrow> k \<in> {0, 2, 4, 6, 7, 8, 10, 11}"
  "bit (push_bit 12 3 :: 32 word) k \<longleftrightarrow> k \<in> {12, 13}"
  "bit supportMask k \<longleftrightarrow> k \<in> {0, 2, 4, 6, 7, 8, 9, 10, 11, 12, 13, 14, 16, 17, 18, 19, 20, 21}"
proof -
  have m: "0x0dd5 = mask_of [0, 2, 4, 6, 7, 8, 10, 11]" "push_bit 12 3 = mask_of [12, 13]"
    "supportMask = mask_of [0, 2, 4, 6, 7, 8, 9, 10, 11, 12, 13, 14, 16, 17, 18, 19, 20, 21]"
    unfolding mask_of_def supportMask_def by simp_all
  show "bit (0x0dd5 :: 32 word) k \<longleftrightarrow> k \<in> {0, 2, 4, 6, 7, 8, 10, 11}" unfolding m(1) bit_mask_of by auto
  show "bit (push_bit 12 3 :: 32 word) k \<longleftrightarrow> k \<in> {12, 13}" unfolding m(2) bit_mask_of by auto
  show "bit supportMask k \<longleftrightarrow> k \<in> {0, 2, 4, 6, 7, 8, 9, 10, 11, 12, 13, 14, 16, 17, 18, 19, 20, 21}"
    unfolding m(3) bit_mask_of by auto
qed

definition changed_flags :: "bool \<Rightarrow> bool \<Rightarrow> nat \<Rightarrow> bool" where
  "changed_flags change_IOPL change_IF k \<longleftrightarrow>
    k \<in> {0, 2, 4, 6, 7, 8, 10, 11, 14} \<or> change_IOPL \<and> k \<in> {12, 13} \<or> change_IF \<and> k = 9"

lemma bit_merge: "bit ((e AND NOT m) OR (f AND m)) k \<longleftrightarrow> (if bit m k then bit f k else bit e k)"
  for e :: "32 word"
  by (cases "k < 32") (auto simp: bit_or_iff bit_and_iff bit_not_iff dest: bit_imp_le_length)

lemma write_flags_value:
  obtains m where "write_flags flags change_IOPL change_IF = (\<lambda>s. setEFlags ((eflags s AND NOT m) OR (ucast flags AND m)) s)"
    and "\<And>k. bit m k \<longleftrightarrow> changed_flags change_IOPL change_IF k"
proof -
  define c :: "32 word" where "c = (let c = 0x0dd5 OR push_bit 14 1;
    c = (if change_IOPL then c OR push_bit 12 3 else c) in if change_IF then c OR push_bit 9 1 else c)"
  have c: "bit c k \<longleftrightarrow> changed_flags change_IOPL change_IF k" for k
    unfolding c_def Let_def changed_flags_def
    by (cases change_IOPL; cases change_IF; simp only: if_True if_False bit_or_iff flag_mask_bits bit_single_mask) auto
  have "bit (c AND supportMask) k \<longleftrightarrow> changed_flags change_IOPL change_IF k" for k
    unfolding bit_and_iff c flag_mask_bits changed_flags_def by auto
  moreover have "write_flags flags change_IOPL change_IF =
      (\<lambda>s. setEFlags ((eflags s AND NOT (c AND supportMask)) OR (ucast flags AND (c AND supportMask))) s)"
    unfolding write_flags_def writeEFlags_def Let_def c_def by (intro ext) (simp only: monad_simps prod.case sum.case)
  ultimately show ?thesis by (rule that [rotated])
qed

lemma write_flags_bits:
  assumes "write_flags flags change_IOPL change_IF s = (Inr (), s')"
  shows "bit (eflags s') k = (if changed_flags change_IOPL change_IF k then bit flags k else bit (eflags s) k)"
proof -
  obtain m where m: "write_flags flags change_IOPL change_IF = (\<lambda>s. setEFlags ((eflags s AND NOT m) OR (ucast flags AND m)) s)"
    and bits: "\<And>k. bit m k \<longleftrightarrow> changed_flags change_IOPL change_IF k"
    by (rule write_flags_value [of flags change_IOPL change_IF]) blast
  have "eflags s' = (eflags s AND NOT m) OR (ucast flags AND m)"
    using assms unfolding m by (rule setEFlags_ok(2))
  moreover have "k < 16" if "changed_flags change_IOPL change_IF k" using that by (auto simp: changed_flags_def)
  ultimately show ?thesis by (auto simp: bit_merge bits bit_unsigned_iff)
qed

section \<open>The state after reset\<close>

lemma reset_seg_ok: "seg_cache_ok (reset_segment raw base seg)"
  unfolding seg_cache_ok_def reset_segment_def by simp

lemma reset_segments_ok: "k < 6 \<Longrightarrow> seg_cache_ok (sregs (reset_segments s) k)"
  unfolding reset_segments_def updateFetchModeMask_def Let_def
  by (auto simp: reset_seg_ok less_Suc_eq numeral_eq_Suc)

lemma real_mode_CS_ok: "seg_cache_ok seg \<Longrightarrow> seg_cache_ok (real_mode_CS seg)"
  unfolding seg_cache_ok_def real_mode_CS_def by auto

lemma reset_ok:
  assumes "bit (cr0 s) 0 \<or> CPL s = 0"
  obtains s' where "reset source isa s = (Inr (), s')" "mode_ok s'" "\<And>k. k < 6 \<Longrightarrow> seg_cache_ok (sregs s' k)"
    "real_mode s'" "\<not> bit (cr0 s') 31" "gen_reg s' BX_32BIT_REG_EIP = 0xFFF0"
    "get_laddr32 BX_SEG_REG_CS (gen_reg s' BX_32BIT_REG_EIP) s' = 0xFFFFFFF0" "gen_reg s' BX_NIL_REGISTER = 0"
proof -
  have "\<exists>t. setEFlags 2 (reset_registers isa s) = (Inr (), t)"
    using assms unfolding setEFlags_run handleCpuModeChange_run by (auto simp: reset_registers_def CPL_def)
  then obtain t where t: "setEFlags 2 (reset_registers isa s) = (Inr (), t)" by blast
  have nil: "gen_reg t BX_NIL_REGISTER = 0"
    using t unfolding setEFlags_run handleCpuModeChange_run
    by (auto simp: reset_registers_def handleAlignmentCheck_def mode_state_def updateFetchModeMask_def split: if_splits)
  define u where "u = (reset_control (reset_debug source (reset_tables (reset_segments (t\<lparr>inhibit_mask := 0,
      activity_state := 0, debug_trap := 0, gen_reg := (gen_reg t)(BX_32BIT_REG_EIP := 0xFFF0), prev_rip := 0xFFF0\<rparr>)))))\<lparr>
      EXT := 0, errorno := 0, eipPageBias := 0, eipPageWindowSize := 0, eipFetchPtr := 0\<rparr>"
  note parts = reset_control_def reset_debug_def reset_tables_def
  have run: "reset source isa s = handleCpuModeChange u"
    unfolding reset_def reset_start_def u_def by (simp add: monad_simps t)
  have cr: "cr0 u = 0x60000010" "alignment_check u = 0" "gen_reg u BX_32BIT_REG_EIP = 0xFFF0"
    "gen_reg u BX_NIL_REGISTER = 0" "seg_base (cache (sregs u 1)) = 0xFFFF0000"
    by (simp_all add: nil [simplified BX_NIL_REGISTER_def, simplified] BX_NIL_REGISTER_def BX_32BIT_REG_EIP_def reset_segment_def u_def
      alignment_check_def parts reset_segments_def Let_def updateFetchModeMask_def)
  have cpl: "CPL u = 0"
    by (simp add: u_def CPL_def parts reset_segments_def Let_def updateFetchModeMask_def reset_segment_def parse_selector_def)
  have segs: "seg_cache_ok (sregs u k)" if "k < 6" for k
    using reset_segments_ok [OF that] by (simp add: u_def parts Let_def)
  have res: "reset source isa s = (Inr (), updateFetchModeMask (mode_state u))"
    unfolding run handleCpuModeChange_run by (simp add: cpl)
  have bits: "\<not> bit (0x60000010 :: 32 word) 0" "\<not> bit (0x60000010 :: 32 word) 31" by simp_all
  show ?thesis
  proof (rule that [OF res])
    show "mode_ok (updateFetchModeMask (mode_state u))"
      using res unfolding run by (rule mode_change_ok) (simp add: cpl cr(2))
    show "seg_cache_ok (sregs (updateFetchModeMask (mode_state u)) k)" if "k < 6" for k
      using segs [OF that] segs [of 1] by (simp add: updateFetchModeMask_def mode_state_def real_mode_CS_ok)
  qed (use bits cr in \<open>simp_all add: updateFetchModeMask_def mode_state_def real_mode_def mode_of_def get_laddr32_def
    real_mode_CS_def\<close>)
qed

end
