(* ===== verification/PageWalk.thy ===== *)
theory PageWalk
  imports Paging
begin

text \<open>
  The architectural page walk, and that \<open>translate_linear\<close> of \<open>cpu/paging.cc\<close>
  implements it.  \<open>walk\<close> gives the outcome of a translation as a function of the
  page tables in memory, the control registers, the privilege and the kind of
  access; the translation returns it, and the only memory it changes are the
  accessed and dirty bits of the entries it used.
\<close>

section \<open>The reference walk\<close>

definition page_allows :: "bool \<Rightarrow> bool \<Rightarrow> bool \<Rightarrow> bool \<Rightarrow> bool \<Rightarrow> bool" where
  "page_allows wp user us rw wr \<longleftrightarrow>
    (if user then us \<and> (wr \<longrightarrow> rw) else wr \<and> wp \<longrightarrow> rw)"

definition pf_fault :: "bool \<Rightarrow> bool \<Rightarrow> bool \<Rightarrow> bool \<Rightarrow> fault" where
  "pf_fault protection reserved user wr = Exception BX_PF_EXCEPTION
    (of_bool protection + 2 * of_bool wr + 4 * of_bool user + 8 * of_bool reserved)"

definition mem_entry :: "bx_cpu_c \<Rightarrow> 32 word \<Rightarrow> 32 word" where
  "mem_entry s a = le_word (load_bytes (vector (bx_mem s)) a 4)"

definition pde_address :: "bx_cpu_c \<Rightarrow> 32 word \<Rightarrow> 32 word" where
  "pde_address s laddr = (cr3 s AND 0xfffff000) OR drop_bit 20 (laddr AND 0xffc00000)"

definition pte_address :: "32 word \<Rightarrow> 32 word \<Rightarrow> 32 word" where
  "pte_address pde laddr = (pde AND 0xfffff000) OR drop_bit 10 (laddr AND 0x003ff000)"

definition wp_on :: "bx_cpu_c \<Rightarrow> bool" where "wp_on s \<longleftrightarrow> bit (cr0 s) 16"
definition paging_on :: "bx_cpu_c \<Rightarrow> bool" where "paging_on s \<longleftrightarrow> bit (cr0 s) 31"
definition pse_on :: "bx_cpu_c \<Rightarrow> bool" where "pse_on s \<longleftrightarrow> bit (cr4 s) 4"

definition walk_4M :: "bool \<Rightarrow> 32 word \<Rightarrow> 32 word \<Rightarrow> bool \<Rightarrow> bool \<Rightarrow> fault + 32 word" where
  "walk_4M wp pde laddr user wr =
    (if \<exists>k \<in> {13..<22}. bit pde k then Inl (pf_fault True True user wr)
     else if \<not> page_allows wp user (bit pde 2) (bit pde 1) wr then Inl (pf_fault True False user wr)
     else Inr ((pde AND 0xffc00000) OR (laddr AND 0x003fffff)))"

definition walk_4K :: "bx_cpu_c \<Rightarrow> 32 word \<Rightarrow> 32 word \<Rightarrow> bool \<Rightarrow> bool \<Rightarrow> fault + 32 word" where
  "walk_4K s pde laddr user wr =
    (let a = pte_address pde laddr; pte = mem_entry s a in
     if \<not> phys_ok a 4 s then Inl (HostFault (physmem_base + a))
     else if \<not> bit pte 0 then Inl (pf_fault False False user wr)
     else if \<not> page_allows (wp_on s) user (bit pde 2 \<and> bit pte 2) (bit pde 1 \<and> bit pte 1) wr
     then Inl (pf_fault True False user wr)
     else Inr ((pte AND 0xfffff000) OR (laddr AND 0xfff)))"

definition walk :: "bx_cpu_c \<Rightarrow> 32 word \<Rightarrow> bool \<Rightarrow> bool \<Rightarrow> fault + 32 word" where
  "walk s laddr user wr =
    (if \<not> paging_on s then Inr laddr
     else
       (let a = pde_address s laddr; pde = mem_entry s a in
        if \<not> phys_ok a 4 s then Inl (HostFault (physmem_base + a))
        else if \<not> bit pde 0 then Inl (pf_fault False False user wr)
        else if bit pde 7 \<and> pse_on s then walk_4M (wp_on s) pde laddr user wr
        else walk_4K s pde laddr user wr))"

section \<open>The privilege table\<close>

lemma priv_check_table:
  "(priv_check ! unat (priv_index (of_bool wp) (of_bool user) (4 * of_bool us + 2 * of_bool rw) (of_bool wr)) \<noteq> 0)
    \<longleftrightarrow> page_allows wp user us rw wr"
  by (cases wp; cases user; cases us; cases rw; cases wr; simp add: priv_check_def priv_index_def page_allows_def)

lemma and_06: "e AND 0x06 = 4 * of_bool (bit e 2) + 2 * of_bool (bit e 1)" for e :: "32 word"
proof -
  have "(0x06 :: 32 word) = push_bit 1 1 OR push_bit 2 1" by simp
  then have six: "bit (0x06 :: 32 word) k \<longleftrightarrow> k = 1 \<or> k = 2" for k
    by (simp only: bit_or_iff bit_single_mask) auto
  have "e AND 0x06 = (if bit e 2 then push_bit 2 1 else 0) OR (if bit e 1 then push_bit 1 1 else 0)"
    by (rule bit_word_eqI) (simp only: bit_and_iff six bit_or_iff bit_mask_if, auto)
  then show ?thesis by (cases "bit e 2"; cases "bit e 1"; simp)
qed

section \<open>Runs of the translation\<close>

definition set_entry :: "bx_cpu_c \<Rightarrow> 32 word \<Rightarrow> 32 word \<Rightarrow> bx_cpu_c" where
  "set_entry s a e = s\<lparr>bx_mem := (bx_mem s)\<lparr>vector := store_bytes (vector (bx_mem s)) a (le_bytes 4 e)\<rparr>\<rparr>"

lemma read_entry_run: "read_entry a s =
    (if phys_ok a 4 s then (Inr (mem_entry s a), s) else (Inl (HostFault (physmem_base + a)), s))"
  by (simp add: read_entry_def bindM_apply access_read_physical_run mem_entry_def returnM_apply)

lemma write_entry_run:
  assumes "phys_ok a 4 s"
  shows "write_entry a e s =
    (Inr (), set_entry s a e)"
  using assms by (simp add: write_entry_def access_write_physical_run set_entry_def)

lemma phys_ok_set_entry [simp]: "phys_ok a n (set_entry s b e) = phys_ok a n s"
  by (simp add: phys_ok_def set_entry_def host_mapped_def mem_mapped_def)

lemma and_1_bit: "e AND 1 = of_bool (bit e 0)" for e :: "32 word"
  using drop_bit_and_1 [of 0 e] by simp

lemma and_mask_0: "e AND push_bit n 1 = 0 \<longleftrightarrow> \<not> bit e n" for e :: "32 word"
  by (rule and_single_bit)

lemma page_fault_run: "page_fault f laddr user rw s =
    (Inl (Exception BX_PF_EXCEPTION (ucast (f OR (push_bit 2 user OR push_bit 1 (rw AND 1))))), s\<lparr>cr2 := laddr\<rparr>)"
  by (simp only: page_fault_def Let_def monad_simps prod.case sum.case)

lemma pf_codes:
  "Exception BX_PF_EXCEPTION (ucast (ERROR_NOT_PRESENT OR (push_bit 2 (of_bool user) OR push_bit 1 (of_bool wr)) :: 32 word)) =
    pf_fault False False user wr"
  "Exception BX_PF_EXCEPTION (ucast (ERROR_PROTECTION OR (push_bit 2 (of_bool user) OR push_bit 1 (of_bool wr)) :: 32 word)) =
    pf_fault True False user wr"
  "Exception BX_PF_EXCEPTION (ucast ((ERROR_RESERVED OR ERROR_PROTECTION) OR
      (push_bit 2 (of_bool user) OR push_bit 1 (of_bool wr)) :: 32 word)) = pf_fault True True user wr"
  by (cases user; cases wr; simp add: pf_fault_def ERROR_NOT_PRESENT_def ERROR_PROTECTION_def ERROR_RESERVED_def)+

lemma get_bits:
  "cr0_get_WP s = of_bool (wp_on s)" "cr0_get_PG s = of_bool (paging_on s)" "cr4_get_PSE s = of_bool (pse_on s)"
  unfolding cr0_get_WP_def cr0_get_PG_def cr4_get_PSE_def get_bit32_def wp_on_def paging_on_def pse_on_def
  by (simp_all add: and.commute [of 1] and_1_bit bit_drop_bit_eq)

lemma entry_tests:
  "e AND 0x20 = 0 \<longleftrightarrow> \<not> bit e 5" "e AND 0x40 = 0 \<longleftrightarrow> \<not> bit e 6" "e AND 0x80 = 0 \<longleftrightarrow> \<not> bit e 7"
  for e :: "32 word"
  using and_single_bit [of e 5] and_single_bit [of e 6] and_single_bit [of e 7] by simp_all

lemma bit_reserved: "bit PAGING_PDE4M_RESERVED_BITS k \<longleftrightarrow> 13 \<le> k \<and> k < 22"
proof -
  have "PAGING_PDE4M_RESERVED_BITS = push_bit 13 (mask 9)"
    by (simp add: PAGING_PDE4M_RESERVED_BITS_def mask_eq_exp_minus_1)
  then have "bit PAGING_PDE4M_RESERVED_BITS k \<longleftrightarrow> bit (push_bit 13 (mask 9) :: 32 word) k" by (simp only:)
  then show ?thesis by (simp only: bit_push_bit_iff bit_mask_iff) auto
qed

lemma reserved_iff: "e AND PAGING_PDE4M_RESERVED_BITS \<noteq> 0 \<longleftrightarrow> (\<exists>k \<in> {13..<22}. bit e k)"
proof -
  have "e AND PAGING_PDE4M_RESERVED_BITS \<noteq> 0 \<longleftrightarrow> (\<exists>k. bit (e AND PAGING_PDE4M_RESERVED_BITS) k)"
    by (metis bit_eqI bit_0_eq bot_apply bot_bool_def)
  then show ?thesis by (auto simp: bit_and_iff bit_reserved)
qed

text \<open>The state a successful walk leaves: the accessed bit of the directory entry,
  and the accessed and, for a write, the dirty bit of the entry that maps the page.\<close>

definition touch :: "bool \<Rightarrow> bool \<Rightarrow> 32 word \<Rightarrow> 32 word \<Rightarrow> bx_cpu_c \<Rightarrow> bx_cpu_c" where
  "touch leaf wr a e s =
    (if \<not> bit e 5 \<or> (leaf \<and> wr \<and> \<not> bit e 6)
     then set_entry s a (e OR (0x20 OR push_bit 6 (of_bool (leaf \<and> wr)))) else s)"

lemma phys_ok_touch [simp]: "phys_ok a n (touch leaf wr b e s) = phys_ok a n s"
  by (simp add: touch_def)

lemma run_4K:
  assumes "phys_ok pde_addr 4 s"
  shows "translate_linear_4K laddr (of_bool user) rw pde_addr pde s =
    (let a = pte_address pde laddr; pte = mem_entry s a; wr = bit rw 0 in
     if \<not> phys_ok a 4 s then (Inl (HostFault (physmem_base + a)), s)
     else if \<not> bit pte 0 then (Inl (pf_fault False False user wr), s\<lparr>cr2 := laddr\<rparr>)
     else if \<not> page_allows (wp_on s) user (bit pde 2 \<and> bit pte 2) (bit pde 1 \<and> bit pte 1) wr
     then (Inl (pf_fault True False user wr), s\<lparr>cr2 := laddr\<rparr>)
     else (Inr (pte AND 0xfffff000), touch True wr a pte (touch False wr pde_addr pde s)))"
proof -
  define wr where "wr = bit rw 0"
  define a where "a = pte_address pde laddr"
  define pte where "pte = mem_entry s a"
  have rw1: "rw AND 1 = of_bool wr" by (simp add: and_1_bit wr_def)
  have acc: "(pde AND pte) AND 0x06 = 4 * of_bool (bit pde 2 \<and> bit pte 2) + 2 * of_bool (bit pde 1 \<and> bit pte 1)"
    by (simp only: and_06 bit_and_iff)
  have w1: "whenM (pde AND 0x20 = 0) (write_entry pde_addr (pde OR 0x20)) s = (Inr (), touch False wr pde_addr pde s)"
    using assms by (simp add: whenM_def touch_def entry_tests write_entry_run returnM_apply)
  have w2: "whenM (pte AND 0x20 = 0 \<or> (of_bool wr \<noteq> (0 :: 32 word) \<and> pte AND 0x40 = 0))
      (write_entry a (pte OR (0x20 OR push_bit 6 (of_bool wr)))) t = (Inr (), touch True wr a pte t)"
    if "phys_ok a 4 t" for t
    using that by (simp add: whenM_def touch_def entry_tests write_entry_run returnM_apply)
  have pc: "priv_check ! unat (priv_index (of_bool (wp_on s)) (of_bool user) ((pde AND pte) AND 0x06) (of_bool wr)) = 0
      \<longleftrightarrow> \<not> page_allows (wp_on s) user (bit pde 2 \<and> bit pte 2) (bit pde 1 \<and> bit pte 1) wr"
    unfolding acc using priv_check_table by blast
  have p0: "pte AND 1 = 0 \<longleftrightarrow> \<not> bit pte 0" by (simp add: and_1_bit)
  note run = bindM_apply read_entry_run pte_def [symmetric] p0 page_fault_run rw1 pf_codes getsM_apply get_bits pc
    seqM_apply w1 w2 returnM_apply prod.case sum.case if_True if_False simp_thms phys_ok_touch
  show ?thesis
    unfolding translate_linear_4K_def Let_def pte_address_def [symmetric] wr_def [symmetric] a_def [symmetric]
      pte_def [symmetric]
    by (cases "phys_ok a 4 s"; cases "bit pte 0";
      cases "page_allows (wp_on s) user (bit pde 2 \<and> bit pte 2) (bit pde 1 \<and> bit pte 1) wr"; simp only: run)
qed

lemma run_4M:
  assumes "phys_ok pde_addr 4 s"
  shows "translate_linear_4M laddr (of_bool user) rw pde_addr pde s =
    (let wr = bit rw 0 in
     if \<exists>k \<in> {13..<22}. bit pde k then (Inl (pf_fault True True user wr), s\<lparr>cr2 := laddr\<rparr>)
     else if \<not> page_allows (wp_on s) user (bit pde 2) (bit pde 1) wr
     then (Inl (pf_fault True False user wr), s\<lparr>cr2 := laddr\<rparr>)
     else (Inr ((pde AND 0xffc00000) OR (laddr AND 0x003ff000)),
       (touch True wr pde_addr pde s)\<lparr>TLB_split_large := 1\<rparr>))"
proof -
  define wr where "wr = bit rw 0"
  have rw1: "rw AND 1 = of_bool wr" by (simp add: and_1_bit wr_def)
  have w1: "whenM (pde AND 0x20 = 0 \<or> (of_bool wr \<noteq> (0 :: 32 word) \<and> pde AND 0x40 = 0))
      (write_entry pde_addr (pde OR (0x20 OR push_bit 6 (of_bool wr)))) s = (Inr (), touch True wr pde_addr pde s)"
    using assms by (simp add: whenM_def touch_def entry_tests write_entry_run returnM_apply)
  have pc: "priv_check ! unat (priv_index (of_bool (wp_on s)) (of_bool user) (pde AND 0x06) (of_bool wr)) = 0
      \<longleftrightarrow> \<not> page_allows (wp_on s) user (bit pde 2) (bit pde 1) wr"
    unfolding and_06 using priv_check_table by blast
  note run = bindM_apply page_fault_run rw1 pf_codes getsM_apply get_bits pc reserved_iff
    seqM_apply w1 returnM_apply modifyM_apply prod.case sum.case if_True if_False simp_thms
  show ?thesis
    unfolding translate_linear_4M_def Let_def wr_def [symmetric]
    by (cases "\<exists>k \<in> {13..<22}. bit pde k"; cases "page_allows (wp_on s) user (bit pde 2) (bit pde 1) wr"; simp only: run)
qed

section \<open>The translation is the walk\<close>

lemma bit_word_masks:
  "bit (0xfffff000 :: 32 word) k \<longleftrightarrow> 12 \<le> k \<and> k < 32" "bit (0xfff :: 32 word) k \<longleftrightarrow> k < 12"
  "bit (0xffc00000 :: 32 word) k \<longleftrightarrow> 22 \<le> k \<and> k < 32" "bit (0x003ff000 :: 32 word) k \<longleftrightarrow> 12 \<le> k \<and> k < 22"
  "bit (0x003fffff :: 32 word) k \<longleftrightarrow> k < 22"
proof -
  have "(0xfffff000 :: 32 word) = push_bit 12 (mask 20)" "(0xfff :: 32 word) = mask 12"
    "(0xffc00000 :: 32 word) = push_bit 22 (mask 10)" "(0x003ff000 :: 32 word) = push_bit 12 (mask 10)"
    "(0x003fffff :: 32 word) = mask 22"
    by (simp_all add: mask_eq_exp_minus_1)
  then show "bit (0xfffff000 :: 32 word) k \<longleftrightarrow> 12 \<le> k \<and> k < 32" "bit (0xfff :: 32 word) k \<longleftrightarrow> k < 12"
    "bit (0xffc00000 :: 32 word) k \<longleftrightarrow> 22 \<le> k \<and> k < 32" "bit (0x003ff000 :: 32 word) k \<longleftrightarrow> 12 \<le> k \<and> k < 22"
    "bit (0x003fffff :: 32 word) k \<longleftrightarrow> k < 22"
    by (simp_all only: bit_push_bit_iff bit_mask_iff) auto
qed

lemma page_parts:
  "LPFOf laddr OR PAGE_OFFSET laddr = laddr"
  "((pde AND 0xffc00000) OR (laddr AND 0x003ff000)) OR PAGE_OFFSET laddr = (pde AND 0xffc00000) OR (laddr AND 0x003fffff)"
  unfolding LPFOf_def PAGE_OFFSET_def
  by (rule bit_word_eqI, simp only: bit_or_iff bit_and_iff bit_word_masks, auto)+

text \<open>The run of the translation in one equation.\<close>

definition walk_state :: "bx_cpu_c \<Rightarrow> 32 word \<Rightarrow> bool \<Rightarrow> bx_cpu_c" where
  "walk_state s laddr wr =
    (if \<not> paging_on s then s
     else
       (let a = pde_address s laddr; pde = mem_entry s a in
        if bit pde 7 \<and> pse_on s then (touch True wr a pde s)\<lparr>TLB_split_large := 1\<rparr>
        else (let b = pte_address pde laddr in touch True wr b (mem_entry s b) (touch False wr a pde s))))"

lemma translate_linear_run:
  "translate_linear laddr curr_pl rw s =
    (case walk s laddr (curr_pl = 3) (bit rw 0) of
       Inr pa \<Rightarrow> (Inr pa, walk_state s laddr (bit rw 0))
     | Inl (Exception v c) \<Rightarrow> (Inl (Exception v c), s\<lparr>cr2 := laddr\<rparr>)
     | Inl f \<Rightarrow> (Inl f, s))"
proof -
  define a where "a = pde_address s laddr"
  define pde where "pde = mem_entry s a"
  have p0: "pde AND 1 = 0 \<longleftrightarrow> \<not> bit pde 0" by (simp add: and_1_bit)
  note run = bindM_apply getsM_apply get_bits read_entry_run p0 entry_tests page_fault_run and_1_bit pf_codes
    returnM_apply prod.case sum.case if_True if_False simp_thms of_bool_eq zero_neq_one one_neq_zero
    pde_address_def [symmetric] a_def [symmetric] pde_def [symmetric]
  note fold = translate_linear_def Let_def pde_address_def [symmetric] a_def [symmetric] walk_def walk_state_def
    pde_def [symmetric]
  consider (off) "\<not> paging_on s" | (bad) "paging_on s" "\<not> phys_ok a 4 s"
    | (np) "paging_on s" "phys_ok a 4 s" "\<not> bit pde 0"
    | (big) "paging_on s" "phys_ok a 4 s" "bit pde 0" "bit pde 7 \<and> pse_on s"
    | (small) "paging_on s" "phys_ok a 4 s" "bit pde 0" "\<not> (bit pde 7 \<and> pse_on s)"
    by blast
  then show ?thesis
  proof cases
    case off then show ?thesis unfolding fold by (simp only: run page_parts of_bool_eq)
  next
    case bad then show ?thesis unfolding fold by (simp only: run fault.case)
  next
    case np then show ?thesis unfolding fold by (simp only: run fault.case pf_fault_def)
  next
    case big
    then show ?thesis
      unfolding fold walk_4M_def
      by (cases "\<exists>k \<in> {13..<22}. bit pde k"; cases "page_allows (wp_on s) (curr_pl = 3) (bit pde 2) (bit pde 1) (bit rw 0)";
        simp only: run run_4M [OF big(2)] Let_def pf_fault_def fault.case page_parts)
  next
    case small
    define b where "b = pte_address pde laddr"
    define pte where "pte = mem_entry s b"
    from small show ?thesis
      unfolding fold walk_4K_def b_def [symmetric] pte_def [symmetric] PAGE_OFFSET_def
      by (cases "bit pde 7"; cases "pse_on s"; cases "phys_ok b 4 s"; cases "bit pte 0";
        cases "page_allows (wp_on s) (curr_pl = 3) (bit pde 2 \<and> bit pte 2) (bit pde 1 \<and> bit pte 1) (bit rw 0)";
        simp only: run run_4K [OF small(2)] Let_def b_def [symmetric] pte_def [symmetric] pf_fault_def fault.case)
  qed
qed

section \<open>What a translation changes in memory\<close>

lemma bits_5_6: "bit (0x20 OR push_bit 6 (of_bool d) :: 32 word) k \<longleftrightarrow> k = 5 \<or> k = 6 \<and> d"
proof -
  have "(0x20 :: 32 word) = push_bit 5 1" by simp
  then have "bit (0x20 OR push_bit 6 (of_bool d) :: 32 word) k \<longleftrightarrow>
      bit (push_bit 5 1 OR (if d then push_bit 6 1 else 0) :: 32 word) k" by (cases d) simp_all
  then show ?thesis by (simp only: bit_or_iff bit_single_mask bit_mask_if) auto
qed

lemma store_or_byte:
  assumes "e = le_word (load_bytes vec a 4)" "\<And>k. bit m k \<Longrightarrow> k < 8"
  shows "store_bytes base a (le_bytes 4 (e OR m :: 32 word)) x =
    (if x = a then vec a OR ucast m else if unat (x - a) < 4 then vec x else base x)"
proof (cases "unat (x - a) < 4")
  case True
  define k where "k = unat (x - a)"
  have xa: "a + of_nat k = x" by (simp add: k_def)
  have k4: "k < 4" using True by (simp add: k_def)
  have e: "ucast (drop_bit (8 * k) e) = vec x"
    using le_bytes_word [of "load_bytes vec a 4", where 'a = 32] k4 xa
    by (simp add: assms(1) load_bytes_def flip: le_bytes_nth [of k 4])
  have "ucast (drop_bit (8 * k) (e OR m)) = (ucast (drop_bit (8 * k) e) OR ucast (drop_bit (8 * k) m) :: 8 word)"
    by (rule bit_word_eqI) (simp add: bit_simps)
  then have *: "store_bytes base a (le_bytes 4 (e OR m)) x = vec x OR ucast (drop_bit (8 * k) m)"
    using True k4 e by (simp add: store_bytes_def le_bytes_nth k_def)
  show ?thesis
  proof (cases "x = a")
    case True
    then have "k = 0" by (simp add: k_def)
    with * True show ?thesis by simp
  next
    case False
    then have "0 < k" using xa by (cases k) auto
    then have "ucast (drop_bit (8 * k) m) = (0 :: 8 word)"
      using assms(2) by (intro bit_word_eqI) (fastforce simp: bit_simps)
    with * True False show ?thesis by simp
  qed
next
  case False
  then show ?thesis by (auto simp: store_bytes_def)
qed

text \<open>The bits a step of the walk sets in the byte at the address of the entry.\<close>

definition touch_bits :: "bool \<Rightarrow> bool \<Rightarrow> 32 word \<Rightarrow> 8 word" where
  "touch_bits leaf wr e =
    (if \<not> bit e 5 \<or> (leaf \<and> wr \<and> \<not> bit e 6) then (if leaf \<and> wr then 0x60 else 0x20) else 0)"

lemma touch_vector:
  assumes "e = le_word (load_bytes vec a 4)"
  shows "vector (bx_mem (touch leaf wr a e s)) x =
    (if touch_bits leaf wr e = 0 then vector (bx_mem s) x
     else if x = a then vec a OR touch_bits leaf wr e
     else if unat (x - a) < 4 then vec x else vector (bx_mem s) x)"
proof -
  define m :: "32 word" where "m = 0x20 OR push_bit 6 (of_bool (leaf \<and> wr))"
  have m8: "ucast m = (if leaf \<and> wr then 0x60 else 0x20 :: 8 word)"
    unfolding m_def by (cases "leaf \<and> wr") simp_all
  have small: "k < 8" if "bit m k" for k
    using that unfolding m_def bits_5_6 by auto
  have st: "store_bytes (vector (bx_mem s)) a (le_bytes 4 (e OR m)) x =
      (if x = a then vec a OR ucast m else if unat (x - a) < 4 then vec x else vector (bx_mem s) x)"
    using assms small by (rule store_or_byte)
  show ?thesis
    unfolding touch_def touch_bits_def set_entry_def m_def [symmetric]
    using st by (cases "x = a") (simp_all add: m8)
qed

text \<open>Entries are four-byte aligned, so two of them are equal or disjoint.\<close>

lemma take_bit_2_aligned: "take_bit 2 x = 0 \<Longrightarrow> unat x mod 4 = 0" for x :: "32 word"
  using unsigned_take_bit_eq [of 2 x, where ?'a = nat] by (simp add: take_bit_eq_mod)

lemma entry_aligned: "unat (pde_address s laddr) mod 4 = 0" "unat (pte_address pde laddr) mod 4 = 0"
proof -
  have "take_bit 2 (pde_address s laddr) = 0"
    unfolding pde_address_def
    by (rule bit_word_eqI) (simp only: bit_take_bit_iff bit_or_iff bit_and_iff bit_drop_bit_eq comp_apply bit_word_masks bit_0_eq, auto)
  then show "unat (pde_address s laddr) mod 4 = 0" by (rule take_bit_2_aligned)
  have "take_bit 2 (pte_address pde laddr) = 0"
    unfolding pte_address_def
    by (rule bit_word_eqI) (simp only: bit_take_bit_iff bit_or_iff bit_and_iff bit_drop_bit_eq comp_apply bit_word_masks bit_0_eq, auto)
  then show "unat (pte_address pde laddr) mod 4 = 0" by (rule take_bit_2_aligned)
qed

lemma aligned_apart:
  assumes "unat x mod 4 = 0" "unat a mod 4 = 0" "unat (x - a) < 4"
  shows "x = (a :: 32 word)"
proof -
  have "unat (x - a) mod 4 = 0"
    using assms(1,2) by (simp add: unat_sub_if_size word_size) presburger
  with assms(3) have "unat (x - a) = 0" by simp
  then show ?thesis by (simp add: unat_eq_zero)
qed

text \<open>The addresses of the entries a walk uses.\<close>

definition walk_entries :: "bx_cpu_c \<Rightarrow> 32 word \<Rightarrow> 32 word list" where
  "walk_entries s laddr =
    (if \<not> paging_on s then []
     else
       (let a = pde_address s laddr; pde = mem_entry s a in
        if bit pde 7 \<and> pse_on s then [a] else [a, pte_address pde laddr]))"

lemma walk_entries_aligned: "a \<in> set (walk_entries s laddr) \<Longrightarrow> unat a mod 4 = 0"
  by (auto simp: walk_entries_def Let_def entry_aligned split: if_splits)

text \<open>The whole effect: some bytes get bit 5, for a write possibly bit 6, and they
  are the low bytes of the entries of the walk.\<close>

lemma walk_state_memory:
  obtains t where
    "vector (bx_mem (walk_state s laddr wr)) = (\<lambda>x. vector (bx_mem s) x OR t x)"
    "\<And>x. t x \<in> {0, 0x20} \<or> (wr \<and> t x = 0x60)"
    "\<And>x. t x \<noteq> 0 \<Longrightarrow> x \<in> set (walk_entries s laddr)"
proof (cases "paging_on s")
  case False
  then show ?thesis using that [of "\<lambda>_. 0"] by (simp add: walk_state_def)
next
  case on: True
  define a where "a = pde_address s laddr"
  define pde where "pde = mem_entry s a"
  have pde: "pde = le_word (load_bytes (vector (bx_mem s)) a 4)" by (simp add: pde_def mem_entry_def)
  have tb: "touch_bits leaf wr e \<in> {0, 0x20} \<or> (wr \<and> touch_bits leaf wr e = 0x60)" for leaf e
    by (simp add: touch_bits_def)
  show ?thesis
  proof (cases "bit pde 7 \<and> pse_on s")
    case True
    have "vector (bx_mem (walk_state s laddr wr)) = (\<lambda>x. vector (bx_mem s) x OR (if x = a then touch_bits True wr pde else 0))"
      using on True touch_vector [OF pde, of True wr s]
      by (auto simp: walk_state_def Let_def fun_eq_iff a_def [symmetric] pde_def [symmetric])
    then show ?thesis
      by (rule that) (use on True tb [of True pde] in
        \<open>auto simp: walk_entries_def a_def pde_def split: if_splits\<close>)
  next
    case False
    define b where "b = pte_address pde laddr"
    define pte where "pte = mem_entry s b"
    have pte: "pte = le_word (load_bytes (vector (bx_mem s)) b 4)" by (simp add: pte_def mem_entry_def)
    have apart: "a = b" if "unat (a - b) < 4"
      using that entry_aligned(1) [of s laddr] entry_aligned(2) [of pde laddr]
      by (intro aligned_apart) (simp_all add: a_def b_def)
    have "vector (bx_mem (walk_state s laddr wr)) = (\<lambda>x. vector (bx_mem s) x OR
        (if x = b \<and> touch_bits True wr pte \<noteq> 0 then touch_bits True wr pte
         else if x = a then touch_bits False wr pde else 0))"
      using on False touch_vector [OF pde, of False wr s] touch_vector [OF pte, of True wr "touch False wr a pde s"] apart
      by (auto simp: walk_state_def Let_def fun_eq_iff a_def [symmetric] pde_def [symmetric] b_def [symmetric] pte_def [symmetric])
    then show ?thesis
      by (rule that) (use on False tb [of True pte] tb [of False pde] in
        \<open>auto simp: walk_entries_def Let_def a_def b_def pde_def split: if_splits\<close>)
  qed
qed

section \<open>Accessed and dirty bits do not change any translation\<close>

lemma unat_add_aligned:
  assumes "unat a mod 4 = 0" "j < 4"
  shows "unat (a + of_nat j :: 32 word) = unat a + j"
proof -
  have "unat a < 4294967296" using unsigned_less [of a] by simp
  then have "unat a + j < 4294967296" using assms by presburger
  moreover have "unat (of_nat j :: 32 word) = j" using assms(2) by (intro unat_of_nat_32) simp
  ultimately show ?thesis by (subst unat_plus_simple [THEN iffD1]) (simp_all add: no_olen_add_nat)
qed

lemma bits_marks:
  assumes "t \<in> {0, 0x20} \<or> (wr \<and> t = (0x60 :: 8 word))" "bit t j"
  shows "j = 5 \<or> j = 6"
proof -
  have eqs: "(0x20 :: 8 word) = push_bit 5 1" "(0x60 :: 8 word) = push_bit 5 1 OR push_bit 6 1" by simp_all
  have "bit (push_bit 5 1 :: 8 word) j \<or> bit (push_bit 5 1 OR push_bit 6 1 :: 8 word) j"
    using assms unfolding eqs by auto
  then show ?thesis by (simp only: bit_or_iff bit_push_bit_iff bit_1_iff) auto
qed

lemma entry_bits_kept:
  assumes "unat a mod 4 = 0" "k \<noteq> 5" "k \<noteq> 6"
  shows "bit (mem_entry (walk_state s laddr wr) a) k = bit (mem_entry s a) k"
proof -
  obtain t where t: "vector (bx_mem (walk_state s laddr wr)) = (\<lambda>x. vector (bx_mem s) x OR t x)"
    and bits: "\<And>x. t x \<in> {0, 0x20} \<or> (wr \<and> t x = 0x60)"
    and where': "\<And>x. t x \<noteq> 0 \<Longrightarrow> x \<in> set (walk_entries s laddr)"
    by (rule walk_state_memory [of s laddr wr]) blast
  have none: "\<not> bit (t (a + of_nat j)) m" if "j < 4" "m \<noteq> 5 \<and> m \<noteq> 6 \<or> j \<noteq> 0" for j m
  proof (cases "j = 0")
    case True
    then show ?thesis using that bits_marks [OF bits [of a], of m] by auto
  next
    case False
    have "unat (a + of_nat j) mod 4 = (unat a mod 4 + j) mod 4"
      using unat_add_aligned [OF assms(1) that(1)] by (simp add: mod_add_left_eq)
    then have "unat (a + of_nat j) mod 4 \<noteq> 0" using assms(1) that(1) False by simp
    then have "t (a + of_nat j) = 0"
      using where' [of "a + of_nat j"] walk_entries_aligned by metis
    then show ?thesis by simp
  qed
  have "k mod 8 \<noteq> 5 \<and> k mod 8 \<noteq> 6 \<or> k div 8 \<noteq> 0" using assms(2,3) by presburger
  then have *: "bit ((vector (bx_mem s) (a + of_nat (k div 8))) OR t (a + of_nat (k div 8))) (k mod 8) =
      bit (vector (bx_mem s) (a + of_nat (k div 8))) (k mod 8)" if "k div 8 < 4"
    using none [OF that] by (simp only: bit_or_iff) blast
  show ?thesis
    unfolding mem_entry_def bit_le_word t length_load_bytes
    by (rule conj_cong [OF refl], rule conj_cong [OF refl]) (simp only: load_bytes_def nth_map_upt add.left_neutral diff_zero *)
qed

lemma entry_parts_kept:
  assumes "unat a mod 4 = 0"
  shows "mem_entry (walk_state s laddr wr) a AND 0xfffff000 = mem_entry s a AND 0xfffff000"
    and "mem_entry (walk_state s laddr wr) a AND 0xffc00000 = mem_entry s a AND 0xffc00000"
proof -
  have "bit (mem_entry (walk_state s laddr wr) a) k = bit (mem_entry s a) k" if "12 \<le> k" for k
    using that by (intro entry_bits_kept [OF assms]) auto
  then show "mem_entry (walk_state s laddr wr) a AND 0xfffff000 = mem_entry s a AND 0xfffff000"
    "mem_entry (walk_state s laddr wr) a AND 0xffc00000 = mem_entry s a AND 0xffc00000"
    by (intro bit_word_eqI; simp only: bit_and_iff bit_word_masks, auto)+
qed

lemma walk_state_fields:
  "paging_on (walk_state s laddr wr) = paging_on s" "pse_on (walk_state s laddr wr) = pse_on s"
  "wp_on (walk_state s laddr wr) = wp_on s" "pde_address (walk_state s laddr wr) = pde_address s"
  "phys_ok a n (walk_state s laddr wr) = phys_ok a n s"
  unfolding walk_state_def touch_def set_entry_def paging_on_def pse_on_def wp_on_def pde_address_def phys_ok_def
    host_mapped_def mem_mapped_def Let_def fun_eq_iff by simp_all

lemma walk_unchanged: "walk (walk_state s laddr wr) laddr' user' wr' = walk s laddr' user' wr'"
proof -
  define s' where "s' = walk_state s laddr wr"
  define a where "a = pde_address s laddr'"
  define b where "b = pte_address (mem_entry s a) laddr'"
  have al: "unat a mod 4 = 0" "unat b mod 4 = 0" by (simp_all add: a_def b_def entry_aligned)
  note keep = entry_bits_kept [OF al(1), of _ s laddr wr, folded s'_def]
    entry_bits_kept [OF al(2), of _ s laddr wr, folded s'_def]
    entry_parts_kept [OF al(1), of s laddr wr, folded s'_def] entry_parts_kept [OF al(2), of s laddr wr, folded s'_def]
  have b: "pte_address (mem_entry s' a) laddr' = b" by (simp add: pte_address_def b_def keep)
  have "walk_4K s' (mem_entry s' a) laddr' user' wr' = walk_4K s (mem_entry s a) laddr' user' wr'"
    unfolding walk_4K_def Let_def b b_def [symmetric]
    by (simp add: keep walk_state_fields [where s = s and laddr = laddr and wr = wr, folded s'_def])
  moreover have "walk_4M wp (mem_entry s' a) laddr' user' wr' = walk_4M wp (mem_entry s a) laddr' user' wr'" for wp
    unfolding walk_4M_def by (simp add: keep)
  ultimately show ?thesis
    unfolding walk_def Let_def s'_def [symmetric]
    by (simp add: keep walk_state_fields [where s = s and laddr = laddr and wr = wr, folded s'_def] flip: a_def)
qed

text \<open>The translation keeps the offset within the page.\<close>

lemma walk_offset: "walk s laddr user wr = Inr pa \<Longrightarrow> pa AND 0xfff = laddr AND 0xfff"
proof -
  have parts: "((e AND 0xffc00000) OR (laddr AND 0x003fffff)) AND 0xfff = laddr AND 0xfff"
    "((e AND 0xfffff000) OR (laddr AND 0xfff)) AND 0xfff = laddr AND 0xfff" for e :: "32 word"
    by (rule bit_word_eqI, simp only: bit_or_iff bit_and_iff bit_word_masks, auto)+
  assume "walk s laddr user wr = Inr pa"
  then show ?thesis
    unfolding walk_def walk_4M_def walk_4K_def Let_def by (auto simp only: parts split: if_splits)
qed

end
