(* ===== verification/LinearMem.thy ===== *)
theory LinearMem
  imports PageWalk SegCheck
begin

text \<open>
  Linear accesses (\<open>cpu/paging.cc\<close>) over the page walk: an access that crosses a
  page translates both pages before it writes a byte, so a page fault leaves
  memory as it was but for accessed and dirty bits; what is written is read
  back; and the two halves of a read-modify-write access do together what a
  plain write does.
\<close>

section \<open>Memory up to accessed and dirty bits\<close>

definition same_but_AD :: "bx_cpu_c \<Rightarrow> bx_cpu_c \<Rightarrow> bool" where
  "same_but_AD s s' \<longleftrightarrow> (\<forall>x k. k \<noteq> 5 \<longrightarrow> k \<noteq> 6 \<longrightarrow>
    bit (vector (bx_mem s') x) k = bit (vector (bx_mem s) x) k)"

lemma same_but_AD_refl [simp]: "same_but_AD s s"
  by (simp add: same_but_AD_def)

lemma same_but_AD_trans: "same_but_AD s t \<Longrightarrow> same_but_AD t u \<Longrightarrow> same_but_AD s u"
  by (simp add: same_but_AD_def)

lemma walk_state_AD: "same_but_AD s (walk_state s laddr wr)"
proof -
  obtain t where t: "vector (bx_mem (walk_state s laddr wr)) = (\<lambda>x. vector (bx_mem s) x OR t x)"
    and bits: "\<And>x. t x \<in> {0, 0x20} \<or> (wr \<and> t x = 0x60)"
    by (rule walk_state_memory [of s laddr wr]) blast
  show ?thesis
    unfolding same_but_AD_def t using bits_marks [OF bits] by (auto simp only: bit_or_iff)
qed

lemma translate_AD: "same_but_AD s (snd (translate_linear laddr pl rw s))"
proof (cases "walk s laddr (pl = 3) (bit rw 0)")
  case (Inl f)
  then show ?thesis unfolding translate_linear_run by (cases f) (simp_all add: same_but_AD_def)
next
  case (Inr pa)
  then show ?thesis unfolding translate_linear_run by (simp add: walk_state_AD)
qed

lemma xlation_run: "xlation f s = (Inr (), s\<lparr>address_xlation := f (address_xlation s)\<rparr>)"
  by (simp add: xlation_def modifyM_apply)

lemma same_but_AD_fields [simp]:
  "same_but_AD s (t\<lparr>address_xlation := x\<rparr>) = same_but_AD s t"
  "same_but_AD (s\<lparr>address_xlation := x\<rparr>) t = same_but_AD s t"
  by (simp_all add: same_but_AD_def)

text \<open>A write that raises a processor exception has not written its data.\<close>

lemma write_physical_no_exception:
  "access_write_physical pa data s = (Inl (Exception v c), s') \<Longrightarrow> False"
  by (simp add: access_write_physical_run split: if_splits)

lemma write_linear_fault:
  assumes "access_write_linear laddr pl data s = (Inl (Exception v c), s')"
  shows "same_but_AD s s'"
proof -
  have tr: "same_but_AD t t'" if "dtranslate_linear l pl BX_WRITE t = (r, t')" for l t r t'
    using translate_AD [of t l pl BX_WRITE] that by (simp add: dtranslate_linear_def)
  show ?thesis
    using assms unfolding access_write_linear_def Let_def
    by (auto simp: bindM_apply seqM_apply xlation_run split: if_splits prod.splits sum.splits
      dest!: tr write_physical_no_exception intro: same_but_AD_trans)
qed

section \<open>Reading back\<close>

lemma phys_ok_fields [simp]:
  "phys_ok a n (s\<lparr>address_xlation := x\<rparr>) = phys_ok a n s"
  "phys_ok a n (s\<lparr>bx_mem := (bx_mem s)\<lparr>vector := v\<rparr>\<rparr>) = phys_ok a n s"
  "phys_ok a n (s\<lparr>address_xlation := x, bx_mem := (bx_mem s)\<lparr>vector := v\<rparr>\<rparr>) = phys_ok a n s"
  by (simp_all add: phys_ok_def host_mapped_def mem_mapped_def)

text \<open>A write within a page is read back, provided it does not overwrite the
  entries that translate it.\<close>

definition clear_of_tables :: "bx_cpu_c \<Rightarrow> 32 word \<Rightarrow> 32 word \<Rightarrow> nat \<Rightarrow> bool" where
  "clear_of_tables s laddr pa n =
    list_all (\<lambda>a. list_all (\<lambda>k. list_all (\<lambda>j. pa + of_nat k \<noteq> a + of_nat j) [0..<4]) [0..<n])
      (walk_entries s laddr)"

lemma walk_mono: "walk s laddr user True = Inr pa \<Longrightarrow> walk s laddr user False = Inr pa"
  unfolding walk_def walk_4M_def walk_4K_def page_allows_def Let_def by (auto split: if_splits)

lemma stored_or_not:
  assumes "\<And>k. k < length bs \<Longrightarrow> x \<noteq> a + of_nat k"
  shows "store_bytes vec a bs x = vec x"
proof -
  have "\<not> unat (x - a) < length bs" using assms [of "unat (x - a)"] by auto
  then show ?thesis by (simp add: store_bytes_def)
qed

lemma clear_of_tablesD:
  assumes "clear_of_tables s laddr pa n" "a \<in> set (walk_entries s laddr)" "k < n" "j < 4"
  shows "pa + of_nat k \<noteq> a + of_nat j"
proof -
  have "\<forall>a \<in> set (walk_entries s laddr). \<forall>k \<in> {0..<n}. \<forall>j \<in> {0..<4}. pa + of_nat k \<noteq> a + of_nat j"
    using assms(1) unfolding clear_of_tables_def list_all_iff set_upt .
  with assms(2-4) show ?thesis by simp
qed

lemma clear_entry:
  assumes "clear_of_tables s laddr pa (length bs)" "a \<in> set (walk_entries s laddr)"
  shows "load_bytes (store_bytes vec pa bs) a 4 = load_bytes vec a 4"
proof -
  have "store_bytes vec pa bs (a + of_nat j) = vec (a + of_nat j)" if "j < 4" for j
    using clear_of_tablesD [OF assms(1,2) _ that] by (intro stored_or_not) metis
  then show ?thesis by (auto simp: load_bytes_def)
qed

lemma walk_entries_kept: "walk_entries (walk_state s laddr wr) laddr' = walk_entries s laddr'"
proof -
  have "mem_entry (walk_state s laddr wr) a AND 0xfffff000 = mem_entry s a AND 0xfffff000"
    "bit (mem_entry (walk_state s laddr wr) a) 7 = bit (mem_entry s a) 7" if "unat a mod 4 = 0" for a
    using entry_parts_kept(1) [OF that] entry_bits_kept [OF that, of 7] by auto
  then show ?thesis
    unfolding walk_entries_def Let_def pte_address_def by (simp add: walk_state_fields entry_aligned)
qed

lemma walk_cong:
  assumes "\<And>a. a \<in> set (walk_entries s laddr) \<Longrightarrow> mem_entry s' a = mem_entry s a"
    and "cr0 s' = cr0 s" "cr3 s' = cr3 s" "cr4 s' = cr4 s" "\<And>a n. phys_ok a n s' = phys_ok a n s"
  shows "walk s' laddr user wr = walk s laddr user wr" "walk_entries s' laddr = walk_entries s laddr"
proof -
  have *: "paging_on s' = paging_on s" "pse_on s' = pse_on s" "wp_on s' = wp_on s"
    "pde_address s' laddr = pde_address s laddr"
    using assms(2-4) by (simp_all add: paging_on_def pse_on_def wp_on_def pde_address_def)
  show "walk s' laddr user wr = walk s laddr user wr" "walk_entries s' laddr = walk_entries s laddr"
    using assms(1) unfolding walk_def walk_entries_def walk_4K_def Let_def * assms(5)
    by (auto split: if_splits)
qed

lemma linear_roundtrip:
  assumes "PAGE_OFFSET laddr + of_nat (length data) \<le> 4096"
    and "access_write_linear laddr pl data s = (Inr (), s')"
    and "walk s laddr (pl = 3) True = Inr pa" "clear_of_tables s laddr pa (length data)"
    and "length data \<le> 4096"
  shows "fst (access_read_linear laddr (length data) pl BX_READ (s'\<lparr>sregs := R\<rparr>)) = Inr data"
proof -
  define s2 where "s2 = s'\<lparr>sregs := R\<rparr>"
  define s1 where "s1 = walk_state s laddr True"
  have "dtranslate_linear laddr pl BX_WRITE s = (Inr pa, s1)"
    using assms(3) by (simp add: dtranslate_linear_def translate_linear_run s1_def)
  then obtain X where ok: "phys_ok pa (length data) s1" and s2: "s2 = s1\<lparr>address_xlation := X,
      bx_mem := (bx_mem s1)\<lparr>vector := store_bytes (vector (bx_mem s1)) pa data\<rparr>, sregs := R\<rparr>"
    unfolding s2_def using assms(1,2) unfolding access_write_linear_def Let_def
    by (auto simp: bindM_apply seqM_apply xlation_run access_write_physical_run split: if_splits)
  have ent: "mem_entry s2 a = mem_entry s1 a" if "a \<in> set (walk_entries s laddr)" for a
    using clear_entry [OF assms(4) that, of "vector (bx_mem s1)"] by (simp add: s2 mem_entry_def)
  have f: "cr0 s2 = cr0 s1" "cr3 s2 = cr3 s1" "cr4 s2 = cr4 s1" by (simp_all add: s2)
  have po: "phys_ok a n s2 = phys_ok a n s1" for a n by (simp add: s2 phys_ok_def host_mapped_def mem_mapped_def)
  have "walk s2 laddr (pl = 3) False = walk s1 laddr (pl = 3) False" "walk_entries s2 laddr = walk_entries s laddr"
    using walk_cong [of s1 laddr s2] ent f po by (simp_all add: walk_entries_kept s1_def)
  then have w: "walk s2 laddr (pl = 3) False = Inr pa" and we: "walk_entries s2 laddr = walk_entries s laddr"
    using walk_mono [OF assms(3)] by (simp_all add: s1_def walk_unchanged)
  obtain t where t: "vector (bx_mem (walk_state s2 laddr False)) = (\<lambda>x. vector (bx_mem s2) x OR t x)"
    and t0: "\<And>x. t x \<noteq> 0 \<Longrightarrow> x \<in> set (walk_entries s2 laddr)"
    by (rule walk_state_memory [of s2 laddr False]) blast
  have "t (pa + of_nat k) = 0" if "k < length data" for k
    using t0 [of "pa + of_nat k"] clear_of_tablesD [OF assms(4) _ that, of "pa + of_nat k" 0] we by auto
  then have "load_bytes (vector (bx_mem (walk_state s2 laddr False))) pa (length data) =
      load_bytes (vector (bx_mem s2)) pa (length data)"
    unfolding t by (simp add: load_bytes_def)
  moreover have "load_bytes (vector (bx_mem s2)) pa (length data) = data"
    using assms(5) by (simp add: s2 load_store_same)
  ultimately show ?thesis
    using assms(1) ok w po unfolding access_read_linear_def dtranslate_linear_def Let_def s2_def [symmetric]
    by (simp add: BX_ASSERT_def bindM_apply seqM_apply xlation_run access_read_physical_run returnM_apply
        translate_linear_run walk_state_fields)
qed

section \<open>Read-modify-write\<close>

lemma translate_rw: "dtranslate_linear laddr pl BX_RW = dtranslate_linear laddr pl BX_WRITE"
proof -
  have "bit (BX_RW) 0" "bit (BX_WRITE) 0" by simp_all
  then show ?thesis by (intro ext) (simp only: dtranslate_linear_def translate_linear_run)
qed

lemma translate_xlation: "address_xlation (snd (dtranslate_linear laddr pl rw s)) = address_xlation s"
  unfolding dtranslate_linear_def translate_linear_run walk_state_def touch_def set_entry_def Let_def
  by (simp split: sum.split fault.split)

lemma page_offset_less: "unat (PAGE_OFFSET laddr) < 4096"
proof -
  have "PAGE_OFFSET laddr = take_bit 12 laddr"
    unfolding PAGE_OFFSET_def by (rule bit_word_eqI) (simp only: bit_and_iff bit_word_masks bit_take_bit_iff, auto)
  then have "unat (PAGE_OFFSET laddr) = take_bit 12 (unat laddr)"
    by (simp only: unsigned_take_bit_eq)
  then have "unat (PAGE_OFFSET laddr) = unat laddr mod 4096"
    by (simp add: take_bit_eq_mod)
  then show ?thesis by simp
qed

lemma page_split:
  assumes "\<not> PAGE_OFFSET laddr + of_nat n \<le> 4096" "n \<le> 8"
  defines "l \<equiv> 4096 - PAGE_OFFSET laddr"
  shows "unat l + unat (of_nat n - l) = n" "0 < unat l" "unat l < n"
proof -
  define p where "p = unat (PAGE_OFFSET laddr)"
  have p: "p < 4096" using page_offset_less by (simp add: p_def)
  have un: "unat (of_nat n :: 32 word) = n" using assms(2) by (intro unat_of_nat_32) simp
  have "unat (PAGE_OFFSET laddr + of_nat n) = p + n"
    using p assms(2) un by (subst unat_plus_simple [THEN iffD1]) (simp_all add: no_olen_add_nat p_def)
  then have n: "4096 < p + n" using assms(1) by (simp add: word_le_nat_alt)
  have l: "unat l = 4096 - p" using p by (simp add: l_def unat_sub_if_size word_size p_def)
  moreover have "unat (of_nat n - l) = n - unat l" using l n un by (simp add: unat_sub_if_size word_size)
  ultimately show "unat l + unat (of_nat n - l) = n" "0 < unat l" "unat l < n" using n p by auto
qed

text \<open>What the write half of a read-modify-write access promises: it writes its
  bytes to the page or the two pages the read half has translated.\<close>

locale rmw_writer =
  fixes W :: "unit cpu_monad" and data :: "8 word list"
  assumes short: "length data \<le> 8"
    and one_page: "pages (address_xlation t) = 1 \<Longrightarrow>
      W t = access_write_physical (paddress1 (address_xlation t)) data t"
    and two_pages: "pages (address_xlation t) = 2 \<Longrightarrow> unat (len1 (address_xlation t)) = n \<Longrightarrow>
      unat (len2 (address_xlation t)) = length data - n \<Longrightarrow> 0 < n \<Longrightarrow> n < length data \<Longrightarrow>
      W t = seqM (access_write_physical (paddress1 (address_xlation t)) (take n data))
        (access_write_physical (paddress2 (address_xlation t)) (drop n data)) t"
begin

lemma linear:
  assumes "access_write_linear laddr pl data s = (Inr (), s')"
  shows "bindM (access_read_linear laddr (length data) pl BX_RW) (\<lambda>_. W) s = (Inr (), s')"
proof (cases "PAGE_OFFSET laddr + of_nat (length data) \<le> 4096")
  case True
  then show ?thesis
    using assms unfolding access_write_linear_def access_read_linear_def Let_def translate_rw
    by (auto simp: one_page bindM_apply seqM_apply xlation_run access_write_physical_run access_read_physical_run BX_ASSERT_def
      returnM_apply getsM_apply split: if_splits prod.splits sum.splits)
next
  case False
  define l where "l = 4096 - PAGE_OFFSET laddr"
  have sz: "unat l + unat (of_nat (length data) - l) = length data" "0 < unat l" "unat l < length data"
    using page_split [OF False short] by (simp_all add: l_def)
  have drp: "take (unat (of_nat (length data) - l)) (drop (unat l) data) = drop (unat l) data"
    using sz(1) by (intro take_all) simp
  have len: "length (take (unat l) data) = unat l" "length (drop (unat l) data) = unat (of_nat (length data) - l)"
    using sz by auto
  note run = bindM_apply seqM_apply xlation_run access_write_physical_run access_read_physical_run BX_ASSERT_def
      returnM_apply getsM_apply drp len
  have wl: "access_write_linear laddr pl data s =
    bindM (dtranslate_linear laddr pl BX_WRITE) (\<lambda>pa.
      seqM (xlation (\<lambda>x. x\<lparr>paddress1 := pa\<rparr>))
      (seqM (xlation (\<lambda>x. x\<lparr>len1 := l, len2 := of_nat (length data) - l, pages := 2\<rparr>))
      (bindM (dtranslate_linear (laddr + l) pl BX_WRITE) (\<lambda>pb.
      seqM (xlation (\<lambda>x. x\<lparr>paddress2 := pb\<rparr>))
      (seqM (access_write_physical pa (take (unat l) data))
        (access_write_physical pb (drop (unat l) data))))))) s"
    using False by (simp add: access_write_linear_def Let_def l_def)
  then obtain pa s1 where t1: "dtranslate_linear laddr pl BX_WRITE s = (Inr pa, s1)"
    using assms by (auto simp: bindM_apply split: prod.splits sum.splits)
  define s2 where "s2 = s1\<lparr>address_xlation :=
    (address_xlation s1)\<lparr>paddress1 := pa, len1 := l, len2 := of_nat (length data) - l, pages := 2\<rparr>\<rparr>"
  obtain pb s3 where t2: "dtranslate_linear (laddr + l) pl BX_WRITE s2 = (Inr pb, s3)"
    using assms t1 unfolding wl by (auto simp: run s2_def split: prod.splits sum.splits)
  define s4 where "s4 = s3\<lparr>address_xlation := (address_xlation s3)\<lparr>paddress2 := pb\<rparr>\<rparr>"
  have x4: "address_xlation s4 = (address_xlation s2)\<lparr>paddress2 := pb\<rparr>"
    using translate_xlation [of "laddr + l" pl BX_WRITE s2] t2 by (simp add: s4_def)
  have w: "seqM (access_write_physical pa (take (unat l) data)) (access_write_physical pb (drop (unat l) data)) s4
      = (Inr (), s')"
    using assms unfolding wl by (simp add: run t1 t2 [unfolded s2_def] s4_def)
  then have ok: "phys_ok pa (unat l) s4" "phys_ok pb (unat (of_nat (length data) - l)) s4"
    unfolding seqM_apply access_write_physical_run len by (auto split: if_splits)
  have "\<exists>r. access_read_linear laddr (length data) pl BX_RW s = (Inr r, s4)"
    using False ok unfolding access_read_linear_def Let_def translate_rw l_def [symmetric]
    by (simp add: run t1 t2 [unfolded s2_def] s4_def)
  moreover have "W s4 = (Inr (), s')"
    using w sz two_pages [of s4 "unat l"] by (simp add: x4 s2_def)
  ultimately show ?thesis by (auto simp: bindM_apply)
qed

lemma linear_fault:
  assumes "access_write_linear laddr pl data s = (Inl (Exception v c), s')"
  shows "bindM (access_read_linear laddr (length data) pl BX_RW) (\<lambda>_. W) s = (Inl (Exception v c), s')"
  using assms unfolding access_write_linear_def access_read_linear_def Let_def translate_rw
  by (auto simp: bindM_apply seqM_apply xlation_run BX_ASSERT_def returnM_apply
    split: if_splits prod.splits sum.splits dest: write_physical_no_exception)

lemma same_outcome:
  assumes "access_write_linear laddr pl data s = (r, s')" "r = Inr () \<or> (\<exists>v c. r = Inl (Exception v c))"
  shows "bindM (access_read_linear laddr (length data) pl BX_RW) (\<lambda>_. W) s = (r, s')"
  using assms linear linear_fault by blast

end

interpretation rmw1: rmw_writer "write_RMW_virtual_byte v" "le_bytes 1 v" for v
  by unfold_locales (simp_all add: write_RMW_virtual_byte_def bindM_apply getsM_apply)

interpretation rmw2: rmw_writer "write_RMW_virtual_word v" "le_bytes 2 v" for v
proof (unfold_locales, goal_cases)
  case (3 t n)
  then have "n = 1" by simp
  with 3 show ?case by (simp add: write_RMW_virtual_word_def bindM_apply getsM_apply)
qed (simp_all add: write_RMW_virtual_word_def bindM_apply getsM_apply)

interpretation rmw4: rmw_writer "write_RMW_virtual_dword v" "le_bytes 4 v" for v
  by unfold_locales (simp_all add: write_RMW_virtual_dword_def bindM_apply getsM_apply take_all)

interpretation rmw8: rmw_writer "write_RMW_virtual_qword v" "le_bytes 8 v" for v
  by unfold_locales (simp_all add: write_RMW_virtual_qword_def bindM_apply getsM_apply take_all)

text \<open>Both accesses share the segment and alignment checks, so the accessors
  inherit the equivalence.\<close>

lemma rmw_accessors:
  assumes "r = Inr () \<or> (\<exists>v c. r = Inl (Exception v c))"
  shows "write_virtual_word_32 k offset v16 s = (r, s') \<Longrightarrow>
    bindM (read_RMW_virtual_word_32 k offset) (\<lambda>_. write_RMW_virtual_word v16) s = (r, s')"
  "write_virtual_dword_32 k offset v32 s = (r, s') \<Longrightarrow>
    bindM (read_RMW_virtual_dword_32 k offset) (\<lambda>_. write_RMW_virtual_dword v32) s = (r, s')"
  "write_virtual_qword_32 k offset v64 s = (r, s') \<Longrightarrow>
    bindM (read_RMW_virtual_qword_32 k offset) (\<lambda>_. write_RMW_virtual_qword v64) s = (r, s')"
  using rmw2.same_outcome [OF _ assms] rmw4.same_outcome [OF _ assms] rmw8.same_outcome [OF _ assms]
  unfolding write_virtual_word_32_def read_RMW_virtual_word_32_def write_virtual_dword_32_def
    read_RMW_virtual_dword_32_def write_virtual_qword_32_def read_RMW_virtual_qword_32_def
  by (fastforce simp: bindM_apply seqM_apply getsM_apply returnM_apply split: prod.splits sum.splits)+

section \<open>The accessors on every branch\<close>

lemma check_alignment_0: "seqM (check_alignment laddr 0) M = M"
  by (rule ext) (simp add: check_alignment_def monad_simps)

lemma write_accessors_run:
  assumes "seg_caches_ok s" "cpu_mode s \<noteq> BX_MODE_LONG_64"
  shows "\<exists>b. write_virtual_byte_32 k offset v8 s = segmented_access type_writable 1 0 k offset
      (\<lambda>laddr pl. access_write_linear laddr pl (le_bytes 1 v8)) b s"
    and "\<exists>b. write_virtual_word_32 k offset v16 s = segmented_access type_writable 2 1 k offset
      (\<lambda>laddr pl. access_write_linear laddr pl (le_bytes 2 v16)) b s"
    and "\<exists>b. write_virtual_dword_32 k offset v32 s = segmented_access type_writable 4 3 k offset
      (\<lambda>laddr pl. access_write_linear laddr pl (le_bytes 4 v32)) b s"
    and "\<exists>b. write_virtual_qword_32 k offset v64 s = segmented_access type_writable 8 7 k offset
      (\<lambda>laddr pl. access_write_linear laddr pl (le_bytes 8 v64)) b s"
proof -
  have ok: "seg_cache_ok (sregs s k)" using assms(1) by (simp add: seg_caches_ok_def)
  note runs = w1.access [OF ok assms(2), of offset 0, unfolded check_alignment_0] w2.access [OF ok assms(2)]
    w4.access [OF ok assms(2)] w8.access [OF ok assms(2)]
  show "\<exists>b. write_virtual_byte_32 k offset v8 s = segmented_access type_writable 1 0 k offset
      (\<lambda>laddr pl. access_write_linear laddr pl (le_bytes 1 v8)) b s"
    "\<exists>b. write_virtual_word_32 k offset v16 s = segmented_access type_writable 2 1 k offset
      (\<lambda>laddr pl. access_write_linear laddr pl (le_bytes 2 v16)) b s"
    "\<exists>b. write_virtual_dword_32 k offset v32 s = segmented_access type_writable 4 3 k offset
      (\<lambda>laddr pl. access_write_linear laddr pl (le_bytes 4 v32)) b s"
    "\<exists>b. write_virtual_qword_32 k offset v64 s = segmented_access type_writable 8 7 k offset
      (\<lambda>laddr pl. access_write_linear laddr pl (le_bytes 8 v64)) b s"
    unfolding write_virtual_byte_32_def write_virtual_word_32_def write_virtual_dword_32_def write_virtual_qword_32_def
    by (rule runs)+
qed

lemma read_accessors_run:
  assumes "seg_caches_ok s" "cpu_mode s \<noteq> BX_MODE_LONG_64"
  shows "\<exists>b. read_virtual_byte_32 k offset s = segmented_access type_readable 1 0 k offset
      (\<lambda>laddr pl. bindM (access_read_linear laddr 1 pl BX_READ) (\<lambda>bs. returnM (le_word bs))) b s"
    and "\<exists>b. read_virtual_word_32 k offset s = segmented_access type_readable 2 1 k offset
      (\<lambda>laddr pl. bindM (access_read_linear laddr 2 pl BX_READ) (\<lambda>bs. returnM (le_word bs))) b s"
    and "\<exists>b. read_virtual_dword_32 k offset s = segmented_access type_readable 4 3 k offset
      (\<lambda>laddr pl. bindM (access_read_linear laddr 4 pl BX_READ) (\<lambda>bs. returnM (le_word bs))) b s"
    and "\<exists>b. read_virtual_qword_32 k offset s = segmented_access type_readable 8 7 k offset
      (\<lambda>laddr pl. bindM (access_read_linear laddr 8 pl BX_READ) (\<lambda>bs. returnM (le_word bs))) b s"
proof -
  have ok: "seg_cache_ok (sregs s k)" using assms(1) by (simp add: seg_caches_ok_def)
  note runs = r1.access [OF ok assms(2), of offset 0, unfolded check_alignment_0] r2.access [OF ok assms(2)]
    r4.access [OF ok assms(2)] r8.access [OF ok assms(2)]
  show "\<exists>b. read_virtual_byte_32 k offset s = segmented_access type_readable 1 0 k offset
      (\<lambda>laddr pl. bindM (access_read_linear laddr 1 pl BX_READ) (\<lambda>bs. returnM (le_word bs))) b s"
    "\<exists>b. read_virtual_word_32 k offset s = segmented_access type_readable 2 1 k offset
      (\<lambda>laddr pl. bindM (access_read_linear laddr 2 pl BX_READ) (\<lambda>bs. returnM (le_word bs))) b s"
    "\<exists>b. read_virtual_dword_32 k offset s = segmented_access type_readable 4 3 k offset
      (\<lambda>laddr pl. bindM (access_read_linear laddr 4 pl BX_READ) (\<lambda>bs. returnM (le_word bs))) b s"
    "\<exists>b. read_virtual_qword_32 k offset s = segmented_access type_readable 8 7 k offset
      (\<lambda>laddr pl. bindM (access_read_linear laddr 8 pl BX_READ) (\<lambda>bs. returnM (le_word bs))) b s"
    unfolding read_virtual_byte_32_def read_virtual_word_32_def read_virtual_dword_32_def read_virtual_qword_32_def
    by (rule runs)+
qed

section \<open>Reading back through a segment\<close>

lemma dtranslate_fields:
  "sregs (snd (dtranslate_linear laddr pl rw s)) = sregs s"
  "cpu_mode (snd (dtranslate_linear laddr pl rw s)) = cpu_mode s"
  "alignment_check (snd (dtranslate_linear laddr pl rw s)) = alignment_check s"
  unfolding dtranslate_linear_def translate_linear_run walk_state_def touch_def set_entry_def Let_def
  by (simp_all add: alignment_check_def split: sum.split fault.split)

definition write_fields :: "bx_cpu_c \<Rightarrow> (nat \<Rightarrow> bx_segment_reg_t) \<times> 32 word \<times> 32 word" where
  "write_fields s = (sregs s, cpu_mode s, alignment_check s)"

lemma write_linear_fields:
  assumes "access_write_linear laddr pl data s = (r, s')"
  shows "write_fields s' = write_fields s"
proof -
  have tr: "write_fields t' = write_fields t" if "dtranslate_linear l pl BX_WRITE t = (r, t')" for l t r t'
    using dtranslate_fields [of l pl BX_WRITE t] that by (simp add: write_fields_def)
  have up: "write_fields (t\<lparr>address_xlation := x\<rparr>) = write_fields t"
    "write_fields (t\<lparr>bx_mem := m\<rparr>) = write_fields t"
    "write_fields (t\<lparr>address_xlation := x, bx_mem := m\<rparr>) = write_fields t" for t x m
    by (simp_all add: write_fields_def alignment_check_def)
  show ?thesis
    using assms unfolding access_write_linear_def Let_def
    by (auto simp: bindM_apply seqM_apply xlation_run access_write_physical_run up
      split: if_splits prod.splits sum.splits dest!: tr)
qed

lemma ucast_3: "(ucast (c :: 8 word) :: 32 word) = 3 \<longleftrightarrow> c = 3"
proof
  assume "(ucast c :: 32 word) = 3"
  then have "ucast (ucast c :: 32 word) = (3 :: 8 word)" by simp
  then show "c = 3" by (simp add: ucast_down_ucast_id is_down)
qed simp

lemma segmented_roundtrip:
  fixes data :: "8 word list"
  defines "n \<equiv> length data"
  assumes "segmented_access type_writable n m k offset (\<lambda>laddr pl. access_write_linear laddr pl data) b s = (Inr (), s')"
    and laddr: "laddr = seg_base (cache (sregs s k)) + offset" "PAGE_OFFSET laddr + of_nat n \<le> 4096"
    and walk: "walk s laddr (CPL s = 3) True = Inr pa" "clear_of_tables s laddr pa n" and short: "n \<le> 4096"
  shows "fst (segmented_access type_readable n m k offset
      (\<lambda>laddr pl. bindM (access_read_linear laddr n pl BX_READ) (\<lambda>bs. returnM (le_word bs))) b' s') = Inr (le_word data)"
proof -
  define s0 where "s0 = s\<lparr>sregs := (sregs s)(k := mark_valid b (sregs s k))\<rparr>"
  have ok: "seg_allows type_writable (sregs s k) offset n" "\<not> (alignment_check s \<noteq> 0 \<and> laddr AND m \<noteq> 0)"
    and wr: "access_write_linear laddr (ucast (CPL s)) data s0 = (Inr (), s')"
    using assms(2) unfolding segmented_access_def Let_def s0_def [symmetric] laddr(1) [symmetric]
    by (auto split: if_splits)
  have "walk s0 laddr u wr = walk s laddr u wr" "walk_entries s0 laddr = walk_entries s laddr" for u wr
    by (rule walk_cong; simp add: s0_def mem_entry_def phys_ok_def)+
  then have rd: "fst (access_read_linear laddr n (ucast (CPL s)) BX_READ (s'\<lparr>sregs := R\<rparr>)) = Inr data" for R
    unfolding n_def using laddr(2) wr walk short
    by (intro linear_roundtrip [where s = s0]) (simp_all add: ucast_3 clear_of_tables_def n_def)
  have f: "sregs s' = (sregs s)(k := mark_valid b (sregs s k))" "alignment_check s' = alignment_check s"
    using write_linear_fields [OF wr] by (simp_all add: write_fields_def s0_def alignment_check_def)
  then have "CPL s' = CPL s" by (simp add: CPL_def)
  moreover have "seg_allows type_readable (sregs s' k) offset n"
    using ok(1) unfolding seg_allows_def seg_bounds_def upper_limit_def f
    by (auto simp: type_writable_def type_readable_def or_eq_0_iff)
  ultimately show ?thesis
    using ok(2) rd unfolding segmented_access_def Let_def
    by (simp add: f laddr(1) [symmetric] bindM_apply returnM_apply split: prod.split sum.split) (metis fst_conv sum.distinct(1) sum.inject(2))
qed

end
