(* ===== verification/SegLoad.thy ===== *)
theory SegLoad
  imports CpuCtl LinearMem
begin

text \<open>
  Segment descriptors and loads of segment registers: \<open>cpu/segment_ctrl_pro.cc\<close>.
  A descriptor is parsed from its two words and packed back; a load in protected
  mode fetches the descriptor from the GDT or LDT, checks type, privilege and
  presence, marks it accessed and fills the cache; a load in real or virtual-8086
  mode computes the base.  The members of the descriptor's union are separate
  fields of the record, and each operation writes those the source writes.
\<close>

section \<open>Type bits\<close>

definition IS_CODE_SEGMENT :: "8 word \<Rightarrow> bool" where
  "IS_CODE_SEGMENT type = (drop_bit 3 type AND 0x1 \<noteq> 0)"
definition IS_CODE_SEGMENT_CONFORMING :: "8 word \<Rightarrow> bool" where
  "IS_CODE_SEGMENT_CONFORMING type = (drop_bit 2 type AND 0x1 \<noteq> 0)"
definition IS_CODE_SEGMENT_READABLE :: "8 word \<Rightarrow> bool" where
  "IS_CODE_SEGMENT_READABLE type = (drop_bit 1 type AND 0x1 \<noteq> 0)"
definition IS_DATA_SEGMENT_WRITEABLE :: "8 word \<Rightarrow> bool" where
  "IS_DATA_SEGMENT_WRITEABLE type = (drop_bit 1 type AND 0x1 \<noteq> 0)"
definition IS_SEGMENT_ACCESSED :: "8 word \<Rightarrow> bool" where
  "IS_SEGMENT_ACCESSED type = (type AND 0x1 \<noteq> 0)"
definition IS_DATA_SEGMENT :: "8 word \<Rightarrow> bool" where
  "IS_DATA_SEGMENT type = (\<not> IS_CODE_SEGMENT type)"
definition IS_CODE_SEGMENT_NON_CONFORMING :: "8 word \<Rightarrow> bool" where
  "IS_CODE_SEGMENT_NON_CONFORMING type = (\<not> IS_CODE_SEGMENT_CONFORMING type)"

section \<open>Packing and parsing\<close>

definition get_ar_byte :: "bx_descriptor_t \<Rightarrow> 8 word" where
  "get_ar_byte d = ucast (ucast (d_type d) OR push_bit 4 (d_segment d) OR push_bit 5 (ucast (d_dpl d))
    OR push_bit 7 (d_p d) :: 32 word)"

definition set_ar_byte :: "8 word \<Rightarrow> bx_descriptor_t \<Rightarrow> bx_descriptor_t" where
  "set_ar_byte ar_byte d = d\<lparr>
    d_p := ucast (drop_bit 7 ar_byte AND 0x01),
    d_dpl := drop_bit 5 ar_byte AND 0x03,
    d_segment := ucast (drop_bit 4 ar_byte AND 0x01),
    d_type := ar_byte AND 0x0f\<rparr>"

text \<open>The system types that describe a segment (LDT and task state segments).\<close>

definition is_system_segment :: "8 word \<Rightarrow> bool" where
  "is_system_segment type = (type \<in> {0x1, 0x2, 0x3, 0x9, 0xb})"

definition descriptor_limit :: "bx_descriptor_t \<Rightarrow> 32 word" where
  "descriptor_limit d = (if seg_g d \<noteq> 0 then drop_bit 12 (limit_scaled d) else limit_scaled d)"

definition get_descriptor_l :: "bx_descriptor_t \<Rightarrow> 32 word" where
  "get_descriptor_l d =
    (let limit = descriptor_limit d;
         val = push_bit 16 (seg_base d AND 0xffff) OR (limit AND 0xffff)
     in if d_segment d \<noteq> 0 then val
        else if is_system_segment (d_type d) then val
        else 0)"

definition get_descriptor_h :: "bx_descriptor_t \<Rightarrow> 32 word" where
  "get_descriptor_h d =
    (let limit = descriptor_limit d in
     if d_segment d \<noteq> 0 then
       (seg_base d AND 0xff000000) OR (drop_bit 16 (seg_base d) AND 0x000000ff) OR
       push_bit 8 (ucast (d_type d)) OR push_bit 12 (d_segment d) OR push_bit 13 (ucast (d_dpl d)) OR
       push_bit 15 (d_p d) OR (limit AND 0xf0000) OR push_bit 20 (seg_avl d) OR
       push_bit 22 (seg_d_b d) OR push_bit 23 (seg_g d)
     else if is_system_segment (d_type d) then
       (drop_bit 16 (seg_base d) AND 0xff) OR push_bit 8 (ucast (d_type d)) OR
       push_bit 13 (ucast (d_dpl d)) OR push_bit 15 (d_p d) OR (limit AND 0xf0000) OR
       push_bit 20 (seg_avl d) OR push_bit 22 (seg_d_b d) OR push_bit 23 (seg_g d) OR
       (seg_base d AND 0xff000000)
     else 0)"

definition set_segment_ar_data ::
  "32 word \<Rightarrow> 16 word \<Rightarrow> 32 word \<Rightarrow> 32 word \<Rightarrow> 16 word \<Rightarrow> bx_segment_reg_t \<Rightarrow> 32 word \<times> bx_segment_reg_t" where
  "set_segment_ar_data vld raw_selector base limit ar_data seg =
    (let d = (cache seg)\<lparr>
           d_p := ucast (drop_bit 7 ar_data AND 0x1),
           d_dpl := ucast (drop_bit 5 ar_data AND 0x3),
           d_segment := ucast (drop_bit 4 ar_data AND 0x1),
           d_type := ucast (ar_data AND 0x0f),
           valid := vld\<rparr>;
         d' = (if d_segment d \<noteq> 0 \<or> is_system_segment (d_type d) then
             d\<lparr>seg_g := ucast (drop_bit 15 ar_data AND 0x1),
               seg_d_b := ucast (drop_bit 14 ar_data AND 0x1),
               seg_avl := ucast (drop_bit 12 ar_data AND 0x1),
               seg_base := base,
               limit_scaled := limit\<rparr>
           else d)
     in (valid d', \<lparr>selector = parse_selector raw_selector, cache = d'\<rparr>))"

definition parse_segment :: "32 word \<Rightarrow> 32 word \<Rightarrow> bx_descriptor_t \<Rightarrow> bx_descriptor_t" where
  "parse_segment dword1 dword2 d =
    (let limit = (dword1 AND 0xffff) OR (dword2 AND 0x000F0000);
         g = of_bool (0 < dword2 AND 0x00800000)
     in d\<lparr>
       seg_base := drop_bit 16 dword1 OR push_bit 16 (dword2 AND 0xFF) OR (dword2 AND 0xFF000000),
       seg_g := g,
       seg_d_b := of_bool (0 < dword2 AND 0x00400000),
       seg_avl := of_bool (0 < dword2 AND 0x00100000),
       limit_scaled := (if g \<noteq> 0 then push_bit 12 limit OR 0xfff else limit),
       valid := 1\<rparr>)"

definition parse_descriptor :: "32 word \<Rightarrow> 32 word \<Rightarrow> bx_descriptor_t \<Rightarrow> bx_descriptor_t" where
  "parse_descriptor dword1 dword2 temp =
    (let AR_byte = ucast (drop_bit 8 dword2) :: 8 word;
         d = temp\<lparr>
           d_p := ucast (drop_bit 7 AR_byte AND 0x1),
           d_dpl := drop_bit 5 AR_byte AND 0x3,
           d_segment := ucast (drop_bit 4 AR_byte AND 0x1),
           d_type := AR_byte AND 0xf,
           valid := 0\<rparr>
     in if d_segment d \<noteq> 0 then parse_segment dword1 dword2 d
        else if d_type d \<in> {0x4, 0x6, 0x7} then
          d\<lparr>gate_param_count := ucast (dword2 AND 0x1f), gate_dest_selector := ucast (drop_bit 16 dword1),
            gate_dest_offset := dword1 AND 0xffff, valid := 1\<rparr>
        else if d_type d \<in> {0xc, 0xe, 0xf} then
          d\<lparr>gate_param_count := ucast (dword2 AND 0x1f), gate_dest_selector := ucast (drop_bit 16 dword1),
            gate_dest_offset := (dword2 AND 0xffff0000) OR (dword1 AND 0x0000ffff), valid := 1\<rparr>
        else if d_type d = 0x5 then
          d\<lparr>taskgate_tss_selector := ucast (drop_bit 16 dword1), valid := 1\<rparr>
        else if is_system_segment (d_type d) then parse_segment dword1 dword2 d
        else d\<lparr>valid := 0\<rparr>)"

section \<open>Descriptor tables\<close>

definition touch_segment :: "bx_selector_t \<Rightarrow> bx_descriptor_t \<Rightarrow> bx_descriptor_t cpu_monad" where
  "touch_segment sel d =
    (if \<not> IS_SEGMENT_ACCESSED (d_type d) then
       (let AR_byte = get_ar_byte d OR 1; d' = d\<lparr>d_type := d_type d OR 1\<rparr> in
        seqM (if sel_ti sel = 0
          then bindM (getsM (\<lambda>s. gseg_base (gdtr s))) (\<lambda>base.
            access_write_linear (base + ucast (sel_index sel) * 8 + 5) 0 [AR_byte])
          else bindM (getsM (\<lambda>s. seg_base (cache (ldtr s)))) (\<lambda>base.
            access_write_linear (base + ucast (sel_index sel) * 8 + 5) 0 [AR_byte]))
        (returnM d'))
     else returnM d)"

definition fetch_raw_descriptor :: "bx_selector_t \<Rightarrow> nat \<Rightarrow> (32 word \<times> 32 word) cpu_monad" where
  "fetch_raw_descriptor sel exception_no =
    (let index = ucast (sel_index sel) :: 32 word in
     bindM (if sel_ti sel = 0 then
         bindM (getsM gdtr) (\<lambda>t.
           if index * 8 + 7 > ucast (gseg_limit t) then exception exception_no (sel_value sel AND 0xfffc)
           else returnM (gseg_base t + index * 8))
       else
         bindM (getsM (\<lambda>s. cache (ldtr s))) (\<lambda>t.
           if valid t = 0 then exception exception_no (sel_value sel AND 0xfffc)
           else if index * 8 + 7 > limit_scaled t then exception exception_no (sel_value sel AND 0xfffc)
           else returnM (seg_base t + index * 8)))
     (\<lambda>offset. bindM (system_read_qword offset) (\<lambda>raw.
       returnM (ucast raw, ucast (drop_bit 32 raw)))))"

section \<open>Loading a segment register\<close>

definition load_null_selector :: "nat \<Rightarrow> 16 word \<Rightarrow> unit cpu_monad" where
  "load_null_selector k value =
    seqM (BX_ASSERT (value AND 0xfffc = 0))
    (modifyM (\<lambda>s. s\<lparr>sregs := (sregs s)(k := (sregs s k)\<lparr>
      selector := \<lparr>sel_value = value, sel_index = 0, sel_ti = 0, sel_rpl = ucast (value AND 0x03)\<rparr>,
      cache := (cache (sregs s k))\<lparr>valid := 0, d_p := 0, d_dpl := 0, d_segment := 1, d_type := 0,
        seg_base := 0, limit_scaled := 0, seg_g := 0, seg_d_b := 0, seg_avl := 0\<rparr>\<rparr>)\<rparr>))"

definition store_segment :: "nat \<Rightarrow> bx_selector_t \<Rightarrow> bx_descriptor_t \<Rightarrow> unit cpu_monad" where
  "store_segment k sel d =
    modifyM (\<lambda>s. s\<lparr>sregs := (sregs s)(k := \<lparr>selector = sel, cache = d\<lparr>valid := 1\<rparr>\<rparr>)\<rparr>)"

definition load_SS_protected :: "16 word \<Rightarrow> bx_descriptor_t \<Rightarrow> unit cpu_monad" where
  "load_SS_protected new_value temp =
    (let ss_selector = parse_selector new_value; gp = exception BX_GP_EXCEPTION (new_value AND 0xfffc) in
     if new_value AND 0xfffc = 0 then gp
     else
       bindM (fetch_raw_descriptor ss_selector BX_GP_EXCEPTION) (\<lambda>(dword1, dword2).
       bindM (getsM CPL) (\<lambda>cpl.
       if sel_rpl ss_selector \<noteq> cpl then gp
       else
         (let descriptor = parse_descriptor dword1 dword2 temp in
          if valid descriptor = 0 then gp
          else if d_segment descriptor = 0 \<or> IS_CODE_SEGMENT (d_type descriptor) \<or>
            \<not> IS_DATA_SEGMENT_WRITEABLE (d_type descriptor) then gp
          else if d_dpl descriptor \<noteq> cpl then gp
          else if d_p descriptor = 0 then exception BX_SS_EXCEPTION (new_value AND 0xfffc)
          else
            bindM (touch_segment ss_selector descriptor) (\<lambda>descriptor.
            store_segment BX_SEG_REG_SS ss_selector descriptor)))))"

definition load_data_protected :: "nat \<Rightarrow> 16 word \<Rightarrow> bx_descriptor_t \<Rightarrow> unit cpu_monad" where
  "load_data_protected k new_value temp =
    (if new_value AND 0xfffc = 0 then load_null_selector k new_value
     else
       (let sel = parse_selector new_value; gp = exception BX_GP_EXCEPTION (new_value AND 0xfffc) in
        bindM (fetch_raw_descriptor sel BX_GP_EXCEPTION) (\<lambda>(dword1, dword2).
        (let descriptor = parse_descriptor dword1 dword2 temp in
         if valid descriptor = 0 then gp
         else if d_segment descriptor = 0 \<or> (IS_CODE_SEGMENT (d_type descriptor) \<and>
           \<not> IS_CODE_SEGMENT_READABLE (d_type descriptor)) then gp
         else
           bindM (getsM CPL) (\<lambda>cpl.
           if (IS_DATA_SEGMENT (d_type descriptor) \<or> IS_CODE_SEGMENT_NON_CONFORMING (d_type descriptor)) \<and>
              (sel_rpl sel > d_dpl descriptor \<or> cpl > d_dpl descriptor) then gp
           else if d_p descriptor = 0 then exception BX_NP_EXCEPTION (new_value AND 0xfffc)
           else
             bindM (touch_segment sel descriptor) (\<lambda>descriptor.
             store_segment k sel descriptor))))))"

definition load_seg_real :: "nat \<Rightarrow> 16 word \<Rightarrow> unit cpu_monad" where
  "load_seg_real k new_value =
    seqM (modifyM (\<lambda>s. s\<lparr>sregs := (sregs s)(k := (sregs s k)\<lparr>
      selector := (selector (sregs s k))\<lparr>sel_value := new_value, sel_rpl := (if real_mode s then 0 else 3)\<rparr>,
      cache := (cache (sregs s k))\<lparr>valid := 1, seg_base := push_bit 4 (ucast new_value), d_segment := 1, d_p := 1\<rparr>\<rparr>)\<rparr>))
    (seqM (bindM (getsM real_mode) (\<lambda>real. whenM (\<not> real)
      (modifyM (\<lambda>s. s\<lparr>sregs := (sregs s)(k := (sregs s k)\<lparr>
        cache := (cache (sregs s k))\<lparr>d_type := 3, d_dpl := 3, limit_scaled := 0xffff, seg_g := 0, seg_d_b := 0,
          seg_avl := 0\<rparr>\<rparr>)\<rparr>))))
    (whenM (k = BX_SEG_REG_CS)
      (seqM (modifyM (\<lambda>s. s\<lparr>eipPageWindowSize := 0\<rparr>))
      (seqM (modifyM updateFetchModeMask)
      (modifyM handleAlignmentCheck)))))"

definition load_seg_reg :: "bx_descriptor_t \<Rightarrow> nat \<Rightarrow> 16 word \<Rightarrow> unit cpu_monad" where
  "load_seg_reg temp k new_value =
    bindM (getsM protected_mode) (\<lambda>pm.
      if pm then
        (if k = BX_SEG_REG_SS then load_SS_protected new_value temp
         else if k = BX_SEG_REG_DS \<or> k = BX_SEG_REG_ES \<or> k = BX_SEG_REG_FS \<or> k = BX_SEG_REG_GS
         then load_data_protected k new_value temp
         else raiseM AssertFail)
      else load_seg_real k new_value)"

section \<open>Segments left behind by a change of privilege\<close>

definition validate_seg_reg :: "nat \<Rightarrow> bx_cpu_c \<Rightarrow> bx_cpu_c" where
  "validate_seg_reg k s =
    (let seg = sregs s k in
     if d_dpl (cache seg) < CPL s \<and>
        (valid (cache seg) = 0 \<or> d_segment (cache seg) = 0 \<or> IS_DATA_SEGMENT (d_type (cache seg)) \<or>
         IS_CODE_SEGMENT_NON_CONFORMING (d_type (cache seg)))
     then s\<lparr>sregs := (sregs s)(k := seg\<lparr>selector := (selector seg)\<lparr>sel_value := 0\<rparr>,
       cache := (cache seg)\<lparr>valid := 0\<rparr>\<rparr>)\<rparr>
     else s)"

definition validate_seg_regs :: "bx_cpu_c \<Rightarrow> bx_cpu_c" where
  "validate_seg_regs s = validate_seg_reg BX_SEG_REG_GS (validate_seg_reg BX_SEG_REG_FS
    (validate_seg_reg BX_SEG_REG_DS (validate_seg_reg BX_SEG_REG_ES s)))"

section \<open>Parsing then packing gives the descriptor back\<close>

lemma descriptor_masks:
  "bit (0xffff :: 32 word) n \<longleftrightarrow> n < 16" "bit (0xff :: 32 word) n \<longleftrightarrow> n < 8"
  "bit (0xff000000 :: 32 word) n \<longleftrightarrow> 24 \<le> n \<and> n < 32" "bit (0xf0000 :: 32 word) n \<longleftrightarrow> 16 \<le> n \<and> n < 20"
  "bit (0xfff :: 32 word) n \<longleftrightarrow> n < 12" "bit (0xf :: 8 word) n \<longleftrightarrow> n < 4" "bit (0x3 :: 8 word) n \<longleftrightarrow> n < 2"
proof -
  have "(0xffff :: 32 word) = push_bit 0 (mask 16)" "(0xff :: 32 word) = push_bit 0 (mask 8)"
    "(0xff000000 :: 32 word) = push_bit 24 (mask 8)" "(0xf0000 :: 32 word) = push_bit 16 (mask 4)"
    "(0xfff :: 32 word) = push_bit 0 (mask 12)" "(0xf :: 8 word) = push_bit 0 (mask 4)"
    "(0x3 :: 8 word) = push_bit 0 (mask 2)"
    by (simp_all add: mask_eq_exp_minus_1)
  then show "bit (0xffff :: 32 word) n \<longleftrightarrow> n < 16" "bit (0xff :: 32 word) n \<longleftrightarrow> n < 8"
    "bit (0xff000000 :: 32 word) n \<longleftrightarrow> 24 \<le> n \<and> n < 32" "bit (0xf0000 :: 32 word) n \<longleftrightarrow> 16 \<le> n \<and> n < 20"
    "bit (0xfff :: 32 word) n \<longleftrightarrow> n < 12" "bit (0xf :: 8 word) n \<longleftrightarrow> n < 4" "bit (0x3 :: 8 word) n \<longleftrightarrow> n < 2"
    by (simp_all only: bit_push_bit_iff bit_mask_iff possible_bit_word, auto)
qed

lemma attribute_tests:
  "0 < w AND (0x00800000 :: 32 word) \<longleftrightarrow> bit w 23" "0 < w AND (0x00400000 :: 32 word) \<longleftrightarrow> bit w 22"
  "0 < w AND (0x00100000 :: 32 word) \<longleftrightarrow> bit w 20"
  using and_single_bit [of w 23] and_single_bit [of w 22] and_single_bit [of w 20] by (simp_all add: word_gt_0)

lemma of_bool_and_1: "w AND 1 = of_bool (bit w 0)" for w :: "'a::len word"
  by (simp add: and_one_eq mod_2_eq_odd bit_0)

lemma ucast_of_bool_word: "ucast (of_bool b :: 'a::len word) = (of_bool b :: 32 word)"
  by (cases b) simp_all

lemma parse_rights:
  fixes dword1 dword2 :: "32 word" and temp :: bx_descriptor_t
  defines "d \<equiv> parse_descriptor dword1 dword2 temp"
  shows "d_segment d = of_bool (bit dword2 12)" "d_p d = of_bool (bit dword2 15)"
    "bit (d_type d) n \<longleftrightarrow> n < 4 \<and> bit dword2 (n + 8)" "bit (d_dpl d) n \<longleftrightarrow> n < 2 \<and> bit dword2 (n + 13)"
proof -
  define ar :: "8 word" where "ar = ucast (drop_bit 8 dword2)"
  have ar: "bit ar n \<longleftrightarrow> n < 8 \<and> bit dword2 (n + 8)" for n
    by (auto simp: ar_def bit_unsigned_iff bit_drop_bit_eq add.commute)
  have f: "d_segment d = ucast (drop_bit 4 ar AND 1)" "d_p d = ucast (drop_bit 7 ar AND 1)"
    "d_type d = ar AND 0xf" "d_dpl d = drop_bit 5 ar AND 0x3"
    by (simp_all add: d_def parse_descriptor_def parse_segment_def Let_def ar_def)
  show "d_segment d = of_bool (bit dword2 12)" "d_p d = of_bool (bit dword2 15)"
    unfolding f of_bool_and_1 bit_drop_bit_eq comp_apply ar ucast_of_bool_word by simp_all
  show "bit (d_type d) n \<longleftrightarrow> n < 4 \<and> bit dword2 (n + 8)"
    unfolding f bit_and_iff ar descriptor_masks by auto
  show "bit (d_dpl d) n \<longleftrightarrow> n < 2 \<and> bit dword2 (n + 13)"
    unfolding f bit_and_iff bit_drop_bit_eq comp_apply ar descriptor_masks by (auto simp: add.commute)
qed

lemma parse_fields:
  fixes dword1 dword2 :: "32 word" and temp :: bx_descriptor_t
  assumes "bit dword2 12"
  defines "d \<equiv> parse_descriptor dword1 dword2 temp"
  shows "seg_g d = of_bool (bit dword2 23)" "seg_d_b d = of_bool (bit dword2 22)" "seg_avl d = of_bool (bit dword2 20)"
    "valid d = 1"
    "bit (seg_base d) n \<longleftrightarrow> (if n < 16 then bit dword1 (n + 16) else if n < 24 then bit dword2 (n - 16) else bit dword2 n)"
    "bit (descriptor_limit d) n \<longleftrightarrow> (if n < 16 then bit dword1 n else n < 20 \<and> bit dword2 n)"
proof -
  define ar :: "8 word" where "ar = ucast (drop_bit 8 dword2)"
  define e where "e = temp\<lparr>d_p := ucast (drop_bit 7 ar AND 0x1), d_dpl := drop_bit 5 ar AND 0x3,
    d_segment := ucast (drop_bit 4 ar AND 0x1), d_type := ar AND 0xf, valid := 0\<rparr>"
  have "d_segment d = d_segment e" by (simp add: d_def parse_descriptor_def parse_segment_def Let_def ar_def e_def)
  then have "d_segment e \<noteq> 0" using assms(1) parse_rights(1) [of dword1 dword2 temp] by (simp add: d_def)
  then have d: "d = parse_segment dword1 dword2 e"
    unfolding d_def parse_descriptor_def Let_def ar_def [symmetric] e_def [symmetric] by (simp only: if_True simp_thms)
  show "seg_g d = of_bool (bit dword2 23)" "seg_d_b d = of_bool (bit dword2 22)" "seg_avl d = of_bool (bit dword2 20)"
    "valid d = 1"
    unfolding d parse_segment_def Let_def by (simp_all only: attribute_tests) simp_all
  have f: "seg_base d = drop_bit 16 dword1 OR push_bit 16 (dword2 AND 0xFF) OR (dword2 AND 0xFF000000)"
    "limit_scaled d = (if bit dword2 23 then push_bit 12 ((dword1 AND 0xffff) OR (dword2 AND 0x000F0000)) OR 0xfff
      else (dword1 AND 0xffff) OR (dword2 AND 0x000F0000))"
    "seg_g d \<noteq> 0 \<longleftrightarrow> bit dword2 23"
    unfolding d parse_segment_def Let_def attribute_tests by simp_all
  note bits = bit_or_iff bit_and_iff descriptor_masks bit_push_bit_iff bit_drop_bit_eq comp_apply possible_bit_word
  show "bit (seg_base d) n \<longleftrightarrow> (if n < 16 then bit dword1 (n + 16) else if n < 24 then bit dword2 (n - 16) else bit dword2 n)"
    unfolding f bits by (auto simp: add.commute dest: bit_imp_le_length)
  show "bit (descriptor_limit d) n \<longleftrightarrow> (if n < 16 then bit dword1 n else n < 20 \<and> bit dword2 n)"
    unfolding descriptor_limit_def f by (cases "bit dword2 23"; simp only: if_True if_False bits; auto)
qed

lemma bit_flag_at: "bit (push_bit k (of_bool b :: 32 word)) n \<longleftrightarrow> b \<and> n = k \<and> k < 32"
  by (cases b) (auto simp only: of_bool_eq bit_single_mask push_bit_of_0 bit_0_eq bot_apply bot_bool_def)

lemma bit_ucast_8: "bit (ucast (w :: 8 word) :: 32 word) n \<longleftrightarrow> bit w n"
  by (auto simp: bit_unsigned_iff dest: bit_imp_le_length)

lemma descriptor_roundtrip:
  fixes dword1 dword2 :: "32 word" and temp :: bx_descriptor_t
  assumes "bit dword2 12"
  defines "d \<equiv> parse_descriptor dword1 dword2 temp"
  shows "get_descriptor_l d = dword1" "get_descriptor_h d = dword2 AND NOT (push_bit 21 1)"
proof -
  note p = parse_rights [of dword1 dword2 temp, folded d_def] parse_fields [OF assms(1), of dword1 temp, folded d_def]
  have s: "d_segment d \<noteq> 0" using p(1) assms(1) by simp
  note bits = bit_or_iff bit_and_iff descriptor_masks bit_push_bit_iff [of _ "_ AND _"] bit_push_bit_iff [of _ "ucast _"]
    bit_drop_bit_eq comp_apply possible_bit_word bit_flag_at bit_ucast_8 bit_not_iff bit_single_mask p
  show "get_descriptor_l d = dword1"
    unfolding get_descriptor_l_def Let_def
    by (rule bit_word_eqI) (use s in \<open>simp only: if_True simp_thms bits, auto\<close>)
  show "get_descriptor_h d = dword2 AND NOT (push_bit 21 1)"
  proof (rule bit_word_eqI)
    fix n :: nat
    have "n < 8 \<or> n \<in> {8, 9, 10, 11} \<or> n \<in> {12, 13, 14, 15} \<or> 16 \<le> n \<and> n < 20 \<or> n \<in> {20, 21, 22, 23} \<or> 24 \<le> n"
      unfolding insert_iff empty_iff by presburger
    then show "bit (get_descriptor_h d) n \<longleftrightarrow> bit (dword2 AND NOT (push_bit 21 1)) n" if "n < LENGTH(32)"
      unfolding get_descriptor_h_def Let_def
      by (elim disjE; use s that assms(1) in \<open>simp only: if_True simp_thms bits, auto\<close>)
  qed
qed

end
