(* ===== verification/SegLoadFacts.thy ===== *)
theory SegLoadFacts
  imports SegLoad
begin

text \<open>
  What the loads of segment registers guarantee: a load that succeeds leaves a
  present, checked segment in the named register and nothing else changed, and
  the caches stay consistent with the type of the segment.
\<close>

section \<open>What a load leaves in the register\<close>

lemma parse_type_less: "d_type (parse_descriptor dword1 dword2 temp) < 16"
proof -
  have "d_type (parse_descriptor dword1 dword2 temp) = ucast (drop_bit 8 dword2) AND 0xf"
    by (simp add: parse_descriptor_def parse_segment_def Let_def)
  also have "\<dots> \<le> 0xf" by (rule word_and_le1)
  finally show ?thesis by (rule le_less_trans) simp
qed

lemma read_linear_fields:
  assumes "access_read_linear laddr n pl rw s = (r, s')"
  shows "write_fields s' = write_fields s"
proof -
  have tr: "write_fields t' = write_fields t" if "dtranslate_linear l pl rw t = (r, t')" for l t r t'
    using dtranslate_fields [of l pl rw t] that by (simp add: write_fields_def)
  have up: "write_fields (t\<lparr>address_xlation := x\<rparr>) = write_fields t" for t x
    by (simp add: write_fields_def alignment_check_def)
  show ?thesis
    using assms unfolding access_read_linear_def Let_def
    by (auto simp: bindM_apply seqM_apply xlation_run access_read_physical_run BX_ASSERT_def returnM_apply raiseM_apply up
      split: if_splits prod.splits sum.splits dest!: tr)
qed

lemma system_read_fields:
  assumes "system_read_qword laddr s = (r, s')"
  shows "write_fields s' = write_fields s"
  using assms unfolding system_read_qword_def system_tlb_read_def host_read_def access_read_physical_def [symmetric]
  by (auto simp: monad_simps access_read_physical_run split: if_splits prod.splits sum.splits dest: read_linear_fields)

lemma fetch_fields:
  assumes "fetch_raw_descriptor sel e s = (r, s')"
  shows "write_fields s' = write_fields s"
  using assms unfolding fetch_raw_descriptor_def Let_def
  by (auto simp: monad_simps split: if_splits prod.splits sum.splits dest: system_read_fields)

lemma touch_fields:
  assumes "touch_segment sel d s = (r, s')"
  shows "write_fields s' = write_fields s" "r = Inr d' \<Longrightarrow> d' = d\<lparr>d_type := d_type d OR 1\<rparr>"
proof -
  show "write_fields s' = write_fields s"
    using assms unfolding touch_segment_def Let_def
    by (auto simp: monad_simps split: if_splits prod.splits sum.splits dest: write_linear_fields)
  have "d_type d OR 1 = d_type d" if "IS_SEGMENT_ACCESSED (d_type d)"
  proof (rule bit_word_eqI)
    fix n
    have "bit (d_type d) 0" using that unfolding IS_SEGMENT_ACCESSED_def of_bool_and_1 by simp
    then show "bit (d_type d OR 1) n = bit (d_type d) n" by (auto simp: bit_or_iff bit_1_iff)
  qed
  then show "d' = d\<lparr>d_type := d_type d OR 1\<rparr>" if "r = Inr d'"
    using assms that unfolding touch_segment_def Let_def
    by (auto simp: monad_simps split: if_splits prod.splits sum.splits)
qed

lemma fields_sregs: "write_fields s' = write_fields s \<Longrightarrow> sregs s' = sregs s \<and> CPL s' = CPL s"
  by (simp add: write_fields_def CPL_def)

lemma all_types:
  assumes "\<forall>t \<in> {0, 1, 2, 3, 4, 5, 6, 7, 8, 9, 10, 11, 12, 13, 14, 15}. P t" "t < (16 :: 8 word)"
  shows "P t"
  using assms(1) type_cases16 [OF assms(2)] by blast

lemmas type_tests = IS_CODE_SEGMENT_def IS_DATA_SEGMENT_WRITEABLE_def IS_CODE_SEGMENT_READABLE_def
  IS_CODE_SEGMENT_CONFORMING_def type_writable_def type_readable_def

lemma touched_less: "t < (16 :: 8 word) \<Longrightarrow> t OR 1 < 16"
  by (erule all_types [rotated]) simp

lemma touched_type:
  "t < (16 :: 8 word) \<Longrightarrow> type_writable (t OR 1) = type_writable t \<and> type_readable (t OR 1) = type_readable t \<and>
    IS_CODE_SEGMENT (t OR 1) = IS_CODE_SEGMENT t \<and> IS_CODE_SEGMENT_CONFORMING (t OR 1) = IS_CODE_SEGMENT_CONFORMING t"
  by (erule all_types [rotated]) (simp add: type_tests)

lemma checked_type:
  "t < (16 :: 8 word) \<Longrightarrow> (\<not> IS_CODE_SEGMENT t \<and> IS_DATA_SEGMENT_WRITEABLE t \<longrightarrow> type_writable t) \<and>
    (\<not> IS_CODE_SEGMENT t \<or> IS_CODE_SEGMENT_READABLE t \<longrightarrow> type_readable t)"
  by (erule all_types [rotated]) (simp add: type_tests)

lemma load_SS_sound:
  assumes "load_SS_protected v temp s = (Inr (), s')"
  defines "seg \<equiv> sregs s' BX_SEG_REG_SS"
  shows "selector seg = parse_selector v" "valid (cache seg) = 1" "d_p (cache seg) \<noteq> 0"
    "type_writable (d_type (cache seg))" "d_type (cache seg) < 16" "d_dpl (cache seg) = CPL s" "sel_rpl (selector seg) = CPL s"
    "k \<noteq> BX_SEG_REG_SS \<Longrightarrow> sregs s' k = sregs s k"
    "d_segment (cache seg) \<noteq> 0"
    "\<exists>dword1 dword2 t. fetch_raw_descriptor (parse_selector v) BX_GP_EXCEPTION s = (Inr (dword1, dword2), t) \<and>
      cache seg = (parse_descriptor dword1 dword2 temp)\<lparr>d_type := d_type (cache seg), valid := 1\<rparr> \<and>
      d_type (cache seg) = d_type (parse_descriptor dword1 dword2 temp) OR 1"
proof -
  obtain d1 d2 s1 where f: "fetch_raw_descriptor (parse_selector v) BX_GP_EXCEPTION s = (Inr (d1, d2), s1)"
    using assms(1) unfolding load_SS_protected_def Let_def
    by (auto simp: bindM_apply raiseM_apply split: if_splits prod.splits sum.splits)
  define d where "d = parse_descriptor d1 d2 temp"
  have c: "sel_rpl (parse_selector v) = CPL s1" "\<not> IS_CODE_SEGMENT (d_type d)" "IS_DATA_SEGMENT_WRITEABLE (d_type d)"
    "d_dpl d = CPL s1" "d_p d \<noteq> 0" "d_segment d \<noteq> 0"
    and run: "bindM (touch_segment (parse_selector v) d) (store_segment BX_SEG_REG_SS (parse_selector v)) s1 = (Inr (), s')"
    using assms(1) f unfolding load_SS_protected_def Let_def
    by (auto simp: bindM_apply getsM_apply raiseM_apply d_def split: if_splits)
  obtain d' s2 where t: "touch_segment (parse_selector v) d s1 = (Inr d', s2)"
    using run by (auto simp: bindM_apply split: prod.splits sum.splits)
  then have s': "s' = s2\<lparr>sregs := (sregs s2)(2 := \<lparr>selector = parse_selector v, cache = d'\<lparr>valid := 1\<rparr>\<rparr>)\<rparr>"
    using run by (simp add: bindM_apply store_segment_def modifyM_apply)
  have d': "d' = d\<lparr>d_type := d_type d OR 1\<rparr>" using touch_fields(2) [OF t] by simp
  have s12: "sregs s1 = sregs s" "CPL s1 = CPL s" "sregs s2 = sregs s"
    using fields_sregs [OF fetch_fields [OF f]] fields_sregs [OF touch_fields(1) [OF t]] by auto
  have l: "d_type d < 16" unfolding d_def by (rule parse_type_less)
  have w: "type_writable (d_type d)"
    using c(2,3) checked_type [OF l] by simp
  show "selector seg = parse_selector v" "valid (cache seg) = 1" "d_p (cache seg) \<noteq> 0"
    "type_writable (d_type (cache seg))" "d_type (cache seg) < 16" "d_dpl (cache seg) = CPL s" "sel_rpl (selector seg) = CPL s"
    "k \<noteq> BX_SEG_REG_SS \<Longrightarrow> sregs s' k = sregs s k" "d_segment (cache seg) \<noteq> 0"
    using c w l by (simp_all add: seg_def s' d' s12 touched_less touched_type)
  show "\<exists>dword1 dword2 t. fetch_raw_descriptor (parse_selector v) BX_GP_EXCEPTION s = (Inr (dword1, dword2), t) \<and>
      cache seg = (parse_descriptor dword1 dword2 temp)\<lparr>d_type := d_type (cache seg), valid := 1\<rparr> \<and>
      d_type (cache seg) = d_type (parse_descriptor dword1 dword2 temp) OR 1"
    using f by (simp add: seg_def s' d' d_def)
qed

lemma load_data_sound:
  assumes "load_data_protected k v temp s = (Inr (), s')" "v AND 0xfffc \<noteq> 0"
  defines "seg \<equiv> sregs s' k"
  shows "selector seg = parse_selector v" "valid (cache seg) = 1" "d_p (cache seg) \<noteq> 0"
    "type_readable (d_type (cache seg))" "d_type (cache seg) < 16"
    "IS_CODE_SEGMENT (d_type (cache seg)) \<and> IS_CODE_SEGMENT_CONFORMING (d_type (cache seg)) \<or>
      CPL s \<le> d_dpl (cache seg) \<and> sel_rpl (parse_selector v) \<le> d_dpl (cache seg)"
    "j \<noteq> k \<Longrightarrow> sregs s' j = sregs s j"
    "d_segment (cache seg) \<noteq> 0"
    "\<exists>dword1 dword2 t. fetch_raw_descriptor (parse_selector v) BX_GP_EXCEPTION s = (Inr (dword1, dword2), t) \<and>
      cache seg = (parse_descriptor dword1 dword2 temp)\<lparr>d_type := d_type (cache seg), valid := 1\<rparr> \<and>
      d_type (cache seg) = d_type (parse_descriptor dword1 dword2 temp) OR 1"
proof -
  obtain d1 d2 s1 where f: "fetch_raw_descriptor (parse_selector v) BX_GP_EXCEPTION s = (Inr (d1, d2), s1)"
    using assms(1,2) unfolding load_data_protected_def Let_def
    by (auto simp: bindM_apply raiseM_apply split: if_splits prod.splits sum.splits)
  define d where "d = parse_descriptor d1 d2 temp"
  have c: "\<not> (IS_CODE_SEGMENT (d_type d) \<and> \<not> IS_CODE_SEGMENT_READABLE (d_type d))" "d_p d \<noteq> 0"
    "IS_CODE_SEGMENT (d_type d) \<and> IS_CODE_SEGMENT_CONFORMING (d_type d) \<or>
      sel_rpl (parse_selector v) \<le> d_dpl d \<and> CPL s1 \<le> d_dpl d" "d_segment d \<noteq> 0"
    and run: "bindM (touch_segment (parse_selector v) d) (store_segment k (parse_selector v)) s1 = (Inr (), s')"
    using assms(1,2) f unfolding load_data_protected_def Let_def IS_DATA_SEGMENT_def IS_CODE_SEGMENT_NON_CONFORMING_def
    by (auto simp: bindM_apply getsM_apply raiseM_apply d_def not_less split: if_splits)
  obtain d' s2 where t: "touch_segment (parse_selector v) d s1 = (Inr d', s2)"
    using run by (auto simp: bindM_apply split: prod.splits sum.splits)
  then have s': "s' = s2\<lparr>sregs := (sregs s2)(k := \<lparr>selector = parse_selector v, cache = d'\<lparr>valid := 1\<rparr>\<rparr>)\<rparr>"
    using run by (simp add: bindM_apply store_segment_def modifyM_apply)
  have d': "d' = d\<lparr>d_type := d_type d OR 1\<rparr>" using touch_fields(2) [OF t] by simp
  have s12: "sregs s1 = sregs s" "CPL s1 = CPL s" "sregs s2 = sregs s"
    using fields_sregs [OF fetch_fields [OF f]] fields_sregs [OF touch_fields(1) [OF t]] by auto
  have l: "d_type d < 16" unfolding d_def by (rule parse_type_less)
  have r: "type_readable (d_type d)"
    using c(1) checked_type [OF l] by simp
  have p: "IS_CODE_SEGMENT (d_type d OR 1) \<and> IS_CODE_SEGMENT_CONFORMING (d_type d OR 1) \<or>
      CPL s \<le> d_dpl d \<and> sel_rpl (parse_selector v) \<le> d_dpl d"
    using c(3) touched_type [OF l] by (auto simp: s12)
  show "selector seg = parse_selector v" "valid (cache seg) = 1" "d_p (cache seg) \<noteq> 0"
    "type_readable (d_type (cache seg))" "d_type (cache seg) < 16"
    "IS_CODE_SEGMENT (d_type (cache seg)) \<and> IS_CODE_SEGMENT_CONFORMING (d_type (cache seg)) \<or>
      CPL s \<le> d_dpl (cache seg) \<and> sel_rpl (parse_selector v) \<le> d_dpl (cache seg)"
    "j \<noteq> k \<Longrightarrow> sregs s' j = sregs s j" "d_segment (cache seg) \<noteq> 0"
    using c(2,4) r l p by (simp_all add: seg_def s' d' s12 touched_less touched_type)
  show "\<exists>dword1 dword2 t. fetch_raw_descriptor (parse_selector v) BX_GP_EXCEPTION s = (Inr (dword1, dword2), t) \<and>
      cache seg = (parse_descriptor dword1 dword2 temp)\<lparr>d_type := d_type (cache seg), valid := 1\<rparr> \<and>
      d_type (cache seg) = d_type (parse_descriptor dword1 dword2 temp) OR 1"
    using f by (simp add: seg_def s' d' d_def)
qed

section \<open>Failed loads and the invariant of the cached rights\<close>

lemma load_fault_keeps:
  assumes "load_SS_protected v temp s = (Inl f, s') \<or> load_data_protected k v temp s = (Inl f, s')"
  shows "sregs s' = sregs s"
proof -
  have *: "sregs s' = sregs s" if "fetch_raw_descriptor sel e s = (r, s')" for sel e r s s'
    using fields_sregs [OF fetch_fields [OF that]] by simp
  have **: "sregs s' = sregs s" if "touch_segment sel d s = (r, s')" for sel d r s s'
    using fields_sregs [OF touch_fields(1) [OF that]] by simp
  show ?thesis
    using assms
    unfolding load_SS_protected_def load_data_protected_def load_null_selector_def store_segment_def Let_def
    by (elim disjE)
      (auto simp: bindM_apply seqM_apply getsM_apply raiseM_apply modifyM_apply BX_ASSERT_def returnM_apply
        split: if_splits prod.splits sum.splits dest!: * **)
qed

lemma fresh_cache_ok: "d_type (cache seg) < 16 \<Longrightarrow> valid (cache seg) \<in> {0, 1} \<Longrightarrow> seg_cache_ok seg"
  by (auto simp: seg_cache_ok_def SegAccessROK_def SegAccessWOK_def)

lemma load_null_run:
  assumes "load_null_selector k v s = (r, s')"
  shows "sregs s' = sregs s \<or> (\<exists>seg. sregs s' = (sregs s)(k := seg) \<and> seg_cache_ok seg)"
  using assms unfolding load_null_selector_def
  by (auto simp: seqM_apply BX_ASSERT_def returnM_apply raiseM_apply modifyM_apply intro!: exI fresh_cache_ok
    split: if_splits)

lemma load_real_run:
  assumes "load_seg_real k v s = (r, s')"
  obtains seg where "sregs s' = (sregs s)(k := seg)" "r = Inr ()" "valid (cache seg) = 1" "d_p (cache seg) = 1"
    "seg_base (cache seg) = push_bit 4 (ucast v)" "d_type (cache seg) = (if real_mode s then d_type (cache (sregs s k)) else 3)"
    "real_mode s \<longrightarrow> limit_scaled (cache seg) = limit_scaled (cache (sregs s k))" "real_mode s \<or> limit_scaled (cache seg) = 0xffff"
    "sel_value (selector seg) = v"
proof -
  have [simp]: "sregs (handleAlignmentCheck s) = sregs s" "sregs (updateFetchModeMask s) = sregs s" for s
    by (simp_all add: handleAlignmentCheck_def updateFetchModeMask_def)
  have [simp]: "real_mode (s\<lparr>sregs := x\<rparr>) = real_mode s" for s x by (simp add: real_mode_def)
  show ?thesis
    using assms unfolding load_seg_real_def
    by (intro that [of "sregs s' k"])
      (auto simp: bindM_apply seqM_apply getsM_apply whenM_def modifyM_apply returnM_apply split: if_splits)
qed

lemma load_seg_reg_caches:
  assumes "load_seg_reg temp k v s = (r, s')" "seg_caches_ok s"
  shows "seg_caches_ok s'"
proof -
  have keep: "seg_caches_ok s'" if "sregs s' = sregs s" using that assms(2) by (simp add: seg_caches_ok_def)
  have upd: "seg_caches_ok s'" if "seg_cache_ok (sregs s' j)" "\<And>i. i \<noteq> j \<Longrightarrow> sregs s' i = sregs s i" for j
    using that assms(2) unfolding seg_caches_ok_def by (metis (no_types))
  show ?thesis
  proof (cases "protected_mode s")
    case False
    then have "load_seg_real k v s = (r, s')" using assms(1) by (simp add: load_seg_reg_def monad_simps)
    then obtain seg where "sregs s' = (sregs s)(k := seg)" "valid (cache seg) = 1"
      "d_type (cache seg) = (if real_mode s then d_type (cache (sregs s k)) else 3)" by (rule load_real_run)
    then show ?thesis using assms(2)
      by (intro upd [of k] fresh_cache_ok) (auto simp: seg_caches_ok_def seg_cache_ok_def)
  next
    case True
    consider "load_SS_protected v temp s = (r, s')" | "load_data_protected k v temp s = (r, s')" | "s' = s"
      using assms(1) True by (auto simp: load_seg_reg_def monad_simps split: if_splits)
    then show ?thesis
    proof cases
      case 1
      show ?thesis
      proof (cases r)
        case (Inl f) then show ?thesis using load_fault_keeps 1 keep by blast
      next
        case (Inr u) then show ?thesis using load_SS_sound [of v temp s s'] 1 upd [of 2] fresh_cache_ok by simp
      qed
    next
      case 2
      show ?thesis
      proof (cases r)
        case (Inl f) then show ?thesis using load_fault_keeps 2 keep by blast
      next
        case (Inr u)
        show ?thesis
        proof (cases "v AND 0xfffc = 0")
          case True
          then have "load_null_selector k v s = (r, s')" using 2 by (simp add: load_data_protected_def)
          from load_null_run [OF this] show ?thesis using keep upd [of k] by auto
        next
          case False
          then show ?thesis using load_data_sound [of k v temp s s'] 2 Inr upd [of k] fresh_cache_ok by simp
        qed
      qed
    next
      case 3 then show ?thesis using keep by simp
    qed
  qed
qed

section \<open>Segments left behind by a change of privilege\<close>

definition too_privileged :: "8 word \<Rightarrow> bx_segment_reg_t \<Rightarrow> bool" where
  "too_privileged cpl seg \<longleftrightarrow> d_dpl (cache seg) < cpl \<and>
    (valid (cache seg) = 0 \<or> d_segment (cache seg) = 0 \<or>
      \<not> (IS_CODE_SEGMENT (d_type (cache seg)) \<and> IS_CODE_SEGMENT_CONFORMING (d_type (cache seg))))"

lemma validate_seg_reg_run:
  "validate_seg_reg k s = (if too_privileged (CPL s) (sregs s k)
    then s\<lparr>sregs := (sregs s)(k := (sregs s k)\<lparr>selector := (selector (sregs s k))\<lparr>sel_value := 0\<rparr>,
       cache := (cache (sregs s k))\<lparr>valid := 0\<rparr>\<rparr>)\<rparr> else s)"
  unfolding validate_seg_reg_def too_privileged_def IS_DATA_SEGMENT_def IS_CODE_SEGMENT_NON_CONFORMING_def Let_def
  by auto

lemma validate_seg_regs_run:
  "CPL (validate_seg_regs s) = CPL s"
  "sregs (validate_seg_regs s) k = (if k \<in> {0, 3, 4, 5} \<and> too_privileged (CPL s) (sregs s k)
    then (sregs s k)\<lparr>selector := (selector (sregs s k))\<lparr>sel_value := 0\<rparr>, cache := (cache (sregs s k))\<lparr>valid := 0\<rparr>\<rparr>
    else sregs s k)"
proof -
  have [simp]: "CPL (validate_seg_reg k s) = CPL s" if "k \<noteq> 1" for k s
    using that by (simp add: validate_seg_reg_run CPL_def)
  have [simp]: "sregs (validate_seg_reg j s) i = (if i = j \<and> too_privileged (CPL s) (sregs s j)
    then (sregs s j)\<lparr>selector := (selector (sregs s j))\<lparr>sel_value := 0\<rparr>, cache := (cache (sregs s j))\<lparr>valid := 0\<rparr>\<rparr>
    else sregs s i)" for j i s
    by (simp add: validate_seg_reg_run)
  show "CPL (validate_seg_regs s) = CPL s" by (simp add: validate_seg_regs_def)
  show "sregs (validate_seg_regs s) k = (if k \<in> {0, 3, 4, 5} \<and> too_privileged (CPL s) (sregs s k)
    then (sregs s k)\<lparr>selector := (selector (sregs s k))\<lparr>sel_value := 0\<rparr>, cache := (cache (sregs s k))\<lparr>valid := 0\<rparr>\<rparr>
    else sregs s k)"
    by (auto simp: validate_seg_regs_def)
qed

end
