(* ===== verification/CoreFrame.thy ===== *)
theory CoreFrame
  imports SegLoadFacts
begin

text \<open>
  What the memory accessors and the loads of segment registers leave alone: the
  general registers and the bookkeeping of exceptions.  They neither read nor
  write these fields, so a run of an accessor commutes with replacing them.
\<close>

named_theorems core_intros \<open>closure rules for functions that leave the registers and the exception state alone\<close>

definition with_core :: "bx_cpu_c \<Rightarrow> bx_cpu_c \<Rightarrow> bx_cpu_c" where
  "with_core c s = s\<lparr>gen_reg := gen_reg c, prev_rip := prev_rip c, prev_rsp := prev_rsp c,
    speculative_rsp := speculative_rsp c, inhibit_mask := inhibit_mask c, debug_trap := debug_trap c,
    async_event := async_event c, EXT := EXT c, errorno := errorno c, curr_exception := curr_exception c\<rparr>"

definition core_neutral :: "'a cpu_monad \<Rightarrow> bool" where
  "core_neutral m \<longleftrightarrow> (\<forall>c s. m (with_core c s) = apsnd (with_core c) (m s))"

lemma core_neutralD: "core_neutral m \<Longrightarrow> m (with_core c s) = apsnd (with_core c) (m s)"
  by (simp add: core_neutral_def)

lemma with_core_same [simp]: "with_core s s = s" "with_core c (with_core d s) = with_core c s"
  by (simp_all add: with_core_def)

lemma core_kept:
  assumes "core_neutral m" "m s = (r, s')"
  shows "with_core s s' = s'"
  using core_neutralD [OF assms(1), of s s] assms(2) by simp

lemma core_keptD:
  assumes "with_core s s' = s'"
  shows "gen_reg s' = gen_reg s" "prev_rip s' = prev_rip s" "prev_rsp s' = prev_rsp s"
    "speculative_rsp s' = speculative_rsp s" "errorno s' = errorno s" "curr_exception s' = curr_exception s"
    "EXT s' = EXT s"
  by (subst assms [symmetric], simp add: with_core_def)+

section \<open>Closure\<close>

lemma core_returnM [core_intros]: "core_neutral (returnM x)"
  by (simp add: core_neutral_def monad_simps)

lemma core_raiseM [core_intros]: "core_neutral (raiseM x)"
  by (simp add: core_neutral_def monad_simps)

lemma core_getsM [core_intros]: "(\<And>c s. f (with_core c s) = f s) \<Longrightarrow> core_neutral (getsM f)"
  by (simp add: core_neutral_def monad_simps)

lemma core_modifyM [core_intros]:
  "(\<And>c s. f (with_core c s) = with_core c (f s)) \<Longrightarrow> core_neutral (modifyM f)"
  by (simp add: core_neutral_def monad_simps)

lemma core_bindM [core_intros]:
  "core_neutral m \<Longrightarrow> (\<And>x. core_neutral (k x)) \<Longrightarrow> core_neutral (bindM m k)"
  by (simp add: core_neutral_def bindM_def split: prod.split sum.split)

lemma core_seqM [core_intros]: "core_neutral m \<Longrightarrow> core_neutral n \<Longrightarrow> core_neutral (seqM m n)"
  unfolding seqM_def by (intro core_bindM)

lemma core_if [core_intros]:
  "(b \<Longrightarrow> core_neutral m) \<Longrightarrow> (\<not> b \<Longrightarrow> core_neutral n) \<Longrightarrow> core_neutral (if b then m else n)"
  by simp

lemma core_whenM [core_intros]: "(b \<Longrightarrow> core_neutral m) \<Longrightarrow> core_neutral (whenM b m)"
  by (simp add: whenM_def core_returnM)

lemma core_case_prod [core_intros]: "(\<And>a b. core_neutral (f a b)) \<Longrightarrow> core_neutral (case p of (a, b) \<Rightarrow> f a b)"
  by (simp split: prod.split)

lemma core_BX_ASSERT [core_intros]: "core_neutral (BX_ASSERT b)"
  by (simp add: BX_ASSERT_def core_returnM core_raiseM)

section \<open>Memory\<close>

lemma core_phys [core_intros]:
  "core_neutral (access_write_physical addr data)" "core_neutral (access_read_physical addr len)"
  "core_neutral (host_read a len)" "core_neutral (host_write a data)"
  unfolding phys_defs host_read_def host_write_def
  by (intro core_intros; simp add: with_core_def)+

lemma core_page_fault [core_intros]: "core_neutral (page_fault f laddr user rw)"
  unfolding page_fault_def Let_def by (intro core_intros) (simp add: with_core_def)

lemma core_entries [core_intros]:
  "core_neutral (read_entry a)" "core_neutral (write_entry a e)" "core_neutral (xlation f)"
  unfolding read_entry_def write_entry_def xlation_def
  by (intro core_intros; simp add: with_core_def)+

lemma core_translate [core_intros]: "core_neutral (dtranslate_linear laddr pl rw)"
  unfolding dtranslate_linear_def translate_linear_def translate_linear_4M_def translate_linear_4K_def Let_def
  by (intro core_intros; simp add: with_core_def cr0_get_PG_def cr0_get_WP_def cr4_get_PSE_def)

lemma core_linear [core_intros]:
  "core_neutral (access_write_linear laddr pl data)" "core_neutral (access_read_linear laddr n pl rw)"
  unfolding access_write_linear_def access_read_linear_def Let_def by (intro core_intros)+

lemma core_checks [core_intros]:
  "core_neutral (check_segment checks rights limit_ok s offset len)"
  "core_neutral (check_alignment laddr m)" "core_neutral assert_legacy_mode"
  unfolding check_segment_def check_alignment_def assert_legacy_mode_def alignment_check_def
  by (intro core_intros; simp add: with_core_def)+

lemma core_reads [simp]:
  "sregs (with_core c s) = sregs s" "CPL (with_core c s) = CPL s" "user_pl (with_core c s) = user_pl s"
  "address_xlation (with_core c s) = address_xlation s" "TLB_entry (with_core c s) = TLB_entry s"
  "get_laddr32 k offset (with_core c s) = get_laddr32 k offset s" "gdtr (with_core c s) = gdtr s"
  "ldtr (with_core c s) = ldtr s" "idtr (with_core c s) = idtr s" "cpu_mode (with_core c s) = cpu_mode s"
  "protected_mode (with_core c s) = protected_mode s" "real_mode (with_core c s) = real_mode s"
  by (simp_all add: with_core_def get_laddr32_def CPL_def protected_mode_def real_mode_def)

lemma core_decWriteStamp [core_intros]: "core_neutral (modifyM (decWriteStamp p))"
  by (intro core_intros) (simp add: decWriteStamp_def with_core_def Let_def)

lemma core_accessors [core_intros]:
  "core_neutral (write_virtual_byte_32 k offset v8)" "core_neutral (write_virtual_word_32 k offset v16)"
  "core_neutral (write_virtual_dword_32 k offset v32)" "core_neutral (write_virtual_qword_32 k offset v64)"
  "core_neutral (read_virtual_byte_32 k offset)" "core_neutral (read_virtual_word_32 k offset)"
  "core_neutral (read_virtual_dword_32 k offset)" "core_neutral (read_virtual_qword_32 k offset)"
  "core_neutral (read_RMW_virtual_byte_32 k offset)" "core_neutral (read_RMW_virtual_word_32 k offset)"
  "core_neutral (read_RMW_virtual_dword_32 k offset)" "core_neutral (read_RMW_virtual_qword_32 k offset)"
  "core_neutral (write_RMW_virtual_byte v8)" "core_neutral (write_RMW_virtual_word v16)"
  "core_neutral (write_RMW_virtual_dword v32)" "core_neutral (write_RMW_virtual_qword v64)"
  unfolding write_virtual_byte_32_def write_virtual_word_32_def write_virtual_dword_32_def write_virtual_qword_32_def
    read_virtual_byte_32_def read_virtual_word_32_def read_virtual_dword_32_def read_virtual_qword_32_def
    read_RMW_virtual_byte_32_def read_RMW_virtual_word_32_def read_RMW_virtual_dword_32_def read_RMW_virtual_qword_32_def
    write_RMW_virtual_byte_def write_RMW_virtual_word_def write_RMW_virtual_dword_def write_RMW_virtual_qword_def Let_def
  by (intro core_intros; simp)+

lemma core_system_read [core_intros]: "core_neutral (system_read_word laddr)" "core_neutral (system_read_qword laddr)"
  unfolding system_read_word_def system_read_qword_def system_tlb_read_def Let_def
  by (intro core_intros; simp)+

section \<open>Loads of segment registers\<close>

lemma core_descriptors [core_intros]:
  "core_neutral (touch_segment sel d)" "core_neutral (fetch_raw_descriptor sel e)" "core_neutral (store_segment k sel d)"
  "core_neutral (load_null_selector k v)"
  unfolding touch_segment_def fetch_raw_descriptor_def store_segment_def load_null_selector_def Let_def
  by (intro core_intros; simp add: with_core_def)+

lemma core_load_seg_reg [core_intros]: "core_neutral (load_seg_reg temp k v)"
proof -
  have "core_neutral (load_seg_real k v)"
    unfolding load_seg_real_def
    by (intro core_intros; simp add: with_core_def real_mode_def updateFetchModeMask_def handleAlignmentCheck_def
      CPL_def cr0_get_AM_def get_eflag_def)
  then show ?thesis
    unfolding load_seg_reg_def load_SS_protected_def load_data_protected_def Let_def
    by (intro core_intros; simp)
qed

end
