(* ===== verification/Stack.thy ===== *)
theory Stack
  imports SysInv CoreFrame
begin

text \<open>
  The stack: \<open>push_16\<close>, \<open>push_32\<close>, \<open>pop_16\<close> and \<open>pop_32\<close> of \<open>cpu/stack.h\<close> and
  the 32-bit stack instructions of \<open>cpu/stack32.cc\<close>.  The width of the stack
  pointer is the B bit of the SS descriptor.  Handlers that the source has once
  per segment register take the register as an argument.
\<close>

abbreviation (input) EBP :: "bx_cpu_c \<Rightarrow> 32 word" where "EBP \<equiv> BX_READ_32BIT_REG 5"
abbreviation (input) ESI :: "bx_cpu_c \<Rightarrow> 32 word" where "ESI \<equiv> BX_READ_32BIT_REG 6"
abbreviation (input) EDI :: "bx_cpu_c \<Rightarrow> 32 word" where "EDI \<equiv> BX_READ_32BIT_REG 7"
abbreviation (input) BP :: "bx_cpu_c \<Rightarrow> 16 word" where "BP \<equiv> BX_READ_16BIT_REG 5"
abbreviation (input) EIP :: "bx_cpu_c \<Rightarrow> 32 word" where "EIP \<equiv> BX_READ_32BIT_REG BX_32BIT_REG_EIP"
abbreviation (input) set_EIP :: "32 word \<Rightarrow> bx_cpu_c \<Rightarrow> bx_cpu_c" where
  "set_EIP \<equiv> BX_WRITE_32BIT_REGZ BX_32BIT_REG_EIP"

text \<open>The B bit of the stack segment: a 32-bit stack pointer.\<close>

abbreviation (input) ss_d_b :: "bx_cpu_c \<Rightarrow> bool" where
  "ss_d_b s \<equiv> seg_d_b (cache (sregs s BX_SEG_REG_SS)) \<noteq> 0"

section \<open>Push and pop\<close>

definition push_16 :: "16 word \<Rightarrow> unit cpu_monad" where
  "push_16 value16 =
    bindM (getsM ss_d_b) (\<lambda>b.
      if b then
        bindM (getsM ESP) (\<lambda>esp.
        seqM (write_virtual_word_32 BX_SEG_REG_SS (esp - 2) value16)
        (modifyM (\<lambda>s. set_ESP (ESP s - 2) s)))
      else
        bindM (getsM SP) (\<lambda>sp.
        seqM (write_virtual_word_32 BX_SEG_REG_SS (ucast (sp - 2)) value16)
        (modifyM (\<lambda>s. set_SP (SP s - 2) s))))"

definition push_32 :: "32 word \<Rightarrow> unit cpu_monad" where
  "push_32 value32 =
    bindM (getsM ss_d_b) (\<lambda>b.
      if b then
        bindM (getsM ESP) (\<lambda>esp.
        seqM (write_virtual_dword_32 BX_SEG_REG_SS (esp - 4) value32)
        (modifyM (\<lambda>s. set_ESP (ESP s - 4) s)))
      else
        bindM (getsM SP) (\<lambda>sp.
        seqM (write_virtual_dword_32 BX_SEG_REG_SS (ucast (sp - 4)) value32)
        (modifyM (\<lambda>s. set_SP (SP s - 4) s))))"

definition pop_16 :: "16 word cpu_monad" where
  "pop_16 =
    bindM (getsM ss_d_b) (\<lambda>b.
      if b then
        bindM (getsM ESP) (\<lambda>esp.
        bindM (read_virtual_word_32 BX_SEG_REG_SS esp) (\<lambda>value16.
        seqM (modifyM (\<lambda>s. set_ESP (ESP s + 2) s)) (returnM value16)))
      else
        bindM (getsM SP) (\<lambda>sp.
        bindM (read_virtual_word_32 BX_SEG_REG_SS (ucast sp)) (\<lambda>value16.
        seqM (modifyM (\<lambda>s. set_SP (SP s + 2) s)) (returnM value16))))"

definition pop_32 :: "32 word cpu_monad" where
  "pop_32 =
    bindM (getsM ss_d_b) (\<lambda>b.
      if b then
        bindM (getsM ESP) (\<lambda>esp.
        bindM (read_virtual_dword_32 BX_SEG_REG_SS esp) (\<lambda>value32.
        seqM (modifyM (\<lambda>s. set_ESP (ESP s + 4) s)) (returnM value32)))
      else
        bindM (getsM SP) (\<lambda>sp.
        bindM (read_virtual_dword_32 BX_SEG_REG_SS (ucast sp)) (\<lambda>value32.
        seqM (modifyM (\<lambda>s. set_SP (SP s + 4) s)) (returnM value32))))"

definition RSP_SPECULATIVE :: "unit cpu_monad" where
  "RSP_SPECULATIVE = modifyM (\<lambda>s. s\<lparr>speculative_rsp := 1, prev_rsp := ESP s\<rparr>)"

definition RSP_COMMIT :: "unit cpu_monad" where
  "RSP_COMMIT = modifyM (\<lambda>s. s\<lparr>speculative_rsp := 0\<rparr>)"

section \<open>Instructions\<close>

definition POP_EdM :: "bxInstruction_c \<Rightarrow> unit cpu_monad" where
  "POP_EdM i =
    seqM RSP_SPECULATIVE
    (bindM pop_32 (\<lambda>val32.
    bindM (ResolveModrm i) (\<lambda>eaddr.
    seqM (write_virtual_dword_32 (seg i) eaddr val32)
    RSP_COMMIT)))"

definition PUSH_ERX :: "bxInstruction_c \<Rightarrow> unit cpu_monad" where
  "PUSH_ERX i = bindM (getsM (BX_READ_32BIT_REG (opcodeReg i))) push_32"

definition POP_ERX :: "bxInstruction_c \<Rightarrow> unit cpu_monad" where
  "POP_ERX i = bindM pop_32 (\<lambda>v. modifyM (BX_WRITE_32BIT_REGZ (opcodeReg i) v))"

definition PUSH32_seg :: "nat \<Rightarrow> unit cpu_monad" where
  "PUSH32_seg k = bindM (getsM (\<lambda>s. sel_value (selector (sregs s k)))) (\<lambda>v. push_32 (ucast v))"

definition POP32_seg :: "bx_descriptor_t \<Rightarrow> nat \<Rightarrow> unit cpu_monad" where
  "POP32_seg temp k =
    seqM (bindM (getsM ss_d_b) (\<lambda>b.
      if b then
        bindM (getsM ESP) (\<lambda>esp.
        bindM (read_virtual_word_32 BX_SEG_REG_SS esp) (\<lambda>v.
        seqM (load_seg_reg temp k v)
        (modifyM (\<lambda>s. set_ESP (ESP s + 4) s))))
      else
        bindM (getsM SP) (\<lambda>sp.
        bindM (read_virtual_word_32 BX_SEG_REG_SS (ucast sp)) (\<lambda>v.
        seqM (load_seg_reg temp k v)
        (modifyM (\<lambda>s. set_SP (SP s + 4) s))))))
    (whenM (k = BX_SEG_REG_SS)
      (modifyM (\<lambda>s. s\<lparr>inhibit_mask := inhibit_mask s OR 0x03, async_event := 1\<rparr>)))"

definition PUSH_Id :: "bxInstruction_c \<Rightarrow> unit cpu_monad" where
  "PUSH_Id i = push_32 (Id i)"

definition PUSH_EdM :: "bxInstruction_c \<Rightarrow> unit cpu_monad" where
  "PUSH_EdM i =
    bindM (ResolveModrm i) (\<lambda>eaddr.
    bindM (read_virtual_dword_32 (seg i) eaddr) push_32)"

definition PUSHAD32 :: "unit cpu_monad" where
  "PUSHAD32 =
    bindM (getsM ESP) (\<lambda>temp_ESP.
    bindM (getsM SP) (\<lambda>temp_SP.
    bindM (getsM ss_d_b) (\<lambda>b.
      (let put = (\<lambda>k f. bindM (getsM f) (write_virtual_dword_32 BX_SEG_REG_SS
             (if b then temp_ESP - k else ucast (temp_SP - ucast k)))) in
       seqM (put 4 EAX)
       (seqM (put 8 ECX)
       (seqM (put 12 EDX)
       (seqM (put 16 EBX)
       (seqM (put 20 (\<lambda>_. temp_ESP))
       (seqM (put 24 EBP)
       (seqM (put 28 ESI)
       (seqM (put 32 EDI)
       (modifyM (\<lambda>s. if b then set_ESP (ESP s - 32) s else set_SP (SP s - 32) s)))))))))))))"

definition POPAD32 :: "unit cpu_monad" where
  "POPAD32 =
    bindM (getsM ss_d_b) (\<lambda>b.
    bindM (getsM ESP) (\<lambda>temp_ESP.
    bindM (getsM SP) (\<lambda>temp_SP.
      (let get = (\<lambda>k. read_virtual_dword_32 BX_SEG_REG_SS
             (if b then temp_ESP + k else ucast (temp_SP + ucast k))) in
       bindM (get 0) (\<lambda>edi.
       bindM (get 4) (\<lambda>esi.
       bindM (get 8) (\<lambda>ebp.
       bindM (get 12) (\<lambda>dummy.
       bindM (get 16) (\<lambda>ebx.
       bindM (get 20) (\<lambda>edx.
       bindM (get 24) (\<lambda>ecx.
       bindM (get 28) (\<lambda>eax.
       seqM (modifyM (\<lambda>s. if b then set_ESP (ESP s + 32) s else set_SP (SP s + 32) s))
       (seqM (modifyM (BX_WRITE_32BIT_REGZ 7 edi))
       (seqM (modifyM (BX_WRITE_32BIT_REGZ 6 esi))
       (seqM (modifyM (BX_WRITE_32BIT_REGZ 5 ebp))
       (seqM (modifyM (BX_WRITE_32BIT_REGZ 3 ebx))
       (seqM (modifyM (BX_WRITE_32BIT_REGZ 2 edx))
       (seqM (modifyM (BX_WRITE_32BIT_REGZ 1 ecx))
       (modifyM (BX_WRITE_32BIT_REGZ 0 eax))))))))))))))))))))"

text \<open>The loop of ENTER copies \<open>n\<close> frame pointers of the enclosing frames; the
  width of the frame pointer is that of the stack pointer.\<close>

primrec enter_frames :: "nat \<Rightarrow> 'a::len word \<Rightarrow> unit cpu_monad" where
  "enter_frames 0 ebp = returnM ()"
| "enter_frames (Suc n) ebp =
    bindM (read_virtual_dword_32 BX_SEG_REG_SS (ucast (ebp - 4))) (\<lambda>temp32.
    seqM (push_32 temp32)
    (enter_frames n (ebp - 4)))"

definition ENTER32_IwIb :: "bxInstruction_c \<Rightarrow> unit cpu_monad" where
  "ENTER32_IwIb i =
    (let imm16 = Iw i; level = Ib2 i AND 0x1F in
     seqM RSP_SPECULATIVE
     (seqM (bindM (getsM EBP) push_32)
     (bindM (getsM ESP) (\<lambda>frame_ptr32.
     seqM (bindM (getsM ss_d_b) (\<lambda>b.
       if b then
         bindM (getsM EBP) (\<lambda>ebp.
         seqM (whenM (0 < level) (seqM (enter_frames (unat level - 1) ebp) (push_32 frame_ptr32)))
         (seqM (modifyM (\<lambda>s. set_ESP (ESP s - ucast imm16) s))
         (bindM (getsM ESP) (read_RMW_virtual_dword_32 BX_SEG_REG_SS))))
       else
         bindM (getsM BP) (\<lambda>bp.
         seqM (whenM (0 < level) (seqM (enter_frames (unat level - 1) bp) (push_32 frame_ptr32)))
         (seqM (modifyM (\<lambda>s. set_SP (SP s - imm16) s))
         (bindM (getsM SP) (\<lambda>sp. read_RMW_virtual_dword_32 BX_SEG_REG_SS (ucast sp)))))))
     (seqM (modifyM (BX_WRITE_32BIT_REGZ 5 frame_ptr32))
     RSP_COMMIT)))))"

definition LEAVE32 :: "unit cpu_monad" where
  "LEAVE32 =
    bindM (getsM ss_d_b) (\<lambda>b.
      bindM (if b then
          bindM (getsM EBP) (\<lambda>ebp.
          bindM (read_virtual_dword_32 BX_SEG_REG_SS ebp) (\<lambda>value32.
          seqM (modifyM (\<lambda>s. set_ESP (EBP s + 4) s)) (returnM value32)))
        else
          bindM (getsM BP) (\<lambda>bp.
          bindM (read_virtual_dword_32 BX_SEG_REG_SS (ucast bp)) (\<lambda>value32.
          seqM (modifyM (\<lambda>s. set_SP (BP s + 4) s)) (returnM value32))))
      (\<lambda>value32. modifyM (BX_WRITE_32BIT_REGZ 5 value32)))"

section \<open>What is pushed is popped\<close>

text \<open>The offset of the slot \<open>n\<close> bytes below the stack pointer, and moving the
  stack pointer down and up by \<open>n\<close>, for a stack pointer of 32 bits or 16.\<close>

definition stack_slot :: "32 word \<Rightarrow> bx_cpu_c \<Rightarrow> 32 word" where
  "stack_slot n s = (if ss_d_b s then ESP s - n else ucast (SP s - ucast n))"

definition drop_sp :: "bool \<Rightarrow> 32 word \<Rightarrow> bx_cpu_c \<Rightarrow> bx_cpu_c" where
  "drop_sp b n s = (if b then set_ESP (ESP s - n) s else set_SP (SP s - ucast n) s)"

definition move_sp :: "bool \<Rightarrow> 32 word \<Rightarrow> bx_cpu_c \<Rightarrow> bx_cpu_c" where
  "move_sp b n s = (if b then set_ESP (ESP s + n) s else set_SP (SP s + ucast n) s)"

lemma set_rx_rx [simp]: "set_rx v (set_rx w r) = set_rx v r" "set_rx (reg_rx r) r = r"
proof -
  have [simp]: "\<not> bit x n" if "\<not> n < 16" for x :: "16 word" and n
    using that bit_imp_le_length [of x n] by auto
  show "set_rx v (set_rx w r) = set_rx v r"
    unfolding overlay_defs by (rule bit_word_eqI) (auto simp: bit_simps)
  show "set_rx (reg_rx r) r = r"
    unfolding overlay_defs by (rule bit_word_eqI) (auto simp: bit_simps)
qed

lemma sys_view_fields:
  assumes "sys_view s' = sys_view s"
  shows "seg_d_b (cache (sregs s' k)) = seg_d_b (cache (sregs s k))" "seg_base (cache (sregs s' k)) = seg_base (cache (sregs s k))"
    "limit_scaled (cache (sregs s' k)) = limit_scaled (cache (sregs s k))" "selector (sregs s' k) = selector (sregs s k)"
    "cpu_mode s' = cpu_mode s" "cr0 s' = cr0 s"
proof -
  have e: "(sregs s' k)\<lparr>cache := (cache (sregs s' k))\<lparr>valid := 0\<rparr>\<rparr> = (sregs s k)\<lparr>cache := (cache (sregs s k))\<lparr>valid := 0\<rparr>\<rparr>"
    using assms unfolding sys_view_def by (auto dest: fun_cong [of _ _ k])
  show "seg_d_b (cache (sregs s' k)) = seg_d_b (cache (sregs s k))" "seg_base (cache (sregs s' k)) = seg_base (cache (sregs s k))"
    "limit_scaled (cache (sregs s' k)) = limit_scaled (cache (sregs s k))" "selector (sregs s' k) = selector (sregs s k)"
    using arg_cong [OF e, of "\<lambda>x. seg_d_b (cache x)"] arg_cong [OF e, of "\<lambda>x. seg_base (cache x)"]
      arg_cong [OF e, of "\<lambda>x. limit_scaled (cache x)"] arg_cong [OF e, of selector] by simp_all
  show "cpu_mode s' = cpu_mode s" "cr0 s' = cr0 s" using assms by (simp_all add: sys_view_def)
qed

lemma sp_facts:
  "gen_reg (drop_sp b n s) = (gen_reg s)(4 := if b then gen_reg s 4 - n else set_rx (reg_rx (gen_reg s 4) - ucast n) (gen_reg s 4))"
  "sregs (drop_sp b n s) = sregs s" "with_core (drop_sp b n s) s = drop_sp b n s"
  "gen_reg (move_sp b n s) = (gen_reg s)(4 := if b then gen_reg s 4 + n else set_rx (reg_rx (gen_reg s 4) + ucast n) (gen_reg s 4))"
  by (simp_all add: drop_sp_def move_sp_def reg_defs with_core_def)

text \<open>A push writes below the stack pointer and moves it; a pop reads at the stack
  pointer and moves it.  The contract is shared by the two operand widths.\<close>

locale stack_width =
  fixes push :: "'a::len word \<Rightarrow> unit cpu_monad" and pop :: "'a word cpu_monad"
    and W :: "nat \<Rightarrow> 32 word \<Rightarrow> 'a word \<Rightarrow> unit cpu_monad" and R :: "nat \<Rightarrow> 32 word \<Rightarrow> 'a word cpu_monad"
    and n :: nat and m :: "32 word"
  assumes size: "LENGTH('a) = 8 * n" "n \<le> 4096"
    and push_eq: "push v = bindM (getsM ss_d_b) (\<lambda>b. bindM (getsM (stack_slot (of_nat n))) (\<lambda>a.
      seqM (W 2 a v) (modifyM (drop_sp b (of_nat n)))))"
    and pop_eq: "pop = bindM (getsM ss_d_b) (\<lambda>b. bindM (getsM (stack_slot 0)) (\<lambda>a.
      bindM (R 2 a) (\<lambda>v. seqM (modifyM (move_sp b (of_nat n))) (returnM v))))"
    and core: "core_neutral (W k a v)" "core_neutral (R k a)"
    and sys: "keeps (sys_inv S) (W k a v)" "keeps (sys_inv S) (R k a)"
    and write_run: "seg_caches_ok s \<Longrightarrow> cpu_mode s \<noteq> BX_MODE_LONG_64 \<Longrightarrow>
      \<exists>b. W k a v s = segmented_access type_writable n m k a (\<lambda>laddr pl. access_write_linear laddr pl (le_bytes n v)) b s"
    and read_run: "seg_caches_ok s \<Longrightarrow> cpu_mode s \<noteq> BX_MODE_LONG_64 \<Longrightarrow>
      \<exists>b. R k a s = segmented_access type_readable n m k a
        (\<lambda>laddr pl. bindM (access_read_linear laddr n pl BX_READ) (\<lambda>bs. returnM (le_word bs))) b s"
begin

lemma push_returns:
  assumes "push v s = (Inr (), s')" "seg_caches_ok s"
  obtains s1 where "W 2 (stack_slot (of_nat n) s) v s = (Inr (), s1)" "s' = drop_sp (ss_d_b s) (of_nat n) s1"
    "gen_reg s1 = gen_reg s" "sys_view s1 = sys_view s" "seg_caches_ok s1"
proof -
  obtain s1 where w: "W 2 (stack_slot (of_nat n) s) v s = (Inr (), s1)" and s': "s' = drop_sp (ss_d_b s) (of_nat n) s1"
    using assms(1) unfolding push_eq by (auto simp: monad_simps split: prod.splits sum.splits)
  moreover have "gen_reg s1 = gen_reg s" by (rule core_keptD) (rule core_kept [OF core(1) w])
  moreover have "sys_inv (sys_view s) s1"
    using keepsD [OF sys(1), of "sys_view s" s 2 "stack_slot (of_nat n) s" v] assms(2) w by (simp add: sys_inv_def)
  ultimately show ?thesis using that by (simp add: sys_inv_def)
qed

lemma roundtrip:
  assumes push: "push v s = (Inr (), s')" and ok: "seg_caches_ok s" "cpu_mode s \<noteq> BX_MODE_LONG_64"
    and laddr: "laddr = seg_base (cache (sregs s 2)) + stack_slot (of_nat n) s" "PAGE_OFFSET laddr + of_nat n \<le> 4096"
    and walk: "walk s laddr (CPL s = 3) True = Inr pa" "clear_of_tables s laddr pa n"
    and esp: "gen_reg e 4 = gen_reg s' 4"
  shows "\<exists>s''. pop (with_core e s') = (Inr v, s'') \<and> gen_reg s'' = (gen_reg e)(4 := gen_reg s 4) \<and>
    sys_view s'' = sys_view s \<and> seg_caches_ok s''"
proof -
  define b where "b = ss_d_b s"
  define a where "a = stack_slot (of_nat n) s"
  obtain s1 where w: "W 2 a v s = (Inr (), s1)" and s': "s' = drop_sp b (of_nat n) s1"
    and s1: "gen_reg s1 = gen_reg s" "sys_view s1 = sys_view s" "seg_caches_ok s1"
    by (rule push_returns [OF push ok(1)]) (simp add: a_def b_def)
  have b': "ss_d_b (with_core e s') = b" using sys_view_fields(1) [OF s1(2), of 2] by (simp add: s' sp_facts b_def)
  have "gen_reg (with_core e s') 4 = (if b then gen_reg s 4 - of_nat n else set_rx (reg_rx (gen_reg s 4) - ucast (of_nat n :: 32 word)) (gen_reg s 4))"
    by (simp add: with_core_def esp s' sp_facts s1(1))
  then have a': "stack_slot 0 (with_core e s') = a"
    unfolding stack_slot_def a_def b' b_def [symmetric] ESP_def SP_def by simp
  obtain c where "W 2 a v s = segmented_access type_writable n m 2 a (\<lambda>laddr pl. access_write_linear laddr pl (le_bytes n v)) c s"
    using write_run [OF ok] by blast
  moreover obtain d where "R 2 a s1 = segmented_access type_readable n m 2 a
      (\<lambda>laddr pl. bindM (access_read_linear laddr n pl BX_READ) (\<lambda>bs. returnM (le_word bs))) d s1"
    using read_run [OF s1(3)] ok(2) sys_view_fields(5) [OF s1(2)] by auto
  ultimately have "fst (R 2 a s1) = Inr (le_word (le_bytes n v))"
    using segmented_roundtrip [of "le_bytes n v" m 2 a c s s1 laddr pa d] w laddr walk size(2) by (simp add: a_def)
  then obtain s2 where r: "R 2 a s1 = (Inr v, s2)" using le_word_bytes [of n v] size(1) by (cases "R 2 a s1") simp
  have "with_core e s' = with_core e s1" using sp_facts(3) [of b "of_nat n" s1] by (metis s' with_core_same(2))
  then have r': "R 2 a (with_core e s') = (Inr v, with_core e s2)"
    using core_neutralD [OF core(2), of 2 a e s1] r by simp
  have "pop (with_core e s') = (Inr v, move_sp b (of_nat n) (with_core e s2))"
    unfolding pop_eq using a' b' r' by (simp add: monad_simps)
  moreover have "gen_reg (move_sp b (of_nat n) (with_core e s2)) = (gen_reg e)(4 := gen_reg s 4)"
    using esp by (auto simp: sp_facts with_core_def s' s1(1))
  moreover have "sys_inv (sys_view s) s2"
    using keepsD [OF sys(2), of "sys_view s" s1 2 a] s1 r by (simp add: sys_inv_def)
  then have "sys_inv (sys_view s) (move_sp b (of_nat n) (with_core e s2))"
    by (simp add: sys_inv_def sys_view_def seg_caches_ok_def move_sp_def reg_defs with_core_def)
  ultimately show ?thesis by (auto simp: sys_inv_def)
qed

end

interpretation stack16: stack_width push_16 pop_16 write_virtual_word_32 read_virtual_word_32 2 1
  by unfold_locales
    (auto simp: push_16_def pop_16_def stack_slot_def drop_sp_def move_sp_def monad_simps intro!: core_intros keeps_intros
      write_accessors_run read_accessors_run ext split: prod.split sum.split)

interpretation stack32: stack_width push_32 pop_32 write_virtual_dword_32 read_virtual_dword_32 4 3
  by unfold_locales
    (auto simp: push_32_def pop_32_def stack_slot_def drop_sp_def move_sp_def monad_simps intro!: core_intros keeps_intros
      write_accessors_run read_accessors_run ext split: prod.split sum.split)

end
