(* ===== verification/CtrlXfer.thy ===== *)
theory CtrlXfer
  imports Stack
begin

text \<open>
  The near control transfers of \<open>cpu/ctrl_xfer32.cc\<close>: the sixteen conditional
  jumps, jump, loops, call and return.  The conditional jumps differ in their condition
  only; \<open>jump_taken\<close> has the sixteen conditions and \<open>Jcc_Jd\<close> their common body.  The
  three loop instructions differ in what they ask of ZF; \<open>loop_Jb\<close> is their common body.
\<close>

section \<open>Branches\<close>

definition branch_near32 :: "32 word \<Rightarrow> unit cpu_monad" where
  "branch_near32 new_EIP =
    bindM (getsM (\<lambda>s. limit_scaled (cache (sregs s BX_SEG_REG_CS)))) (\<lambda>limit.
      if new_EIP > limit then exception BX_GP_EXCEPTION 0
      else modifyM (set_EIP new_EIP))"

datatype jcc = JO | JNO | JB | JNB | JZ | JNZ | JBE | JNBE | JS | JNS | JP | JNP | JL | JNL | JLE | JNLE

fun jump_taken :: "jcc \<Rightarrow> bx_cpu_c \<Rightarrow> bool" where
  "jump_taken JO s = (get_OF s \<noteq> 0)"
| "jump_taken JNO s = (\<not> get_OF s \<noteq> 0)"
| "jump_taken JB s = (get_CF s \<noteq> 0)"
| "jump_taken JNB s = (\<not> get_CF s \<noteq> 0)"
| "jump_taken JZ s = (get_ZF s \<noteq> 0)"
| "jump_taken JNZ s = (\<not> get_ZF s \<noteq> 0)"
| "jump_taken JBE s = (get_CF s \<noteq> 0 \<or> get_ZF s \<noteq> 0)"
| "jump_taken JNBE s = (\<not> (get_CF s \<noteq> 0 \<or> get_ZF s \<noteq> 0))"
| "jump_taken JS s = (get_SF s \<noteq> 0)"
| "jump_taken JNS s = (\<not> get_SF s \<noteq> 0)"
| "jump_taken JP s = (get_PF s \<noteq> 0)"
| "jump_taken JNP s = (\<not> get_PF s \<noteq> 0)"
| "jump_taken JL s = (getB_SF s \<noteq> getB_OF s)"
| "jump_taken JNL s = (getB_SF s = getB_OF s)"
| "jump_taken JLE s = (get_ZF s \<noteq> 0 \<or> getB_SF s \<noteq> getB_OF s)"
| "jump_taken JNLE s = (\<not> get_ZF s \<noteq> 0 \<and> getB_SF s = getB_OF s)"

definition Jcc_Jd :: "jcc \<Rightarrow> bxInstruction_c \<Rightarrow> unit cpu_monad" where
  "Jcc_Jd cc i =
    bindM (getsM (jump_taken cc)) (\<lambda>taken. whenM taken
      (bindM (getsM EIP) (\<lambda>eip. branch_near32 (eip + Id i))))"

definition JMP_Jd :: "bxInstruction_c \<Rightarrow> unit cpu_monad" where
  "JMP_Jd i = bindM (getsM EIP) (\<lambda>eip. branch_near32 (eip + Id i))"

definition JMP_EdR :: "bxInstruction_c \<Rightarrow> unit cpu_monad" where
  "JMP_EdR i = bindM (getsM (BX_READ_32BIT_REG (rm i))) branch_near32"

section \<open>Counting branches\<close>

definition JECXZ_Jb :: "bxInstruction_c \<Rightarrow> unit cpu_monad" where
  "JECXZ_Jb i =
    bindM (getsM (\<lambda>s. if as32L i \<noteq> 0 then ECX s else ucast (BX_READ_16BIT_REG 1 s))) (\<lambda>temp_ECX.
    whenM (temp_ECX = 0) (bindM (getsM EIP) (\<lambda>eip. branch_near32 (eip + Id i))))"

text \<open>The counter is written after the branch, which may raise an exception.\<close>

definition loop_Jb :: "(bx_cpu_c \<Rightarrow> bool) \<Rightarrow> bxInstruction_c \<Rightarrow> unit cpu_monad" where
  "loop_Jb again i =
    (if as32L i \<noteq> 0 then
       bindM (getsM (\<lambda>s. ECX s - 1)) (\<lambda>count.
       seqM (bindM (getsM again) (\<lambda>more. whenM (count \<noteq> 0 \<and> more)
         (bindM (getsM EIP) (\<lambda>eip. branch_near32 (eip + Id i)))))
       (modifyM (BX_WRITE_32BIT_REGZ 1 count)))
     else
       bindM (getsM (\<lambda>s. BX_READ_16BIT_REG 1 s - 1)) (\<lambda>count.
       seqM (bindM (getsM again) (\<lambda>more. whenM (count \<noteq> 0 \<and> more)
         (bindM (getsM EIP) (\<lambda>eip. branch_near32 (eip + Id i)))))
       (modifyM (BX_WRITE_16BIT_REG 1 count))))"

definition LOOPNE32_Jb :: "bxInstruction_c \<Rightarrow> unit cpu_monad" where
  "LOOPNE32_Jb = loop_Jb (\<lambda>s. get_ZF s = 0)"

definition LOOPE32_Jb :: "bxInstruction_c \<Rightarrow> unit cpu_monad" where
  "LOOPE32_Jb = loop_Jb (\<lambda>s. get_ZF s \<noteq> 0)"

definition LOOP32_Jb :: "bxInstruction_c \<Rightarrow> unit cpu_monad" where
  "LOOP32_Jb = loop_Jb (\<lambda>_. True)"

section \<open>Call and return\<close>

definition CALL_Jd :: "bxInstruction_c \<Rightarrow> unit cpu_monad" where
  "CALL_Jd i =
    bindM (getsM (\<lambda>s. EIP s + Id i)) (\<lambda>new_EIP.
    seqM RSP_SPECULATIVE
    (seqM (bindM (getsM EIP) push_32)
    (seqM (branch_near32 new_EIP)
    RSP_COMMIT)))"

definition CALL_EdR :: "bxInstruction_c \<Rightarrow> unit cpu_monad" where
  "CALL_EdR i =
    bindM (getsM (BX_READ_32BIT_REG (rm i))) (\<lambda>new_EIP.
    seqM RSP_SPECULATIVE
    (seqM (bindM (getsM EIP) push_32)
    (seqM (branch_near32 new_EIP)
    RSP_COMMIT)))"

definition RETnear32 :: "unit cpu_monad" where
  "RETnear32 =
    seqM RSP_SPECULATIVE
    (bindM pop_32 (\<lambda>return_EIP.
    bindM (getsM (\<lambda>s. limit_scaled (cache (sregs s BX_SEG_REG_CS)))) (\<lambda>limit.
    seqM (whenM (return_EIP > limit) (exception BX_GP_EXCEPTION 0))
    (seqM (modifyM (set_EIP return_EIP))
    RSP_COMMIT))))"

definition RETnear32_Iw :: "bxInstruction_c \<Rightarrow> unit cpu_monad" where
  "RETnear32_Iw i =
    seqM RSP_SPECULATIVE
    (bindM pop_32 (\<lambda>return_EIP.
    bindM (getsM (\<lambda>s. limit_scaled (cache (sregs s BX_SEG_REG_CS)))) (\<lambda>limit.
    seqM (whenM (return_EIP > limit) (exception BX_GP_EXCEPTION 0))
    (seqM (modifyM (set_EIP return_EIP))
    (seqM (modifyM (\<lambda>s. if ss_d_b s then set_ESP (ESP s + ucast (Iw i)) s else set_SP (SP s + Iw i) s))
    RSP_COMMIT)))))"

section \<open>The conditions\<close>

text \<open>The comparison a condition stands for after a compare of \<open>a\<close> with \<open>b\<close>; the
  other conditions test a flag of the difference.\<close>

fun compares :: "jcc \<Rightarrow> 'a::len word \<Rightarrow> 'a word \<Rightarrow> bool" where
  "compares JO a b = (\<not> signed_range TYPE('a) (sint a - sint b))"
| "compares JNO a b = signed_range TYPE('a) (sint a - sint b)"
| "compares JB a b = (a < b)"
| "compares JNB a b = (b \<le> a)"
| "compares JZ a b = (a = b)"
| "compares JNZ a b = (a \<noteq> b)"
| "compares JBE a b = (a \<le> b)"
| "compares JNBE a b = (b < a)"
| "compares JS a b = (sint (a - b) < 0)"
| "compares JNS a b = (0 \<le> sint (a - b))"
| "compares JP a b = even_parity (a - b)"
| "compares JNP a b = (\<not> even_parity (a - b))"
| "compares JL a b = (sint a < sint b)"
| "compares JNL a b = (sint b \<le> sint a)"
| "compares JLE a b = (sint a \<le> sint b)"
| "compares JNLE a b = (sint b < sint a)"

lemma sign_xor_overflow:
  fixes a b :: "'a::len word"
  shows "(sint (a - b) < 0) \<noteq> (\<not> signed_range TYPE('a) (sint a - sint b)) \<longleftrightarrow> sint a < sint b"
proof (cases "signed_range TYPE('a) (sint a - sint b)")
  case True
  then have "sint (a - b) = sint a - sint b"
    unfolding signed_range_def sint_word_ariths(2) by (simp add: signed_take_bit_int_eq_self)
  with True show ?thesis by simp
next
  case False
  then have "bit a (LENGTH('a) - 1) \<noteq> bit b (LENGTH('a) - 1)" "bit a (LENGTH('a) - 1) \<noteq> bit (a - b) (LENGTH('a) - 1)"
    using sub_overflow_iff [of a b False] by auto
  then show ?thesis
    using False sint_neg_iff_msb [of a] sint_neg_iff_msb [of b] sint_neg_iff_msb [of "a - b"] by auto
qed

lemma jump_taken_sub:
  assumes "flags_of s = ref_sub_flags a b False"
  shows "jump_taken cc s \<longleftrightarrow> compares cc a b"
proof -
  have f: "fCF (flags_of s) \<longleftrightarrow> a < b" "fZF (flags_of s) \<longleftrightarrow> a = b" "fSF (flags_of s) \<longleftrightarrow> sint (a - b) < 0"
    "fOF (flags_of s) \<longleftrightarrow> \<not> signed_range TYPE('a) (sint a - sint b)" "fPF (flags_of s) \<longleftrightarrow> even_parity (a - b)"
    using assms by (simp_all add: ref_sub_flags_def Let_def word_less_nat_alt)
  have "sint a = sint b \<longleftrightarrow> a = b" by (auto intro: signed_word_eqI)
  then show ?thesis
    using sign_xor_overflow [of a b]
    by (cases cc) (auto simp: get_flag_iff getB_flag_eq f not_less order.order_iff_strict)
qed

section \<open>Call then return\<close>

lemma branch_near32_run:
  "branch_near32 e s = (if limit_scaled (cache (sregs s 1)) < e then (Inl (Exception BX_GP_EXCEPTION 0), s)
    else (Inr (), set_EIP e s))"
  by (simp add: branch_near32_def monad_simps)

lemma call_body:
  assumes "seqM RSP_SPECULATIVE (seqM (bindM (getsM EIP) push_32) (seqM (branch_near32 e) RSP_COMMIT)) s = (Inr (), s')"
  obtains sB where "push_32 (EIP s) (s\<lparr>speculative_rsp := 1, prev_rsp := ESP s\<rparr>) = (Inr (), sB)"
    "s' = (set_EIP e sB)\<lparr>speculative_rsp := 0\<rparr>"
proof -
  have "EIP (s\<lparr>speculative_rsp := 1, prev_rsp := ESP s\<rparr>) = EIP s" by (simp add: BX_READ_32BIT_REG_def)
  then show ?thesis
    using assms that unfolding RSP_SPECULATIVE_def RSP_COMMIT_def
    by (auto simp: monad_simps branch_near32_run split: prod.splits sum.splits if_splits)
qed

lemma call_return:
  assumes call: "CALL_Jd i s = (Inr (), s') \<or> CALL_EdR i s = (Inr (), s')"
    and ok: "seg_caches_ok s" "cpu_mode s \<noteq> BX_MODE_LONG_64"
    and laddr: "laddr = seg_base (cache (sregs s 2)) + stack_slot 4 s" "PAGE_OFFSET laddr + 4 \<le> 4096"
    and walk: "walk s laddr (CPL s = 3) True = Inr pa" "clear_of_tables s laddr pa 4"
    and eip: "EIP s \<le> limit_scaled (cache (sregs s 1))"
  shows "\<exists>s''. RETnear32 s' = (Inr (), s'') \<and> gen_reg s'' = gen_reg s \<and> sys_view s'' = sys_view s"
proof -
  define s0 where "s0 = s\<lparr>speculative_rsp := 1, prev_rsp := ESP s\<rparr>"
  obtain e where "seqM RSP_SPECULATIVE (seqM (bindM (getsM EIP) push_32) (seqM (branch_near32 e) RSP_COMMIT)) s = (Inr (), s')"
    using call by (auto simp: CALL_Jd_def CALL_EdR_def bindM_apply [of "getsM _"] getsM_apply)
  then obtain sB where push: "push_32 (EIP s) s0 = (Inr (), sB)" and s': "s' = (set_EIP e sB)\<lparr>speculative_rsp := 0\<rparr>"
    unfolding s0_def by (rule call_body)
  define c where "c = s'\<lparr>speculative_rsp := 1, prev_rsp := ESP s'\<rparr>"
  have c: "c = with_core c sB" by (simp add: c_def s' with_core_def reg_defs)
  have s0: "seg_caches_ok s0" "cpu_mode s0 \<noteq> 4" "sregs s0 = sregs s" "stack_slot 4 s0 = stack_slot 4 s" "CPL s0 = CPL s"
    "gen_reg s0 = gen_reg s" "sys_view s0 = sys_view s"
    using ok by (simp_all add: s0_def seg_caches_ok_def stack_slot_def reg_defs CPL_def sys_view_def)
  have "walk s0 laddr u w = walk s laddr u w" "walk_entries s0 laddr = walk_entries s laddr" for u w
    by (rule walk_cong; simp add: s0_def mem_entry_def phys_ok_def)+
  then have w: "walk s0 laddr (CPL s0 = 3) True = Inr pa" "clear_of_tables s0 laddr pa 4"
    using walk s0(5) by (simp_all add: clear_of_tables_def)
  have l: "laddr = seg_base (cache (sregs s0 2)) + stack_slot (of_nat 4) s0" "PAGE_OFFSET laddr + of_nat 4 \<le> 4096"
    using laddr s0(3,4) by simp_all
  have esp: "gen_reg c 4 = gen_reg sB 4"
    by (simp add: c_def s' reg_defs BX_32BIT_REG_EIP_def BX_GENERAL_REGISTERS_def)
  obtain s2 where pop: "pop_32 c = (Inr (EIP s), s2)" and s2: "gen_reg s2 = (gen_reg c)(4 := gen_reg s 4)" "sys_view s2 = sys_view s"
    using stack32.roundtrip [OF push s0(1,2) l w esp] unfolding c [symmetric] s0(6,7) by blast
  obtain t where "sB = drop_sp (ss_d_b s0) (of_nat 4) t" "gen_reg t = gen_reg s0"
    by (rule stack32.push_returns [OF push s0(1)])
  then have sB: "gen_reg sB x = gen_reg s x" if "x \<noteq> 4" for x
    using that by (simp add: sp_facts s0(6))
  have "(limit_scaled (cache (sregs s2 1)) < EIP s) = False"
    using eip sys_view_fields(3) [OF s2(2), of 1] by (simp add: not_less)
  then have "RETnear32 s' = (Inr (), (set_EIP (EIP s) s2)\<lparr>speculative_rsp := 0\<rparr>)"
    unfolding RETnear32_def RSP_SPECULATIVE_def RSP_COMMIT_def
    by (simp only: monad_simps c_def [symmetric] pop prod.case sum.case)
  moreover have "gen_reg (set_EIP (EIP s) s2) = gen_reg s"
    by (rule ext) (simp add: s2 c_def s' reg_defs BX_32BIT_REG_EIP_def BX_GENERAL_REGISTERS_def sB)
  ultimately show ?thesis using s2(2) by (auto simp: sys_view_def reg_defs)
qed

end
