(* ===== verification/Tasking.thy ===== *)
theory Tasking
  imports CtrlXfer
begin

text \<open>
  Task switches: \<open>cpu/tasking.cc\<close>.  The state of the running task is saved in its
  task state segment (TSS), the state of the new task is read from the new one,
  and the segment registers are reloaded with the checks of a load.  The two
  layouts of a TSS (16 and 32 bits) have a definition each for saving and reading;
  \<open>task_commit\<close> is the part of \<open>task_switch\<close> after its commit point.

  The panics of this file are empty in the build, as it does not include
  \<open>whitebochs.h\<close>; \<open>uninit_t\<close> holds what the local variables of a member function
  contain before they are assigned: the descriptors that are parsed piecewise,
  and the stack pointer that \<open>get_SS_ESP_from_TSS\<close> leaves unset when the type of
  the task register is not that of a TSS.
\<close>

abbreviation (input) BX_SYS_SEGMENT_AVAIL_286_TSS :: "8 word" where "BX_SYS_SEGMENT_AVAIL_286_TSS \<equiv> 0x1"
abbreviation (input) BX_SYS_SEGMENT_LDT :: "8 word" where "BX_SYS_SEGMENT_LDT \<equiv> 0x2"
abbreviation (input) BX_SYS_SEGMENT_BUSY_286_TSS :: "8 word" where "BX_SYS_SEGMENT_BUSY_286_TSS \<equiv> 0x3"
abbreviation (input) BX_286_CALL_GATE :: "8 word" where "BX_286_CALL_GATE \<equiv> 0x4"
abbreviation (input) BX_TASK_GATE :: "8 word" where "BX_TASK_GATE \<equiv> 0x5"
abbreviation (input) BX_286_INTERRUPT_GATE :: "8 word" where "BX_286_INTERRUPT_GATE \<equiv> 0x6"
abbreviation (input) BX_286_TRAP_GATE :: "8 word" where "BX_286_TRAP_GATE \<equiv> 0x7"
abbreviation (input) BX_SYS_SEGMENT_AVAIL_386_TSS :: "8 word" where "BX_SYS_SEGMENT_AVAIL_386_TSS \<equiv> 0x9"
abbreviation (input) BX_SYS_SEGMENT_BUSY_386_TSS :: "8 word" where "BX_SYS_SEGMENT_BUSY_386_TSS \<equiv> 0xb"
abbreviation (input) BX_386_CALL_GATE :: "8 word" where "BX_386_CALL_GATE \<equiv> 0xc"
abbreviation (input) BX_386_INTERRUPT_GATE :: "8 word" where "BX_386_INTERRUPT_GATE \<equiv> 0xe"
abbreviation (input) BX_386_TRAP_GATE :: "8 word" where "BX_386_TRAP_GATE \<equiv> 0xf"

abbreviation (input) BX_TS_EXCEPTION :: nat where "BX_TS_EXCEPTION \<equiv> 10"
abbreviation (input) EFlagsNTMask :: "32 word" where "EFlagsNTMask \<equiv> push_bit 14 1"
abbreviation (input) EFlagsValidMask :: "32 word" where "EFlagsValidMask \<equiv> 0x003f7fd5"

abbreviation (input) IP :: "bx_cpu_c \<Rightarrow> 16 word" where "IP \<equiv> BX_READ_16BIT_REG BX_32BIT_REG_EIP"
abbreviation (input) sreg_value :: "nat \<Rightarrow> bx_cpu_c \<Rightarrow> 16 word" where
  "sreg_value k s \<equiv> sel_value (selector (sregs s k))"

datatype task_source = BX_TASK_FROM_CALL | BX_TASK_FROM_IRET | BX_TASK_FROM_JUMP | BX_TASK_FROM_INT

record uninit_t =
  u_descriptor :: bx_descriptor_t
  u_ss :: "16 word"
  u_esp :: "32 word"

definition v8086_mode :: "bx_cpu_c \<Rightarrow> bool" where
  "v8086_mode s = (cpu_mode s = BX_MODE_IA32_V8086)"

definition read_eflags :: "32 word cpu_monad" where
  "read_eflags = (\<lambda>s. case force_flags s of (f, s') \<Rightarrow> (Inr f, s'))"

definition invalidate_prefetch_q :: "bx_cpu_c \<Rightarrow> bx_cpu_c" where
  "invalidate_prefetch_q s = s\<lparr>eipPageWindowSize := 0\<rparr>"

section \<open>The stack of a privilege level\<close>

definition get_SS_ESP_from_TSS :: "uninit_t \<Rightarrow> 32 word \<Rightarrow> (16 word \<times> 32 word) cpu_monad" where
  "get_SS_ESP_from_TSS u pl =
    bindM (getsM task_reg) (\<lambda>tr.
      if d_type (cache tr) = BX_SYS_SEGMENT_AVAIL_386_TSS \<or> d_type (cache tr) = BX_SYS_SEGMENT_BUSY_386_TSS then
        (let TSSstackaddr = 8 * pl + 4 in
         seqM (whenM (TSSstackaddr + 7 > limit_scaled (cache tr))
           (exception BX_TS_EXCEPTION (sel_value (selector tr) AND 0xfffc)))
         (bindM (system_read_word (seg_base (cache tr) + TSSstackaddr + 4)) (\<lambda>ss.
         bindM (system_read_dword (seg_base (cache tr) + TSSstackaddr)) (\<lambda>esp.
         returnM (ss, esp)))))
      else if d_type (cache tr) = BX_SYS_SEGMENT_AVAIL_286_TSS \<or> d_type (cache tr) = BX_SYS_SEGMENT_BUSY_286_TSS then
        (let TSSstackaddr = 4 * pl + 2 in
         seqM (whenM (TSSstackaddr + 3 > limit_scaled (cache tr))
           (exception BX_TS_EXCEPTION (sel_value (selector tr) AND 0xfffc)))
         (bindM (system_read_word (seg_base (cache tr) + TSSstackaddr + 2)) (\<lambda>ss.
         bindM (system_read_word (seg_base (cache tr) + TSSstackaddr)) (\<lambda>sp.
         returnM (ss, ucast sp)))))
      else returnM (u_ss u, u_esp u))"

section \<open>Saving the old task\<close>

definition save_tss286 :: "32 word \<Rightarrow> 32 word \<Rightarrow> unit cpu_monad" where
  "save_tss286 obase32 oldEFLAGS =
    (let put = (\<lambda>k f. bindM (getsM f) (system_write_word (obase32 + k))) in
     seqM (bindM (getsM cr0_get_PG) (\<lambda>PG. whenM (PG \<noteq> 0)
       (seqM (dtranslate_linear (obase32 + 14) 0 BX_WRITE)
       (seqM (dtranslate_linear (obase32 + 41) 0 BX_WRITE) (returnM ())))))
     (seqM (put 14 IP)
     (seqM (put 16 (\<lambda>_. ucast oldEFLAGS))
     (seqM (put 18 (BX_READ_16BIT_REG 0))
     (seqM (put 20 (BX_READ_16BIT_REG 1))
     (seqM (put 22 (BX_READ_16BIT_REG 2))
     (seqM (put 24 (BX_READ_16BIT_REG 3))
     (seqM (put 26 (BX_READ_16BIT_REG 4))
     (seqM (put 28 (BX_READ_16BIT_REG 5))
     (seqM (put 30 (BX_READ_16BIT_REG 6))
     (seqM (put 32 (BX_READ_16BIT_REG 7))
     (seqM (put 34 (sreg_value BX_SEG_REG_ES))
     (seqM (put 36 (sreg_value BX_SEG_REG_CS))
     (seqM (put 38 (sreg_value BX_SEG_REG_SS))
     (put 40 (sreg_value BX_SEG_REG_DS))))))))))))))))"

definition save_tss386 :: "32 word \<Rightarrow> 32 word \<Rightarrow> unit cpu_monad" where
  "save_tss386 obase32 oldEFLAGS =
    (let put = (\<lambda>k f. bindM (getsM f) (system_write_dword (obase32 + k)));
         put_sreg = (\<lambda>k r. bindM (getsM (sreg_value r)) (system_write_word (obase32 + k)))
     in
     seqM (bindM (getsM cr0_get_PG) (\<lambda>PG. whenM (PG \<noteq> 0)
       (seqM (dtranslate_linear (obase32 + 0x20) 0 BX_WRITE)
       (seqM (dtranslate_linear (obase32 + 0x5d) 0 BX_WRITE) (returnM ())))))
     (seqM (put 0x20 EIP)
     (seqM (put 0x24 (\<lambda>_. oldEFLAGS))
     (seqM (put 0x28 (BX_READ_32BIT_REG 0))
     (seqM (put 0x2c (BX_READ_32BIT_REG 1))
     (seqM (put 0x30 (BX_READ_32BIT_REG 2))
     (seqM (put 0x34 (BX_READ_32BIT_REG 3))
     (seqM (put 0x38 (BX_READ_32BIT_REG 4))
     (seqM (put 0x3c (BX_READ_32BIT_REG 5))
     (seqM (put 0x40 (BX_READ_32BIT_REG 6))
     (seqM (put 0x44 (BX_READ_32BIT_REG 7))
     (seqM (put_sreg 0x48 BX_SEG_REG_ES)
     (seqM (put_sreg 0x4c BX_SEG_REG_CS)
     (seqM (put_sreg 0x50 BX_SEG_REG_SS)
     (seqM (put_sreg 0x54 BX_SEG_REG_DS)
     (seqM (put_sreg 0x58 BX_SEG_REG_FS)
     (put_sreg 0x5c BX_SEG_REG_GS)))))))))))))))))"

section \<open>Reading the new task\<close>

text \<open>The local variables of \<open>task_switch\<close> that receive the new state; the general
  registers are given by number.\<close>

record task_image =
  newCR3 :: "32 word"
  newEIP :: "32 word"
  newEFLAGS :: "32 word"
  new_reg :: "nat \<Rightarrow> 32 word"
  raw_sreg :: "nat \<Rightarrow> 16 word"
  raw_ldt_selector :: "16 word"
  trap_word :: "16 word"

text \<open>The eight general registers are read in the order of their numbers.\<close>

primrec read_image :: "(nat \<Rightarrow> 'a cpu_monad) \<Rightarrow> nat list \<Rightarrow> (nat \<Rightarrow> 'a) \<Rightarrow> (nat \<Rightarrow> 'a) cpu_monad" where
  "read_image get [] f = returnM f"
| "read_image get (k # ks) f = bindM (get k) (\<lambda>v. read_image get ks (f(k := v)))"

definition load_tss286 :: "32 word \<Rightarrow> task_image cpu_monad" where
  "load_tss286 nbase32 =
    bindM (system_read_word (nbase32 + 14)) (\<lambda>eip.
    bindM (system_read_word (nbase32 + 16)) (\<lambda>fl.
    bindM (read_image (\<lambda>k. bindM (system_read_word (nbase32 + 18 + 2 * of_nat k)) (\<lambda>temp16.
      returnM (0xffff0000 OR ucast temp16))) [0, 1, 2, 3, 4, 5, 6, 7] (\<lambda>_. 0)) (\<lambda>regs.
    bindM (read_image (\<lambda>k. system_read_word (nbase32 + 34 + 2 * of_nat k))
      [BX_SEG_REG_ES, BX_SEG_REG_CS, BX_SEG_REG_SS, BX_SEG_REG_DS] (\<lambda>_. 0)) (\<lambda>sels.
    bindM (system_read_word (nbase32 + 42)) (\<lambda>ldt.
    returnM \<lparr>newCR3 = 0, newEIP = ucast eip, newEFLAGS = ucast fl, new_reg = regs, raw_sreg = sels,
      raw_ldt_selector = ldt, trap_word = 0\<rparr>)))))"

definition load_tss386 :: "32 word \<Rightarrow> task_image cpu_monad" where
  "load_tss386 nbase32 =
    bindM (bindM (getsM cr0_get_PG) (\<lambda>PG. if PG \<noteq> 0 then system_read_dword (nbase32 + 0x1c) else returnM 0)) (\<lambda>CR3.
    bindM (system_read_dword (nbase32 + 0x20)) (\<lambda>eip.
    bindM (system_read_dword (nbase32 + 0x24)) (\<lambda>fl.
    bindM (read_image (\<lambda>k. system_read_dword (nbase32 + 0x28 + 4 * of_nat k)) [0, 1, 2, 3, 4, 5, 6, 7] (\<lambda>_. 0)) (\<lambda>regs.
    bindM (read_image (\<lambda>k. system_read_word (nbase32 + 0x48 + 4 * of_nat k))
      [BX_SEG_REG_ES, BX_SEG_REG_CS, BX_SEG_REG_SS, BX_SEG_REG_DS, BX_SEG_REG_FS, BX_SEG_REG_GS] (\<lambda>_. 0)) (\<lambda>sels.
    bindM (system_read_word (nbase32 + 0x60)) (\<lambda>ldt.
    bindM (system_read_word (nbase32 + 0x64)) (\<lambda>trap.
    returnM \<lparr>newCR3 = CR3, newEIP = eip, newEFLAGS = fl, new_reg = regs, raw_sreg = sels,
      raw_ldt_selector = ldt, trap_word = trap\<rparr>)))))))"

section \<open>Loading the segment registers of the new task\<close>

definition fetch_raw_descriptor2 :: "bx_selector_t \<Rightarrow> (32 word \<times> 32 word) option cpu_monad" where
  "fetch_raw_descriptor2 sel =
    (let index = ucast (sel_index sel) :: 32 word;
         fetch = (\<lambda>offset. bindM (system_read_qword offset) (\<lambda>raw.
           returnM (Some (ucast raw, ucast (drop_bit 32 raw)))))
     in if sel_ti sel = 0 then
         bindM (getsM gdtr) (\<lambda>t.
           if index * 8 + 7 > ucast (gseg_limit t) then returnM None
           else fetch (gseg_base t + index * 8))
       else
         bindM (getsM (\<lambda>s. cache (ldtr s))) (\<lambda>t.
           if valid t = 0 then returnM None
           else if index * 8 + 7 > limit_scaled t then returnM None
           else fetch (seg_base t + index * 8)))"

text \<open>A descriptor of the new task, or \<open>#TS\<close> when the selector is out of bounds.\<close>

definition fetch_task_descriptor :: "uninit_t \<Rightarrow> bx_selector_t \<Rightarrow> 16 word \<Rightarrow> bx_descriptor_t cpu_monad" where
  "fetch_task_descriptor u sel raw =
    bindM (fetch_raw_descriptor2 sel) (\<lambda>good.
      case good of None \<Rightarrow> exception BX_TS_EXCEPTION (raw AND 0xfffc)
      | Some (dword1, dword2) \<Rightarrow> returnM (parse_descriptor dword1 dword2 (u_descriptor u)))"

definition set_seg_cache :: "nat \<Rightarrow> bx_descriptor_t \<Rightarrow> bx_cpu_c \<Rightarrow> bx_cpu_c" where
  "set_seg_cache k d s = s\<lparr>sregs := (sregs s)(k := (sregs s k)\<lparr>cache := d\<rparr>)\<rparr>"

definition set_CPL :: "8 word \<Rightarrow> bx_cpu_c \<Rightarrow> bx_cpu_c" where
  "set_CPL c s = s\<lparr>sregs := (sregs s)(BX_SEG_REG_CS := (sregs s BX_SEG_REG_CS)\<lparr>
    selector := (selector (sregs s BX_SEG_REG_CS))\<lparr>sel_rpl := c\<rparr>\<rparr>)\<rparr>"

definition task_switch_load_selector :: "uninit_t \<Rightarrow> nat \<Rightarrow> bx_selector_t \<Rightarrow> 16 word \<Rightarrow> 8 word \<Rightarrow> unit cpu_monad" where
  "task_switch_load_selector u k sel raw_selector cs_rpl =
    whenM (raw_selector AND 0xfffc \<noteq> 0)
      (bindM (fetch_task_descriptor u sel raw_selector) (\<lambda>descriptor.
      seqM (whenM (d_segment descriptor = 0 \<or> (IS_CODE_SEGMENT (d_type descriptor) \<and>
          \<not> IS_CODE_SEGMENT_READABLE (d_type descriptor)))
        (exception BX_TS_EXCEPTION (raw_selector AND 0xfffc)))
      (seqM (whenM (IS_DATA_SEGMENT (d_type descriptor) \<or> IS_CODE_SEGMENT_NON_CONFORMING (d_type descriptor))
        (whenM (sel_rpl sel > d_dpl descriptor \<or> cs_rpl > d_dpl descriptor)
          (exception BX_TS_EXCEPTION (raw_selector AND 0xfffc))))
      (seqM (whenM (d_p descriptor = 0) (exception BX_NP_EXCEPTION (raw_selector AND 0xfffc)))
      (bindM (touch_segment sel descriptor) (\<lambda>descriptor.
      modifyM (set_seg_cache k descriptor)))))))"

definition task_load_LDTR :: "uninit_t \<Rightarrow> 16 word \<Rightarrow> unit cpu_monad" where
  "task_load_LDTR u raw =
    (let ldt_selector = parse_selector raw; ts = exception BX_TS_EXCEPTION (raw AND 0xfffc) in
     seqM (whenM (sel_ti ldt_selector \<noteq> 0) ts)
     (whenM (raw AND 0xfffc \<noteq> 0)
       (bindM (fetch_task_descriptor u ldt_selector raw) (\<lambda>ldt_descriptor.
       seqM (whenM (valid ldt_descriptor = 0 \<or> d_type ldt_descriptor \<noteq> BX_SYS_SEGMENT_LDT \<or>
         d_segment ldt_descriptor \<noteq> 0) ts)
       (seqM (whenM (d_p ldt_descriptor = 0) ts)
       (modifyM (\<lambda>s. s\<lparr>ldtr := (ldtr s)\<lparr>cache := ldt_descriptor\<rparr>\<rparr>)))))))"

definition task_load_SS :: "uninit_t \<Rightarrow> 16 word \<Rightarrow> 8 word \<Rightarrow> unit cpu_monad" where
  "task_load_SS u raw cs_rpl =
    (let ss_selector = parse_selector raw; ts = exception BX_TS_EXCEPTION (raw AND 0xfffc) in
     if raw AND 0xfffc \<noteq> 0 then
       bindM (fetch_task_descriptor u ss_selector raw) (\<lambda>ss_descriptor.
       seqM (whenM (valid ss_descriptor = 0 \<or> d_segment ss_descriptor = 0 \<or> IS_CODE_SEGMENT (d_type ss_descriptor) \<or>
         \<not> IS_DATA_SEGMENT_WRITEABLE (d_type ss_descriptor)) ts)
       (seqM (whenM (d_p ss_descriptor = 0) (exception BX_SS_EXCEPTION (raw AND 0xfffc)))
       (seqM (whenM (d_dpl ss_descriptor \<noteq> cs_rpl) ts)
       (seqM (whenM (d_dpl ss_descriptor \<noteq> sel_rpl ss_selector) ts)
       (bindM (touch_segment ss_selector ss_descriptor) (\<lambda>ss_descriptor.
       modifyM (set_seg_cache BX_SEG_REG_SS ss_descriptor)))))))
     else ts)"

definition task_load_CS :: "uninit_t \<Rightarrow> 16 word \<Rightarrow> unit cpu_monad" where
  "task_load_CS u raw =
    (let cs_selector = parse_selector raw; ts = exception BX_TS_EXCEPTION (raw AND 0xfffc) in
     if raw AND 0xfffc \<noteq> 0 then
       bindM (fetch_task_descriptor u cs_selector raw) (\<lambda>cs_descriptor.
       seqM (whenM (valid cs_descriptor = 0 \<or> d_segment cs_descriptor = 0 \<or> IS_DATA_SEGMENT (d_type cs_descriptor)) ts)
       (seqM (whenM (IS_CODE_SEGMENT_NON_CONFORMING (d_type cs_descriptor) \<and>
         d_dpl cs_descriptor \<noteq> sel_rpl cs_selector) ts)
       (seqM (whenM (IS_CODE_SEGMENT_CONFORMING (d_type cs_descriptor) \<and>
         d_dpl cs_descriptor > sel_rpl cs_selector) ts)
       (seqM (whenM (d_p cs_descriptor = 0) (exception BX_NP_EXCEPTION (raw AND 0xfffc)))
       (bindM (touch_segment cs_selector cs_descriptor) (\<lambda>cs_descriptor.
       modifyM (set_seg_cache BX_SEG_REG_CS cs_descriptor)))))))
     else ts)"

section \<open>The switch\<close>

text \<open>Fill in the selectors, with invalid caches.\<close>

definition task_selectors :: "task_image \<Rightarrow> bx_cpu_c \<Rightarrow> bx_cpu_c" where
  "task_selectors t s = s\<lparr>
    sregs := (\<lambda>k. if k < 6 then \<lparr>selector = parse_selector (raw_sreg t k),
      cache = (cache (sregs s k))\<lparr>valid := 0\<rparr>\<rparr> else sregs s k),
    ldtr := \<lparr>selector = parse_selector (raw_ldt_selector t), cache = (cache (ldtr s))\<lparr>valid := 0\<rparr>\<rparr>\<rparr>"

definition task_state :: "bx_selector_t \<Rightarrow> bx_descriptor_t \<Rightarrow> task_image \<Rightarrow> bx_cpu_c \<Rightarrow> bx_cpu_c" where
  "task_state tss_selector tss_descriptor t s = s\<lparr>
    task_reg := \<lparr>selector = tss_selector, cache = tss_descriptor\<lparr>d_type := d_type tss_descriptor OR 2\<rparr>\<rparr>,
    cr0 := (cr0 s AND NOT (push_bit 3 1)) OR push_bit 3 1,
    dr7 := dr7 s AND NOT 0x00000155,
    gen_reg := (\<lambda>k. if k < 8 then new_reg t k else if k = BX_32BIT_REG_EIP then newEIP t else gen_reg s k),
    prev_rip := newEIP t,
    speculative_rsp := 0\<rparr>"

definition task_segments :: "uninit_t \<Rightarrow> task_image \<Rightarrow> 8 word \<Rightarrow> unit cpu_monad" where
  "task_segments u t save_CPL =
    (let raw = raw_sreg t; cs_rpl = sel_rpl (parse_selector (raw BX_SEG_REG_CS));
         load = (\<lambda>k. task_switch_load_selector u k (parse_selector (raw k)) (raw k) cs_rpl)
     in
     seqM (task_load_SS u (raw BX_SEG_REG_SS) cs_rpl)
     (seqM (modifyM (set_CPL save_CPL))
     (seqM (load BX_SEG_REG_DS)
     (seqM (load BX_SEG_REG_ES)
     (seqM (load BX_SEG_REG_FS)
     (seqM (load BX_SEG_REG_GS)
     (seqM (task_load_CS u (raw BX_SEG_REG_CS))
     (seqM (modifyM updateFetchModeMask)
     (modifyM handleAlignmentCheck)))))))))"

definition task_segments_v86 :: "uninit_t \<Rightarrow> task_image \<Rightarrow> unit cpu_monad" where
  "task_segments_v86 u t =
    (let load = (\<lambda>k. load_seg_reg (u_descriptor u) k (raw_sreg t k)) in
     seqM (load BX_SEG_REG_SS)
     (seqM (load BX_SEG_REG_DS)
     (seqM (load BX_SEG_REG_ES)
     (seqM (load BX_SEG_REG_FS)
     (seqM (load BX_SEG_REG_GS)
     (load BX_SEG_REG_CS))))))"

definition task_commit ::
  "uninit_t \<Rightarrow> bx_selector_t \<Rightarrow> bx_descriptor_t \<Rightarrow> task_source \<Rightarrow> task_image \<Rightarrow> unit cpu_monad" where
  "task_commit u tss_selector tss_descriptor source t =
    seqM (modifyM (task_state tss_selector tss_descriptor t))
    (seqM (writeEFlags (if source = BX_TASK_FROM_CALL \<or> source = BX_TASK_FROM_INT
      then newEFLAGS t OR EFlagsNTMask else newEFLAGS t) EFlagsValidMask)
    (seqM (modifyM (task_selectors t))
    (seqM (bindM (getsM (\<lambda>s. (cr0_get_PG s, cr3 s))) (\<lambda>(PG, CR3).
      whenM (d_type tss_descriptor \<ge> 9 \<and> PG \<noteq> 0) (whenM (newCR3 t \<noteq> CR3)
        (bindM (SetCR3 (newCR3 t)) (\<lambda>ok. whenM (\<not> ok) (exception BX_GP_EXCEPTION 0))))))
    (bindM (getsM CPL) (\<lambda>save_CPL.
    seqM (modifyM (set_CPL 3))
    (seqM (task_load_LDTR u (raw_ldt_selector t))
    (seqM (bindM (getsM v8086_mode) (\<lambda>v86.
      if v86 then task_segments_v86 u t else task_segments u t save_CPL))
    (whenM (d_type tss_descriptor \<ge> 9 \<and> trap_word t AND 0x1 \<noteq> 0)
      (modifyM (\<lambda>s. s\<lparr>debug_trap := debug_trap s OR push_bit 15 1, async_event := 1\<rparr>))))))))))"

text \<open>Set or clear the busy bit of a TSS descriptor in the GDT.\<close>

definition rmw_busy :: "(32 word \<Rightarrow> 32 word) \<Rightarrow> bx_selector_t \<Rightarrow> unit cpu_monad" where
  "rmw_busy f sel =
    bindM (getsM (\<lambda>s. gseg_base (gdtr s) + push_bit 3 (ucast (sel_index sel)) + 4)) (\<lambda>laddr.
    bindM (access_read_linear laddr 4 0 BX_RW) (\<lambda>bs.
    access_write_linear laddr 0 (le_bytes 4 (f (le_word bs)))))"

text \<open>The checks before anything is written: the limits of both segments, and that
  the pages of the new one are there.\<close>

definition task_checks :: "bx_selector_t \<Rightarrow> bx_descriptor_t \<Rightarrow> task_source \<Rightarrow> unit cpu_monad" where
  "task_checks tss_selector tss_descriptor source =
    (let new_TSS_max = (if d_type tss_descriptor \<le> 3 then 0x2B else 0x67); nbase32 = seg_base tss_descriptor in
     seqM (whenM (limit_scaled tss_descriptor < new_TSS_max)
       (exception BX_TS_EXCEPTION (sel_value tss_selector AND 0xfffc)))
     (bindM (getsM task_reg) (\<lambda>tr.
     seqM (whenM (limit_scaled (cache tr) < (if d_type (cache tr) \<le> 3 then 0x29 else 0x5F))
       (exception BX_TS_EXCEPTION (sel_value (selector tr) AND 0xfffc)))
     (bindM (getsM cr0_get_PG) (\<lambda>PG. whenM (PG \<noteq> 0)
       (seqM (dtranslate_linear nbase32 0 BX_READ)
       (seqM (dtranslate_linear (nbase32 + new_TSS_max) 0 BX_READ)
       (whenM (source = BX_TASK_FROM_CALL \<or> source = BX_TASK_FROM_INT)
         (seqM (dtranslate_linear nbase32 0 BX_WRITE)
         (seqM (dtranslate_linear (nbase32 + 1) 0 BX_WRITE) (returnM ())))))))))))"

definition task_switch ::
  "uninit_t \<Rightarrow> bx_selector_t \<Rightarrow> bx_descriptor_t \<Rightarrow> task_source \<Rightarrow> unit cpu_monad" where
  "task_switch u tss_selector tss_descriptor source =
    seqM (modifyM (\<lambda>s. (invalidate_prefetch_q s)\<lparr>debug_trap := 0, inhibit_mask := 0\<rparr>))
    (seqM (task_checks tss_selector tss_descriptor source)
    (bindM (getsM task_reg) (\<lambda>tr.
    (let nbase32 = seg_base tss_descriptor; obase32 = seg_base (cache tr) in
    seqM (whenM (source = BX_TASK_FROM_JUMP \<or> source = BX_TASK_FROM_IRET)
      (rmw_busy (\<lambda>temp32. temp32 AND NOT 0x200) (selector tr)))
    (bindM read_eflags (\<lambda>oldEFLAGS.
    (let oldEFLAGS = (if d_type tss_descriptor = BX_SYS_SEGMENT_BUSY_286_TSS \<or>
           d_type tss_descriptor = BX_SYS_SEGMENT_BUSY_386_TSS
         then oldEFLAGS AND NOT EFlagsNTMask else oldEFLAGS)
     in
    seqM (if d_type (cache tr) \<le> 3 then save_tss286 obase32 oldEFLAGS else save_tss386 obase32 oldEFLAGS)
    (seqM (whenM (source = BX_TASK_FROM_CALL \<or> source = BX_TASK_FROM_INT)
      (system_write_word nbase32 (sel_value (selector tr))))
    (bindM (if d_type tss_descriptor \<le> 3 then load_tss286 nbase32 else load_tss386 nbase32) (\<lambda>t.
    seqM (whenM (source \<noteq> BX_TASK_FROM_IRET) (rmw_busy (\<lambda>dword2. dword2 OR 0x200) tss_selector))
    (task_commit u tss_selector tss_descriptor source t)))))))))))"

end
