(* ===== verification/FarXfer.thy ===== *)
theory FarXfer
  imports Tasking
begin

text \<open>
  Far control transfers in protected mode: \<open>cpu/ctrl_xfer_pro.cc\<close>, \<open>jmp_far.cc\<close>,
  \<open>call_far.cc\<close> and \<open>ret_far.cc\<close>, with \<open>load_ss\<close> of \<open>segment_ctrl_pro.cc\<close>, and the far
  instructions of \<open>ctrl_xfer32.cc\<close>.  The code descriptor is fetched and checked
  against the privilege level, then \<open>load_cs\<close> installs it; a call gate to more
  privilege also switches to the stack of the task state segment, and a return to
  less privilege drops the data segments the new level may not use.
\<close>

section \<open>Code and stack segments\<close>

definition check_cs :: "bx_descriptor_t \<Rightarrow> 16 word \<Rightarrow> 8 word \<Rightarrow> 8 word \<Rightarrow> unit cpu_monad" where
  "check_cs descriptor cs_raw check_rpl check_cpl =
    seqM (whenM (valid descriptor = 0 \<or> d_segment descriptor = 0 \<or> IS_DATA_SEGMENT (d_type descriptor))
      (exception BX_GP_EXCEPTION (cs_raw AND 0xfffc)))
    (seqM (if IS_CODE_SEGMENT_NON_CONFORMING (d_type descriptor) then
        seqM (whenM (d_dpl descriptor \<noteq> check_cpl) (exception BX_GP_EXCEPTION (cs_raw AND 0xfffc)))
        (whenM (check_rpl > check_cpl) (exception BX_GP_EXCEPTION (cs_raw AND 0xfffc)))
      else
        whenM (d_dpl descriptor > check_cpl) (exception BX_GP_EXCEPTION (cs_raw AND 0xfffc)))
    (whenM (d_p descriptor = 0) (exception BX_NP_EXCEPTION (cs_raw AND 0xfffc))))"

definition load_cs :: "bx_selector_t \<Rightarrow> bx_descriptor_t \<Rightarrow> 8 word \<Rightarrow> unit cpu_monad" where
  "load_cs sel descriptor cpl =
    (let sel = sel\<lparr>sel_value := (0xfffc AND sel_value sel) OR ucast cpl\<rparr> in
     bindM (touch_segment sel descriptor) (\<lambda>descriptor.
     seqM (store_segment BX_SEG_REG_CS (sel\<lparr>sel_rpl := cpl\<rparr>) descriptor)
     (seqM (modifyM updateFetchModeMask)
     (seqM (modifyM handleAlignmentCheck)
     (modifyM invalidate_prefetch_q)))))"

definition load_ss :: "bx_selector_t \<Rightarrow> bx_descriptor_t \<Rightarrow> 8 word \<Rightarrow> unit cpu_monad" where
  "load_ss sel descriptor cpl =
    (let sel = sel\<lparr>sel_value := (0xfffc AND sel_value sel) OR ucast cpl\<rparr> in
     bindM (if sel_value sel AND 0xfffc \<noteq> 0 then touch_segment sel descriptor else returnM descriptor) (\<lambda>descriptor.
     store_segment BX_SEG_REG_SS (sel\<lparr>sel_rpl := cpl\<rparr>) descriptor))"

definition branch_far32 :: "bx_selector_t \<Rightarrow> bx_descriptor_t \<Rightarrow> 32 word \<Rightarrow> 8 word \<Rightarrow> unit cpu_monad" where
  "branch_far32 sel descriptor eip cpl =
    seqM (whenM (eip > limit_scaled descriptor) (exception BX_GP_EXCEPTION 0))
    (seqM (load_cs sel descriptor cpl)
    (modifyM (set_EIP eip)))"

definition branch_far64 :: "bx_selector_t \<Rightarrow> bx_descriptor_t \<Rightarrow> 32 word \<Rightarrow> 8 word \<Rightarrow> unit cpu_monad" where
  "branch_far64 sel descriptor rip cpl =
    (let rip = rip AND 0xffffffff in
     seqM (whenM (rip > limit_scaled descriptor) (exception BX_GP_EXCEPTION 0))
     (seqM (load_cs sel descriptor cpl)
     (modifyM (set_EIP rip))))"

section \<open>Far jumps\<close>

definition eip_in_CS_limit :: "unit cpu_monad" where
  "eip_in_CS_limit =
    bindM (getsM (\<lambda>s. EIP s > limit_scaled (cache (sregs s BX_SEG_REG_CS)))) (\<lambda>beyond.
    whenM beyond (exception BX_GP_EXCEPTION 0))"

definition task_gate :: "uninit_t \<Rightarrow> bx_selector_t \<Rightarrow> bx_descriptor_t \<Rightarrow> task_source \<Rightarrow> unit cpu_monad" where
  "task_gate u sel gate_descriptor source =
    (let raw_tss_selector = taskgate_tss_selector gate_descriptor; tss_selector = parse_selector raw_tss_selector in
     seqM (whenM (d_p gate_descriptor = 0) (exception BX_NP_EXCEPTION (sel_value sel AND 0xfffc)))
     (seqM (whenM (sel_ti tss_selector \<noteq> 0) (exception BX_GP_EXCEPTION (raw_tss_selector AND 0xfffc)))
     (bindM (fetch_raw_descriptor tss_selector BX_GP_EXCEPTION) (\<lambda>(dword1, dword2).
     (let tss_descriptor = parse_descriptor dword1 dword2 (u_descriptor u) in
     seqM (whenM (valid tss_descriptor = 0 \<or> d_segment tss_descriptor \<noteq> 0)
       (exception BX_GP_EXCEPTION (raw_tss_selector AND 0xfffc)))
     (seqM (whenM (d_type tss_descriptor \<noteq> BX_SYS_SEGMENT_AVAIL_286_TSS \<and>
         d_type tss_descriptor \<noteq> BX_SYS_SEGMENT_AVAIL_386_TSS)
       (exception BX_GP_EXCEPTION (raw_tss_selector AND 0xfffc)))
     (seqM (whenM (d_p tss_descriptor = 0) (exception BX_NP_EXCEPTION (raw_tss_selector AND 0xfffc)))
     (seqM (task_switch u tss_selector tss_descriptor source)
     (bindM (getsM (\<lambda>s. (if seg_d_b (cache (sregs s BX_SEG_REG_CS)) \<noteq> 0 then EIP s else ucast (IP s)) >
         limit_scaled (cache (sregs s BX_SEG_REG_CS)))) (\<lambda>beyond.
     whenM beyond (exception BX_GP_EXCEPTION 0)))))))))))"

definition jmp_call_gate :: "uninit_t \<Rightarrow> bx_selector_t \<Rightarrow> bx_descriptor_t \<Rightarrow> unit cpu_monad" where
  "jmp_call_gate u sel gate_descriptor =
    (let gate_cs_raw = gate_dest_selector gate_descriptor; gate_cs_selector = parse_selector gate_cs_raw in
     seqM (whenM (d_p gate_descriptor = 0) (exception BX_NP_EXCEPTION (sel_value sel AND 0xfffc)))
     (seqM (whenM (gate_cs_raw AND 0xfffc = 0) (exception BX_GP_EXCEPTION 0))
     (bindM (fetch_raw_descriptor gate_cs_selector BX_GP_EXCEPTION) (\<lambda>(dword1, dword2).
     (let gate_cs_descriptor = parse_descriptor dword1 dword2 (u_descriptor u) in
     bindM (getsM CPL) (\<lambda>cpl.
     seqM (check_cs gate_cs_descriptor gate_cs_raw 0 cpl)
     (branch_far32 gate_cs_selector gate_cs_descriptor (gate_dest_offset gate_descriptor) cpl)))))))"

text \<open>The end of a far transfer to a TSS descriptor.\<close>

definition task_transfer :: "uninit_t \<Rightarrow> bx_selector_t \<Rightarrow> bx_descriptor_t \<Rightarrow> 16 word \<Rightarrow> task_source \<Rightarrow> unit cpu_monad" where
  "task_transfer u sel descriptor cs_raw source =
    seqM (whenM (valid descriptor = 0 \<or> sel_ti sel \<noteq> 0) (exception BX_GP_EXCEPTION (cs_raw AND 0xfffc)))
    (seqM (whenM (d_p descriptor = 0) (exception BX_NP_EXCEPTION (cs_raw AND 0xfffc)))
    (seqM (task_switch u sel descriptor source)
    eip_in_CS_limit))"

text \<open>What a far jump does with the descriptor it has fetched.\<close>

definition jump_descriptor :: "uninit_t \<Rightarrow> 16 word \<Rightarrow> 32 word \<Rightarrow> bx_descriptor_t \<Rightarrow> unit cpu_monad" where
  "jump_descriptor u cs_raw disp descriptor =
    (let sel = parse_selector cs_raw in
     bindM (getsM CPL) (\<lambda>cpl.
     if d_segment descriptor \<noteq> 0 then
       seqM (check_cs descriptor cs_raw (ucast (cs_raw AND 0x03)) cpl)
       (branch_far64 sel descriptor disp cpl)
     else
       seqM (whenM (d_dpl descriptor < cpl) (exception BX_GP_EXCEPTION (cs_raw AND 0xfffc)))
       (seqM (whenM (d_dpl descriptor < sel_rpl sel) (exception BX_GP_EXCEPTION (cs_raw AND 0xfffc)))
       (if d_type descriptor = BX_SYS_SEGMENT_AVAIL_286_TSS \<or> d_type descriptor = BX_SYS_SEGMENT_AVAIL_386_TSS then
          task_transfer u sel descriptor cs_raw BX_TASK_FROM_JUMP
        else if d_type descriptor = BX_TASK_GATE then task_gate u sel descriptor BX_TASK_FROM_JUMP
        else if d_type descriptor = BX_286_CALL_GATE \<or> d_type descriptor = BX_386_CALL_GATE then
          jmp_call_gate u sel descriptor
        else exception BX_GP_EXCEPTION (cs_raw AND 0xfffc)))))"

definition jump_protected :: "uninit_t \<Rightarrow> 16 word \<Rightarrow> 32 word \<Rightarrow> unit cpu_monad" where
  "jump_protected u cs_raw disp =
    seqM (whenM (cs_raw AND 0xfffc = 0) (exception BX_GP_EXCEPTION 0))
    (bindM (fetch_raw_descriptor (parse_selector cs_raw) BX_GP_EXCEPTION) (\<lambda>(dword1, dword2).
    jump_descriptor u cs_raw disp (parse_descriptor dword1 dword2 (u_descriptor u))))"

section \<open>Stacks\<close>

text \<open>A push onto a stack that is not yet in SS: the stack pointer, of 16 or 32
  bits, and the segment register are local variables of the caller.\<close>

definition push_new_stack ::
  "bool \<Rightarrow> 32 word \<Rightarrow> 32 word \<Rightarrow> 'a::len word \<times> bx_segment_reg_t \<Rightarrow> ('a word \<times> bx_segment_reg_t) cpu_monad" where
  "push_new_stack dword curr_pl data st =
    (case st of (sp, new_stack) \<Rightarrow>
     if dword then
       bindM (write_new_stack_dword_32 new_stack (ucast (sp - 4)) curr_pl data) (\<lambda>new_stack. returnM (sp - 4, new_stack))
     else
       bindM (write_new_stack_word_32 new_stack (ucast (sp - 2)) curr_pl (ucast data)) (\<lambda>new_stack. returnM (sp - 2, new_stack)))"

primrec push_list ::
  "bool \<Rightarrow> 32 word \<Rightarrow> 32 word list \<Rightarrow> 'a::len word \<times> bx_segment_reg_t \<Rightarrow> ('a word \<times> bx_segment_reg_t) cpu_monad" where
  "push_list dword curr_pl [] st = returnM st"
| "push_list dword curr_pl (v # vs) st =
    bindM (push_new_stack dword curr_pl v st) (push_list dword curr_pl vs)"

text \<open>The parameters of a call gate, copied from the old stack, the last one first.\<close>

primrec copy_params ::
  "bool \<Rightarrow> 32 word \<Rightarrow> 32 word \<Rightarrow> nat \<Rightarrow> 'a::len word \<times> bx_segment_reg_t \<Rightarrow> ('a word \<times> bx_segment_reg_t) cpu_monad" where
  "copy_params dword curr_pl return_ESP 0 st = returnM st"
| "copy_params dword curr_pl return_ESP (Suc n) st =
    bindM (if dword then read_virtual_dword_32 BX_SEG_REG_SS (return_ESP + of_nat n * 4)
      else bindM (read_virtual_word_32 BX_SEG_REG_SS (return_ESP + of_nat n * 2)) (\<lambda>param. returnM (ucast param))) (\<lambda>param.
    bindM (push_new_stack dword curr_pl param st) (copy_params dword curr_pl return_ESP n))"

text \<open>The same writes with \<open>sregs[BX_SEG_REG_SS]\<close> itself as the segment register: the
  cached rights are updated before the access is made.\<close>

definition write_SS_stack_word_32 :: "32 word \<Rightarrow> 32 word \<Rightarrow> 16 word \<Rightarrow> unit cpu_monad" where
  "write_SS_stack_word_32 offset curr_pl data =
    bindM (getsM (\<lambda>s. sregs s BX_SEG_REG_SS)) (\<lambda>seg.
    bindM (check_new_stack (\<lambda>limit. offset < limit) seg offset 2) (\<lambda>seg'.
    seqM (modifyM (\<lambda>s. s\<lparr>sregs := (sregs s)(BX_SEG_REG_SS := seg')\<rparr>))
    (let laddr = seg_base (cache seg') + offset in
     seqM (if curr_pl = 3 then check_alignment laddr 1 else returnM ())
     (access_write_linear laddr curr_pl (le_bytes 2 data)))))"

definition write_SS_stack_dword_32 :: "32 word \<Rightarrow> 32 word \<Rightarrow> 32 word \<Rightarrow> unit cpu_monad" where
  "write_SS_stack_dword_32 offset curr_pl data =
    bindM (getsM (\<lambda>s. sregs s BX_SEG_REG_SS)) (\<lambda>seg.
    bindM (check_new_stack (\<lambda>limit. offset < limit - 2) seg offset 4) (\<lambda>seg'.
    seqM (modifyM (\<lambda>s. s\<lparr>sregs := (sregs s)(BX_SEG_REG_SS := seg')\<rparr>))
    (let laddr = seg_base (cache seg') + offset in
     seqM (if curr_pl = 3 then check_alignment laddr 3 else returnM ())
     (access_write_linear laddr curr_pl (le_bytes 4 data)))))"

text \<open>The stack pointer by the B bit of SS.\<close>

definition temp_ESP :: "bx_cpu_c \<Rightarrow> 32 word" where
  "temp_ESP s = (if ss_d_b s then ESP s else ucast (SP s))"

text \<open>The checks of the stack segment for an inner level, the same in \<open>call_gate\<close> and
  in \<open>protected_mode_int\<close>.\<close>

definition inner_stack :: "uninit_t \<Rightarrow> 8 word \<Rightarrow> 16 word \<Rightarrow> (bx_selector_t \<times> bx_descriptor_t) cpu_monad" where
  "inner_stack u dpl SS_for_cpl_x =
    (let ss_selector = parse_selector SS_for_cpl_x; ts = exception BX_TS_EXCEPTION (SS_for_cpl_x AND 0xfffc) in
     seqM (whenM (SS_for_cpl_x AND 0xfffc = 0) (exception BX_TS_EXCEPTION 0))
     (bindM (fetch_raw_descriptor ss_selector BX_TS_EXCEPTION) (\<lambda>(dword1, dword2).
     (let ss_descriptor = parse_descriptor dword1 dword2 (u_descriptor u) in
     seqM (whenM (sel_rpl ss_selector \<noteq> dpl) ts)
     (seqM (whenM (d_dpl ss_descriptor \<noteq> dpl) ts)
     (seqM (whenM (valid ss_descriptor = 0 \<or> d_segment ss_descriptor = 0 \<or>
       IS_CODE_SEGMENT (d_type ss_descriptor) \<or> \<not> IS_DATA_SEGMENT_WRITEABLE (d_type ss_descriptor)) ts)
     (seqM (whenM (d_p ss_descriptor = 0) (exception BX_SS_EXCEPTION (SS_for_cpl_x AND 0xfffc)))
     (returnM (ss_selector, ss_descriptor)))))))))"

definition new_stack_of :: "bx_selector_t \<Rightarrow> bx_descriptor_t \<Rightarrow> 8 word \<Rightarrow> bx_segment_reg_t" where
  "new_stack_of ss_selector ss_descriptor dpl =
    \<lparr>selector = ss_selector\<lparr>sel_rpl := dpl, sel_value := (0xfffc AND sel_value ss_selector) OR ucast dpl\<rparr>,
     cache = ss_descriptor\<rparr>"

section \<open>Far calls\<close>

text \<open>The frame of a call gate to more privilege: old stack, parameters, return address.\<close>

definition call_gate_frame ::
  "bool \<Rightarrow> 32 word \<Rightarrow> 16 word \<Rightarrow> 32 word \<Rightarrow> nat \<Rightarrow> 16 word \<Rightarrow> 32 word \<Rightarrow> 'a::len word \<times> bx_segment_reg_t \<Rightarrow> 'a word cpu_monad" where
  "call_gate_frame dword curr_pl return_SS return_ESP param_count return_CS return_EIP st =
    bindM (push_list dword curr_pl [ucast return_SS, return_ESP] st) (\<lambda>st.
    bindM (copy_params dword curr_pl return_ESP param_count st) (\<lambda>st.
    bindM (push_list dword curr_pl [ucast return_CS, return_EIP] st) (\<lambda>st.
    returnM (fst st))))"

definition call_gate_inner :: "uninit_t \<Rightarrow> bx_descriptor_t \<Rightarrow> bx_selector_t \<Rightarrow> bx_descriptor_t \<Rightarrow> unit cpu_monad" where
  "call_gate_inner u gate_descriptor cs_selector cs_descriptor =
    (let dpl = d_dpl cs_descriptor; new_EIP = gate_dest_offset gate_descriptor;
         dword = (d_type gate_descriptor = BX_386_CALL_GATE) in
     bindM (get_SS_ESP_from_TSS u (ucast dpl)) (\<lambda>(SS_for_cpl_x, ESP_for_cpl_x).
     bindM (inner_stack u dpl SS_for_cpl_x) (\<lambda>(ss_selector, ss_descriptor).
     (let param_count = unat (gate_param_count gate_descriptor AND 0x1f);
          new_stack = new_stack_of ss_selector ss_descriptor dpl in
     bindM (getsM (sreg_value BX_SEG_REG_SS)) (\<lambda>return_SS.
     bindM (getsM temp_ESP) (\<lambda>return_ESP.
     bindM (getsM (sreg_value BX_SEG_REG_CS)) (\<lambda>return_CS.
     bindM (getsM (\<lambda>s. if seg_d_b cs_descriptor \<noteq> 0 then EIP s else ucast (IP s))) (\<lambda>return_EIP.
     seqM (if seg_d_b ss_descriptor \<noteq> 0 then
         bindM (call_gate_frame dword (ucast dpl) return_SS return_ESP param_count return_CS return_EIP
           (ESP_for_cpl_x, new_stack)) (\<lambda>esp. modifyM (set_ESP esp))
       else
         bindM (call_gate_frame dword (ucast dpl) return_SS return_ESP param_count return_CS return_EIP
           (ucast ESP_for_cpl_x :: 16 word, new_stack)) (\<lambda>sp. modifyM (set_SP sp)))
     (seqM (whenM (new_EIP > limit_scaled cs_descriptor) (exception BX_GP_EXCEPTION 0))
     (seqM (load_ss ss_selector ss_descriptor dpl)
     (seqM (load_cs cs_selector cs_descriptor dpl)
     (modifyM (set_EIP new_EIP)))))))))))))"

definition call_gate :: "uninit_t \<Rightarrow> bx_descriptor_t \<Rightarrow> unit cpu_monad" where
  "call_gate u gate_descriptor =
    (let dest_selector = gate_dest_selector gate_descriptor; new_EIP = gate_dest_offset gate_descriptor;
         cs_selector = parse_selector dest_selector in
     seqM (whenM (dest_selector AND 0xfffc = 0) (exception BX_GP_EXCEPTION 0))
     (bindM (fetch_raw_descriptor cs_selector BX_GP_EXCEPTION) (\<lambda>(dword1, dword2).
     (let cs_descriptor = parse_descriptor dword1 dword2 (u_descriptor u) in
     bindM (getsM CPL) (\<lambda>cpl.
     seqM (whenM (valid cs_descriptor = 0 \<or> d_segment cs_descriptor = 0 \<or>
         IS_DATA_SEGMENT (d_type cs_descriptor) \<or> d_dpl cs_descriptor > cpl)
       (exception BX_GP_EXCEPTION (dest_selector AND 0xfffc)))
     (seqM (whenM (d_p cs_descriptor = 0) (exception BX_NP_EXCEPTION (dest_selector AND 0xfffc)))
     (if IS_CODE_SEGMENT_NON_CONFORMING (d_type cs_descriptor) \<and> d_dpl cs_descriptor < cpl then
        call_gate_inner u gate_descriptor cs_selector cs_descriptor
      else
        seqM (if d_type gate_descriptor = BX_386_CALL_GATE then
            seqM (bindM (getsM (sreg_value BX_SEG_REG_CS)) (\<lambda>v. push_32 (ucast v)))
            (bindM (getsM EIP) push_32)
          else
            seqM (bindM (getsM (sreg_value BX_SEG_REG_CS)) push_16)
            (bindM (getsM IP) push_16))
        (branch_far32 cs_selector cs_descriptor new_EIP cpl))))))))"

definition call_segment :: "bxInstruction_c \<Rightarrow> 16 word \<Rightarrow> 32 word \<Rightarrow> bx_descriptor_t \<Rightarrow> unit cpu_monad" where
  "call_segment i cs_raw disp cs_descriptor =
    (let dpl = ucast (d_dpl cs_descriptor) in
     bindM (getsM CPL) (\<lambda>cpl.
     seqM (check_cs cs_descriptor cs_raw (ucast (cs_raw AND 0x03)) cpl)
     (bindM (getsM temp_ESP) (\<lambda>temp_RSP.
     bindM (if os32L i \<noteq> 0 then
         seqM (bindM (getsM (sreg_value BX_SEG_REG_CS)) (\<lambda>v. write_SS_stack_dword_32 (temp_RSP - 4) dpl (ucast v)))
         (seqM (bindM (getsM EIP) (\<lambda>v. write_SS_stack_dword_32 (temp_RSP - 8) dpl v))
         (returnM (temp_RSP - 8)))
       else
         seqM (bindM (getsM (sreg_value BX_SEG_REG_CS)) (\<lambda>v. write_SS_stack_word_32 (temp_RSP - 2) dpl v))
         (seqM (bindM (getsM IP) (\<lambda>v. write_SS_stack_word_32 (temp_RSP - 4) dpl v))
         (returnM (temp_RSP - 4)))) (\<lambda>temp_RSP.
     seqM (branch_far64 (parse_selector cs_raw) cs_descriptor disp cpl)
     (modifyM (\<lambda>s. if ss_d_b s then set_ESP temp_RSP s else set_SP (ucast temp_RSP) s)))))))"

text \<open>What a far call does with the descriptor it has fetched.\<close>

definition call_descriptor :: "uninit_t \<Rightarrow> bxInstruction_c \<Rightarrow> 16 word \<Rightarrow> 32 word \<Rightarrow> bx_descriptor_t \<Rightarrow> unit cpu_monad" where
  "call_descriptor u i cs_raw disp cs_descriptor =
    (let cs_selector = parse_selector cs_raw in
     seqM (whenM (valid cs_descriptor = 0) (exception BX_GP_EXCEPTION (cs_raw AND 0xfffc)))
     (if d_segment cs_descriptor \<noteq> 0 then call_segment i cs_raw disp cs_descriptor
      else
        bindM (getsM CPL) (\<lambda>cpl.
        seqM (whenM (d_dpl cs_descriptor < cpl) (exception BX_GP_EXCEPTION (cs_raw AND 0xfffc)))
        (seqM (whenM (d_dpl cs_descriptor < sel_rpl cs_selector) (exception BX_GP_EXCEPTION (cs_raw AND 0xfffc)))
        (if d_type cs_descriptor = BX_SYS_SEGMENT_AVAIL_286_TSS \<or> d_type cs_descriptor = BX_SYS_SEGMENT_AVAIL_386_TSS then
           task_transfer u cs_selector cs_descriptor cs_raw BX_TASK_FROM_CALL
         else if d_type cs_descriptor = BX_TASK_GATE then task_gate u cs_selector cs_descriptor BX_TASK_FROM_CALL
         else if d_type cs_descriptor = BX_286_CALL_GATE \<or> d_type cs_descriptor = BX_386_CALL_GATE then
           seqM (whenM (d_p cs_descriptor = 0) (exception BX_NP_EXCEPTION (cs_raw AND 0xfffc)))
           (call_gate u cs_descriptor)
         else exception BX_GP_EXCEPTION (cs_raw AND 0xfffc))))))"

definition call_protected :: "uninit_t \<Rightarrow> bxInstruction_c \<Rightarrow> 16 word \<Rightarrow> 32 word \<Rightarrow> unit cpu_monad" where
  "call_protected u i cs_raw disp =
    seqM (whenM (cs_raw AND 0xfffc = 0) (exception BX_GP_EXCEPTION 0))
    (bindM (fetch_raw_descriptor (parse_selector cs_raw) BX_GP_EXCEPTION) (\<lambda>(dword1, dword2).
    call_descriptor u i cs_raw disp (parse_descriptor dword1 dword2 (u_descriptor u))))"

section \<open>Far returns\<close>

text \<open>The checks of the stack segment a far return goes back to.\<close>

definition outer_stack :: "uninit_t \<Rightarrow> bx_selector_t \<Rightarrow> 16 word \<Rightarrow> (bx_selector_t \<times> bx_descriptor_t) cpu_monad" where
  "outer_stack u cs_selector raw_ss_selector =
    (let ss_selector = parse_selector raw_ss_selector; gp = exception BX_GP_EXCEPTION (raw_ss_selector AND 0xfffc) in
     seqM (whenM (raw_ss_selector AND 0xfffc = 0) (exception BX_GP_EXCEPTION 0))
     (bindM (fetch_raw_descriptor ss_selector BX_GP_EXCEPTION) (\<lambda>(dword1, dword2).
     (let ss_descriptor = parse_descriptor dword1 dword2 (u_descriptor u) in
     seqM (whenM (sel_rpl ss_selector \<noteq> sel_rpl cs_selector) gp)
     (seqM (whenM (valid ss_descriptor = 0 \<or> d_segment ss_descriptor = 0 \<or> IS_CODE_SEGMENT (d_type ss_descriptor) \<or>
       \<not> IS_DATA_SEGMENT_WRITEABLE (d_type ss_descriptor)) gp)
     (seqM (whenM (d_dpl ss_descriptor \<noteq> sel_rpl cs_selector) gp)
     (seqM (whenM (d_p ss_descriptor = 0) (exception BX_SS_EXCEPTION (raw_ss_selector AND 0xfffc)))
     (returnM (ss_selector, ss_descriptor)))))))))"

definition return_outer ::
  "uninit_t \<Rightarrow> bxInstruction_c \<Rightarrow> 32 word \<Rightarrow> 16 word \<Rightarrow> bx_selector_t \<Rightarrow> bx_descriptor_t \<Rightarrow> 32 word \<Rightarrow> unit cpu_monad" where
  "return_outer u i temp_RSP pop_bytes cs_selector cs_descriptor return_RIP =
    bindM (if os32L i \<noteq> 0 then
        bindM (read_virtual_word_32 BX_SEG_REG_SS (temp_RSP + 12 + ucast pop_bytes)) (\<lambda>raw_ss_selector.
        bindM (read_virtual_dword_32 BX_SEG_REG_SS (temp_RSP + 8 + ucast pop_bytes)) (\<lambda>return_RSP.
        returnM (raw_ss_selector, return_RSP)))
      else
        bindM (read_virtual_word_32 BX_SEG_REG_SS (temp_RSP + 6 + ucast pop_bytes)) (\<lambda>raw_ss_selector.
        bindM (read_virtual_word_32 BX_SEG_REG_SS (temp_RSP + 4 + ucast pop_bytes)) (\<lambda>return_RSP.
        returnM (raw_ss_selector, ucast return_RSP)))) (\<lambda>(raw_ss_selector, return_RSP).
    bindM (outer_stack u cs_selector raw_ss_selector) (\<lambda>(ss_selector, ss_descriptor).
    seqM (branch_far64 cs_selector cs_descriptor return_RIP (sel_rpl cs_selector))
    (seqM (load_ss ss_selector ss_descriptor (sel_rpl cs_selector))
    (seqM (modifyM (\<lambda>s. if seg_d_b ss_descriptor \<noteq> 0 then set_ESP (return_RSP + ucast pop_bytes) s
      else set_SP (ucast (return_RSP + ucast pop_bytes)) s))
    (modifyM validate_seg_regs)))))"

definition return_protected :: "uninit_t \<Rightarrow> bxInstruction_c \<Rightarrow> 16 word \<Rightarrow> unit cpu_monad" where
  "return_protected u i pop_bytes =
    bindM (getsM temp_ESP) (\<lambda>temp_RSP.
    bindM (if os32L i \<noteq> 0 then
        bindM (read_virtual_dword_32 BX_SEG_REG_SS (temp_RSP + 4)) (\<lambda>cs.
        bindM (read_virtual_dword_32 BX_SEG_REG_SS temp_RSP) (\<lambda>eip.
        returnM (ucast cs, eip, 8)))
      else
        bindM (read_virtual_word_32 BX_SEG_REG_SS (temp_RSP + 2)) (\<lambda>cs.
        bindM (read_virtual_word_32 BX_SEG_REG_SS temp_RSP) (\<lambda>ip.
        returnM (cs, ucast ip, 4)))) (\<lambda>(raw_cs_selector, return_RIP, stack_param_offset).
    (let cs_selector = parse_selector raw_cs_selector in
    seqM (whenM (raw_cs_selector AND 0xfffc = 0) (exception BX_GP_EXCEPTION 0))
    (bindM (fetch_raw_descriptor cs_selector BX_GP_EXCEPTION) (\<lambda>(dword1, dword2).
    (let cs_descriptor = parse_descriptor dword1 dword2 (u_descriptor u) in
    bindM (getsM CPL) (\<lambda>cpl.
    seqM (whenM (sel_rpl cs_selector < cpl) (exception BX_GP_EXCEPTION (raw_cs_selector AND 0xfffc)))
    (seqM (check_cs cs_descriptor raw_cs_selector 0 (sel_rpl cs_selector))
    (if sel_rpl cs_selector = cpl then
       seqM (branch_far64 cs_selector cs_descriptor return_RIP cpl)
       (modifyM (\<lambda>s. if ss_d_b s then set_ESP (ESP s + stack_param_offset + ucast pop_bytes) s
         else set_SP (SP s + ucast (stack_param_offset + ucast pop_bytes :: 32 word)) s))
     else return_outer u i temp_RSP pop_bytes cs_selector cs_descriptor return_RIP)))))))))"

section \<open>The far instructions\<close>

definition Iw2 :: "bxInstruction_c \<Rightarrow> 16 word" where "Iw2 i = ucast (modRMForm_displ32u i)"

text \<open>The transfer in real and virtual-8086 mode.\<close>

definition far_real :: "uninit_t \<Rightarrow> 16 word \<Rightarrow> 32 word \<Rightarrow> unit cpu_monad" where
  "far_real u cs_raw eip =
    seqM (load_seg_reg (u_descriptor u) BX_SEG_REG_CS cs_raw)
    (modifyM (set_EIP eip))"

definition eip_in_limit :: "32 word \<Rightarrow> unit cpu_monad" where
  "eip_in_limit eip =
    bindM (getsM (\<lambda>s. limit_scaled (cache (sregs s BX_SEG_REG_CS)))) (\<lambda>limit.
    whenM (eip > limit) (exception BX_GP_EXCEPTION 0))"

definition call_far :: "uninit_t \<Rightarrow> bxInstruction_c \<Rightarrow> 16 word \<Rightarrow> 32 word \<Rightarrow> unit cpu_monad" where
  "call_far u i cs_raw disp32 =
    seqM RSP_SPECULATIVE
    (seqM (bindM (getsM protected_mode) (\<lambda>pm.
      if pm then call_protected u i cs_raw disp32
      else
        seqM (eip_in_limit disp32)
        (seqM (bindM (getsM (sreg_value BX_SEG_REG_CS)) (\<lambda>v. push_32 (ucast v)))
        (seqM (bindM (getsM EIP) push_32)
        (far_real u cs_raw disp32)))))
    RSP_COMMIT)"

definition CALL32_Ap :: "uninit_t \<Rightarrow> bxInstruction_c \<Rightarrow> unit cpu_monad" where
  "CALL32_Ap u i =
    seqM (modifyM invalidate_prefetch_q)
    (call_far u i (Iw2 i) (Id i))"

definition CALL32_Ep :: "uninit_t \<Rightarrow> bxInstruction_c \<Rightarrow> unit cpu_monad" where
  "CALL32_Ep u i =
    seqM (modifyM invalidate_prefetch_q)
    (bindM (ResolveModrm i) (\<lambda>eaddr.
    bindM (read_virtual_dword_32 (seg i) eaddr) (\<lambda>op1_32.
    bindM (read_virtual_word_32 (seg i) (eaddr + 4)) (\<lambda>cs_raw.
    call_far u i cs_raw op1_32))))"

definition jmp_far :: "uninit_t \<Rightarrow> 16 word \<Rightarrow> 32 word \<Rightarrow> unit cpu_monad" where
  "jmp_far u cs_raw disp32 =
    bindM (getsM protected_mode) (\<lambda>pm.
      if pm then jump_protected u cs_raw disp32
      else seqM (eip_in_limit disp32) (far_real u cs_raw disp32))"

definition JMP_Ap :: "uninit_t \<Rightarrow> bxInstruction_c \<Rightarrow> unit cpu_monad" where
  "JMP_Ap u i =
    seqM (modifyM invalidate_prefetch_q)
    (jmp_far u (Iw2 i) (if os32L i \<noteq> 0 then Id i else ucast (Iw i)))"

definition JMP32_Ep :: "uninit_t \<Rightarrow> bxInstruction_c \<Rightarrow> unit cpu_monad" where
  "JMP32_Ep u i =
    seqM (modifyM invalidate_prefetch_q)
    (bindM (ResolveModrm i) (\<lambda>eaddr.
    bindM (read_virtual_dword_32 (seg i) eaddr) (\<lambda>op1_32.
    bindM (read_virtual_word_32 (seg i) (eaddr + 4)) (\<lambda>cs_raw.
    jmp_far u cs_raw op1_32))))"

definition RETfar32_Iw :: "uninit_t \<Rightarrow> bxInstruction_c \<Rightarrow> unit cpu_monad" where
  "RETfar32_Iw u i =
    seqM (modifyM invalidate_prefetch_q)
    (bindM (getsM protected_mode) (\<lambda>pm.
      if pm then return_protected u i (Iw i)
      else
        seqM RSP_SPECULATIVE
        (bindM pop_32 (\<lambda>eip.
        bindM pop_32 (\<lambda>cs_raw.
        seqM (eip_in_limit eip)
        (seqM (far_real u (ucast cs_raw) eip)
        (seqM (modifyM (\<lambda>s. if ss_d_b s then set_ESP (ESP s + ucast (Iw i)) s else set_SP (SP s + Iw i) s))
        RSP_COMMIT)))))))"

definition RETfar32 :: "uninit_t \<Rightarrow> bxInstruction_c \<Rightarrow> unit cpu_monad" where
  "RETfar32 u i =
    seqM (modifyM invalidate_prefetch_q)
    (bindM (getsM protected_mode) (\<lambda>pm.
      if pm then return_protected u i 0
      else
        seqM RSP_SPECULATIVE
        (bindM pop_32 (\<lambda>eip.
        bindM pop_32 (\<lambda>cs_raw.
        seqM (eip_in_limit eip)
        (seqM (far_real u (ucast cs_raw) eip)
        RSP_COMMIT))))))"

text \<open>\<open>data_xfer16.cc\<close>: the move to a segment register.\<close>

definition modC0 :: "bxInstruction_c \<Rightarrow> 32 word" where "modC0 i = ucast (metaInfo1 i) AND push_bit 2 1"

definition MOV_SwEw :: "uninit_t \<Rightarrow> bxInstruction_c \<Rightarrow> unit cpu_monad" where
  "MOV_SwEw u i =
    seqM (whenM (nnn i \<ge> 6 \<or> nnn i = BX_SEG_REG_CS) (exception BX_UD_EXCEPTION 0))
    (bindM (if modC0 i \<noteq> 0 then getsM (BX_READ_16BIT_REG (rm i))
      else bindM (ResolveModrm i) (\<lambda>eaddr. read_virtual_word_32 (seg i) eaddr)) (\<lambda>op2_16.
    seqM (load_seg_reg (u_descriptor u) (nnn i) op2_16)
    (whenM (nnn i = BX_SEG_REG_SS)
      (modifyM (\<lambda>s. s\<lparr>inhibit_mask := inhibit_mask s OR 0x03, async_event := 1\<rparr>)))))"

end
