(* ===== verification/FarInt.thy ===== *)
theory FarInt
  imports FarXfer
begin

text \<open>
  Interrupt delivery and return: \<open>cpu/exception.cc\<close> (\<open>protected_mode_int\<close>,
  \<open>real_mode_int\<close>, \<open>interrupt\<close>), \<open>iret.cc\<close>, \<open>vm8086.cc\<close> and \<open>soft_int.cc\<close>.  In protected
  and virtual-8086 mode an interrupt goes through a gate of the IDT, to the same or
  to an inner privilege level, or through a task gate; in real mode through the
  vector table.
\<close>

section \<open>Flags\<close>

definition get_IOPL :: "bx_cpu_c \<Rightarrow> 32 word" where
  "get_IOPL s = 3 AND drop_bit 12 (eflags s)"

definition clear_eflag :: "nat \<Rightarrow> bx_cpu_c \<Rightarrow> bx_cpu_c" where
  "clear_eflag bitnum s = s\<lparr>eflags := eflags s AND NOT (push_bit bitnum 1)\<rparr>"

definition set_VM :: "32 word \<Rightarrow> unit cpu_monad" where
  "set_VM val =
    seqM (modifyM (\<lambda>s. s\<lparr>eflags := (eflags s AND NOT (push_bit 17 1)) OR push_bit 17 val\<rparr>))
    handleCpuModeChange"

definition clear_VM :: "unit cpu_monad" where
  "clear_VM = set_VM 0"

section \<open>Virtual-8086 mode\<close>

definition init_v8086_segment :: "bx_segment_reg_t \<Rightarrow> bx_segment_reg_t" where
  "init_v8086_segment sr = sr\<lparr>
    selector := (selector sr)\<lparr>sel_rpl := 3\<rparr>,
    cache := (cache sr)\<lparr>valid := SegValidCache OR SegAccessROK OR SegAccessWOK, d_p := 1, d_dpl := 3, d_segment := 1,
      d_type := 3, seg_base := push_bit 4 (ucast (sel_value (selector sr))), limit_scaled := 0xffff, seg_g := 0,
      seg_d_b := 0, seg_avl := 0\<rparr>\<rparr>"

definition init_v8086_mode :: "unit cpu_monad" where
  "init_v8086_mode =
    seqM (modifyM (\<lambda>s. s\<lparr>sregs := (\<lambda>k. if k < 6 then init_v8086_segment (sregs s k) else sregs s k)\<rparr>))
    (seqM handleCpuModeChange
    (modifyM handleAlignmentCheck))"

definition set_sreg_value :: "nat \<Rightarrow> 16 word \<Rightarrow> bx_cpu_c \<Rightarrow> bx_cpu_c" where
  "set_sreg_value k v s = s\<lparr>sregs := (sregs s)(k := (sregs s k)\<lparr>selector := (selector (sregs s k))\<lparr>sel_value := v\<rparr>\<rparr>)\<rparr>"

definition stack_return_to_v86 :: "32 word \<Rightarrow> 16 word \<Rightarrow> 32 word \<Rightarrow> unit cpu_monad" where
  "stack_return_to_v86 new_eip raw_cs_selector flags32 =
    bindM (getsM temp_ESP) (\<lambda>temp_ESP.
    bindM (read_virtual_dword_32 BX_SEG_REG_SS (temp_ESP + 12)) (\<lambda>new_esp.
    bindM (read_virtual_dword_32 BX_SEG_REG_SS (temp_ESP + 16)) (\<lambda>raw_ss_selector.
    bindM (read_virtual_dword_32 BX_SEG_REG_SS (temp_ESP + 20)) (\<lambda>raw_es_selector.
    bindM (read_virtual_dword_32 BX_SEG_REG_SS (temp_ESP + 24)) (\<lambda>raw_ds_selector.
    bindM (read_virtual_dword_32 BX_SEG_REG_SS (temp_ESP + 28)) (\<lambda>raw_fs_selector.
    bindM (read_virtual_dword_32 BX_SEG_REG_SS (temp_ESP + 32)) (\<lambda>raw_gs_selector.
    seqM (writeEFlags flags32 EFlagsValidMask)
    (seqM (modifyM (\<lambda>s. set_EIP (new_eip AND 0xffff) (set_sreg_value BX_SEG_REG_CS raw_cs_selector s)))
    (seqM (modifyM (set_sreg_value BX_SEG_REG_ES (ucast raw_es_selector)))
    (seqM (modifyM (set_sreg_value BX_SEG_REG_DS (ucast raw_ds_selector)))
    (seqM (modifyM (set_sreg_value BX_SEG_REG_FS (ucast raw_fs_selector)))
    (seqM (modifyM (set_sreg_value BX_SEG_REG_GS (ucast raw_gs_selector)))
    (seqM (modifyM (set_sreg_value BX_SEG_REG_SS (ucast raw_ss_selector)))
    (seqM (modifyM (set_ESP new_esp))
    init_v8086_mode))))))))))))))"

definition iret32_stack_return_from_v86 :: "uninit_t \<Rightarrow> unit cpu_monad" where
  "iret32_stack_return_from_v86 u =
    seqM (bindM (getsM get_IOPL) (\<lambda>IOPL. whenM (IOPL < 3) (exception BX_GP_EXCEPTION 0)))
    (let change_mask = EFlagsOSZAPCMask OR push_bit 8 1 OR push_bit 9 1 OR push_bit 10 1 OR push_bit 14 1 OR push_bit 16 1
         OR (push_bit 21 1 OR push_bit 18 1)
     in
     bindM pop_32 (\<lambda>eip.
     bindM pop_32 (\<lambda>cs_raw.
     bindM pop_32 (\<lambda>flags32.
     seqM (load_seg_reg (u_descriptor u) BX_SEG_REG_CS (ucast cs_raw))
     (seqM (modifyM (set_EIP eip))
     (writeEFlags flags32 change_mask))))))"

definition iret16_stack_return_from_v86 :: "uninit_t \<Rightarrow> unit cpu_monad" where
  "iret16_stack_return_from_v86 u =
    bindM (getsM (\<lambda>s. get_bit32 0 (cr4 s))) (\<lambda>VME.
    bindM (getsM get_IOPL) (\<lambda>IOPL.
    seqM (whenM (IOPL < 3 \<and> VME = 0) (exception BX_GP_EXCEPTION 0))
    (bindM pop_16 (\<lambda>ip.
    bindM pop_16 (\<lambda>cs_raw.
    bindM pop_16 (\<lambda>flags16.
    if VME \<noteq> 0 \<and> IOPL < 3 then
      seqM (bindM (getsM (get_eflag 20)) (\<lambda>VIP.
        whenM ((flags16 AND push_bit 9 1 \<noteq> 0 \<and> VIP \<noteq> 0) \<or> flags16 AND push_bit 8 1 \<noteq> 0) (exception BX_GP_EXCEPTION 0)))
      (seqM (load_seg_reg (u_descriptor u) BX_SEG_REG_CS cs_raw)
      (seqM (modifyM (set_EIP (ucast ip)))
      (let changeMask = EFlagsOSZAPCMask OR push_bit 8 1 OR push_bit 10 1 OR push_bit 14 1 OR push_bit 19 1;
           flags32 = (if flags16 AND push_bit 9 1 \<noteq> 0 then ucast flags16 OR push_bit 19 1 else ucast flags16)
       in writeEFlags flags32 changeMask)))
    else
      seqM (load_seg_reg (u_descriptor u) BX_SEG_REG_CS cs_raw)
      (seqM (modifyM (set_EIP (ucast ip)))
      (write_flags flags16 False True))))))))"

text \<open>Redirection of a software interrupt through the virtual-mode vector table; the
  result tells whether it was redirected.\<close>

definition v86_redirect :: "uninit_t \<Rightarrow> nat \<Rightarrow> unit cpu_monad" where
  "v86_redirect u vec =
    bindM read_eflags (\<lambda>fl.
    bindM (system_read_word (of_nat vec * 4 + 2)) (\<lambda>temp_CS.
    bindM (system_read_word (of_nat vec * 4)) (\<lambda>temp_IP.
    bindM (getsM get_IOPL) (\<lambda>IOPL.
    bindM (getsM (get_eflag 19)) (\<lambda>VIF.
    (let temp_flags = ucast fl :: 16 word;
         temp_flags = (if IOPL < 3 then
           (let temp_flags = temp_flags OR push_bit 12 3 in
            if VIF \<noteq> 0 then temp_flags OR push_bit 9 1 else temp_flags AND NOT (push_bit 9 1))
           else temp_flags)
     in
     bindM (getsM IP) (\<lambda>old_IP.
     bindM (getsM (sreg_value BX_SEG_REG_CS)) (\<lambda>old_CS.
     seqM (push_16 temp_flags)
     (seqM (push_16 old_CS)
     (seqM (push_16 old_IP)
     (seqM (load_seg_reg (u_descriptor u) BX_SEG_REG_CS temp_CS)
     (seqM (modifyM (set_EIP (ucast temp_IP)))
     (seqM (modifyM (clear_eflag 8))
     (seqM (modifyM (clear_eflag 16))
     (bindM (getsM get_IOPL) (\<lambda>IOPL.
     modifyM (clear_eflag (if IOPL = 3 then 9 else 19))))))))))))))))))"

definition v86_redirect_interrupt :: "uninit_t \<Rightarrow> nat \<Rightarrow> bool cpu_monad" where
  "v86_redirect_interrupt u vec =
    bindM (bindM (getsM (\<lambda>s. get_bit32 0 (cr4 s))) (\<lambda>VME.
      if VME \<noteq> 0 then
        bindM (getsM (\<lambda>s. cache (task_reg s))) (\<lambda>tr.
        seqM (whenM (limit_scaled tr < 103) (exception BX_GP_EXCEPTION 0))
        (bindM (system_read_word (seg_base tr + 102)) (\<lambda>io_base.
        (let offset = ucast io_base - 32 + drop_bit 3 (of_nat vec) in
        seqM (whenM (offset > limit_scaled tr) (exception BX_GP_EXCEPTION 0))
        (bindM (system_read_byte (seg_base tr + offset)) (\<lambda>vme_redirection_bitmap.
        if vme_redirection_bitmap AND push_bit (vec mod 8) 1 = 0 then
          seqM (v86_redirect u vec) (returnM True)
        else returnM False))))))
      else returnM False)) (\<lambda>redirected.
    if redirected then returnM True
    else
      seqM (bindM (getsM get_IOPL) (\<lambda>IOPL. whenM (IOPL < 3) (exception BX_GP_EXCEPTION 0)))
      (returnM False))"

section \<open>Interrupt return\<close>

definition iret_task :: "uninit_t \<Rightarrow> unit cpu_monad" where
  "iret_task u =
    bindM (bindM (getsM (\<lambda>s. seg_base (cache (task_reg s)))) system_read_word) (\<lambda>raw_link_selector.
    (let link_selector = parse_selector raw_link_selector in
    seqM (whenM (sel_ti link_selector \<noteq> 0) (exception BX_TS_EXCEPTION (raw_link_selector AND 0xfffc)))
    (bindM (fetch_raw_descriptor link_selector BX_TS_EXCEPTION) (\<lambda>(dword1, dword2).
    (let tss_descriptor = parse_descriptor dword1 dword2 (u_descriptor u) in
    seqM (whenM (valid tss_descriptor = 0 \<or> d_segment tss_descriptor \<noteq> 0)
      (exception BX_TS_EXCEPTION (raw_link_selector AND 0xfffc)))
    (seqM (whenM (d_type tss_descriptor \<noteq> BX_SYS_SEGMENT_BUSY_286_TSS \<and>
        d_type tss_descriptor \<noteq> BX_SYS_SEGMENT_BUSY_386_TSS)
      (exception BX_TS_EXCEPTION (raw_link_selector AND 0xfffc)))
    (seqM (whenM (d_p tss_descriptor = 0) (exception BX_NP_EXCEPTION (raw_link_selector AND 0xfffc)))
    (seqM (task_switch u link_selector tss_descriptor BX_TASK_FROM_IRET)
    eip_in_CS_limit))))))))"

definition iret_change_mask :: "bx_cpu_c \<Rightarrow> 32 word" where
  "iret_change_mask s =
    (let changeMask = EFlagsOSZAPCMask OR push_bit 8 1 OR push_bit 10 1 OR push_bit 14 1 OR push_bit 16 1;
         changeMask = changeMask OR (push_bit 21 1 OR push_bit 18 1);
         changeMask = (if ucast (CPL s) \<le> get_IOPL s then changeMask OR push_bit 9 1 else changeMask)
     in if CPL s = 0 then changeMask OR (push_bit 20 1 OR push_bit 19 1 OR push_bit 12 3) else changeMask)"

definition iret_same :: "bxInstruction_c \<Rightarrow> bx_selector_t \<Rightarrow> bx_descriptor_t \<Rightarrow> 32 word \<Rightarrow> 32 word \<Rightarrow> unit cpu_monad" where
  "iret_same i cs_selector cs_descriptor new_eip new_eflags =
    seqM (branch_far32 cs_selector cs_descriptor new_eip (sel_rpl cs_selector))
    (seqM (if os32L i \<noteq> 0 then bindM (getsM iret_change_mask) (\<lambda>changeMask. writeEFlags new_eflags changeMask)
      else bindM (getsM (\<lambda>s. (CPL s = 0, ucast (CPL s) \<le> get_IOPL s))) (\<lambda>(change_IOPL, change_IF).
        write_flags (ucast new_eflags) change_IOPL change_IF))
    (let top_nbytes_same = (if os32L i \<noteq> 0 then 12 else 6) in
     modifyM (\<lambda>s. if ss_d_b s then set_ESP (ESP s + top_nbytes_same) s
       else set_SP (SP s + ucast top_nbytes_same) s)))"

definition iret_outer ::
  "uninit_t \<Rightarrow> bxInstruction_c \<Rightarrow> 32 word \<Rightarrow> bx_selector_t \<Rightarrow> bx_descriptor_t \<Rightarrow> unit cpu_monad" where
  "iret_outer u i top_ESP cs_selector cs_descriptor =
    bindM (read_virtual_word_32 BX_SEG_REG_SS (top_ESP + (if os32L i \<noteq> 0 then 16 else 8))) (\<lambda>raw_ss_selector.
    (let ss_selector = parse_selector raw_ss_selector; gp = exception BX_GP_EXCEPTION (raw_ss_selector AND 0xfffc) in
    seqM (whenM (raw_ss_selector AND 0xfffc = 0) (exception BX_GP_EXCEPTION 0))
    (seqM (whenM (sel_rpl ss_selector \<noteq> sel_rpl cs_selector) gp)
    (bindM (fetch_raw_descriptor ss_selector BX_GP_EXCEPTION) (\<lambda>(dword1, dword2).
    (let ss_descriptor = parse_descriptor dword1 dword2 (u_descriptor u) in
    seqM (whenM (valid ss_descriptor = 0 \<or> d_segment ss_descriptor = 0 \<or> IS_CODE_SEGMENT (d_type ss_descriptor) \<or>
      \<not> IS_DATA_SEGMENT_WRITEABLE (d_type ss_descriptor)) gp)
    (seqM (whenM (d_dpl ss_descriptor \<noteq> sel_rpl cs_selector) gp)
    (seqM (whenM (d_p ss_descriptor = 0) (exception BX_NP_EXCEPTION (raw_ss_selector AND 0xfffc)))
    (bindM (if os32L i \<noteq> 0 then
        bindM (read_virtual_dword_32 BX_SEG_REG_SS (top_ESP + 12)) (\<lambda>esp.
        bindM (read_virtual_dword_32 BX_SEG_REG_SS (top_ESP + 8)) (\<lambda>fl.
        bindM (read_virtual_dword_32 BX_SEG_REG_SS (top_ESP + 0)) (\<lambda>eip.
        returnM (esp, fl, eip))))
      else
        bindM (read_virtual_word_32 BX_SEG_REG_SS (top_ESP + 6)) (\<lambda>esp.
        bindM (read_virtual_word_32 BX_SEG_REG_SS (top_ESP + 4)) (\<lambda>fl.
        bindM (read_virtual_word_32 BX_SEG_REG_SS (top_ESP + 0)) (\<lambda>eip.
        returnM (ucast esp, ucast fl, ucast eip))))) (\<lambda>(new_esp, new_eflags, new_eip).
    bindM (getsM iret_change_mask) (\<lambda>changeMask.
    (let changeMask = (if os32L i \<noteq> 0 then changeMask else changeMask AND 0xffff) in
    seqM (branch_far32 cs_selector cs_descriptor new_eip (sel_rpl cs_selector))
    (seqM (writeEFlags new_eflags changeMask)
    (seqM (load_ss ss_selector ss_descriptor (sel_rpl cs_selector))
    (seqM (modifyM (\<lambda>s. if seg_d_b ss_descriptor \<noteq> 0 then set_ESP new_esp s else set_SP (ucast new_esp) s))
    (modifyM validate_seg_regs))))))))))))))))"

text \<open>The return through the stack.\<close>

definition iret_stack :: "uninit_t \<Rightarrow> bxInstruction_c \<Rightarrow> unit cpu_monad" where
  "iret_stack u i =
    bindM (getsM temp_ESP) (\<lambda>temp_ESP.
    bindM (if os32L i \<noteq> 0 then
        bindM (read_virtual_dword_32 BX_SEG_REG_SS (temp_ESP + 8)) (\<lambda>fl.
        bindM (read_virtual_dword_32 BX_SEG_REG_SS (temp_ESP + 4)) (\<lambda>cs.
        bindM (read_virtual_dword_32 BX_SEG_REG_SS (temp_ESP + 0)) (\<lambda>eip.
        returnM (fl, ucast cs, eip))))
      else
        bindM (read_virtual_word_32 BX_SEG_REG_SS (temp_ESP + 4)) (\<lambda>fl.
        bindM (read_virtual_word_32 BX_SEG_REG_SS (temp_ESP + 2)) (\<lambda>cs.
        bindM (read_virtual_word_32 BX_SEG_REG_SS (temp_ESP + 0)) (\<lambda>ip.
        returnM (ucast fl, cs, ucast ip))))) (\<lambda>(new_eflags, raw_cs_selector, new_eip).
    bindM (getsM CPL) (\<lambda>cpl.
    if os32L i \<noteq> 0 \<and> new_eflags AND push_bit 17 1 \<noteq> 0 \<and> cpl = 0 then
      stack_return_to_v86 new_eip raw_cs_selector new_eflags
    else
      (let cs_selector = parse_selector raw_cs_selector in
      seqM (whenM (raw_cs_selector AND 0xfffc = 0) (exception BX_GP_EXCEPTION 0))
      (bindM (fetch_raw_descriptor cs_selector BX_GP_EXCEPTION) (\<lambda>(dword1, dword2).
      (let cs_descriptor = parse_descriptor dword1 dword2 (u_descriptor u) in
      seqM (whenM (sel_rpl cs_selector < cpl) (exception BX_GP_EXCEPTION (raw_cs_selector AND 0xfffc)))
      (seqM (check_cs cs_descriptor raw_cs_selector 0 (sel_rpl cs_selector))
      (if sel_rpl cs_selector = cpl then iret_same i cs_selector cs_descriptor new_eip new_eflags
       else iret_outer u i temp_ESP cs_selector cs_descriptor)))))))))"

definition iret_protected :: "uninit_t \<Rightarrow> bxInstruction_c \<Rightarrow> unit cpu_monad" where
  "iret_protected u i = bindM (getsM (get_eflag 14)) (\<lambda>NT. if NT \<noteq> 0 then iret_task u else iret_stack u i)"

definition IRET32 :: "uninit_t \<Rightarrow> bxInstruction_c \<Rightarrow> unit cpu_monad" where
  "IRET32 u i =
    seqM (modifyM (\<lambda>s. (invalidate_prefetch_q s)\<lparr>disable_NMI := 0\<rparr>))
    (bindM (getsM protected_mode) (\<lambda>pm.
      if pm then iret_protected u i
      else
        seqM RSP_SPECULATIVE
        (seqM (bindM (getsM v8086_mode) (\<lambda>v86.
          if v86 then iret32_stack_return_from_v86 u
          else
            bindM pop_32 (\<lambda>eip.
            bindM pop_32 (\<lambda>cs_raw.
            bindM pop_32 (\<lambda>eflags32.
            seqM (eip_in_limit eip)
            (seqM (far_real u (ucast cs_raw) eip)
            (writeEFlags eflags32 0x00257fd5)))))))
        RSP_COMMIT)))"

section \<open>Interrupt gates\<close>

text \<open>The frame pushed on the stack of an inner level: the data segments when the
  interrupted code ran in virtual-8086 mode, the old stack, flags, return address
  and error code.\<close>

definition int_frame ::
  "bool \<Rightarrow> 32 word \<Rightarrow> 32 word list \<Rightarrow> 16 word \<Rightarrow> 32 word \<Rightarrow> 16 word \<Rightarrow> 32 word \<Rightarrow> 32 word list \<Rightarrow>
    'a::len word \<times> bx_segment_reg_t \<Rightarrow> 'a word cpu_monad" where
  "int_frame dword curr_pl v86 old_SS old_ESP old_CS old_EIP err st =
    bindM (push_list dword curr_pl v86 st) (\<lambda>st.
    bindM (push_list dword curr_pl [ucast old_SS, old_ESP] st) (\<lambda>st.
    bindM read_eflags (\<lambda>fl.
    bindM (push_list dword curr_pl [fl, ucast old_CS, old_EIP] st) (\<lambda>st.
    bindM (push_list dword curr_pl err st) (\<lambda>st.
    returnM (fst st))))))"

definition null_data_segment :: "nat \<Rightarrow> bx_cpu_c \<Rightarrow> bx_cpu_c" where
  "null_data_segment k s = s\<lparr>sregs := (sregs s)(k := (sregs s k)\<lparr>
    selector := (selector (sregs s k))\<lparr>sel_value := 0\<rparr>, cache := (cache (sregs s k))\<lparr>valid := 0\<rparr>\<rparr>)\<rparr>"

definition int_inner ::
  "uninit_t \<Rightarrow> bx_descriptor_t \<Rightarrow> bx_selector_t \<Rightarrow> bx_descriptor_t \<Rightarrow> bool \<Rightarrow> 16 word \<Rightarrow> unit cpu_monad" where
  "int_inner u gate_descriptor cs_selector cs_descriptor push_error error_code =
    (let dpl = d_dpl cs_descriptor; dword = (d_type gate_descriptor \<ge> 14) in
     bindM (getsM v8086_mode) (\<lambda>is_v8086_mode.
     bindM (get_SS_ESP_from_TSS u (ucast dpl)) (\<lambda>(SS_for_cpl_x, ESP_for_cpl_x).
     seqM (whenM (is_v8086_mode \<and> dpl \<noteq> 0) (exception BX_GP_EXCEPTION (sel_value cs_selector AND 0xfffc)))
     (bindM (inner_stack u dpl SS_for_cpl_x) (\<lambda>(ss_selector, ss_descriptor).
     seqM (whenM (gate_dest_offset gate_descriptor > limit_scaled cs_descriptor) (exception BX_GP_EXCEPTION 0))
     (bindM (getsM ESP) (\<lambda>old_ESP.
     bindM (getsM (sreg_value BX_SEG_REG_SS)) (\<lambda>old_SS.
     bindM (getsM EIP) (\<lambda>old_EIP.
     bindM (getsM (sreg_value BX_SEG_REG_CS)) (\<lambda>old_CS.
     bindM (getsM (\<lambda>s. if is_v8086_mode then [ucast (sreg_value BX_SEG_REG_GS s), ucast (sreg_value BX_SEG_REG_FS s),
       ucast (sreg_value BX_SEG_REG_DS s), ucast (sreg_value BX_SEG_REG_ES s)] else [])) (\<lambda>v86.
     (let new_stack = new_stack_of ss_selector ss_descriptor dpl;
          err = (if push_error then [ucast error_code] else []) in
     seqM (if seg_d_b ss_descriptor \<noteq> 0 then
         bindM (int_frame dword (ucast dpl) v86 old_SS old_ESP old_CS old_EIP err (ESP_for_cpl_x, new_stack))
           (\<lambda>esp. modifyM (set_ESP esp))
       else
         bindM (int_frame dword (ucast dpl) v86 old_SS old_ESP old_CS old_EIP err
           (ucast ESP_for_cpl_x :: 16 word, new_stack)) (\<lambda>sp. modifyM (set_SP sp)))
     (seqM (load_cs cs_selector cs_descriptor dpl)
     (seqM (load_ss ss_selector ss_descriptor dpl)
     (seqM (modifyM (set_EIP (gate_dest_offset gate_descriptor)))
     (seqM (whenM (d_type gate_descriptor AND 1 = 0) (modifyM (clear_eflag 9)))
     (seqM (modifyM (clear_eflag 8))
     (seqM clear_VM
     (seqM (modifyM (clear_eflag 16))
     (seqM (modifyM (clear_eflag 14))
     (whenM is_v8086_mode
       (seqM (modifyM (null_data_segment BX_SEG_REG_GS))
       (seqM (modifyM (null_data_segment BX_SEG_REG_FS))
       (seqM (modifyM (null_data_segment BX_SEG_REG_DS))
       (modifyM (null_data_segment BX_SEG_REG_ES))))))))))))))))))))))))))"

definition int_same ::
  "bx_descriptor_t \<Rightarrow> bx_selector_t \<Rightarrow> bx_descriptor_t \<Rightarrow> bool \<Rightarrow> 16 word \<Rightarrow> unit cpu_monad" where
  "int_same gate_descriptor cs_selector cs_descriptor push_error error_code =
    seqM (bindM (getsM v8086_mode) (\<lambda>v86. whenM (v86 \<and> (IS_CODE_SEGMENT_CONFORMING (d_type cs_descriptor) \<or>
        d_dpl cs_descriptor \<noteq> 0)) (exception BX_GP_EXCEPTION (sel_value cs_selector AND 0xfffc))))
    (seqM (whenM (gate_dest_offset gate_descriptor > limit_scaled cs_descriptor) (exception BX_GP_EXCEPTION 0))
    (seqM (if d_type gate_descriptor \<ge> 14 then
        seqM (bindM read_eflags push_32)
        (seqM (bindM (getsM (sreg_value BX_SEG_REG_CS)) (\<lambda>v. push_32 (ucast v)))
        (seqM (bindM (getsM EIP) push_32)
        (whenM push_error (push_32 (ucast error_code)))))
      else
        seqM (bindM read_eflags (\<lambda>fl. push_16 (ucast fl)))
        (seqM (bindM (getsM (sreg_value BX_SEG_REG_CS)) push_16)
        (seqM (bindM (getsM IP) push_16)
        (whenM push_error (push_16 error_code)))))
    (seqM (bindM (getsM CPL) (load_cs cs_selector cs_descriptor))
    (seqM (modifyM (set_EIP (gate_dest_offset gate_descriptor)))
    (seqM (whenM (d_type gate_descriptor AND 1 = 0) (modifyM (clear_eflag 9)))
    (seqM (modifyM (clear_eflag 8))
    (seqM (modifyM (clear_eflag 14))
    (seqM clear_VM
    (modifyM (clear_eflag 16))))))))))"

definition int_task_gate :: "uninit_t \<Rightarrow> bx_descriptor_t \<Rightarrow> bool \<Rightarrow> 16 word \<Rightarrow> unit cpu_monad" where
  "int_task_gate u gate_descriptor push_error error_code =
    (let raw_tss_selector = taskgate_tss_selector gate_descriptor; tss_selector = parse_selector raw_tss_selector in
     seqM (whenM (sel_ti tss_selector \<noteq> 0) (exception BX_GP_EXCEPTION (raw_tss_selector AND 0xfffc)))
     (bindM (fetch_raw_descriptor tss_selector BX_GP_EXCEPTION) (\<lambda>(dword1, dword2).
     (let tss_descriptor = parse_descriptor dword1 dword2 (u_descriptor u) in
     seqM (whenM (valid tss_descriptor = 0 \<or> d_segment tss_descriptor \<noteq> 0)
       (exception BX_GP_EXCEPTION (raw_tss_selector AND 0xfffc)))
     (seqM (whenM (d_type tss_descriptor \<noteq> BX_SYS_SEGMENT_AVAIL_286_TSS \<and>
         d_type tss_descriptor \<noteq> BX_SYS_SEGMENT_AVAIL_386_TSS)
       (exception BX_GP_EXCEPTION (raw_tss_selector AND 0xfffc)))
     (seqM (whenM (d_p tss_descriptor = 0) (exception BX_NP_EXCEPTION (raw_tss_selector AND 0xfffc)))
     (seqM (task_switch u tss_selector tss_descriptor BX_TASK_FROM_INT)
     (seqM RSP_SPECULATIVE
     (seqM (whenM push_error
       (if d_type tss_descriptor \<ge> 9 then push_32 (ucast error_code) else push_16 error_code))
     (seqM eip_in_CS_limit
     RSP_COMMIT))))))))))"

definition int_trap_gate :: "uninit_t \<Rightarrow> bx_descriptor_t \<Rightarrow> bool \<Rightarrow> 16 word \<Rightarrow> unit cpu_monad" where
  "int_trap_gate u gate_descriptor push_error error_code =
    (let cs_selector = parse_selector (gate_dest_selector gate_descriptor) in
     seqM (whenM (gate_dest_selector gate_descriptor AND 0xfffc = 0) (exception BX_GP_EXCEPTION 0))
     (bindM (fetch_raw_descriptor cs_selector BX_GP_EXCEPTION) (\<lambda>(dword1, dword2).
     (let cs_descriptor = parse_descriptor dword1 dword2 (u_descriptor u) in
     bindM (getsM CPL) (\<lambda>cpl.
     seqM (whenM (valid cs_descriptor = 0 \<or> d_segment cs_descriptor = 0 \<or> IS_DATA_SEGMENT (d_type cs_descriptor) \<or>
         d_dpl cs_descriptor > cpl)
       (exception BX_GP_EXCEPTION (sel_value cs_selector AND 0xfffc)))
     (seqM (whenM (d_p cs_descriptor = 0) (exception BX_NP_EXCEPTION (sel_value cs_selector AND 0xfffc)))
     (seqM (whenM (d_dpl cs_descriptor > cpl) (exception BX_GP_EXCEPTION (sel_value cs_selector AND 0xfffc)))
     (if IS_CODE_SEGMENT_NON_CONFORMING (d_type cs_descriptor) \<and> d_dpl cs_descriptor < cpl then
        int_inner u gate_descriptor cs_selector cs_descriptor push_error error_code
      else int_same gate_descriptor cs_selector cs_descriptor push_error error_code))))))))"

text \<open>What \<open>protected_mode_int\<close> does with the gate it has fetched.\<close>

definition int_gate :: "uninit_t \<Rightarrow> nat \<Rightarrow> bool \<Rightarrow> bool \<Rightarrow> 16 word \<Rightarrow> bx_descriptor_t \<Rightarrow> unit cpu_monad" where
  "int_gate u vec soft_int push_error error_code gate_descriptor =
    seqM (whenM (valid gate_descriptor = 0 \<or> d_segment gate_descriptor \<noteq> 0) (exception BX_GP_EXCEPTION (of_nat vec * 8 + 2)))
    (seqM (whenM (d_type gate_descriptor \<notin> {BX_TASK_GATE, BX_286_INTERRUPT_GATE, BX_286_TRAP_GATE,
        BX_386_INTERRUPT_GATE, BX_386_TRAP_GATE}) (exception BX_GP_EXCEPTION (of_nat vec * 8 + 2)))
    (bindM (getsM CPL) (\<lambda>cpl.
    seqM (whenM (soft_int \<and> d_dpl gate_descriptor < cpl) (exception BX_GP_EXCEPTION (of_nat vec * 8 + 2)))
    (seqM (whenM (d_p gate_descriptor = 0) (exception BX_NP_EXCEPTION (of_nat vec * 8 + 2)))
    (if d_type gate_descriptor = BX_TASK_GATE then int_task_gate u gate_descriptor push_error error_code
     else int_trap_gate u gate_descriptor push_error error_code)))))"

definition protected_mode_int :: "uninit_t \<Rightarrow> nat \<Rightarrow> bool \<Rightarrow> bool \<Rightarrow> 16 word \<Rightarrow> unit cpu_monad" where
  "protected_mode_int u vec soft_int push_error error_code =
    bindM (getsM idtr) (\<lambda>idt.
    seqM (whenM (of_nat vec * 8 + 7 > (ucast (gseg_limit idt) :: 32 word)) (exception BX_GP_EXCEPTION (of_nat vec * 8 + 2)))
    (bindM (system_read_qword (gseg_base idt + of_nat vec * 8)) (\<lambda>desctmp.
    int_gate u vec soft_int push_error error_code
      (parse_descriptor (ucast desctmp) (ucast (drop_bit 32 desctmp)) (u_descriptor u)))))"

section \<open>Delivery\<close>

definition real_mode_int :: "uninit_t \<Rightarrow> nat \<Rightarrow> unit cpu_monad" where
  "real_mode_int u vec =
    bindM (getsM idtr) (\<lambda>idt.
    seqM (whenM (of_nat vec * 4 + 3 > (ucast (gseg_limit idt) :: 32 word)) (exception BX_GP_EXCEPTION 0))
    (seqM (bindM read_eflags (\<lambda>f. push_16 (ucast f)))
    (seqM (bindM (getsM (sreg_value BX_SEG_REG_CS)) push_16)
    (seqM (bindM (getsM IP) push_16)
    (bindM (bindM (getsM (\<lambda>s. gseg_base (idtr s))) (\<lambda>base. system_read_word (base + 4 * of_nat vec))) (\<lambda>new_ip.
    seqM (eip_in_limit (ucast new_ip))
    (bindM (bindM (getsM (\<lambda>s. gseg_base (idtr s))) (\<lambda>base. system_read_word (base + 4 * of_nat vec + 2))) (\<lambda>cs_selector.
    seqM (far_real u cs_selector (ucast new_ip))
    (seqM (modifyM (clear_eflag 9))
    (seqM (modifyM (clear_eflag 8))
    (seqM (modifyM (\<lambda>s. (clear_eflag 18 s)\<lparr>alignment_check_mask := 0\<rparr>))
    (modifyM (clear_eflag 16)))))))))))))"

datatype event_type = BX_EXTERNAL_INTERRUPT | BX_NMI | BX_HARDWARE_EXCEPTION | BX_SOFTWARE_INTERRUPT
  | BX_PRIVILEGED_SOFTWARE_INTERRUPT | BX_SOFTWARE_EXCEPTION

definition interrupt :: "uninit_t \<Rightarrow> nat \<Rightarrow> event_type \<Rightarrow> bool \<Rightarrow> 16 word \<Rightarrow> unit cpu_monad" where
  "interrupt u vec type push_error error_code =
    (let soft_int = (type = BX_SOFTWARE_INTERRUPT \<or> type = BX_SOFTWARE_EXCEPTION) in
     seqM (modifyM (\<lambda>s. (invalidate_prefetch_q s)\<lparr>debug_trap := 0, inhibit_mask := 0\<rparr>))
     (seqM RSP_SPECULATIVE
     (seqM (bindM (getsM real_mode) (\<lambda>real.
       if real then real_mode_int u vec
       else protected_mode_int u vec soft_int push_error error_code))
     RSP_COMMIT)))"

section \<open>Software interrupts\<close>

definition BOUND_GwMa :: "bxInstruction_c \<Rightarrow> unit cpu_monad" where
  "BOUND_GwMa i =
    bindM (getsM (BX_READ_16BIT_REG (nnn i))) (\<lambda>op1_16.
    bindM (ResolveModrm i) (\<lambda>eaddr.
    bindM (read_virtual_word_32 (seg i) eaddr) (\<lambda>bound_min.
    bindM (read_virtual_word_32 (seg i) (eaddr + 2)) (\<lambda>bound_max.
    whenM (op1_16 <s bound_min \<or> bound_max <s op1_16) (exception 5 0)))))"

definition BOUND_GdMa :: "bxInstruction_c \<Rightarrow> unit cpu_monad" where
  "BOUND_GdMa i =
    bindM (getsM (BX_READ_32BIT_REG (nnn i))) (\<lambda>op1_32.
    bindM (ResolveModrm i) (\<lambda>eaddr.
    bindM (read_virtual_dword_32 (seg i) eaddr) (\<lambda>bound_min.
    bindM (read_virtual_dword_32 (seg i) (eaddr + 4)) (\<lambda>bound_max.
    whenM (op1_32 <s bound_min \<or> bound_max <s op1_32) (exception 5 0)))))"

definition INT1 :: "uninit_t \<Rightarrow> unit cpu_monad" where
  "INT1 u =
    seqM (modifyM (\<lambda>s. s\<lparr>EXT := 1\<rparr>))
    (seqM (interrupt u 1 BX_PRIVILEGED_SOFTWARE_INTERRUPT False 0)
    (modifyM (\<lambda>s. s\<lparr>EXT := 0\<rparr>)))"

definition INT3 :: "uninit_t \<Rightarrow> unit cpu_monad" where
  "INT3 u = interrupt u 3 BX_SOFTWARE_EXCEPTION False 0"

definition INT_Ib :: "uninit_t \<Rightarrow> bxInstruction_c \<Rightarrow> unit cpu_monad" where
  "INT_Ib u i =
    (let vec = unat (Ib i) in
     seqM RSP_SPECULATIVE
     (seqM (bindM (bindM (getsM v8086_mode) (\<lambda>v86. if v86 then v86_redirect_interrupt u vec else returnM False)) (\<lambda>redirected.
       whenM (\<not> redirected) (interrupt u vec BX_SOFTWARE_INTERRUPT False 0)))
     RSP_COMMIT))"

definition INTO :: "uninit_t \<Rightarrow> unit cpu_monad" where
  "INTO u = bindM (getsM get_OF) (\<lambda>f. whenM (f \<noteq> 0) (interrupt u 4 BX_SOFTWARE_EXCEPTION False 0))"

end
