(* ===== verification/Except.thy ===== *)
theory Except
  imports FarInt
begin

text \<open>
  Exceptions: \<open>cpu/exception.cc\<close>.  \<open>exception_entry\<close> is the body of
  \<open>BX_CPU_C::exception\<close> up to its call of \<open>interrupt\<close> (classification, error code,
  restoration of EIP and ESP, double and triple faults); \<open>exception_delivery\<close> puts it
  together with \<open>interrupt\<close> and with the exceptions that delivery itself raises, and \<open>cpu_step\<close> is one round of the loop of \<open>cpu/cpu.cc\<close> with the
  recovery of an exception.  Elsewhere in the development \<open>exception\<close> only raises
  the fault; these definitions say what becomes of it.
\<close>

section \<open>Classification\<close>

abbreviation (input) BX_ET_BENIGN :: nat where "BX_ET_BENIGN \<equiv> 0"
abbreviation (input) BX_ET_CONTRIBUTORY :: nat where "BX_ET_CONTRIBUTORY \<equiv> 1"
abbreviation (input) BX_ET_PAGE_FAULT :: nat where "BX_ET_PAGE_FAULT \<equiv> 2"
abbreviation (input) BX_ET_DOUBLE_FAULT :: nat where "BX_ET_DOUBLE_FAULT \<equiv> 10"
abbreviation (input) BX_DB_EXCEPTION :: nat where "BX_DB_EXCEPTION \<equiv> 1"
abbreviation (input) BX_DF_EXCEPTION :: nat where "BX_DF_EXCEPTION \<equiv> 8"

datatype exception_class = BX_EXCEPTION_CLASS_TRAP | BX_EXCEPTION_CLASS_FAULT | BX_EXCEPTION_CLASS_ABORT

definition is_exception_OK :: "bool list list" where
  "is_exception_OK = [[True, True, True], [True, False, True], [True, False, False]]"

text \<open>Type, class and whether an error code is pushed, by vector.\<close>

definition exceptions_info :: "(nat \<times> exception_class \<times> bool) list" where
  "exceptions_info = [
    (BX_ET_CONTRIBUTORY, BX_EXCEPTION_CLASS_FAULT, False),
    (BX_ET_BENIGN, BX_EXCEPTION_CLASS_FAULT, False),
    (BX_ET_BENIGN, BX_EXCEPTION_CLASS_FAULT, False),
    (BX_ET_BENIGN, BX_EXCEPTION_CLASS_TRAP, False),
    (BX_ET_BENIGN, BX_EXCEPTION_CLASS_TRAP, False),
    (BX_ET_BENIGN, BX_EXCEPTION_CLASS_FAULT, False),
    (BX_ET_BENIGN, BX_EXCEPTION_CLASS_FAULT, False),
    (BX_ET_BENIGN, BX_EXCEPTION_CLASS_FAULT, False),
    (BX_ET_DOUBLE_FAULT, BX_EXCEPTION_CLASS_FAULT, True),
    (BX_ET_BENIGN, BX_EXCEPTION_CLASS_FAULT, False),
    (BX_ET_CONTRIBUTORY, BX_EXCEPTION_CLASS_FAULT, True),
    (BX_ET_CONTRIBUTORY, BX_EXCEPTION_CLASS_FAULT, True),
    (BX_ET_CONTRIBUTORY, BX_EXCEPTION_CLASS_FAULT, True),
    (BX_ET_CONTRIBUTORY, BX_EXCEPTION_CLASS_FAULT, True),
    (BX_ET_PAGE_FAULT, BX_EXCEPTION_CLASS_FAULT, True),
    (BX_ET_BENIGN, BX_EXCEPTION_CLASS_FAULT, False),
    (BX_ET_BENIGN, BX_EXCEPTION_CLASS_FAULT, False),
    (BX_ET_BENIGN, BX_EXCEPTION_CLASS_FAULT, True),
    (BX_ET_BENIGN, BX_EXCEPTION_CLASS_ABORT, False),
    (BX_ET_BENIGN, BX_EXCEPTION_CLASS_FAULT, False),
    (BX_ET_BENIGN, BX_EXCEPTION_CLASS_FAULT, False)]"

section \<open>Entering an exception\<close>

text \<open>Restore EIP, and ESP when the instruction has moved it speculatively.\<close>

definition restore_rip_rsp :: "bx_cpu_c \<Rightarrow> bx_cpu_c" where
  "restore_rip_rsp s =
    (let s' = set_EIP (prev_rip s) s in
     if speculative_rsp s' \<noteq> 0 then set_ESP (prev_rsp s') s' else s')"

text \<open>The state once EIP and ESP are restored, RF and the debug registers are set.\<close>

definition entry_state :: "nat \<Rightarrow> bx_cpu_c \<Rightarrow> bx_cpu_c" where
  "entry_state vec s =
    (let s1 = (if fst (snd (exceptions_info ! vec)) = BX_EXCEPTION_CLASS_FAULT then
           (let s1 = restore_rip_rsp s in
            if vec \<noteq> BX_DB_EXCEPTION
            then s1\<lparr>async_event := 1, eflags := eflags s1 OR push_bit 16 1\<rparr> else s1)
         else s);
         s2 = (if vec = BX_DB_EXCEPTION then
           s1\<lparr>dr6 := (dr6 s1 AND 0xffff0ff0) OR (debug_trap s1 AND 0x0000e00f),
              dr7 := dr7 s1 AND NOT 0x00002000\<rparr>
         else s1)
     in s2\<lparr>EXT := 1\<rparr>)"

text \<open>The arguments with which \<open>interrupt\<close> is called: vector, whether an error code is
  pushed, and the error code.  A panic is \<open>AssertFail\<close>; an index outside the
  table \<open>is_exception_OK\<close> would be \<open>HostFault 0\<close>.\<close>

function exception_entry :: "nat \<Rightarrow> 16 word \<Rightarrow> (nat \<times> bool \<times> 16 word) cpu_monad" where
  "exception_entry vec error_code s =
    (if \<not> vec < 20 then (Inl AssertFail, s)
     else
       (let (exception_type, _, push_error) = exceptions_info ! vec;
            error_code = (if vec \<noteq> BX_PF_EXCEPTION \<and> vec \<noteq> BX_DF_EXCEPTION
              then (error_code AND 0xfffe) OR ucast (EXT s) else error_code)
        in
        if 0 < errorno s \<and> (2 < errorno s \<or> curr_exception s = BX_ET_DOUBLE_FAULT)
        then (Inl AssertFail, restore_rip_rsp s)
        else
          (let s3 = entry_state vec s in
           if 0 < errorno s3 \<and> exception_type \<noteq> BX_ET_DOUBLE_FAULT \<and>
             \<not> (curr_exception s3 < 3 \<and> exception_type < 3)
           then (Inl (HostFault 0), s3)
           else if 0 < errorno s3 \<and> exception_type \<noteq> BX_ET_DOUBLE_FAULT \<and>
             \<not> is_exception_OK ! curr_exception s3 ! exception_type
           then exception_entry BX_DF_EXCEPTION 0 s3
           else
             (let s4 = s3\<lparr>curr_exception := exception_type, errorno := errorno s3 + 1\<rparr> in
              (Inr (if real_mode s4 then (vec, False, 0) else (vec, push_error, error_code)), s4)))))"
  by pat_completeness auto

termination
  by (relation "measure (\<lambda>(v, _, _). if v = BX_DF_EXCEPTION then 0 else 1)")
    (auto simp: exceptions_info_def split: if_splits)

declare exception_entry.simps [simp del]

section \<open>Delivery leaves the count of unresolved exceptions alone\<close>

abbreviation (input) errors :: "32 word \<Rightarrow> bx_cpu_c \<Rightarrow> bool" where
  "errors n s \<equiv> errorno s = n"

lemma core_keeps_errorno: "core_neutral m \<Longrightarrow> keeps (errors n) m"
  by (rule keepsI) (metis core_kept core_keptD(5) prod.collapse)

lemma keeps_errorno_modifyM: "(\<And>s. errorno (f s) = errorno s) \<Longrightarrow> keeps (errors n) (modifyM f)"
  by (simp add: keeps_def monad_simps)

lemma core_system [core_intros]:
  "core_neutral (system_read_byte l)" "core_neutral (system_read_dword l)"
  "core_neutral (system_write_word l w)" "core_neutral (system_write_dword l d)"
  unfolding system_read_byte_def system_read_dword_def system_write_word_def system_write_dword_def
    system_tlb_read_def system_tlb_write_def
  by (intro core_intros; simp)+

lemma core_new_stack [core_intros]:
  "core_neutral (write_new_stack_word_32 sr offset pl w)" "core_neutral (write_new_stack_dword_32 sr offset pl d)"
  unfolding write_new_stack_word_32_def write_new_stack_dword_32_def check_new_stack_def new_stack_violation_def Let_def
  by (intro core_intros; simp)+

lemmas errorno_accesses [keeps_intros] = core_accessors [THEN core_keeps_errorno]
  core_translate [THEN core_keeps_errorno] core_linear [THEN core_keeps_errorno] core_system_read [THEN core_keeps_errorno]
  core_system [THEN core_keeps_errorno] core_new_stack [THEN core_keeps_errorno] core_descriptors [THEN core_keeps_errorno]
  core_load_seg_reg [THEN core_keeps_errorno]

lemma errorno_updates [keeps_intros]:
  "keeps (errors n) (modifyM (set_EIP e))" "keeps (errors n) (modifyM (set_ESP e))" "keeps (errors n) (modifyM (set_SP w))"
  "keeps (errors n) (modifyM (clear_eflag b))" "keeps (errors n) (modifyM (\<lambda>s. (clear_eflag b s)\<lparr>alignment_check_mask := m\<rparr>))"
  "keeps (errors n) (modifyM updateFetchModeMask)" "keeps (errors n) (modifyM handleAlignmentCheck)"
  "keeps (errors n) (modifyM invalidate_prefetch_q)" "keeps (errors n) RSP_SPECULATIVE" "keeps (errors n) RSP_COMMIT"
  "keeps (errors n) (modifyM (\<lambda>s. (invalidate_prefetch_q s)\<lparr>debug_trap := d, inhibit_mask := i\<rparr>))"
  "keeps (errors n) (modifyM (\<lambda>s. s\<lparr>debug_trap := g1 s, async_event := x\<rparr>))" "keeps (errors n) (modifyM (\<lambda>s. s\<lparr>ldtr := g2 s\<rparr>))"
  "keeps (errors n) (modifyM (set_seg_cache k c))" "keeps (errors n) (modifyM (set_CPL p))"
  "keeps (errors n) (modifyM (task_selectors t))" "keeps (errors n) (modifyM (task_state ts td t))"
  "keeps (errors n) (modifyM (null_data_segment k))"
  unfolding RSP_SPECULATIVE_def RSP_COMMIT_def
  by (rule keeps_errorno_modifyM, simp add: reg_defs clear_eflag_def updateFetchModeMask_def handleAlignmentCheck_def
    invalidate_prefetch_q_def set_seg_cache_def set_CPL_def task_selectors_def task_state_def null_data_segment_def)+

lemma errorno_flags [keeps_intros]: "keeps (errors n) read_eflags" "keeps (errors n) handleCpuModeChange"
  "keeps (errors n) (writeEFlags e m)" "keeps (errors n) clear_VM"
proof -
  show "keeps (errors n) read_eflags"
    unfolding read_eflags_def
    by (rule keepsI) (simp add: force_flags_def setEFlagsOSZAPC_def Let_def split: prod.split)
  show mode: "keeps (errors n) handleCpuModeChange"
    by (rule keepsI) (simp add: handleCpuModeChange_run mode_state_def updateFetchModeMask_def)
  show "keeps (errors n) (writeEFlags e m)" "keeps (errors n) clear_VM"
    unfolding writeEFlags_def setEFlags_def clear_VM_def set_VM_def Let_def
    by (intro keeps_intros mode keeps_errorno_modifyM; simp)+
qed

lemma errorno_push [keeps_intros]: "keeps (errors n) (push_16 w)" "keeps (errors n) (push_32 d)"
  unfolding push_16_def push_32_def by (intro keeps_intros keeps_errorno_modifyM; simp add: reg_defs)+

lemma errorno_frames [keeps_intros]: "keeps (errors n) (push_list dw pl vs st)"
  by (induction vs arbitrary: st) (simp_all add: push_new_stack_def keeps_intros)

lemma errorno_image [keeps_intros]:
  "(\<And>k. keeps (errors n) (get k)) \<Longrightarrow> keeps (errors n) (read_image get ks f)"
  by (induction ks arbitrary: f) (simp_all add: keeps_intros)

lemma errorno_fetch_task [keeps_intros]: "keeps (errors n) (fetch_task_descriptor u sel raw)"
  unfolding fetch_task_descriptor_def fetch_raw_descriptor2_def Let_def
  by (intro keeps_intros) (simp add: keeps_intros split: option.split)

lemma errorno_task_segments [keeps_intros]:
  "keeps (errors n) (task_segments u t c)" "keeps (errors n) (task_segments_v86 u t)" "keeps (errors n) (task_load_LDTR u raw)"
  unfolding task_segments_def task_segments_v86_def task_load_LDTR_def task_load_SS_def task_load_CS_def
    task_switch_load_selector_def Let_def
  by (intro keeps_intros)+

lemma errorno_task_parts [keeps_intros]:
  "keeps (errors n) (task_commit u sel x src t)" "keeps (errors n) (task_checks sel x src)" "keeps (errors n) (rmw_busy g sel)"
  "keeps (errors n) (save_tss286 b f)" "keeps (errors n) (save_tss386 b f)"
  "keeps (errors n) (load_tss286 b)" "keeps (errors n) (load_tss386 b)" "keeps (errors n) (get_SS_ESP_from_TSS u pl)"
  unfolding task_commit_def task_checks_def rmw_busy_def save_tss286_def save_tss386_def load_tss286_def load_tss386_def
    get_SS_ESP_from_TSS_def SetCR3_def Let_def
  by (intro keeps_intros keeps_errorno_modifyM; simp)+

lemma errorno_task_switch [keeps_intros]: "keeps (errors n) (task_switch u sel x src)"
  unfolding task_switch_def Let_def by (intro keeps_intros)

lemma errorno_segments [keeps_intros]:
  "keeps (errors n) (load_cs sel x c)" "keeps (errors n) (load_ss sel x c)" "keeps (errors n) (inner_stack u pl raw)"
  "keeps (errors n) eip_in_CS_limit" "keeps (errors n) (eip_in_limit e)" "keeps (errors n) (far_real u cs e)"
  unfolding load_cs_def load_ss_def inner_stack_def eip_in_CS_limit_def eip_in_limit_def far_real_def Let_def
  by (intro keeps_intros)+

lemma interrupt_errorno: "keeps (errors n) (interrupt u v type push_error error_code)"
  unfolding interrupt_def real_mode_int_def protected_mode_int_def int_gate_def int_task_gate_def int_trap_gate_def
    int_inner_def int_same_def int_frame_def Let_def
  by (intro keeps_intros)

lemma few_errors: "\<not> (0 < e \<and> 2 < e) \<Longrightarrow> unat e \<le> 2" for e :: "32 word"
  by (auto simp: word_less_nat_alt)

lemma restore_errorno [simp]: "errorno (restore_rip_rsp s) = errorno s" "curr_exception (restore_rip_rsp s) = curr_exception s"
  by (simp_all add: restore_rip_rsp_def reg_defs Let_def)

lemma entry_state_fields [simp]: "errorno (entry_state v s) = errorno s" "curr_exception (entry_state v s) = curr_exception s"
  by (simp_all add: entry_state_def Let_def)

lemma exception_types: "v < 20 \<Longrightarrow> fst (exceptions_info ! v) \<in> {0, 1, 2, 10}"
  by (auto simp: exceptions_info_def less_Suc_eq numeral_eq_Suc)

text \<open>What \<open>interrupt\<close> is told, and the outcome of an entry branch by branch.\<close>

definition entry_args :: "nat \<Rightarrow> 16 word \<Rightarrow> bx_cpu_c \<Rightarrow> nat \<times> bool \<times> 16 word" where
  "entry_args v c s = (if real_mode s then (v, False, 0)
    else (v, snd (snd (exceptions_info ! v)), if v = 14 \<or> v = 8 then c else (c AND 0xfffe) OR ucast (EXT s)))"

abbreviation exception_type :: "nat \<Rightarrow> nat" where "exception_type v \<equiv> fst (exceptions_info ! v)"

lemma entry_run:
  assumes "v < 20"
  shows "exception_entry v c s =
    (if 0 < errorno s \<and> (2 < errorno s \<or> curr_exception s = 10) then (Inl AssertFail, restore_rip_rsp s)
     else if 0 < errorno s \<and> exception_type v \<noteq> 10 \<and> \<not> (curr_exception s < 3 \<and> exception_type v < 3)
     then (Inl (HostFault 0), entry_state v s)
     else if 0 < errorno s \<and> exception_type v \<noteq> 10 \<and> \<not> is_exception_OK ! curr_exception s ! exception_type v
     then exception_entry 8 0 (entry_state v s)
     else (Inr (entry_args v c s), (entry_state v s)\<lparr>curr_exception := exception_type v, errorno := errorno s + 1\<rparr>))"
proof -
  have r: "real_mode ((entry_state v s)\<lparr>curr_exception := k, errorno := e\<rparr>) = real_mode s" for k e
    by (simp add: real_mode_def entry_state_def restore_rip_rsp_def reg_defs Let_def)
  obtain ty cls pe where info: "exceptions_info ! v = (ty, cls, pe)" by (cases "exceptions_info ! v")
  show ?thesis
    by (subst exception_entry.simps) (simp add: assms info Let_def r entry_args_def)
qed

lemma entry_double:
  "exception_entry 8 c s =
    (if 0 < errorno s \<and> (2 < errorno s \<or> curr_exception s = 10) then (Inl AssertFail, restore_rip_rsp s)
     else (Inr (entry_args 8 c s), (entry_state 8 s)\<lparr>curr_exception := 10, errorno := errorno s + 1\<rparr>))"
  by (subst entry_run) (simp_all add: exceptions_info_def)

lemma entry_returns:
  assumes "exception_entry v c s = (Inr x, s')"
  obtains (direct) "v < 20" "unat (errorno s) \<le> 2" "x = entry_args v c s"
      "s' = (entry_state v s)\<lparr>curr_exception := exception_type v, errorno := errorno s + 1\<rparr>"
  | (double) "v < 20" "unat (errorno s) \<le> 2" "0 < errorno s" "curr_exception s < 3" "exception_type v < 3"
      "\<not> is_exception_OK ! curr_exception s ! exception_type v" "x = entry_args 8 0 (entry_state v s)"
      "s' = (entry_state 8 (entry_state v s))\<lparr>curr_exception := 10, errorno := errorno s + 1\<rparr>"
proof -
  have v: "v < 20" using assms by (subst (asm) exception_entry.simps) (simp split: if_splits)
  have t: "\<not> (0 < errorno s \<and> (2 < errorno s \<or> curr_exception s = 10))"
    using assms unfolding entry_run [OF v] by (auto simp only: if_True split: if_splits)
  then have n: "unat (errorno s) \<le> 2" using few_errors by blast
  show ?thesis
  proof (cases "0 < errorno s \<and> exception_type v \<noteq> 10 \<and> \<not> is_exception_OK ! curr_exception s ! exception_type v")
    case True
    with t show ?thesis
      using assms double [OF v n] unfolding entry_run [OF v] by (simp add: entry_double split: if_splits)
  next
    case False
    with t show ?thesis
      using assms direct [OF v n] unfolding entry_run [OF v] by (simp split: if_splits)
  qed
qed

lemma entry_errorno:
  assumes "exception_entry v c s = (Inr x, s')"
  shows "unat (errorno s) \<le> 2" "errorno s' = errorno s + 1" "curr_exception s' \<in> {0, 1, 2, 10}"
  using assms by (cases rule: entry_returns; simp add: exception_types [simplified])+

section \<open>Delivery with the exceptions it raises\<close>

function exception_delivery :: "uninit_t \<Rightarrow> nat \<Rightarrow> 16 word \<Rightarrow> unit cpu_monad" where
  "exception_delivery u vec error_code s =
    (case exception_entry vec error_code s of
       (Inl f, s1) \<Rightarrow> (Inl f, s1)
     | (Inr (v, push_error, c), s1) \<Rightarrow>
         (case interrupt u v BX_HARDWARE_EXCEPTION push_error c s1 of
            (Inr _, s2) \<Rightarrow> (Inr (), s2\<lparr>errorno := 0\<rparr>)
          | (Inl (Exception vec' error_code'), s2) \<Rightarrow> exception_delivery u vec' error_code' s2
          | (Inl f, s2) \<Rightarrow> (Inl f, s2)))"
  by pat_completeness auto

termination
proof (relation "measure (\<lambda>(_, _, _, s). 4 - unat (errorno s))", simp)
  show "((u, vec', error_code', s2), (u, vec, error_code, s)) \<in> measure (\<lambda>(_, _, _, s). 4 - unat (errorno s))"
    if "(r, s1) = exception_entry vec error_code s" "r = Inr x" "(v, w) = x" "(push_error, c) = w"
      "(r', s2) = interrupt u v BX_HARDWARE_EXCEPTION push_error c s1" "r' = Inl f" "f = Exception vec' error_code'"
    for u vec error_code s r s1 x v w push_error c r' s2 f vec' error_code'
  proof -
    have "errorno s2 = errorno s1"
      using keepsD [OF interrupt_errorno, of s1 "errorno s1" u v BX_HARDWARE_EXCEPTION push_error c] that(5) by (metis snd_conv)
    moreover have e: "unat (errorno s) \<le> 2" "errorno s1 = errorno s + 1" using entry_errorno [of vec error_code s x s1] that(1,2) by simp_all
    ultimately have "unat (errorno s2) = unat (errorno s) + 1" by (simp add: unat_plus_if_size word_size)
    then show ?thesis using e(1) unfolding in_measure prod.case by linarith
  qed
qed

declare exception_delivery.simps [simp del]

text \<open>One round of the loop: step over the instruction, execute it, commit EIP; an
  exception is delivered, and the loop resumes after committing EIP and ESP.\<close>

definition cpu_step :: "uninit_t \<Rightarrow> (bxInstruction_c \<Rightarrow> unit cpu_monad) \<Rightarrow> bxInstruction_c \<Rightarrow> unit cpu_monad" where
  "cpu_step u execute i s =
    (case seqM (modifyM (\<lambda>s. set_EIP (EIP s + ilen i) s)) (execute i) s of
       (Inr _, s1) \<Rightarrow> (Inr (), s1\<lparr>prev_rip := EIP s1\<rparr>)
     | (Inl (Exception v c), s1) \<Rightarrow>
         (case exception_delivery u v c s1 of
            (Inr _, s2) \<Rightarrow> (Inr (), s2\<lparr>prev_rip := EIP s2, speculative_rsp := 0, EXT := 0\<rparr>)
          | (Inl f, s2) \<Rightarrow> (Inl f, s2))
     | (Inl f, s1) \<Rightarrow> (Inl f, s1))"

end
