(* ===== verification/Restart.thy ===== *)
theory Restart
  imports Except
begin

text \<open>
  Precise exceptions.  An instruction that raises an exception leaves the general
  registers and the flags as they were, except that the speculative instructions
  may have moved ESP, which entering the exception restores together with EIP.
  So the handler of the exception finds the state before the instruction, and
  the instruction can be restarted.  The temporary register of the memory forms
  is not part of that state.
\<close>

named_theorems clean_intros \<open>functions that leave registers and flags alone when they raise an exception\<close>
named_theorems quiet_intros \<open>functions that raise no exception\<close>

section \<open>Notions\<close>

definition quiet :: "'a cpu_monad \<Rightarrow> bool" where
  "quiet m \<longleftrightarrow> (\<forall>s v c s'. m s \<noteq> (Inl (Exception v c), s'))"

definition untouched :: "bx_cpu_c \<Rightarrow> bx_cpu_c \<Rightarrow> bool" where
  "untouched s s' \<longleftrightarrow> (\<forall>r. r \<noteq> BX_TMP_REGISTER \<longrightarrow> gen_reg s' r = gen_reg s r) \<and>
    eflags s' = eflags s \<and> lf_flags_status s' = lf_flags_status s \<and> oszapc s' = oszapc s \<and>
    prev_rip s' = prev_rip s \<and> prev_rsp s' = prev_rsp s \<and> speculative_rsp s' = speculative_rsp s"

definition clean :: "'a cpu_monad \<Rightarrow> bool" where
  "clean m \<longleftrightarrow> (\<forall>s v c s'. m s = (Inl (Exception v c), s') \<longrightarrow> untouched s s')"

text \<open>What a speculative instruction may not touch: everything but ESP and EIP.\<close>

definition rest :: "bx_cpu_c \<Rightarrow> (nat \<Rightarrow> 32 word) \<times> 32 word \<times> 32 word \<times> bx_lf_flags_entry \<times> 32 word \<times> 32 word \<times> 32 word" where
  "rest s = (\<lambda>r. if r = 4 \<or> r = BX_32BIT_REG_EIP \<or> r = BX_TMP_REGISTER then 0 else gen_reg s r,
    eflags s, lf_flags_status s, oszapc s, prev_rip s, prev_rsp s, speculative_rsp s)"

definition spec_clean :: "'a cpu_monad \<Rightarrow> bool" where
  "spec_clean m \<longleftrightarrow> (\<forall>s v c s'. m s = (Inl (Exception v c), s') \<longrightarrow> rest s' = rest s)"

text \<open>A restartable instruction: after an exception, the registers and flags are as
  they were, where ESP counts as the value kept for speculative instructions.\<close>

definition restartable :: "unit cpu_monad \<Rightarrow> bool" where
  "restartable m \<longleftrightarrow> (\<forall>s v c s'. speculative_rsp s = 0 \<longrightarrow> m s = (Inl (Exception v c), s') \<longrightarrow>
    (\<forall>r. r \<notin> {4, BX_32BIT_REG_EIP, BX_TMP_REGISTER} \<longrightarrow> gen_reg s' r = gen_reg s r) \<and>
    (if speculative_rsp s' \<noteq> 0 then prev_rsp s' else gen_reg s' 4) = gen_reg s 4 \<and>
    prev_rip s' = prev_rip s \<and>
    eflags s' = eflags s \<and> lf_flags_status s' = lf_flags_status s \<and> oszapc s' = oszapc s)"

section \<open>Closure\<close>

lemma quiet_basic [quiet_intros]:
  "quiet (returnM x)" "quiet (modifyM f)" "quiet (getsM g)" "quiet (raiseM AssertFail)" "quiet (raiseM (HostFault a))"
  by (simp_all add: quiet_def monad_simps)

lemma quiet_bindM [quiet_intros]: "quiet m \<Longrightarrow> (\<And>x. quiet (k x)) \<Longrightarrow> quiet (bindM m k)"
  unfolding quiet_def by (auto simp: bindM_def split: prod.splits sum.splits)

lemma quiet_seqM [quiet_intros]: "quiet m \<Longrightarrow> quiet n \<Longrightarrow> quiet (seqM m n)"
  unfolding seqM_def by (intro quiet_bindM)

lemma quiet_if [quiet_intros]: "(b \<Longrightarrow> quiet m) \<Longrightarrow> (\<not> b \<Longrightarrow> quiet n) \<Longrightarrow> quiet (if b then m else n)"
  by simp

lemma quiet_whenM [quiet_intros]: "quiet m \<Longrightarrow> quiet (whenM b m)"
  by (simp add: whenM_def quiet_basic)

lemma quiet_write_physical [quiet_intros]: "quiet (access_write_physical a data)"
  unfolding quiet_def using write_physical_no_exception by blast

lemma quiet_write_RMW [quiet_intros]:
  "quiet (write_RMW_virtual_byte v8)" "quiet (write_RMW_virtual_word v16)"
  "quiet (write_RMW_virtual_dword v32)" "quiet (write_RMW_virtual_qword v64)"
  unfolding write_RMW_virtual_byte_def write_RMW_virtual_word_def write_RMW_virtual_dword_def
    write_RMW_virtual_qword_def host_write_def access_write_physical_def [symmetric] BX_ASSERT_def Let_def
  by (intro quiet_intros)+

lemma untouched_refl [simp]: "untouched s s"
  by (simp add: untouched_def)

lemma untouched_trans: "untouched s t \<Longrightarrow> untouched t u \<Longrightarrow> untouched s u"
  by (simp add: untouched_def)

lemma neutral_untouched:
  assumes "core_neutral m" "flag_neutral m" "m s = (r, s')"
  shows "untouched s s'"
proof -
  have "with_flags (eflags s) (lf_flags_status s) (oszapc s) s' = s'"
    using assms(2,3) with_flags_self [of s] unfolding flag_neutral_def by (metis apsnd_conv prod.inject)
  then have "eflags s' = eflags s" "lf_flags_status s' = lf_flags_status s" "oszapc s' = oszapc s"
    by (metis bx_cpu_c.select_convs with_flags_def bx_cpu_c.surjective bx_cpu_c.update_convs)+
  then show ?thesis using core_keptD [OF core_kept [OF assms(1,3)]] by (simp add: untouched_def)
qed

lemma clean_neutral: "core_neutral m \<Longrightarrow> flag_neutral m \<Longrightarrow> clean m"
  unfolding clean_def using neutral_untouched by blast

lemma clean_quiet: "quiet m \<Longrightarrow> clean m"
  by (simp add: quiet_def clean_def)

lemma clean_basic [clean_intros]: "clean (modifyM f)" "clean (returnM x)" "clean (raiseM e)" "clean (getsM g)"
  by (simp_all add: clean_def monad_simps)

lemma clean_bindM [clean_intros]:
  assumes "core_neutral m" "flag_neutral m" "\<And>x. clean (k x)"
  shows "clean (bindM m k)"
  unfolding clean_def
  by (auto simp: bindM_def split: prod.splits sum.splits
    dest: neutral_untouched [OF assms(1,2)] assms(3) [unfolded clean_def, rule_format] intro: untouched_trans)

lemma clean_seqM [clean_intros]: "core_neutral m \<Longrightarrow> flag_neutral m \<Longrightarrow> clean n \<Longrightarrow> clean (seqM m n)"
  unfolding seqM_def by (intro clean_bindM)

lemma clean_gets [clean_intros]: "(\<And>x. clean (k x)) \<Longrightarrow> clean (bindM (getsM g) k)"
  by (simp add: clean_def bindM_apply getsM_apply)

lemma clean_seq_modify [clean_intros]: "quiet n \<Longrightarrow> clean (seqM (modifyM f) n)"
  by (intro clean_quiet quiet_intros)

lemma clean_if [clean_intros]: "(b \<Longrightarrow> clean m) \<Longrightarrow> (\<not> b \<Longrightarrow> clean n) \<Longrightarrow> clean (if b then m else n)"
  by simp

lemma clean_case_prod [clean_intros]: "(\<And>a b. clean (f a b)) \<Longrightarrow> clean (case p of (a, b) \<Rightarrow> f a b)"
  by (simp split: prod.split)

lemma clean_whenM [clean_intros]: "clean m \<Longrightarrow> clean (whenM b m)"
  by (simp add: whenM_def clean_basic)

lemma clean_resolve [clean_intros]: "(\<And>x. clean (k x)) \<Longrightarrow> clean (bindM (ResolveModrm i) k)"
  unfolding ResolveModrm_def
  by (cases "resolve_ptr i") (simp_all add: clean_gets, simp add: clean_def bindM_apply raiseM_apply)

lemma clean_tmp:
  assumes "clean n" "\<And>s. untouched s (f s)"
  shows "clean (seqM (modifyM f) n)"
  using assms unfolding clean_def seqM_apply modifyM_apply by (simp, metis untouched_trans)

lemma clean_LOAD:
  assumes "clean (execute2 i)"
  shows "clean (LOAD_Eb execute2 i)" "clean (LOAD_Ew execute2 i)" "clean (LOAD_Ed execute2 i)"
  unfolding LOAD_Eb_def LOAD_Ew_def LOAD_Ed_def
  by (intro clean_resolve clean_bindM core_intros neutral_intros clean_tmp assms; simp add: untouched_def reg_defs)+

lemma clean_accessors [clean_intros]:
  "clean (write_virtual_byte_32 k offset v8)" "clean (write_virtual_word_32 k offset v16)"
  "clean (write_virtual_dword_32 k offset v32)" "clean (write_virtual_qword_32 k offset v64)"
  "clean (read_virtual_byte_32 k offset)" "clean (read_virtual_word_32 k offset)"
  "clean (read_virtual_dword_32 k offset)" "clean (read_virtual_qword_32 k offset)"
  "clean (read_RMW_virtual_dword_32 k offset)"
  "clean (write_RMW_virtual_byte v8)" "clean (write_RMW_virtual_word v16)"
  "clean (write_RMW_virtual_dword v32)" "clean (write_RMW_virtual_qword v64)"
  by (intro clean_neutral core_intros neutral_intros)+

section \<open>The handlers of the dispatch table\<close>

definition entry_clean :: "opcode_entry \<Rightarrow> bool" where
  "entry_clean e \<longleftrightarrow> (\<forall>i. clean (fst (snd e) i))"

lemma entry_cleanI: "(\<And>i. clean (ex i)) \<Longrightarrow> entry_clean (n, ex, f)"
  by (simp add: entry_clean_def)

lemma arith8_clean:
  "clean (ADD_EbGbM i)" "clean (ADD_GbEbR i)" "clean (ADD_ALIb i)"
  "clean (ADC_EbGbM i)" "clean (ADC_GbEbR i)" "clean (ADC_ALIb i)"
  "clean (SBB_EbGbM i)" "clean (SBB_GbEbR i)" "clean (SBB_ALIb i)"
  "clean (SBB_EbIbM i)" "clean (SBB_EbIbR i)" "clean (SUB_EbGbM i)"
  "clean (SUB_GbEbR i)" "clean (SUB_ALIb i)" "clean (CMP_EbGbM i)"
  "clean (CMP_GbEbR i)" "clean (CMP_ALIb i)" "clean (XADD_EbGbM i)"
  "clean (XADD_EbGbR i)" "clean (ADD_EbIbM i)" "clean (ADD_EbIbR i)"
  "clean (ADC_EbIbM i)" "clean (ADC_EbIbR i)" "clean (SUB_EbIbM i)"
  "clean (SUB_EbIbR i)" "clean (CMP_EbIbM i)" "clean (CMP_EbIbR i)"
  "clean (NEG_EbM i)" "clean (NEG_EbR i)" "clean (INC_EbM i)"
  "clean (INC_EbR i)" "clean (DEC_EbM i)" "clean (DEC_EbR i)"
  "clean (CMPXCHG_EbGbM i)" "clean (CMPXCHG_EbGbR i)"
  unfolding ADD_EbGbM_def ADD_GbEbR_def ADD_ALIb_def ADC_EbGbM_def ADC_GbEbR_def
    ADC_ALIb_def SBB_EbGbM_def SBB_GbEbR_def SBB_ALIb_def SBB_EbIbM_def
    SBB_EbIbR_def SUB_EbGbM_def SUB_GbEbR_def SUB_ALIb_def CMP_EbGbM_def
    CMP_GbEbR_def CMP_ALIb_def XADD_EbGbM_def XADD_EbGbR_def ADD_EbIbM_def
    ADD_EbIbR_def ADC_EbIbM_def ADC_EbIbR_def SUB_EbIbM_def SUB_EbIbR_def
    CMP_EbIbM_def CMP_EbIbR_def NEG_EbM_def NEG_EbR_def INC_EbM_def
    INC_EbR_def DEC_EbM_def DEC_EbR_def CMPXCHG_EbGbM_def CMPXCHG_EbGbR_def Let_def
  by (intro clean_intros core_intros neutral_intros quiet_intros)+

lemma arith16_clean:
  "clean (INC_RX i)" "clean (DEC_RX i)" "clean (ADD_EwGwM i)"
  "clean (ADD_GwEwR i)" "clean (ADD_AXIw i)" "clean (ADC_EwGwM i)"
  "clean (ADC_GwEwR i)" "clean (ADC_AXIw i)" "clean (SBB_EwGwM i)"
  "clean (SBB_GwEwR i)" "clean (SBB_AXIw i)" "clean (SBB_EwIwM i)"
  "clean (SBB_EwIwR i)" "clean (SUB_EwGwM i)" "clean (SUB_GwEwR i)"
  "clean (SUB_AXIw i)" "clean (CMP_EwGwM i)" "clean (CMP_GwEwR i)"
  "clean (CMP_AXIw i)" "clean (CBW i)" "clean (CWD i)"
  "clean (XADD_EwGwM i)" "clean (XADD_EwGwR i)" "clean (ADD_EwIwM i)"
  "clean (ADD_EwIwR i)" "clean (ADC_EwIwM i)" "clean (ADC_EwIwR i)"
  "clean (SUB_EwIwM i)" "clean (SUB_EwIwR i)" "clean (CMP_EwIwM i)"
  "clean (CMP_EwIwR i)" "clean (NEG_EwM i)" "clean (NEG_EwR i)"
  "clean (INC_EwM i)" "clean (DEC_EwM i)" "clean (CMPXCHG_EwGwM i)"
  "clean (CMPXCHG_EwGwR i)"
  unfolding INC_RX_def DEC_RX_def ADD_EwGwM_def ADD_GwEwR_def ADD_AXIw_def
    ADC_EwGwM_def ADC_GwEwR_def ADC_AXIw_def SBB_EwGwM_def SBB_GwEwR_def
    SBB_AXIw_def SBB_EwIwM_def SBB_EwIwR_def SUB_EwGwM_def SUB_GwEwR_def
    SUB_AXIw_def CMP_EwGwM_def CMP_GwEwR_def CMP_AXIw_def CBW_def
    CWD_def XADD_EwGwM_def XADD_EwGwR_def ADD_EwIwM_def ADD_EwIwR_def
    ADC_EwIwM_def ADC_EwIwR_def SUB_EwIwM_def SUB_EwIwR_def CMP_EwIwM_def
    CMP_EwIwR_def NEG_EwM_def NEG_EwR_def INC_EwM_def DEC_EwM_def
    CMPXCHG_EwGwM_def CMPXCHG_EwGwR_def Let_def
  by (intro clean_intros core_intros neutral_intros quiet_intros)+

lemma arith32_clean:
  "clean (INC_ERX i)" "clean (DEC_ERX i)" "clean (ADD_EdGdM i)"
  "clean (ADD_GdEdR i)" "clean (ADD_EAXId i)" "clean (ADC_EdGdM i)"
  "clean (ADC_GdEdR i)" "clean (ADC_EAXId i)" "clean (SBB_EdGdM i)"
  "clean (SBB_GdEdR i)" "clean (SBB_EAXId i)" "clean (SBB_EdIdM i)"
  "clean (SBB_EdIdR i)" "clean (SUB_EdGdM i)" "clean (SUB_GdEdR i)"
  "clean (SUB_EAXId i)" "clean (CMP_EdGdM i)" "clean (CMP_GdEdR i)"
  "clean (CMP_EAXId i)" "clean (CWDE i)" "clean (CDQ i)"
  "clean (CMPXCHG_XBTS i)" "clean (CMPXCHG_IBTS i)" "clean (XADD_EdGdM i)"
  "clean (XADD_EdGdR i)" "clean (ADD_EdIdM i)" "clean (ADD_EdIdR i)"
  "clean (ADC_EdIdM i)" "clean (ADC_EdIdR i)" "clean (SUB_EdIdM i)"
  "clean (SUB_EdIdR i)" "clean (CMP_EdIdM i)" "clean (CMP_EdIdR i)"
  "clean (NEG_EdM i)" "clean (NEG_EdR i)" "clean (INC_EdM i)"
  "clean (DEC_EdM i)" "clean (CMPXCHG_EdGdM i)" "clean (CMPXCHG_EdGdR i)"
  "clean (CMPXCHG8B i)"
  unfolding INC_ERX_def DEC_ERX_def ADD_EdGdM_def ADD_GdEdR_def ADD_EAXId_def
    ADC_EdGdM_def ADC_GdEdR_def ADC_EAXId_def SBB_EdGdM_def SBB_GdEdR_def
    SBB_EAXId_def SBB_EdIdM_def SBB_EdIdR_def SUB_EdGdM_def SUB_GdEdR_def
    SUB_EAXId_def CMP_EdGdM_def CMP_GdEdR_def CMP_EAXId_def CWDE_def
    CDQ_def CMPXCHG_XBTS_def CMPXCHG_IBTS_def XADD_EdGdM_def XADD_EdGdR_def
    ADD_EdIdM_def ADD_EdIdR_def ADC_EdIdM_def ADC_EdIdR_def SUB_EdIdM_def
    SUB_EdIdR_def CMP_EdIdM_def CMP_EdIdR_def NEG_EdM_def NEG_EdR_def
    INC_EdM_def DEC_EdM_def CMPXCHG_EdGdM_def CMPXCHG_EdGdR_def CMPXCHG8B_def Let_def
  by (intro clean_intros core_intros neutral_intros quiet_intros)+

lemma logical_clean:
  "clean (XOR_EbGbM i)" "clean (XOR_GbEbR i)" "clean (XOR_ALIb i)"
  "clean (XOR_EbIbM i)" "clean (XOR_EbIbR i)" "clean (OR_EbIbM i)"
  "clean (OR_EbIbR i)" "clean (NOT_EbM i)" "clean (NOT_EbR i)"
  "clean (OR_EbGbM i)" "clean (OR_GbEbR i)" "clean (OR_ALIb i)"
  "clean (AND_EbGbM i)" "clean (AND_GbEbR i)" "clean (AND_ALIb i)"
  "clean (AND_EbIbM i)" "clean (AND_EbIbR i)" "clean (TEST_EbGbR i)"
  "clean (TEST_ALIb i)" "clean (TEST_EbIbR i)" "clean (XOR_EwGwM i)"
  "clean (XOR_GwEwR i)" "clean (XOR_AXIw i)" "clean (XOR_EwIwM i)"
  "clean (XOR_EwIwR i)" "clean (OR_EwIwM i)" "clean (OR_EwIwR i)"
  "clean (NOT_EwM i)" "clean (NOT_EwR i)" "clean (OR_EwGwM i)"
  "clean (OR_GwEwR i)" "clean (OR_AXIw i)" "clean (AND_EwGwM i)"
  "clean (AND_GwEwR i)" "clean (AND_AXIw i)" "clean (AND_EwIwM i)"
  "clean (AND_EwIwR i)" "clean (TEST_EwGwR i)" "clean (TEST_AXIw i)"
  "clean (TEST_EwIwR i)" "clean (XOR_EdGdM i)" "clean (XOR_GdEdR i)"
  "clean (XOR_EAXId i)" "clean (XOR_EdIdM i)" "clean (XOR_EdIdR i)"
  "clean (OR_EdIdM i)" "clean (OR_EdIdR i)" "clean (NOT_EdM i)"
  "clean (NOT_EdR i)" "clean (OR_EdGdM i)" "clean (OR_GdEdR i)"
  "clean (OR_EAXId i)" "clean (AND_EdGdM i)" "clean (AND_GdEdR i)"
  "clean (AND_EAXId i)" "clean (AND_EdIdM i)" "clean (AND_EdIdR i)"
  "clean (TEST_EdGdR i)" "clean (TEST_EAXId i)" "clean (TEST_EdIdR i)"
  unfolding XOR_EbGbM_def XOR_GbEbR_def XOR_ALIb_def XOR_EbIbM_def XOR_EbIbR_def
    OR_EbIbM_def OR_EbIbR_def NOT_EbM_def NOT_EbR_def OR_EbGbM_def
    OR_GbEbR_def OR_ALIb_def AND_EbGbM_def AND_GbEbR_def AND_ALIb_def
    AND_EbIbM_def AND_EbIbR_def TEST_EbGbR_def TEST_ALIb_def TEST_EbIbR_def
    XOR_EwGwM_def XOR_GwEwR_def XOR_AXIw_def XOR_EwIwM_def XOR_EwIwR_def
    OR_EwIwM_def OR_EwIwR_def NOT_EwM_def NOT_EwR_def OR_EwGwM_def
    OR_GwEwR_def OR_AXIw_def AND_EwGwM_def AND_GwEwR_def AND_AXIw_def
    AND_EwIwM_def AND_EwIwR_def TEST_EwGwR_def TEST_AXIw_def TEST_EwIwR_def
    XOR_EdGdM_def XOR_GdEdR_def XOR_EAXId_def XOR_EdIdM_def XOR_EdIdR_def
    OR_EdIdM_def OR_EdIdR_def NOT_EdM_def NOT_EdR_def OR_EdGdM_def
    OR_GdEdR_def OR_EAXId_def AND_EdGdM_def AND_GdEdR_def AND_EAXId_def
    AND_EdIdM_def AND_EdIdR_def TEST_EdGdR_def TEST_EAXId_def TEST_EdIdR_def Let_def
  by (intro clean_intros core_intros neutral_intros quiet_intros)+

lemma data_xfer_clean:
  "clean (MOV_RLIb i)" "clean (MOV_RHIb i)" "clean (MOV_EbGbM i)"
  "clean (MOV_GbEbM i)" "clean (MOV_GbEbR i)" "clean (MOV_ALOd i)"
  "clean (MOV_OdAL i)" "clean (MOV_EbIbM i)" "clean (XLAT i)"
  "clean (XCHG_EbGbM i)" "clean (XCHG_EbGbR i)" "clean (MOV_RXIw i)"
  "clean (XCHG_RXAX i)" "clean (MOV_EwGwM i)" "clean (MOV_GwEwR i)"
  "clean (MOV_GwEwM i)" "clean (MOV_EwSwR i)" "clean (MOV_EwSwM i)"
  "clean (LEA_GwM i)" "clean (MOV_AXOd i)" "clean (MOV_OdAX i)"
  "clean (MOV_EwIwM i)" "clean (MOVZX_GwEbM i)" "clean (MOVZX_GwEbR i)"
  "clean (MOVSX_GwEbM i)" "clean (MOVSX_GwEbR i)" "clean (XCHG_EwGwM i)"
  "clean (XCHG_EwGwR i)" "clean (CMOVO_GwEwR i)" "clean (CMOVNO_GwEwR i)"
  "clean (CMOVB_GwEwR i)" "clean (CMOVNB_GwEwR i)" "clean (CMOVZ_GwEwR i)"
  "clean (CMOVNZ_GwEwR i)" "clean (CMOVBE_GwEwR i)" "clean (CMOVNBE_GwEwR i)"
  "clean (CMOVS_GwEwR i)" "clean (CMOVNS_GwEwR i)" "clean (CMOVP_GwEwR i)"
  "clean (CMOVNP_GwEwR i)" "clean (CMOVL_GwEwR i)" "clean (CMOVNL_GwEwR i)"
  "clean (CMOVLE_GwEwR i)" "clean (CMOVNLE_GwEwR i)" "clean (XCHG_ERXEAX i)"
  "clean (MOV_ERXId i)" "clean (MOV32_EdGdM i)" "clean (MOV_GdEdR i)"
  "clean (MOV32_GdEdM i)" "clean (LEA_GdM i)" "clean (MOV_EAXOd i)"
  "clean (MOV_OdEAX i)" "clean (MOV_EdIdM i)" "clean (MOVZX_GdEbM i)"
  "clean (MOVZX_GdEbR i)" "clean (MOVZX_GdEwM i)" "clean (MOVZX_GdEwR i)"
  "clean (MOVSX_GdEbM i)" "clean (MOVSX_GdEbR i)" "clean (MOVSX_GdEwM i)"
  "clean (MOVSX_GdEwR i)" "clean (XCHG_EdGdM i)" "clean (XCHG_EdGdR i)"
  "clean (CMOVO_GdEdR i)" "clean (CMOVNO_GdEdR i)" "clean (CMOVB_GdEdR i)"
  "clean (CMOVNB_GdEdR i)" "clean (CMOVZ_GdEdR i)" "clean (CMOVNZ_GdEdR i)"
  "clean (CMOVBE_GdEdR i)" "clean (CMOVNBE_GdEdR i)" "clean (CMOVS_GdEdR i)"
  "clean (CMOVNS_GdEdR i)" "clean (CMOVP_GdEdR i)" "clean (CMOVNP_GdEdR i)"
  "clean (CMOVL_GdEdR i)" "clean (CMOVNL_GdEdR i)" "clean (CMOVLE_GdEdR i)"
  "clean (CMOVNLE_GdEdR i)"
  unfolding MOV_RLIb_def MOV_RHIb_def MOV_EbGbM_def MOV_GbEbM_def MOV_GbEbR_def
    MOV_ALOd_def MOV_OdAL_def MOV_EbIbM_def XLAT_def XCHG_EbGbM_def
    XCHG_EbGbR_def MOV_RXIw_def XCHG_RXAX_def MOV_EwGwM_def MOV_GwEwR_def
    MOV_GwEwM_def MOV_EwSwR_def MOV_EwSwM_def LEA_GwM_def MOV_AXOd_def
    MOV_OdAX_def MOV_EwIwM_def MOVZX_GwEbM_def MOVZX_GwEbR_def MOVSX_GwEbM_def
    MOVSX_GwEbR_def XCHG_EwGwM_def XCHG_EwGwR_def CMOVO_GwEwR_def CMOVNO_GwEwR_def
    CMOVB_GwEwR_def CMOVNB_GwEwR_def CMOVZ_GwEwR_def CMOVNZ_GwEwR_def CMOVBE_GwEwR_def
    CMOVNBE_GwEwR_def CMOVS_GwEwR_def CMOVNS_GwEwR_def CMOVP_GwEwR_def CMOVNP_GwEwR_def
    CMOVL_GwEwR_def CMOVNL_GwEwR_def CMOVLE_GwEwR_def CMOVNLE_GwEwR_def XCHG_ERXEAX_def
    MOV_ERXId_def MOV32_EdGdM_def MOV_GdEdR_def MOV32_GdEdM_def LEA_GdM_def
    MOV_EAXOd_def MOV_OdEAX_def MOV_EdIdM_def MOVZX_GdEbM_def MOVZX_GdEbR_def
    MOVZX_GdEwM_def MOVZX_GdEwR_def MOVSX_GdEbM_def MOVSX_GdEbR_def MOVSX_GdEwM_def
    MOVSX_GdEwR_def XCHG_EdGdM_def XCHG_EdGdR_def CMOVO_GdEdR_def CMOVNO_GdEdR_def
    CMOVB_GdEdR_def CMOVNB_GdEdR_def CMOVZ_GdEdR_def CMOVNZ_GdEdR_def CMOVBE_GdEdR_def
    CMOVNBE_GdEdR_def CMOVS_GdEdR_def CMOVNS_GdEdR_def CMOVP_GdEdR_def CMOVNP_GdEdR_def
    CMOVL_GdEdR_def CMOVNL_GdEdR_def CMOVLE_GdEdR_def CMOVNLE_GdEdR_def Let_def
  by (intro clean_intros core_intros neutral_intros quiet_intros)+

lemmas handler_clean = arith8_clean arith16_clean arith32_clean logical_clean data_xfer_clean

lemma opcodes_ADC_ALIb_clean: "list_all entry_clean opcodes_ADC_ALIb"
  unfolding opcodes_ADC_ALIb_def list.pred_inject(2)
  by (intro conjI list.pred_inject(1) entry_cleanI clean_LOAD handler_clean)

lemma opcodes_CBW_clean: "list_all entry_clean opcodes_CBW"
  unfolding opcodes_CBW_def list.pred_inject(2)
  by (intro conjI list.pred_inject(1) entry_cleanI clean_LOAD handler_clean)

lemma opcodes_CMP_ALIb_clean: "list_all entry_clean opcodes_CMP_ALIb"
  unfolding opcodes_CMP_ALIb_def list.pred_inject(2)
  by (intro conjI list.pred_inject(1) entry_cleanI clean_LOAD handler_clean)

lemma opcodes_INC_EbM_clean: "list_all entry_clean opcodes_INC_EbM"
  unfolding opcodes_INC_EbM_def list.pred_inject(2)
  by (intro conjI list.pred_inject(1) entry_cleanI clean_LOAD handler_clean)

lemma opcodes_LEA_GdM_clean: "list_all entry_clean opcodes_LEA_GdM"
  unfolding opcodes_LEA_GdM_def list.pred_inject(2)
  by (intro conjI list.pred_inject(1) entry_cleanI clean_LOAD handler_clean)

lemma opcodes_MOV_ALOd_clean: "list_all entry_clean opcodes_MOV_ALOd"
  unfolding opcodes_MOV_ALOd_def list.pred_inject(2)
  by (intro conjI list.pred_inject(1) entry_cleanI clean_LOAD handler_clean)

lemma opcodes_MOV_EAXOd_clean: "list_all entry_clean opcodes_MOV_EAXOd"
  unfolding opcodes_MOV_EAXOd_def list.pred_inject(2)
  by (intro conjI list.pred_inject(1) entry_cleanI clean_LOAD handler_clean)

lemma opcodes_MOV_RHIb_clean: "list_all entry_clean opcodes_MOV_RHIb"
  unfolding opcodes_MOV_RHIb_def list.pred_inject(2)
  by (intro conjI list.pred_inject(1) entry_cleanI clean_LOAD handler_clean)

lemma opcodes_MOVSX_GdEbM_clean: "list_all entry_clean opcodes_MOVSX_GdEbM"
  unfolding opcodes_MOVSX_GdEbM_def list.pred_inject(2)
  by (intro conjI list.pred_inject(1) entry_cleanI clean_LOAD handler_clean)

lemma opcodes_NEG_EbM_clean: "list_all entry_clean opcodes_NEG_EbM"
  unfolding opcodes_NEG_EbM_def list.pred_inject(2)
  by (intro conjI list.pred_inject(1) entry_cleanI clean_LOAD handler_clean)

lemma opcodes_NOT_EbM_clean: "list_all entry_clean opcodes_NOT_EbM"
  unfolding opcodes_NOT_EbM_def list.pred_inject(2)
  by (intro conjI list.pred_inject(1) entry_cleanI clean_LOAD handler_clean)

lemma opcodes_SBB_ALIb_clean: "list_all entry_clean opcodes_SBB_ALIb"
  unfolding opcodes_SBB_ALIb_def list.pred_inject(2)
  by (intro conjI list.pred_inject(1) entry_cleanI clean_LOAD handler_clean)

lemma opcodes_SUB_ALIb_clean: "list_all entry_clean opcodes_SUB_ALIb"
  unfolding opcodes_SUB_ALIb_def list.pred_inject(2)
  by (intro conjI list.pred_inject(1) entry_cleanI clean_LOAD handler_clean)

lemma opcodes_TEST_ALIb_clean: "list_all entry_clean opcodes_TEST_ALIb"
  unfolding opcodes_TEST_ALIb_def list.pred_inject(2)
  by (intro conjI list.pred_inject(1) entry_cleanI clean_LOAD handler_clean)

lemma opcodes_XCHG_EbGbM_clean: "list_all entry_clean opcodes_XCHG_EbGbM"
  unfolding opcodes_XCHG_EbGbM_def list.pred_inject(2)
  by (intro conjI list.pred_inject(1) entry_cleanI clean_LOAD handler_clean)

lemma opcodes_XADD_EbGbM_clean: "list_all entry_clean opcodes_XADD_EbGbM"
  unfolding opcodes_XADD_EbGbM_def list.pred_inject(2)
  by (intro conjI list.pred_inject(1) entry_cleanI clean_LOAD handler_clean)

lemma opcodes_CMPXCHG8B_clean: "list_all entry_clean opcodes_CMPXCHG8B"
  unfolding opcodes_CMPXCHG8B_def list.pred_inject(2)
  by (intro conjI list.pred_inject(1) entry_cleanI clean_LOAD handler_clean)

lemma opcodes_CMOVB_GdEdM_clean: "list_all entry_clean opcodes_CMOVB_GdEdM"
  unfolding opcodes_CMOVB_GdEdM_def list.pred_inject(2)
  by (intro conjI list.pred_inject(1) entry_cleanI clean_LOAD handler_clean)

lemmas opcodes_clean = opcodes_ADC_ALIb_clean
  opcodes_CBW_clean
  opcodes_CMP_ALIb_clean
  opcodes_INC_EbM_clean
  opcodes_LEA_GdM_clean
  opcodes_MOV_ALOd_clean
  opcodes_MOV_EAXOd_clean
  opcodes_MOV_RHIb_clean
  opcodes_MOVSX_GdEbM_clean
  opcodes_NEG_EbM_clean
  opcodes_NOT_EbM_clean
  opcodes_SBB_ALIb_clean
  opcodes_SUB_ALIb_clean
  opcodes_TEST_ALIb_clean
  opcodes_XCHG_EbGbM_clean
  opcodes_XADD_EbGbM_clean
  opcodes_CMPXCHG8B_clean
  opcodes_CMOVB_GdEdM_clean

end
