(* ===== verification/RestartStack.thy ===== *)
theory RestartStack
  imports Restart
begin

text \<open>
  The stack and control-transfer instructions are restartable: those that move ESP
  before they are done keep its old value where entering the exception finds it.
\<close>

section \<open>Stack and control transfer\<close>

lemma keeps_rest_modifyM: "(\<And>s. rest (f s) = rest s) \<Longrightarrow> keeps (\<lambda>s. rest s = R) (modifyM f)"
  by (simp add: keeps_def monad_simps)

lemma keeps_rest_neutral: "core_neutral m \<Longrightarrow> flag_neutral m \<Longrightarrow> keeps (\<lambda>s. rest s = R) m"
proof (rule keepsI)
  fix s assume n: "core_neutral m" "flag_neutral m" "rest s = R"
  then show "rest (snd (m s)) = R"
    using neutral_untouched [OF n(1,2), of s "fst (m s)" "snd (m s)"] by (auto simp: rest_def untouched_def)
qed

lemma rest_sp [simp]:
  "rest (set_ESP v s) = rest s" "rest (set_SP w s) = rest s" "rest (BX_WRITE_32BIT_REGZ BX_32BIT_REG_EIP e s) = rest s"
  by (auto simp: rest_def reg_defs BX_32BIT_REG_EIP_def BX_TMP_REGISTER_def BX_GENERAL_REGISTERS_def)

lemma keeps_rest_stack:
  "keeps (\<lambda>s. rest s = R) (push_32 v)" "keeps (\<lambda>s. rest s = R) pop_32" "keeps (\<lambda>s. rest s = R) (branch_near32 e)"
  unfolding push_32_def pop_32_def branch_near32_def
  by (intro keeps_intros keeps_rest_neutral keeps_rest_modifyM core_intros neutral_intros; simp)+

lemma keeps_rest_frames: "keeps (\<lambda>s. rest s = R) (enter_frames n ebp)"
proof (induction n arbitrary: ebp)
  case 0 show ?case by (simp add: keeps_returnM)
next
  case (Suc n)
  show ?case
    unfolding enter_frames.simps
    by (intro keeps_bindM keeps_seqM Suc.IH keeps_rest_stack(1) keeps_rest_neutral [OF core_accessors(7)]
      flag_neutral_read)
qed

lemma spec_cleanI: "(\<And>R. keeps (\<lambda>s. rest s = R) m) \<Longrightarrow> spec_clean m"
  unfolding spec_clean_def keeps_def by (metis snd_conv)

lemma spec_clean_bindM:
  assumes "\<And>R. keeps (\<lambda>s. rest s = R) m" "\<And>x. spec_clean (k x)"
  shows "spec_clean (bindM m k)"
proof -
  have "rest s' = rest s" if "m s = (r, s')" for s r s'
    using assms(1) [of "rest s"] that unfolding keeps_def by (metis snd_conv)
  then show ?thesis
    using assms(2) unfolding spec_clean_def bindM_def by (fastforce split: prod.splits sum.splits)
qed

lemma spec_clean_seqM: "(\<And>R. keeps (\<lambda>s. rest s = R) m) \<Longrightarrow> spec_clean n \<Longrightarrow> spec_clean (seqM m n)"
  unfolding seqM_def by (intro spec_clean_bindM)

lemma spec_clean_quiet: "quiet m \<Longrightarrow> spec_clean m"
  by (simp add: quiet_def spec_clean_def)

lemma restartable_clean: "clean m \<Longrightarrow> restartable m"
  unfolding restartable_def clean_def
  by (auto simp: untouched_def BX_TMP_REGISTER_def BX_GENERAL_REGISTERS_def)

lemma restartable_speculative:
  assumes "spec_clean m"
  shows "restartable (seqM RSP_SPECULATIVE m)"
  unfolding restartable_def
proof (intro allI impI)
  fix s v c s'
  assume "seqM RSP_SPECULATIVE m s = (Inl (Exception v c), s')"
  then have r: "rest s' = rest (s\<lparr>speculative_rsp := 1, prev_rsp := ESP s\<rparr>)"
    using assms unfolding spec_clean_def by (simp add: RSP_SPECULATIVE_def seqM_apply modifyM_apply)
  then have "gen_reg s' k = gen_reg s k" if "k \<notin> {4, BX_32BIT_REG_EIP, BX_TMP_REGISTER}" for k
    using that unfolding rest_def by (auto dest: fun_cong [of _ _ k])
  then show "(\<forall>r. r \<notin> {4, BX_32BIT_REG_EIP, BX_TMP_REGISTER} \<longrightarrow> gen_reg s' r = gen_reg s r) \<and>
      (if speculative_rsp s' \<noteq> 0 then prev_rsp s' else gen_reg s' 4) = gen_reg s 4 \<and> prev_rip s' = prev_rip s \<and>
      eflags s' = eflags s \<and> lf_flags_status s' = lf_flags_status s \<and> oszapc s' = oszapc s"
    using r by (simp add: rest_def ESP_def)
qed

lemma restartable_gets: "(\<And>x. restartable (k x)) \<Longrightarrow> restartable (bindM (getsM g) k)"
  by (simp add: restartable_def bindM_apply getsM_apply)

lemma neutral_descriptors [neutral_intros]:
  "flag_neutral (fetch_raw_descriptor sel e)" "flag_neutral (touch_segment sel d)" "flag_neutral (store_segment k sel d)"
  "flag_neutral (load_null_selector k w)"
proof -
  have [neutral_intros]: "flag_neutral (system_read_qword laddr)" for laddr
    unfolding system_read_qword_def system_tlb_read_def Let_def by (intro neutral_intros)
  show "flag_neutral (fetch_raw_descriptor sel e)" "flag_neutral (touch_segment sel d)"
    "flag_neutral (store_segment k sel d)" "flag_neutral (load_null_selector k w)"
    unfolding fetch_raw_descriptor_def touch_segment_def store_segment_def load_null_selector_def Let_def
    by (intro neutral_intros; simp add: with_flags_def)+
qed

lemma clean_load_seg_reg [clean_intros]: "clean (load_seg_reg temp k w)"
proof -
  have "quiet (load_seg_real k w)" unfolding load_seg_real_def by (intro quiet_intros)
  then show ?thesis
    unfolding load_seg_reg_def load_SS_protected_def load_data_protected_def Let_def
    by (intro clean_gets clean_if clean_quiet [of "load_seg_real k w"] clean_basic clean_bindM clean_neutral
      core_descriptors neutral_intros clean_case_prod; simp)
qed

lemma clean_stack [clean_intros]: "clean (push_32 v)" "clean pop_32" "clean (branch_near32 e)"
  unfolding push_32_def pop_32_def branch_near32_def
  by (intro clean_intros core_intros neutral_intros quiet_intros)+

lemma clean_bind_quiet: "clean m \<Longrightarrow> (\<And>x. quiet (k x)) \<Longrightarrow> clean (bindM m k)"
  unfolding clean_def quiet_def by (auto simp: bindM_def split: prod.splits sum.splits)

lemma clean_seq_quiet: "clean m \<Longrightarrow> quiet n \<Longrightarrow> clean (seqM m n)"
  unfolding seqM_def by (intro clean_bind_quiet)

lemma clean_gets_seq:
  assumes "\<And>x. core_neutral (k x)" "\<And>x. flag_neutral (k x)" "clean n"
  shows "clean (seqM (bindM (getsM g) k) n)"
  using clean_gets [of "\<lambda>x. seqM (k x) n" g] clean_seqM [OF assms] unfolding seqM_def bindM_assoc by blast

lemma push_restartable:
  "restartable (PUSH_ERX i)" "restartable (PUSH32_seg k)" "restartable (PUSH_Id i)" "restartable (PUSH_EdM i)"
  unfolding PUSH_ERX_def PUSH32_seg_def PUSH_Id_def PUSH_EdM_def
  by (rule restartable_clean, intro clean_intros core_intros neutral_intros)+

lemma pop_restartable: "restartable (POP_ERX i)" "restartable LEAVE32"
  unfolding POP_ERX_def LEAVE32_def
  by (rule restartable_clean, intro clean_gets clean_bind_quiet clean_if clean_stack clean_accessors quiet_intros)+

lemma pop_seg_restartable: "restartable (POP32_seg temp k)"
  unfolding POP32_seg_def
  by (rule restartable_clean, intro clean_gets clean_seq_quiet clean_if clean_bindM
    clean_load_seg_reg core_accessors flag_neutral_read quiet_intros)

lemma all_restartable: "restartable PUSHAD32" "restartable POPAD32"
  unfolding PUSHAD32_def POPAD32_def Let_def
  by (rule restartable_clean, intro clean_gets clean_gets_seq clean_bindM clean_basic(1) clean_seq_modify
    core_accessors flag_neutral_read flag_neutral_write quiet_intros)+

lemma spec_clean_gets: "(\<And>x. spec_clean (k x)) \<Longrightarrow> spec_clean (bindM (getsM g) k)"
  by (intro spec_clean_bindM keeps_getsM)

lemma spec_clean_if: "(b \<Longrightarrow> spec_clean m) \<Longrightarrow> (\<not> b \<Longrightarrow> spec_clean n) \<Longrightarrow> spec_clean (if b then m else n)"
  by simp

lemma keeps_rest_resolve: "keeps (\<lambda>s. rest s = R) (ResolveModrm i)"
  unfolding ResolveModrm_def by (cases "resolve_ptr i") (simp_all add: keeps_raiseM keeps_getsM)

lemma keeps_rest_accessors:
  "keeps (\<lambda>s. rest s = R) (read_virtual_dword_32 k a)" "keeps (\<lambda>s. rest s = R) (write_virtual_dword_32 k a v)"
  "keeps (\<lambda>s. rest s = R) (read_RMW_virtual_dword_32 k a)"
  by (intro keeps_rest_neutral core_accessors flag_neutral_read flag_neutral_write flag_neutral_read_RMW)+

lemmas keeps_rest = keeps_rest_stack keeps_rest_frames keeps_rest_resolve keeps_rest_accessors keeps_bindM keeps_seqM
  keeps_if keeps_whenM keeps_getsM keeps_returnM keeps_raiseM

lemma pop_mem_restartable: "restartable (POP_EdM i)"
  unfolding POP_EdM_def RSP_COMMIT_def
  by (intro restartable_speculative spec_clean_bindM spec_clean_seqM spec_clean_quiet quiet_basic keeps_rest)

lemma enter_restartable: "restartable (ENTER32_IwIb i)"
  unfolding ENTER32_IwIb_def RSP_COMMIT_def Let_def
  by (intro restartable_speculative spec_clean_seqM spec_clean_gets spec_clean_quiet quiet_seqM quiet_basic keeps_rest
    keeps_rest_modifyM; simp)

lemma jump_restartable: "restartable (Jcc_Jd cc i)" "restartable (JMP_Jd i)" "restartable (JMP_EdR i)"
  unfolding Jcc_Jd_def JMP_Jd_def JMP_EdR_def
  by (rule restartable_clean, intro clean_gets clean_whenM clean_stack)+

lemma loop_restartable:
  "restartable (JECXZ_Jb i)" "restartable (LOOPNE32_Jb i)" "restartable (LOOPE32_Jb i)" "restartable (LOOP32_Jb i)"
proof -
  have "restartable (loop_Jb again i)" for again
    unfolding loop_Jb_def
    by (rule restartable_clean, intro clean_if clean_gets clean_seq_quiet clean_whenM clean_stack quiet_basic)
  then show "restartable (LOOPNE32_Jb i)" "restartable (LOOPE32_Jb i)" "restartable (LOOP32_Jb i)"
    unfolding LOOPNE32_Jb_def LOOPE32_Jb_def LOOP32_Jb_def by simp_all
  show "restartable (JECXZ_Jb i)"
    unfolding JECXZ_Jb_def by (rule restartable_clean, intro clean_gets clean_whenM clean_stack)
qed

lemma call_restartable:
  "restartable (CALL_Jd i)" "restartable (CALL_EdR i)" "restartable RETnear32" "restartable (RETnear32_Iw i)"
  unfolding CALL_Jd_def CALL_EdR_def RETnear32_def RETnear32_Iw_def RSP_COMMIT_def
  by (intro restartable_gets restartable_speculative spec_clean_seqM spec_clean_gets spec_clean_bindM spec_clean_quiet
    quiet_seqM quiet_basic keeps_rest; simp)+

lemmas stack_restartable = push_restartable pop_restartable pop_seg_restartable all_restartable pop_mem_restartable
  enter_restartable jump_restartable loop_restartable call_restartable

section \<open>Entering the exception restores the registers\<close>

abbreviation fault_class :: "nat \<Rightarrow> bool" where
  "fault_class v \<equiv> fst (snd (exceptions_info ! v)) = BX_EXCEPTION_CLASS_FAULT"

lemma restore_regs:
  "gen_reg (restore_rip_rsp s) = (gen_reg s)(BX_32BIT_REG_EIP := prev_rip s,
    4 := if speculative_rsp s \<noteq> 0 then prev_rsp s else gen_reg s 4)"
  "prev_rip (restore_rip_rsp s) = prev_rip s" "prev_rsp (restore_rip_rsp s) = prev_rsp s"
  "speculative_rsp (restore_rip_rsp s) = speculative_rsp s"
  by (auto simp: restore_rip_rsp_def reg_defs Let_def BX_32BIT_REG_EIP_def BX_GENERAL_REGISTERS_def)

lemma entry_state_regs:
  assumes "fault_class v"
  shows "gen_reg (entry_state v s) = gen_reg (restore_rip_rsp s)" "prev_rip (entry_state v s) = prev_rip s"
    "prev_rsp (entry_state v s) = prev_rsp s" "speculative_rsp (entry_state v s) = speculative_rsp s"
  using assms by (simp_all add: entry_state_def Let_def restore_regs)

lemma entry_restores:
  assumes "exception_entry v c s = (Inr x, s')" "fault_class v"
  shows "gen_reg s' = (gen_reg s)(BX_32BIT_REG_EIP := prev_rip s,
    4 := if speculative_rsp s \<noteq> 0 then prev_rsp s else gen_reg s 4)"
proof -
  have "fault_class 8" by (simp add: exceptions_info_def)
  with assms show ?thesis
    by (cases rule: entry_returns) (auto simp: entry_state_regs restore_regs fun_eq_iff)
qed

lemma restart:
  assumes "restartable m" "speculative_rsp s = 0" "prev_rip s = EIP s"
    and "m (set_EIP e s) = (Inl (Exception v c), s1)" "fault_class v"
    and "exception_entry v c s1 = (Inr x, s2)" "r \<noteq> BX_TMP_REGISTER"
  shows "gen_reg s2 r = gen_reg s r"
proof -
  have "speculative_rsp (set_EIP e s) = 0" using assms(2) by (simp add: reg_defs)
  from assms(1) [unfolded restartable_def, rule_format, OF this assms(4)] have
    regs: "k \<notin> {4, BX_32BIT_REG_EIP, BX_TMP_REGISTER} \<Longrightarrow> gen_reg s1 k = gen_reg (set_EIP e s) k"
    and sp: "(if speculative_rsp s1 \<noteq> 0 then prev_rsp s1 else gen_reg s1 4) = gen_reg (set_EIP e s) 4"
    and ip: "prev_rip s1 = prev_rip (set_EIP e s)" for k by simp_all
  show ?thesis
    unfolding entry_restores [OF assms(6,5)] using regs [of r] sp ip assms(3,7)
    by (auto simp: reg_defs BX_32BIT_REG_EIP_def BX_GENERAL_REGISTERS_def)
qed

section \<open>Every exception is resolved\<close>

lemma exception_resolved:
  "exception_delivery u v c s = (Inl f, s') \<Longrightarrow> f = AssertFail \<or> (\<exists>a. f = HostFault a)"
proof (induction u v c s rule: exception_delivery.induct)
  case (1 u v c s)
  show ?case
  proof (cases "exception_entry v c s")
    case (Pair r s1)
    show ?thesis
    proof (cases r)
      case (Inl g)
      then have "f = g" using "1.prems" Pair by (subst (asm) exception_delivery.simps) simp
      moreover have "\<not> v < 20 \<Longrightarrow> g = AssertFail" using Pair Inl by (subst (asm) exception_entry.simps) simp
      moreover have "v < 20 \<Longrightarrow> g = AssertFail \<or> g = HostFault 0"
        using Pair Inl by (auto simp: entry_run entry_double split: if_splits)
      ultimately show ?thesis by blast
    next
      case (Inr x)
      obtain v' pe c' where x: "x = (v', pe, c')" by (cases x)
      obtain q s2 where i: "interrupt u v' BX_HARDWARE_EXCEPTION pe c' s1 = (q, s2)" by (cases "interrupt u v' BX_HARDWARE_EXCEPTION pe c' s1")
      have p: "(case q of Inl (Exception a b) \<Rightarrow> exception_delivery u a b s2 | Inl g \<Rightarrow> (Inl g, s2)
          | Inr _ \<Rightarrow> (Inr (), s2\<lparr>errorno := 0\<rparr>)) = (Inl f, s')"
        using "1.prems" by (subst (asm) exception_delivery.simps) (simp add: Pair Inr x i split: sum.splits fault.splits)
      show ?thesis
      proof (cases q)
        case (Inr y) then show ?thesis using p by simp
      next
        case (Inl g)
        show ?thesis
        proof (cases g)
          case (Exception a b)
          show ?thesis
            using "1.IH" [OF Pair [symmetric] Inr x [symmetric] refl i [symmetric] Inl Exception] p Inl Exception by simp
        qed (use p Inl in auto)
      qed
    qed
  qed
qed

text \<open>The class recorded for the pending exception is always one of the table's rows,
  or a double fault, which is tested before the table is read.\<close>

lemma entry_in_table:
  assumes "curr_exception s \<in> {0, 1, 2, 10}"
  shows "exception_entry v c s \<noteq> (Inl (HostFault a), s')"
proof (cases "v < 20")
  case False then show ?thesis by (subst exception_entry.simps) simp
next
  case True
  then show ?thesis
    using assms exception_types [OF True] by (auto simp: entry_run entry_double split: if_splits)
qed

end
