(* ===== verification/Decode.thy ===== *)
theory Decode
  imports Instr
begin

text \<open>
  The instruction decoder \<open>fetchDecode32\<close> of \<open>cpu/fetchdecode.cc\<close>: prefixes, opcode,
  ModRM, SIB and displacement, opcode groups, immediates.  The bytes at the fetch
  pointer are a function of the distance from it.  The two opcode tables
  \<open>BxOpcodeInfo32R\<close> and \<open>BxOpcodeInfo32M\<close>, a thousand entries each of plain data, are
  arguments: what is proved holds for any contents.
\<close>

section \<open>Tables\<close>

datatype BxOpcodeInfo_t = BxOpcodeInfo (Attr: "16 word") (IA: "16 word") (AnotherArray: "BxOpcodeInfo_t list")

abbreviation (input) BX_IA_ERROR :: "16 word" where "BX_IA_ERROR \<equiv> 0"
abbreviation (input) BxOpcodeGroupSSE_ERR :: BxOpcodeInfo_t where
  "BxOpcodeGroupSSE_ERR \<equiv> BxOpcodeInfo 0 BX_IA_ERROR []"
abbreviation (input) BX_SEG_REG_NULL :: nat where "BX_SEG_REG_NULL \<equiv> 7"

definition BxOpcodeHasModrm32 :: "bool list" where
  "BxOpcodeHasModrm32 = map (\<lambda>c. c = CHR ''1'') (
    ''1111000011110000'' @ ''1111000011110000'' @ ''1111000011110000'' @ ''1111000011110000'' @
    ''0000000000000000'' @ ''0000000000000000'' @ ''0011000001010000'' @ ''0000000000000000'' @
    ''1111111111111111'' @ ''0000000000000000'' @ ''0000000000000000'' @ ''0000000000000000'' @
    ''1100111100000000'' @ ''1111000011111111'' @ ''0000000000000000'' @ ''0000001100000011'' @
    ''1111000000000101'' @ ''1111111111111111'' @ ''1111101011111111'' @ ''0000000010100000'' @
    ''1111111111111111'' @ ''1111111111111111'' @ ''1111111111111111'' @ ''1111111011001111'' @
    ''0000000000000000'' @ ''1111111111111111'' @ ''0001110000011111'' @ ''1111111111111111'' @
    ''1111111100000000'' @ ''1111111111111111'' @ ''1111111111111111'' @ ''1111111111111110'')"

definition Resolve16BaseReg :: "nat list" where "Resolve16BaseReg = [3, 3, 5, 5, 6, 7, 5, 3]"
definition Resolve16IndexReg :: "nat list" where
  "Resolve16IndexReg = [6, 7, 6, 7, BX_NIL_REGISTER, BX_NIL_REGISTER, BX_NIL_REGISTER, BX_NIL_REGISTER]"
definition sreg_mod00_rm16 :: "nat list" where "sreg_mod00_rm16 = [3, 3, 2, 2, 3, 3, 3, 3]"
definition sreg_mod01or10_rm16 :: "nat list" where "sreg_mod01or10_rm16 = [3, 3, 2, 2, 3, 3, 2, 3]"
definition sreg_mod0_base32 :: "nat list" where "sreg_mod0_base32 = [3, 3, 3, 3, 2, 3, 3, 3]"
definition sreg_mod1or2_base32 :: "nat list" where "sreg_mod1or2_base32 = [3, 3, 3, 3, 2, 2, 3, 3]"

section \<open>Decoding state\<close>

text \<open>\<open>Reject\<close> is the return value -1; an index outside an opcode group, undefined in
  the source, is \<open>OutOfTable\<close>; a failed assertion is \<open>Abort\<close>.\<close>

datatype decode_failure = Reject | OutOfTable | Abort

record decode_state =
  dec_ilen :: nat
  dec_instr :: bxInstruction_c
  dec_seg :: nat
  dec_os32 :: "32 word"
  dec_sse :: nat
  dec_override :: nat
  dec_lock :: bool

type_synonym 'a decoder = "(decode_state, decode_failure, 'a) monad"

definition fetch_bytes :: "(nat \<Rightarrow> 8 word) \<Rightarrow> nat \<Rightarrow> nat \<Rightarrow> 8 word list decoder" where
  "fetch_bytes iptr remain n d =
    (if dec_ilen d + (n - 1) < remain
     then (Inr (map iptr [dec_ilen d..<dec_ilen d + n]), d\<lparr>dec_ilen := dec_ilen d + n\<rparr>)
     else (Inl Reject, d))"

definition on_instr :: "(bxInstruction_c \<Rightarrow> bxInstruction_c) \<Rightarrow> unit decoder" where
  "on_instr f = modifyM (\<lambda>d. d\<lparr>dec_instr := f (dec_instr d)\<rparr>)"

section \<open>Prefixes\<close>

text \<open>The effect of a prefix byte; None when the byte is not a prefix.\<close>

definition prefix_step :: "32 word \<Rightarrow> nat \<Rightarrow> decode_state \<Rightarrow> decode_state option" where
  "prefix_step is_32 byte1 d =
    (if byte1 = 0x66 then
       (let os_32 = of_bool (is_32 = 0) in
        Some (d\<lparr>dec_os32 := os_32, dec_sse := (if dec_sse d = 0 then 1 else dec_sse d),
          dec_instr := setOs32B os_32 (dec_instr d)\<rparr>))
     else if byte1 = 0x67 then Some (d\<lparr>dec_instr := setAs32B (of_bool (is_32 = 0)) (dec_instr d)\<rparr>)
     else if byte1 = 0xf2 \<or> byte1 = 0xf3 then
       Some (d\<lparr>dec_sse := byte1 AND 3, dec_instr := setRepUsed (of_nat (byte1 AND 3)) (dec_instr d)\<rparr>)
     else if byte1 \<in> {0x26, 0x2e, 0x36, 0x3e} then Some (d\<lparr>dec_override := drop_bit 3 byte1 AND 3\<rparr>)
     else if byte1 = 0x64 \<or> byte1 = 0x65 then Some (d\<lparr>dec_override := byte1 AND 0xf\<rparr>)
     else if byte1 = 0xf0 then Some (d\<lparr>dec_lock := True\<rparr>)
     else None)"

lemma prefix_step_ilen: "prefix_step is_32 byte1 d = Some d' \<Longrightarrow> dec_ilen d' = dec_ilen d"
  by (auto simp: prefix_step_def Let_def split: if_splits)

function fetch_b1 :: "(nat \<Rightarrow> 8 word) \<Rightarrow> nat \<Rightarrow> 32 word \<Rightarrow> nat decoder" where
  "fetch_b1 iptr remain is_32 d =
    (let b1 = unat (iptr (dec_ilen d)); d1 = d\<lparr>dec_ilen := dec_ilen d + 1\<rparr> in
     if b1 = 0x0f then
       (if dec_ilen d1 < remain
        then (Inr (0x100 OR unat (iptr (dec_ilen d1))), d1\<lparr>dec_ilen := dec_ilen d1 + 1\<rparr>)
        else (Inl Reject, d1))
     else
       (case prefix_step is_32 b1 d1 of
          Some d2 \<Rightarrow> if dec_ilen d2 < remain then fetch_b1 iptr remain is_32 d2 else (Inl Reject, d2)
        | None \<Rightarrow> (Inr b1, d1)))"
  by pat_completeness auto

termination
  by (relation "measure (\<lambda>(_, remain, _, d). remain - dec_ilen d)") (auto dest!: prefix_step_ilen)

declare fetch_b1.simps [simp del]

section \<open>ModRM\<close>

definition displacement32 :: "(nat \<Rightarrow> 8 word) \<Rightarrow> nat \<Rightarrow> nat \<Rightarrow> unit decoder" where
  "displacement32 iptr remain m =
    (if m = 0x40 then
       bindM (fetch_bytes iptr remain 1) (\<lambda>bs. on_instr (\<lambda>i. i\<lparr>modRMForm_displ32u := scast (hd bs)\<rparr>))
     else
       bindM (fetch_bytes iptr remain 4) (\<lambda>bs. on_instr (\<lambda>i. i\<lparr>modRMForm_displ32u := le_word bs\<rparr>)))"

definition modrm32 :: "(nat \<Rightarrow> 8 word) \<Rightarrow> nat \<Rightarrow> nat \<Rightarrow> nat \<Rightarrow> unit decoder" where
  "modrm32 iptr remain m r =
    seqM (on_instr (\<lambda>i. i\<lparr>resolve_ptr := BxResolve32Base_ptr\<rparr>))
    (if r \<noteq> 4 then
       (if m = 0 then
          whenM (r = 5)
            (seqM (on_instr (setMetaData 4 (of_nat BX_NIL_REGISTER)))
            (bindM (fetch_bytes iptr remain 4) (\<lambda>bs. on_instr (\<lambda>i. i\<lparr>modRMForm_displ32u := le_word bs\<rparr>))))
        else
          seqM (modifyM (\<lambda>d. d\<lparr>dec_seg := sreg_mod1or2_base32 ! r\<rparr>))
          (displacement32 iptr remain m))
     else
       bindM (fetch_bytes iptr remain 1) (\<lambda>bs.
       (let sib = unat (hd bs); base = sib AND 7; index = drop_bit 3 sib AND 7; scale = drop_bit 6 sib in
        seqM (on_instr (\<lambda>i. setMetaData 4 (of_nat base) (setMetaData 6 (of_nat scale) i)))
        (seqM (whenM (index \<noteq> 4)
          (on_instr (\<lambda>i. setMetaData 5 (of_nat index) (i\<lparr>resolve_ptr := BxResolve32BaseIndex_ptr\<rparr>))))
        (if m = 0 then
           seqM (modifyM (\<lambda>d. d\<lparr>dec_seg := sreg_mod0_base32 ! base\<rparr>))
           (whenM (base = 5)
             (seqM (on_instr (setMetaData 4 (of_nat BX_NIL_REGISTER)))
             (bindM (fetch_bytes iptr remain 4) (\<lambda>bs. on_instr (\<lambda>i. i\<lparr>modRMForm_displ32u := le_word bs\<rparr>)))))
         else
           seqM (modifyM (\<lambda>d. d\<lparr>dec_seg := sreg_mod1or2_base32 ! base\<rparr>))
           (displacement32 iptr remain m))))))"

definition modrm16 :: "(nat \<Rightarrow> 8 word) \<Rightarrow> nat \<Rightarrow> nat \<Rightarrow> nat \<Rightarrow> unit decoder" where
  "modrm16 iptr remain m r =
    seqM (on_instr (\<lambda>i. setMetaData 5 (of_nat (Resolve16IndexReg ! r))
      (setMetaData 4 (of_nat (Resolve16BaseReg ! r)) (i\<lparr>resolve_ptr := BxResolve16BaseIndex_ptr\<rparr>))))
    (if m = 0 then
       seqM (modifyM (\<lambda>d. d\<lparr>dec_seg := sreg_mod00_rm16 ! r\<rparr>))
       (whenM (r = 6)
         (seqM (on_instr (setMetaData 4 (of_nat BX_NIL_REGISTER)))
         (bindM (fetch_bytes iptr remain 2) (\<lambda>bs.
           on_instr (\<lambda>i. i\<lparr>modRMForm_displ32u := set_rx (le_word bs) (modRMForm_displ32u i)\<rparr>)))))
     else
       seqM (modifyM (\<lambda>d. d\<lparr>dec_seg := sreg_mod01or10_rm16 ! r\<rparr>))
       (if m = 0x40 then
          bindM (fetch_bytes iptr remain 1) (\<lambda>bs.
            on_instr (\<lambda>i. i\<lparr>modRMForm_displ32u := set_rx (scast (hd bs)) (modRMForm_displ32u i)\<rparr>))
        else
          bindM (fetch_bytes iptr remain 2) (\<lambda>bs.
            on_instr (\<lambda>i. i\<lparr>modRMForm_displ32u := set_rx (le_word bs) (modRMForm_displ32u i)\<rparr>))))"

text \<open>The ModRM byte and what follows it; gives back the byte and its \<open>mod\<close> field,
  which the moves with control and debug registers force to register form.\<close>

definition decode_modrm :: "(nat \<Rightarrow> 8 word) \<Rightarrow> nat \<Rightarrow> nat \<Rightarrow> (nat \<times> nat) decoder" where
  "decode_modrm iptr remain byte1 =
    bindM (fetch_bytes iptr remain 1) (\<lambda>bs.
    (let b2 = unat (hd bs);
         m = (if byte1 \<in> {0x120, 0x121, 0x122, 0x123} then 0xc0 else b2 AND 0xc0);
         nnn = drop_bit 3 b2 AND 0x7; rm = b2 AND 0x7 in
     seqM (on_instr (\<lambda>i. setMetaData 2 (of_nat nnn) (setMetaData 7 (of_nat b2) i)))
     (seqM (if m = 0xc0 then on_instr (\<lambda>i. setMetaData 3 (of_nat rm) (assertModC0 i))
       else
         seqM (on_instr (\<lambda>i. (setMetaData 5 (of_nat BX_NIL_REGISTER) (setMetaData 4 (of_nat rm)
           (setMetaData 3 (of_nat BX_TMP_REGISTER) i)))\<lparr>modRMForm_displ32u := 0\<rparr>))
         (bindM (getsM (\<lambda>d. as32L (dec_instr d))) (\<lambda>as32.
           if as32 \<noteq> 0 then modrm32 iptr remain m rm else modrm16 iptr remain m rm)))
     (returnM (b2, m)))))"

section \<open>Opcode groups\<close>

lemma size_another: "k < length (AnotherArray info) \<Longrightarrow> size (AnotherArray info ! k) < size info"
  by (cases info) (auto simp: less_Suc_eq_le intro!: size_list_estimation' [OF nth_mem])

function resolve_group :: "nat \<Rightarrow> nat \<Rightarrow> nat \<Rightarrow> nat \<Rightarrow> nat \<Rightarrow> 16 word \<Rightarrow> BxOpcodeInfo_t \<Rightarrow>
    decode_failure + 16 word \<times> BxOpcodeInfo_t" where
  "resolve_group n b3 os_32 sse b2 attr info =
    (let group = attr AND 0x00f0; attr' = attr AND NOT 0x00f0;
         k = (if group = 0x0010 then n else if group = 0x0070 then b3 else if group = 0x0080 then os_32
           else if group = 0x0020 then sse - 1 else b2 AND 0x3f) in
     if group = 0 then Inr (attr, info)
     else if group \<in> {0x0010, 0x0070, 0x0080, 0x0060} \<or> (group = 0x0020 \<and> sse \<noteq> 0) then
       (if k < length (AnotherArray info)
        then resolve_group n b3 os_32 sse b2 (attr' OR Attr (AnotherArray info ! k)) (AnotherArray info ! k)
        else Inl OutOfTable)
     else if group = 0x0020 then Inr (attr', info)
     else if group = 0x0030 then Inr (attr', if sse \<noteq> 1 then BxOpcodeGroupSSE_ERR else info)
     else if group = 0x0040 then Inr (attr', if sse \<noteq> 2 then BxOpcodeGroupSSE_ERR else info)
     else if group = 0x0050 then Inr (attr', if sse \<noteq> 3 then BxOpcodeGroupSSE_ERR else info)
     else Inl Reject)"
  by pat_completeness auto

termination
  by (relation "measure (\<lambda>(_, _, _, _, _, _, info). size info)") (auto simp: size_another)

declare resolve_group.simps [simp del]

section \<open>Immediates\<close>

definition decode_imm :: "(nat \<Rightarrow> 8 word) \<Rightarrow> nat \<Rightarrow> 16 word \<Rightarrow> unit decoder" where
  "decode_imm iptr remain attr =
    (let imm_mode = attr AND 0x000f; setI = (\<lambda>f. on_instr (\<lambda>i. i\<lparr>modRMForm_Id := f (modRMForm_Id i)\<rparr>)) in
     seqM (setI (\<lambda>_. 0))
     (if imm_mode = 0 then returnM ()
      else if imm_mode = 0x0001 then setI (set_rl 1)
      else if imm_mode = 0x0002 then bindM (fetch_bytes iptr remain 1) (\<lambda>bs. setI (set_rl (hd bs)))
      else if imm_mode = 0x0003 then
        bindM (fetch_bytes iptr remain 1) (\<lambda>bs. bindM (getsM (\<lambda>d. os32L (dec_instr d))) (\<lambda>os32.
          if os32 \<noteq> 0 then setI (\<lambda>_. scast (hd bs)) else setI (set_rx (scast (hd bs)))))
      else if imm_mode = 0x0004 then bindM (fetch_bytes iptr remain 2) (\<lambda>bs. setI (set_rx (le_word bs)))
      else if imm_mode = 0x0009 then bindM (fetch_bytes iptr remain 4) (\<lambda>bs. setI (\<lambda>_. le_word bs))
      else if imm_mode = 0x000B then bindM (fetch_bytes iptr remain 1) (\<lambda>bs. setI (\<lambda>_. scast (hd bs)))
      else if imm_mode = 0x0006 then
        bindM (fetch_bytes iptr remain 3) (\<lambda>bs. seqM (setI (set_rx (le_word (take 2 bs))))
          (on_instr (\<lambda>i. i\<lparr>modRMForm_displ32u := set_rl (bs ! 2) (modRMForm_displ32u i)\<rparr>)))
      else if imm_mode = 0x0007 then
        bindM (fetch_bytes iptr remain 4) (\<lambda>bs. seqM (setI (set_rx (le_word (take 2 bs))))
          (on_instr (\<lambda>i. i\<lparr>modRMForm_displ32u := set_rx (le_word (drop 2 bs)) (modRMForm_displ32u i)\<rparr>)))
      else if imm_mode = 0x0008 then
        bindM (fetch_bytes iptr remain 6) (\<lambda>bs. seqM (setI (\<lambda>_. le_word (take 4 bs)))
          (on_instr (\<lambda>i. i\<lparr>modRMForm_displ32u := set_rx (le_word (drop 4 bs)) (modRMForm_displ32u i)\<rparr>)))
      else if imm_mode = 0x000A then
        bindM (getsM (\<lambda>d. as32L (dec_instr d))) (\<lambda>as32.
          if as32 \<noteq> 0 then bindM (fetch_bytes iptr remain 4) (\<lambda>bs. setI (\<lambda>_. le_word bs))
          else bindM (fetch_bytes iptr remain 2) (\<lambda>bs. setI (\<lambda>_. ucast (le_word bs :: 16 word))))
      else raiseM Reject))"

section \<open>The decoder\<close>

text \<open>The opcode after its ModRM byte, or without one: attributes, table entry, \<open>nnn\<close>
  and \<open>rm\<close>.\<close>

definition decode_opcode ::
  "(nat \<Rightarrow> BxOpcodeInfo_t) \<Rightarrow> (nat \<Rightarrow> BxOpcodeInfo_t) \<Rightarrow> (nat \<Rightarrow> 8 word) \<Rightarrow> nat \<Rightarrow> nat \<Rightarrow>
    (16 word \<times> 16 word \<times> nat \<times> nat) decoder" where
  "decode_opcode infoR infoM iptr remain byte1 =
    bindM (getsM (\<lambda>d. push_bit 9 (unat (dec_os32 d)))) (\<lambda>offset.
    (let attr = Attr (infoR (byte1 + offset)) in
     if BxOpcodeHasModrm32 ! byte1 then
       bindM (if attr AND 0x00f0 = 0x0070 then fetch_bytes iptr remain 1 else returnM [0]) (\<lambda>b3.
       bindM (decode_modrm iptr remain byte1) (\<lambda>(b2, m).
       bindM (getsM id) (\<lambda>d.
       (let info = (if m = 0xc0 then infoR (byte1 + offset) else infoM (byte1 + offset)) in
        case resolve_group (drop_bit 3 b2 AND 7) (unat (hd b3)) (unat (dec_os32 d)) (dec_sse d) b2 (Attr info) info of
          Inl f \<Rightarrow> raiseM f
        | Inr (attr, info) \<Rightarrow> returnM (attr, IA info, drop_bit 3 b2 AND 7, b2 AND 7)))))
     else
       bindM (getsM dec_sse) (\<lambda>sse.
       (let group = attr AND 0x00f0; info = infoR (byte1 + offset) in
        if \<not> (group = 0x0020 \<or> group = 0) then raiseM Abort
        else if group = 0x0020 \<and> sse \<noteq> 0 \<and> \<not> sse - 1 < length (AnotherArray info) then raiseM OutOfTable
        else
          seqM (on_instr (setMetaData 3 (of_nat (byte1 AND 7))))
          (returnM (attr, IA (if group = 0x0020 \<and> sse \<noteq> 0 then AnotherArray info ! (sse - 1) else info), 0, 0))))))"

definition fetchDecode32 ::
  "(nat \<Rightarrow> BxOpcodeInfo_t) \<Rightarrow> (nat \<Rightarrow> BxOpcodeInfo_t) \<Rightarrow> (nat \<Rightarrow> 8 word) \<Rightarrow> bxInstruction_c \<Rightarrow> nat \<Rightarrow> bx_cpu_c \<Rightarrow>
    decode_failure + bxInstruction_c" where
  "fetchDecode32 infoR infoM iptr i remainingInPage s =
    (let remain = (if remainingInPage < 15 then remainingInPage else 15);
         is_32 = seg_d_b (cache (sregs s BX_SEG_REG_CS));
         d = \<lparr>dec_ilen = 0, dec_instr = init_instr is_32 is_32 (i\<lparr>resolve_ptr := BxResolve_null\<rparr>), dec_seg = BX_SEG_REG_DS,
           dec_os32 = is_32, dec_sse = 0, dec_override = BX_SEG_REG_NULL, dec_lock = False\<rparr> in
     case
       bindM (fetch_b1 iptr remain is_32) (\<lambda>b1.
       bindM (decode_opcode infoR infoM iptr remain b1) (\<lambda>(attr, ia, nnn, rm).
       seqM (decode_imm iptr remain attr)
       (seqM (modifyM (\<lambda>d. d\<lparr>dec_instr :=
         (let i = setMetaData 0 (of_nat (if dec_override d = BX_SEG_REG_NULL then dec_seg d else dec_override d)) (dec_instr d);
              i = (if attr AND 0x0200 \<noteq> 0 then setMetaData 2 (of_nat rm) (setMetaData 3 (of_nat nnn) i) else i)
          in (setILen (of_nat (dec_ilen d)) (setMetaData 1 (of_nat (b1 AND 0xff)) i))
            \<lparr>ia_opcode := (if dec_lock d \<and> attr AND 0x0100 = 0 then BX_IA_ERROR else ia)\<rparr>)\<rparr>))
       (getsM dec_instr)))) d of
       (Inl f, _) \<Rightarrow> Inl f
     | (Inr i, _) \<Rightarrow> Inr i)"

section \<open>The length of an instruction\<close>

lemma unat_byte: "v < 256 \<Longrightarrow> unat (ucast (of_nat v :: 32 word) :: 8 word) = v"
  by (simp add: unsigned_ucast_eq unat_of_nat take_bit_eq_mod)

definition in_window :: "nat \<Rightarrow> nat \<Rightarrow> decode_state \<Rightarrow> bool" where
  "in_window k remain d \<longleftrightarrow> k \<le> dec_ilen d \<and> dec_ilen d \<le> remain"

lemma keeps_fetch_bytes: "0 < n \<Longrightarrow> keeps (in_window k remain) (fetch_bytes iptr remain n)"
  by (rule keepsI) (auto simp: fetch_bytes_def in_window_def)

lemma keeps_ilen_modifyM: "(\<And>d. dec_ilen (f d) = dec_ilen d) \<Longrightarrow> keeps (in_window k remain) (modifyM f)"
  by (simp add: keeps_def monad_simps in_window_def)

lemma keeps_on_instr: "keeps (in_window k remain) (on_instr f)"
  unfolding on_instr_def by (intro keeps_ilen_modifyM) simp

lemma keeps_fetch_b1:
  "dec_ilen d < remain \<Longrightarrow> fetch_b1 iptr remain is_32 d = (r, d') \<Longrightarrow> 0 < dec_ilen d' \<and> dec_ilen d' \<le> remain"
proof (induction iptr remain is_32 d arbitrary: r d' rule: fetch_b1.induct)
  case (1 iptr remain is_32 d)
  note run = "1.prems"(2) [unfolded fetch_b1.simps [of iptr remain is_32 d] Let_def]
  show ?case
    using run "1.prems"(1) "1.IH" [OF refl refl]
    by (auto split: if_splits option.splits dest: prefix_step_ilen)
qed

lemma keeps_modrm: "keeps (in_window k remain) (decode_modrm iptr remain byte1)"
  unfolding decode_modrm_def modrm32_def modrm16_def displacement32_def Let_def
  by (intro keeps_intros keeps_fetch_bytes keeps_on_instr keeps_ilen_modifyM; simp)

lemma keeps_opcode: "keeps (in_window k remain) (decode_opcode infoR infoM iptr remain byte1)"
proof -
  have c: "keeps (in_window k remain) (case x of Inl f \<Rightarrow> raiseM f | Inr (attr, info) \<Rightarrow> returnM (g attr info))" for x g
    by (auto intro: keeps_raiseM keeps_returnM split: sum.split)
  show ?thesis
    unfolding decode_opcode_def Let_def
    by (intro keeps_intros keeps_fetch_bytes keeps_on_instr keeps_modrm c zero_less_one)
qed

lemma keeps_imm: "keeps (in_window k remain) (decode_imm iptr remain attr)"
  unfolding decode_imm_def Let_def
  by (intro keeps_intros keeps_fetch_bytes keeps_on_instr; simp)

lemma fetchDecode32_ilen:
  assumes "fetchDecode32 infoR infoM iptr i remaining s = Inr i'" "0 < remaining"
  shows "1 \<le> ilen i' \<and> ilen i' \<le> 15 \<and> unat (ilen i') \<le> remaining"
proof -
  define remain where "remain = (if remaining < 15 then remaining else 15)"
  define is_32 where "is_32 = seg_d_b (cache (sregs s 1))"
  define d0 where "d0 = \<lparr>dec_ilen = 0, dec_instr = init_instr is_32 is_32 (i\<lparr>resolve_ptr := BxResolve_null\<rparr>),
    dec_seg = 3, dec_os32 = is_32, dec_sse = 0, dec_override = 7, dec_lock = False\<rparr>"
  have d0: "dec_ilen d0 = 0" by (simp add: d0_def)
  obtain b d1 x d2 d3 where f: "fetch_b1 iptr remain is_32 d0 = (Inr b, d1)"
    and o: "decode_opcode infoR infoM iptr remain b d1 = (Inr x, d2)"
    and m: "decode_imm iptr remain (fst x) d2 = (Inr (), d3)"
    and i': "ilen i' = ucast (ucast (of_nat (dec_ilen d3) :: 32 word) :: 8 word)"
    using assms(1) unfolding fetchDecode32_def Let_def remain_def [symmetric] is_32_def [symmetric] d0_def [symmetric]
    by (force simp: monad_simps ilen_def setILen_def split: prod.splits sum.splits)
  have r: "0 < remain" "remain \<le> 15" "remain \<le> remaining" using assms(2) by (auto simp: remain_def)
  have "in_window 1 remain d1" using keeps_fetch_b1 [OF _ f] d0 r by (simp add: in_window_def)
  then have "in_window 1 remain d2" using keepsD [OF keeps_opcode] o by (metis snd_conv)
  then have "in_window 1 remain d3" using keepsD [OF keeps_imm] m by (metis snd_conv)
  then have "1 \<le> dec_ilen d3" "dec_ilen d3 \<le> remain" by (simp_all add: in_window_def)
  moreover have "unat (ilen i') = dec_ilen d3"
    unfolding i' unsigned_ucast_eq [of "ucast (of_nat (dec_ilen d3) :: 32 word) :: 8 word"]
    using r \<open>dec_ilen d3 \<le> remain\<close> by (subst unat_byte) (simp_all add: take_bit_eq_mod)
  ultimately show ?thesis using r by (simp add: word_le_nat_alt)
qed

section \<open>The decoder reads no byte past the limit\<close>

lemma fetch_bytes_cong:
  assumes "\<And>k. k < remain \<Longrightarrow> f k = g k" "0 < n"
  shows "fetch_bytes f remain n = fetch_bytes g remain n"
  using assms by (auto simp: fetch_bytes_def fun_eq_iff)

lemma fetch_b1_cong:
  assumes "\<And>k. k < remain \<Longrightarrow> f k = g k"
  shows "dec_ilen d < remain \<Longrightarrow> fetch_b1 f remain is_32 d = fetch_b1 g remain is_32 d"
proof (induction "remain - dec_ilen d" arbitrary: d rule: less_induct)
  case less
  have f: "f (dec_ilen d) = g (dec_ilen d)" using less.prems assms by blast
  show ?case
    unfolding fetch_b1.simps [of f remain is_32 d] fetch_b1.simps [of g remain is_32 d] Let_def f
    using less by (auto split: option.split simp: assms dest: prefix_step_ilen)
qed

lemma fetchDecode32_cong:
  assumes "\<And>k. k < remaining \<Longrightarrow> k < 15 \<Longrightarrow> f k = g k" "0 < remaining"
  shows "fetchDecode32 infoR infoM f i remaining s = fetchDecode32 infoR infoM g i remaining s"
proof -
  define remain where "remain = (if remaining < 15 then remaining else 15)"
  have fg: "f k = g k" if "k < remain" for k using that assms(1) by (auto simp: remain_def split: if_splits)
  have "0 < remain" using assms(2) by (simp add: remain_def)
  note b = fetch_b1_cong [of remain f g, OF fg, of "\<lparr>dec_ilen = 0, dec_instr = x, dec_seg = y, dec_os32 = z, dec_sse = u,
    dec_override = v, dec_lock = w\<rparr>" for x y z u v w, simplified, OF \<open>0 < remain\<close>]
  have n: "fetch_bytes f remain 1 = fetch_bytes g remain 1" "fetch_bytes f remain 2 = fetch_bytes g remain 2"
    "fetch_bytes f remain 3 = fetch_bytes g remain 3" "fetch_bytes f remain 4 = fetch_bytes g remain 4"
    "fetch_bytes f remain 6 = fetch_bytes g remain 6"
    by (rule fetch_bytes_cong [OF fg], simp_all)+
  have "decode_opcode infoR infoM f remain = decode_opcode infoR infoM g remain"
    "decode_imm f remain = decode_imm g remain"
    unfolding decode_opcode_def decode_imm_def decode_modrm_def modrm32_def modrm16_def displacement32_def n by (rule refl)+
  then show ?thesis
    unfolding fetchDecode32_def Let_def remain_def [symmetric] by (simp add: bindM_apply b)
qed

section \<open>Effective addresses\<close>

text \<open>The address a ModRM byte at \<open>p\<close> stands for, with the SIB byte and the
  displacement after it, and the segment register it implies, as the manuals tabulate them for 32-bit
  addressing.\<close>

definition bytes_at :: "(nat \<Rightarrow> 8 word) \<Rightarrow> nat \<Rightarrow> nat \<Rightarrow> 8 word list" where
  "bytes_at f q n = map f [q..<q + n]"

definition disp32_at :: "(nat \<Rightarrow> 8 word) \<Rightarrow> nat \<Rightarrow> nat \<Rightarrow> 32 word" where
  "disp32_at f m q = (if m = 0 then 0 else if m = 0x40 then scast (f q) else le_word (bytes_at f q 4))"

definition ea32 :: "(nat \<Rightarrow> 8 word) \<Rightarrow> nat \<Rightarrow> bx_cpu_c \<Rightarrow> 32 word" where
  "ea32 f p s =
    (let m = unat (f p) AND 0xc0; r = unat (f p) AND 7 in
     if r = 4 then
       (let sib = unat (f (p + 1)); base = sib AND 7; index = drop_bit 3 sib AND 7 in
        (if m = 0 \<and> base = 5 then le_word (bytes_at f (p + 2) 4) else gen_reg s base + disp32_at f m (p + 2)) +
        (if index = 4 then 0 else push_bit (drop_bit 6 sib) (gen_reg s index)))
     else if m = 0 \<and> r = 5 then le_word (bytes_at f (p + 1) 4)
     else gen_reg s r + disp32_at f m (p + 1))"

definition seg32 :: "(nat \<Rightarrow> 8 word) \<Rightarrow> nat \<Rightarrow> nat" where
  "seg32 f p =
    (let m = unat (f p) AND 0xc0; r = unat (f p) AND 7; base = (if r = 4 then unat (f (p + 1)) AND 7 else r) in
     if base = 4 \<or> (base = 5 \<and> m \<noteq> 0) then BX_SEG_REG_SS else BX_SEG_REG_DS)"

lemma setMetaData_simps [simp]:
  "metaData (setMetaData k v i) = (metaData i)(k := ucast v)" "resolve_ptr (setMetaData k v i) = resolve_ptr i"
  "modRMForm_displ32u (setMetaData k v i) = modRMForm_displ32u i" "metaInfo1 (setMetaData k v i) = metaInfo1 i"
  by (simp_all add: setMetaData_def)

lemma and7_less: "x AND 7 < (8 :: nat)"
proof -
  have "x AND 7 = take_bit 3 x" by (simp add: take_bit_eq_mask mask_eq_exp_minus_1)
  then show ?thesis using take_bit_nat_less_exp [of 3 x] by simp
qed

lemma nat8_cases: "(x :: nat) < 8 \<Longrightarrow> x \<in> {0, 1, 2, 3, 4, 5, 6, 7}"
  by auto

lemma sib_scale: "drop_bit 6 (unat (b :: 8 word)) < 4"
  using unsigned_less [of b, where 'a = nat] by (simp add: drop_bit_eq_div div_less_iff_less_mult)

lemma fetch_bytes_run:
  "fetch_bytes f remain n d = (if dec_ilen d + (n - 1) < remain
    then (Inr (bytes_at f (dec_ilen d) n), d\<lparr>dec_ilen := dec_ilen d + n\<rparr>) else (Inl Reject, d))"
  by (simp add: fetch_bytes_def bytes_at_def)

lemma hd_bytes_at [simp]: "hd (bytes_at f q (Suc 0)) = f q"
  by (simp add: bytes_at_def)

lemma sreg_tables:
  "r < 8 \<Longrightarrow> sreg_mod0_base32 ! r = (if r = 4 then 2 else 3)"
  "r < 8 \<Longrightarrow> sreg_mod1or2_base32 ! r = (if r = 4 \<or> r = 5 then 2 else 3)"
  by (auto dest!: nat8_cases simp: sreg_mod0_base32_def sreg_mod1or2_base32_def)

lemma displacement32_run:
  assumes "displacement32 f remain m d = (Inr (), d')" "0 < m"
  shows "\<exists>n. d' = d\<lparr>dec_ilen := n, dec_instr := (dec_instr d)\<lparr>modRMForm_displ32u := disp32_at f m (dec_ilen d)\<rparr>\<rparr>"
  using assms unfolding displacement32_def disp32_at_def on_instr_def
  by (auto simp: bindM_apply modifyM_apply fetch_bytes_run split: if_splits)

lemma modrm32_address:
  fixes f :: "nat \<Rightarrow> 8 word" and p :: nat
  defines "r \<equiv> unat (f p) AND 7" and "m \<equiv> unat (f p) AND 0xc0"
  assumes run: "modrm32 f remain m r d = (Inr (), d')" and p: "dec_ilen d = Suc p" "dec_seg d = 3"
    and i: "metaData (dec_instr d) 4 = ucast (of_nat r :: 32 word)"
      "metaData (dec_instr d) 5 = ucast (of_nat BX_NIL_REGISTER :: 32 word)" "modRMForm_displ32u (dec_instr d) = 0"
    and nil: "gen_reg s BX_NIL_REGISTER = 0"
  shows "ResolveModrm (dec_instr d') s = (Inr (ea32 f p s), s) \<and> dec_seg d' = seg32 f p"
proof -
  have r: "r < 8" by (simp add: r_def and7_less)
  then have r': "unat (ucast (of_nat r :: 32 word) :: 8 word) = r" by (intro unat_byte) simp
  have N: "unat (ucast (of_nat BX_NIL_REGISTER :: 32 word) :: 8 word) = BX_NIL_REGISTER"
    by (simp add: BX_NIL_REGISTER_def BX_GENERAL_REGISTERS_def)
  define sib where "sib = unat (f (Suc p))"
  define base where "base = sib AND 7"
  define index where "index = drop_bit 3 sib AND 7"
  define scale where "scale = drop_bit 6 sib"
  have l: "base < 8" "index < 8" "scale < 4"
    unfolding base_def index_def scale_def sib_def by (rule and7_less sib_scale)+
  then have meta: "unat (ucast (of_nat base :: 32 word) :: 8 word) = base"
    "unat (ucast (of_nat index :: 32 word) :: 8 word) = index" "unat (ucast (of_nat scale :: 32 word) :: 8 word) = scale"
    by (intro unat_byte; linarith)+
  note fold = r_def [symmetric] m_def [symmetric] Suc_eq_plus1 [symmetric] sib_def [symmetric] base_def [symmetric]
    index_def [symmetric] scale_def [symmetric]
  note eval = modrm32_def on_instr_def seqM_apply bindM_apply modifyM_apply whenM_def returnM_apply Let_def
    fetch_bytes_run
  note resolve = ResolveModrm_def getsM_apply BxResolve32Base_def BxResolve32BaseIndex_def BX_READ_32BIT_REG_def displ32s_def
    sibBase_def sibIndex_def sibScale_def
  have d0: "disp32_at f 0 q = 0" for q by (simp add: disp32_at_def)
  note res = resolve p i r' N nil meta d0 sreg_tables l r
  show ?thesis
  proof (cases "r = 4")
    case False
    consider "m = 0" "r = 5" | "m = 0" "r \<noteq> 5" | "0 < m" by blast
    then show ?thesis
    proof cases
      case 1 then show ?thesis using run False unfolding ea32_def seg32_def Let_def fold eval
        by (auto simp: res split: if_splits)
    next
      case 2 then show ?thesis using run False unfolding ea32_def seg32_def Let_def fold eval
        by (auto simp: res split: if_splits)
    next
      case 3 then show ?thesis using run False unfolding ea32_def seg32_def Let_def fold eval
        by (auto simp: res dest!: displacement32_run)
    qed
  next
    case True
    consider "m = 0" "base = 5" | "m = 0" "base \<noteq> 5" | "0 < m" by blast
    then show ?thesis
    proof cases
      case 1 then show ?thesis using run True unfolding ea32_def seg32_def Let_def fold eval
        by (cases "index = 4") (auto simp: res fold split: if_splits)
    next
      case 2 then show ?thesis using run True unfolding ea32_def seg32_def Let_def fold eval
        by (cases "index = 4") (auto simp: res fold split: if_splits)
    next
      case 3 then show ?thesis using run True unfolding ea32_def seg32_def Let_def fold eval
        by (cases "index = 4") (auto simp: res fold split: if_splits dest!: displacement32_run)
    qed
  qed
qed

text \<open>The same for 16-bit addressing.\<close>

definition ea16_regs :: "nat \<Rightarrow> bx_cpu_c \<Rightarrow> 16 word" where
  "ea16_regs r s = (let reg = (\<lambda>k. reg_rx (gen_reg s k)) in
    [reg 3 + reg 6, reg 3 + reg 7, reg 5 + reg 6, reg 5 + reg 7, reg 6, reg 7, reg 5, reg 3] ! r)"

definition ea16 :: "(nat \<Rightarrow> 8 word) \<Rightarrow> nat \<Rightarrow> bx_cpu_c \<Rightarrow> 32 word" where
  "ea16 f p s =
    (let m = unat (f p) AND 0xc0; r = unat (f p) AND 7 in
     ucast (if m = 0 then (if r = 6 then le_word (bytes_at f (p + 1) 2) else ea16_regs r s)
       else ea16_regs r s + (if m = 0x40 then scast (f (p + 1)) else le_word (bytes_at f (p + 1) 2))))"

definition seg16 :: "(nat \<Rightarrow> 8 word) \<Rightarrow> nat \<Rightarrow> nat" where
  "seg16 f p =
    (let m = unat (f p) AND 0xc0; r = unat (f p) AND 7 in
     if r = 2 \<or> r = 3 \<or> (r = 6 \<and> m \<noteq> 0) then BX_SEG_REG_SS else BX_SEG_REG_DS)"

lemma sreg_tables16:
  "r < 8 \<Longrightarrow> sreg_mod00_rm16 ! r = (if r = 2 \<or> r = 3 then 2 else 3)"
  "r < 8 \<Longrightarrow> sreg_mod01or10_rm16 ! r = (if r = 2 \<or> r = 3 \<or> r = 6 then 2 else 3)"
  by (auto dest!: nat8_cases simp: sreg_mod00_rm16_def sreg_mod01or10_rm16_def)

lemma resolve16_tables:
  assumes "r < 8" "gen_reg s BX_NIL_REGISTER = 0"
  shows "reg_rx (gen_reg s (Resolve16BaseReg ! r)) + reg_rx (gen_reg s (Resolve16IndexReg ! r)) = ea16_regs r s"
    "Resolve16BaseReg ! r < 256" "Resolve16IndexReg ! r < 256" "Resolve16IndexReg ! 6 = BX_NIL_REGISTER"
  using nat8_cases [OF assms(1)] assms(2)
  by (auto simp: Resolve16BaseReg_def Resolve16IndexReg_def ea16_regs_def BX_NIL_REGISTER_def BX_GENERAL_REGISTERS_def
    reg_rx_def Let_def)

lemma modrm16_address:
  fixes f :: "nat \<Rightarrow> 8 word" and p :: nat
  defines "r \<equiv> unat (f p) AND 7" and "m \<equiv> unat (f p) AND 0xc0"
  assumes run: "modrm16 f remain m r d = (Inr (), d')" and p: "dec_ilen d = Suc p"
    and i: "modRMForm_displ32u (dec_instr d) = 0" and nil: "gen_reg s BX_NIL_REGISTER = 0"
  shows "ResolveModrm (dec_instr d') s = (Inr (ea16 f p s), s) \<and> dec_seg d' = seg16 f p"
proof -
  have r: "r < 8" by (simp add: r_def and7_less)
  note tab = resolve16_tables [OF r nil] resolve16_tables [OF _ nil, of 2] resolve16_tables [OF _ nil, of 3]
    sreg_tables16 [OF r]
  have six: "Resolve16BaseReg ! 6 = 5" "ea16_regs 6 s = reg_rx (gen_reg s 5)"
    by (simp_all add: Resolve16BaseReg_def ea16_regs_def)
  have N: "unat (ucast (of_nat BX_NIL_REGISTER :: 32 word) :: 8 word) = BX_NIL_REGISTER"
    by (simp add: BX_NIL_REGISTER_def BX_GENERAL_REGISTERS_def)
  have z: "ucast (0 :: 32 word) = (0 :: 16 word)" "reg_rx 0 = 0" "ucast (set_rx w x) = w" for w x
    using overlay_same(3) [of w x] by (simp_all add: reg_rx_def)
  note fold = r_def [symmetric] m_def [symmetric] Suc_eq_plus1 [symmetric]
  note eval = modrm16_def on_instr_def seqM_apply bindM_apply modifyM_apply whenM_def returnM_apply Let_def
    fetch_bytes_run
  note res = ResolveModrm_def getsM_apply BxResolve16BaseIndex_def BX_READ_16BIT_REG_def displ16s_def
    sibBase_def sibIndex_def p i nil N tab six unat_byte z
  consider "m = 0" "r = 6" | "m = 0" "r \<noteq> 6" | "0 < m" by blast
  then show ?thesis
  proof cases
    case 1 then show ?thesis using run unfolding ea16_def seg16_def Let_def fold eval
      by (auto simp: res sreg_mod00_rm16_def split: if_splits)
  next
    case 2 then show ?thesis using run unfolding ea16_def seg16_def Let_def fold eval
      by (auto simp: res split: if_splits)
  next
    case 3 then show ?thesis using run unfolding ea16_def seg16_def Let_def fold eval
      by (auto simp: res split: if_splits)
  qed
qed

lemma decode_modrm_address:
  assumes run: "decode_modrm f remain byte1 d = (Inr (b2, m), d')" "m \<noteq> 0xc0" and seg: "dec_seg d = 3"
    and nil: "gen_reg s BX_NIL_REGISTER = 0"
  shows "if as32L (dec_instr d) \<noteq> 0
    then ResolveModrm (dec_instr d') s = (Inr (ea32 f (dec_ilen d) s), s) \<and> dec_seg d' = seg32 f (dec_ilen d)
    else ResolveModrm (dec_instr d') s = (Inr (ea16 f (dec_ilen d) s), s) \<and> dec_seg d' = seg16 f (dec_ilen d)"
proof -
  define p where "p = dec_ilen d"
  define b where "b = unat (f p)"
  define d1 where "d1 = d\<lparr>dec_ilen := Suc p, dec_instr := (setMetaData 5 (of_nat BX_NIL_REGISTER) (setMetaData 4 (of_nat (b AND 7))
    (setMetaData 3 (of_nat BX_TMP_REGISTER) (setMetaData 2 (of_nat (drop_bit 3 b AND 7)) (setMetaData 7 (of_nat b) (dec_instr d))))))
      \<lparr>modRMForm_displ32u := 0\<rparr>\<rparr>"
  have a: "as32L (dec_instr d1) = as32L (dec_instr d)" by (simp add: d1_def as32L_def)
  have "(if as32L (dec_instr d1) \<noteq> 0 then modrm32 f remain (b AND 0xc0) (b AND 7) d1
      else modrm16 f remain (b AND 0xc0) (b AND 7) d1) = (Inr (), d')"
    using run unfolding decode_modrm_def on_instr_def
    by (auto simp: monad_simps fetch_bytes_run Let_def p_def b_def d1_def as32L_def
      split: if_splits prod.splits sum.splits)
  moreover have "dec_ilen d1 = Suc p" "dec_seg d1 = 3" "metaData (dec_instr d1) 4 = ucast (of_nat (b AND 7) :: 32 word)"
    "metaData (dec_instr d1) 5 = ucast (of_nat BX_NIL_REGISTER :: 32 word)" "modRMForm_displ32u (dec_instr d1) = 0"
    by (simp_all add: d1_def seg)
  ultimately show ?thesis
    using modrm32_address [of f remain p d1 d' s] modrm16_address [of f remain p d1 d' s] nil
    by (simp add: a p_def [symmetric] b_def split: if_splits)
qed

end
