(* ===== verification/Sample.thy ===== *)
theory Sample
  imports RestartStack Decode
begin

text \<open>
  A small concrete machine, for the applications of the theorems to an input: a
  protected-mode processor at privilege level 0 with flat 32-bit segments and 1M of
  memory.  \<open>sample_paged\<close> is the same machine at privilege level 3 with paging on and
  the first 4M mapped onto themselves by one large page.
\<close>

definition sample_segment :: "8 word \<Rightarrow> 8 word \<Rightarrow> bx_segment_reg_t" where
  "sample_segment pl type = \<lparr>
    selector = \<lparr>sel_value = 8, sel_index = 1, sel_ti = 0, sel_rpl = pl\<rparr>,
    cache = \<lparr>valid = 1, d_p = 1, d_dpl = pl, d_segment = 1, d_type = type, seg_base = 0,
      limit_scaled = 0xffffffff, seg_g = 1, seg_d_b = 1, seg_avl = 0, gate_param_count = 0,
      gate_dest_selector = 0, gate_dest_offset = 0, taskgate_tss_selector = 0\<rparr>\<rparr>"

definition sample_cpu :: bx_cpu_c where
  "sample_cpu = \<lparr>
    gen_reg = (\<lambda>r. if r = 4 then 0x8000 else 0), eflags = 2, lf_flags_status = 0, oszapc = lf_none,
    prev_rip = 0, prev_rsp = 0, speculative_rsp = 0, inhibit_mask = 0,
    sregs = (\<lambda>k. sample_segment 0 (if k = 1 then 11 else 3)),
    gdtr = \<lparr>gseg_base = 0x500, gseg_limit = 0xff\<rparr>, idtr = \<lparr>gseg_base = 0, gseg_limit = 0x3ff\<rparr>,
    ldtr = sample_segment 0 2, task_reg = sample_segment 0 11, dr = (\<lambda>_. 0), dr6 = 0, dr7 = 0,
    cr0 = 0x11, cr2 = 0, cr3 = 0x1000, cr4 = 0x10,
    smbase = 0x30000, EXT = 0, errorno = 0, activity_state = 0, debug_trap = 0, async_event = 0,
    cpu_mode = 2, user_pl = 0, curr_exception = 0, in_smm = 0, pending_SMI = 0, pending_NMI = 0, pending_INIT = 0,
    disable_SMI = 0, disable_NMI = 0, disable_INIT = 0, eipPageBias = 0, eipPageWindowSize = 0, eipFetchPtr = 0,
    alignment_check_mask = 0,
    TLB_entry = (\<lambda>_. \<lparr>tlb_lpf = 0xffffffff, tlb_ppf = 0, hostPageAddr = 0, accessBits = 0, tlb_lpf_mask = 0\<rparr>),
    TLB_split_large = 0,
    address_xlation = \<lparr>rm_addr = 0, paddress1 = 0, paddress2 = 0, len1 = 0, len2 = 0, pages = 0\<rparr>,
    fetchModeMask = 0, pageWriteStampTable = (\<lambda>_. 0),
    bx_mem = \<lparr>vector = (\<lambda>a. if a = 0x1000 then 0x87 else 0), mem_len = 0x100000, elsewhere = (\<lambda>_. False)\<rparr>\<rparr>"

definition sample_paged :: bx_cpu_c where
  "sample_paged = sample_cpu\<lparr>cr0 := 0x80000011, user_pl := 1,
    sregs := (\<lambda>k. sample_segment 3 (if k = 1 then 11 else 3))\<rparr>"

definition sample_instr :: bxInstruction_c where
  "sample_instr = \<lparr>resolve_ptr = BxResolve32Base_ptr, ia_opcode = 0, metaInfo2 = 2, metaInfo1 = 0x18,
    metaData = (\<lambda>k. if k = 0 then 3 else if k = 2 then 1 else if k = 3 then 2 else 0),
    modRMForm_Id = 0x10, modRMForm_displ32u = 0x2000\<rparr>"

lemmas sample_defs = sample_cpu_def sample_segment_def sample_instr_def

lemma sample_caches: "seg_caches_ok sample_cpu" "seg_caches_ok sample_paged"
  by (simp_all add: seg_caches_ok_def seg_cache_ok_def sample_paged_def sample_defs SegAccessROK_def SegAccessWOK_def)

lemma sample_bounds: "seg_allows type_writable (sample_segment pl 3) offset 4 \<longleftrightarrow> unat offset + 3 \<le> 0xffffffff"
  using all_bounds_iff [of 4 "sample_segment pl 3" offset]
  by (simp add: seg_allows_def type_writable_def type_expand_down_def sample_segment_def)

lemma sample_walk: "walk sample_cpu laddr user wr = Inr laddr"
  by (simp add: walk_def paging_on_def sample_cpu_def)

text \<open>A store and a push on the sample machine succeed.\<close>

lemmas sample_access_defs = check_segment_def write_virtual_checks_def check_alignment_def assert_legacy_mode_def
  BX_ASSERT_def beyond_limit_def access_write_linear_def dtranslate_linear_def translate_linear_def xlation_def
  access_write_physical_run phys_okI mem_mapped_def alignment_check_def get_laddr32_def cr0_get_PG_def get_bit32_def
  PAGE_OFFSET_def LPFOf_def mark_valid_def SegAccessROK_def SegAccessWOK_def CPL_def monad_simps

lemma sample_store: "fst (write_virtual_dword_32 3 0x2000 v sample_cpu) = Inr ()"
  by (simp add: write_virtual_dword_32_def sample_access_defs sample_defs)

lemma sample_push: "fst (push_32 v sample_cpu) = Inr ()"
  by (simp add: push_32_def write_virtual_dword_32_def reg_defs sample_access_defs sample_defs)

lemma sample_entries:
  "mem_entry sample_paged 0x1000 = 0x87" "mem_entry sample_paged 0x1004 = 0"
  by (simp_all add: mem_entry_def load_bytes_def le_word_def sample_paged_def sample_cpu_def upt_rec)

lemma sample_control:
  "paging_on sample_paged" "pse_on sample_paged" "\<not> wp_on sample_paged"
  "pde_address sample_paged laddr = 0x1000 OR drop_bit 20 (laddr AND 0xffc00000)"
  "unat a + n \<le> 0x101000 \<Longrightarrow> phys_ok a n sample_paged" "unat a + n \<le> 0x101000 \<Longrightarrow> phys_ok a n sample_cpu"
  by (simp_all add: paging_on_def pse_on_def wp_on_def pde_address_def phys_okI mem_mapped_def sample_paged_def sample_cpu_def)

lemma sample_reserved: "\<not> (\<exists>k \<in> {13..<22}. bit (0x87 :: 32 word) k)"
  using reserved_iff [of "0x87"] by (simp add: PAGING_PDE4M_RESERVED_BITS_def)

lemma sample_paged_walk:
  "walk sample_paged 0x2345 True wr = Inr 0x2345" "walk sample_paged 0x3ffffe True wr = Inr 0x3ffffe"
  "walk sample_paged 0x400000 True wr = Inl (Exception 14 (4 + 2 * of_bool wr))"
  by (simp_all add: walk_def walk_4M_def page_allows_def pf_fault_def sample_control sample_entries sample_reserved [simplified] Let_def)

end
