(* ===== verification/AluClaims.thy ===== *)
theory AluClaims
  imports Sample
begin

text \<open>
  What the arithmetic core promises: the flags, the register file and the
  read-modify-write instructions on registers.
\<close>

section \<open>Flags\<close>

text \<open>C10: For 8, 16 and 32 bit operands, the flags computed lazily after an ADD or ADC
  and after a SUB, SBB or CMP are the architectural flags of the addition with carry
  and of the subtraction with borrow: CF, PF, AF, ZF, SF and OF.\<close>

theorem lazy_flags_arithmetic:
  "flags_of (SET_FLAGS_OSZAPC_8 a8 b8 (a8 + b8 + of_bool c) (BX_LF_INSTR_ADD_ADC8 (of_bool c)) s) = ref_add_flags a8 b8 c \<and>
   flags_of (SET_FLAGS_OSZAPC_16 a16 b16 (a16 + b16 + of_bool c) (BX_LF_INSTR_ADD_ADC16 (of_bool c)) s) = ref_add_flags a16 b16 c \<and>
   flags_of (SET_FLAGS_OSZAPC_32 a32 b32 (a32 + b32 + of_bool c) (BX_LF_INSTR_ADD_ADC32 (of_bool c)) s) = ref_add_flags a32 b32 c \<and>
   flags_of (SET_FLAGS_OSZAPC_8 a8 b8 (a8 - b8 - of_bool c) (BX_LF_INSTR_SUB_SBB8 (of_bool c)) s) = ref_sub_flags a8 b8 c \<and>
   flags_of (SET_FLAGS_OSZAPC_16 a16 b16 (a16 - b16 - of_bool c) (BX_LF_INSTR_SUB_SBB16 (of_bool c)) s) = ref_sub_flags a16 b16 c \<and>
   flags_of (SET_FLAGS_OSZAPC_32 a32 b32 (a32 - b32 - of_bool c) (BX_LF_INSTR_SUB_SBB32 (of_bool c)) s) = ref_sub_flags a32 b32 c"
  unfolding set_flags_defs adc_instr_codes
  by (intro conjI lf8.addc_flags lf16.addc_flags lf32.addc_flags lf8.subb_flags lf16.subb_flags lf32.subb_flags refl)

text \<open>C11: After INC and DEC the flags are those of adding or subtracting one, except
  that CF keeps the value it had, even when it was still pending; after NEG they are
  those of subtracting from zero; after a logical operation CF, OF and AF are clear
  and the others describe the result.\<close>

theorem lazy_flags_unary:
  "flags_of (SET_FLAGS_OSZAPC_INC_8 (a8 + 1) s) = (ref_add_flags a8 1 False)\<lparr>fCF := fCF (flags_of s)\<rparr> \<and>
   flags_of (SET_FLAGS_OSZAPC_INC_16 (a16 + 1) s) = (ref_add_flags a16 1 False)\<lparr>fCF := fCF (flags_of s)\<rparr> \<and>
   flags_of (SET_FLAGS_OSZAPC_INC_32 (a32 + 1) s) = (ref_add_flags a32 1 False)\<lparr>fCF := fCF (flags_of s)\<rparr> \<and>
   flags_of (SET_FLAGS_OSZAPC_DEC_8 (a8 - 1) s) = (ref_sub_flags a8 1 False)\<lparr>fCF := fCF (flags_of s)\<rparr> \<and>
   flags_of (SET_FLAGS_OSZAPC_DEC_16 (a16 - 1) s) = (ref_sub_flags a16 1 False)\<lparr>fCF := fCF (flags_of s)\<rparr> \<and>
   flags_of (SET_FLAGS_OSZAPC_DEC_32 (a32 - 1) s) = (ref_sub_flags a32 1 False)\<lparr>fCF := fCF (flags_of s)\<rparr> \<and>
   flags_of (SET_FLAGS_OSZAPC_RESULT_32 (- a32) BX_LF_INSTR_NEG32 s) = ref_sub_flags 0 a32 False \<and>
   flags_of (SET_FLAGS_OSZAPC_RESULT_16 (- a16) BX_LF_INSTR_NEG16 s) = ref_sub_flags 0 a16 False \<and>
   flags_of (SET_FLAGS_OSZAPC_RESULT_8 (- a8) BX_LF_INSTR_NEG8 s) = ref_sub_flags 0 a8 False \<and>
   flags_of (SET_FLAGS_OSZAPC_LOGIC_8 a8 s) = ref_logic_flags a8 \<and>
   flags_of (SET_FLAGS_OSZAPC_LOGIC_16 a16 s) = ref_logic_flags a16 \<and>
   flags_of (SET_FLAGS_OSZAPC_LOGIC_32 a32 s) = ref_logic_flags a32"
  unfolding set_flags_defs
  by (intro conjI lf8.inc_flags lf16.inc_flags lf32.inc_flags lf8.dec_flags lf16.dec_flags lf32.dec_flags
    lf8.neg_flags lf16.neg_flags lf32.neg_flags lf8.logic_flags lf16.logic_flags lf32.logic_flags)

text \<open>C12: Forcing the flags puts the six pending arithmetic flags into EFLAGS, leaves every
  other bit of EFLAGS and every other part of the state alone, and nothing stays
  pending.\<close>

theorem force_flags_exact:
  "fst (force_flags s) = (eflags s AND NOT EFlagsOSZAPCMask) OR flags_word (flags_of s) \<and>
   snd (force_flags s) = s\<lparr>eflags := fst (force_flags s), lf_flags_status := 0\<rparr>"
proof -
  have "eflags (materialise s) = (eflags s AND NOT EFlagsOSZAPCMask) OR flags_word (flags_of s)"
    unfolding materialise_eq put_flags_def by simp
  then have e: "eflags (snd (force_flags s)) = (eflags s AND NOT EFlagsOSZAPCMask) OR flags_word (flags_of s)"
    unfolding materialise_def by simp
  obtain w where w: "snd (force_flags s) = s\<lparr>eflags := w, lf_flags_status := 0\<rparr>"
  proof (cases "lf_flags_status s = 0")
    case True
    then have "snd (force_flags s) = s" unfolding force_flags_def Let_def by simp
    moreover have "s = s\<lparr>eflags := eflags s, lf_flags_status := 0\<rparr>" using True by (cases s) simp
    ultimately show ?thesis using that by metis
  next
    case False
    then show ?thesis using that unfolding force_flags_def setEFlagsOSZAPC_def Let_def by force
  qed
  have "fst (force_flags s) = eflags (snd (force_flags s))" unfolding force_flags_def Let_def by simp
  then show ?thesis using e w by simp
qed

section \<open>Registers\<close>

lemma high_byte_index: "k < 8 \<Longrightarrow> k AND 4 = 0 \<longleftrightarrow> k < (4 :: nat)"
  by (auto dest!: nat8_cases)

text \<open>The eight byte registers are independent cells: a write to one is read back from it
  and from no other, and it never touches the upper half of a 32-bit register.\<close>

lemma byte_registers:
  assumes "k < 8" "j < 8"
  shows "BX_READ_8BIT_REG j (BX_WRITE_8BIT_REG k v s) = (if j = k then v else BX_READ_8BIT_REG j s) \<and>
    drop_bit 16 (gen_reg (BX_WRITE_8BIT_REG k v s) r) = drop_bit 16 (gen_reg s r)"
  using high_byte_index [OF assms(1)] high_byte_index [OF assms(2)]
  by (auto simp: BX_READ_8BIT_REG_def BX_WRITE_8BIT_REG_def)

lemma byte_registers_witness:
  "BX_READ_8BIT_REG 0 (BX_WRITE_8BIT_REG 4 0x5a sample_cpu) = BX_READ_8BIT_REG 0 sample_cpu \<and>
   BX_READ_8BIT_REG 4 (BX_WRITE_8BIT_REG 4 0x5a sample_cpu) = 0x5a"
  using byte_registers [of 4 0 "0x5a" sample_cpu 0] byte_registers [of 4 4 "0x5a" sample_cpu 0] by simp

text \<open>Exchanging two 32-bit or two 16-bit registers twice gives the state back.\<close>

lemma xchg_involution:
  "seqM (XCHG_EdGdR i) (XCHG_EdGdR i) s = (Inr (), s) \<and> seqM (XCHG_EwGwR i) (XCHG_EwGwR i) s = (Inr (), s)"
  by (cases "rm i = nnn i")
    (simp_all add: XCHG_EdGdR_def XCHG_EwGwR_def monad_simps reg_defs fun_upd_twist [of "rm i"])

text \<open>The flags a 32-bit compare leaves.\<close>

lemma sub32_flags:
  "flags_of (SET_FLAGS_OSZAPC_SUB_32 a b (a - b) s) = ref_sub_flags a b False"
  "flags_of (SET_FLAGS_OSZAPC_SUB_32 a a 0 s) = ref_sub_flags a a False"
  "gen_reg (SET_FLAGS_OSZAPC_SUB_32 a b c s) = gen_reg s" "sregs (SET_FLAGS_OSZAPC_SUB_32 a b c s) = sregs s"
proof -
  show f: "flags_of (SET_FLAGS_OSZAPC_SUB_32 a b (a - b) s) = ref_sub_flags a b False" for a b
    unfolding set_flags_defs using lf32.subb_flags [of BX_LF_INSTR_SUB32 False] by simp
  show "flags_of (SET_FLAGS_OSZAPC_SUB_32 a a 0 s) = ref_sub_flags a a False" using f [of a a] by simp
  show "gen_reg (SET_FLAGS_OSZAPC_SUB_32 a b c s) = gen_reg s" "sregs (SET_FLAGS_OSZAPC_SUB_32 a b c s) = sregs s"
    by (simp_all add: set_flags_defs SET_FLAGS_OSZAPC_SIZE_def)
qed

text \<open>CMPXCHG on registers compares the accumulator with the destination: on a match the
  destination gets the source and ZF is set, otherwise the accumulator gets the
  destination and ZF is clear; no other register changes.\<close>

lemma cmpxchg_exact:
  "case CMPXCHG_EdGdR i s of (r, s') \<Rightarrow>
    r = Inr () \<and> (fZF (flags_of s') \<longleftrightarrow> EAX s = gen_reg s (rm i)) \<and>
    gen_reg s' = (if EAX s = gen_reg s (rm i) then (gen_reg s)(rm i := gen_reg s (nnn i))
      else (gen_reg s)(0 := gen_reg s (rm i)))"
proof -
  have g: "flags_of (t\<lparr>gen_reg := x\<rparr>) = flags_of t" for x t by (rule flags_of_cong) simp_all
  have z: "fZF (ref_sub_flags a b False) \<longleftrightarrow> a = b" for a b :: "32 word" by (simp add: ref_sub_flags_def Let_def)
  show ?thesis
    by (cases "EAX s = gen_reg s (rm i)")
      (simp_all add: CMPXCHG_EdGdR_def monad_simps Let_def BX_READ_32BIT_REG_def BX_WRITE_32BIT_REGZ_def set_EAX_def
        sub32_flags g z)
qed

section \<open>Features\<close>

text \<open>An opcode whose features the configured processor lacks raises #UD and changes
  nothing; every other opcode keeps its handler.\<close>

lemma missing_features_raise_UD:
  assumes "n < length tab" "tab ! n = (name, ex, f)"
  shows "case init_FetchDecodeTables features tab ! n of (name', ex', f') \<Rightarrow>
    name' = name \<and> f' = f \<and>
    (if f \<noteq> 0 \<and> f AND features = 0 then ex' i s = (Inl (Exception BX_UD_EXCEPTION 0), s) else ex' i s = ex i s)"
  using assms by (simp add: init_FetchDecodeTables_def BxError_def monad_simps)

lemma missing_features_raise_UD_witness:
  "fst (snd (init_FetchDecodeTables BX_CPU_486 [(''BX_IA_CMPXCHG8B'', CMPXCHG8B, BX_CPU_PENTIUM)] ! 0)) sample_instr sample_cpu
    = (Inl (Exception BX_UD_EXCEPTION 0), sample_cpu)"
  using missing_features_raise_UD [of 0 "[(''BX_IA_CMPXCHG8B'', CMPXCHG8B, BX_CPU_PENTIUM)]" "''BX_IA_CMPXCHG8B''" CMPXCHG8B
      BX_CPU_PENTIUM BX_CPU_486 sample_instr sample_cpu]
  by (simp add: BX_CPU_486_def BX_CPU_PENTIUM_def split: prod.splits)

end
