(* ===== verification/MemClaims.thy ===== *)
theory MemClaims
  imports Sample
begin

text \<open>
  What the memory system promises: paging, segmentation, and the accesses that go
  through both to physical memory.
\<close>

section \<open>Paging\<close>

text \<open>C13: Address translation is the architectural walk of the page tables: it returns what
  the walk gives for the privilege level and kind of access; a page fault records the
  address in CR2 and changes nothing else.\<close>

theorem translation_is_walk:
  "translate_linear laddr curr_pl rw s =
    (case walk s laddr (curr_pl = 3) (bit rw 0) of
       Inr pa \<Rightarrow> (Inr pa, walk_state s laddr (bit rw 0))
     | Inl (Exception v c) \<Rightarrow> (Inl (Exception v c), s\<lparr>cr2 := laddr\<rparr>)
     | Inl f \<Rightarrow> (Inl f, s))"
  by (rule translate_linear_run)

text \<open>C14: Protection: with paging on, a translation for user mode succeeds only if every
  entry that maps the page allows user access and, for a write, is writable; for the
  supervisor a write with CR0.WP set succeeds only if they are writable.  The offset
  within the page is kept.\<close>

theorem page_protection:
  assumes "translate_linear laddr curr_pl rw s = (Inr pa, s')" "paging_on s" "a \<in> set (walk_entries s laddr)"
  shows "bit (mem_entry s a) 0 \<and> (curr_pl = 3 \<longrightarrow> bit (mem_entry s a) 2) \<and>
    (bit rw 0 \<and> (curr_pl = 3 \<or> wp_on s) \<longrightarrow> bit (mem_entry s a) 1) \<and> pa AND 0xfff = laddr AND 0xfff"
proof -
  have w: "walk s laddr (curr_pl = 3) (bit rw 0) = Inr pa"
    using assms(1) unfolding translate_linear_run by (auto split: sum.splits fault.splits)
  show ?thesis using walk_offset [OF w] w assms(2,3)
    unfolding walk_def walk_4M_def walk_4K_def page_allows_def walk_entries_def Let_def
    by (auto split: if_splits)
qed

theorem page_protection_witness:
  "bit (mem_entry sample_paged 0x1000) 2 \<and> bit (mem_entry sample_paged 0x1000) 1"
proof -
  have t: "translate_linear 0x2345 3 BX_WRITE sample_paged = (Inr 0x2345, snd (translate_linear 0x2345 3 BX_WRITE sample_paged))"
    by (simp add: translate_linear_run sample_paged_walk)
  show ?thesis using page_protection [OF t, of "0x1000"]
    by (simp add: walk_entries_def paging_on_def sample_paged_def sample_cpu_def pde_address_def Let_def)
qed

text \<open>C15: A page fault reports its cause: vector 14, an error code whose bit 1 says the access
  was a write and bit 2 that it came from user mode, and CR2 holds the address.\<close>

theorem page_fault_report:
  assumes "translate_linear laddr curr_pl rw s = (Inl (Exception v c), s')"
  shows "v = BX_PF_EXCEPTION \<and> bit c 1 = bit rw 0 \<and> bit c 2 = (curr_pl = 3) \<and> c < 16 \<and> s' = s\<lparr>cr2 := laddr\<rparr>"
proof -
  have w: "walk s laddr (curr_pl = 3) (bit rw 0) = Inl (Exception v c)" and s': "s' = s\<lparr>cr2 := laddr\<rparr>"
    using assms unfolding translate_linear_run by (auto split: sum.splits fault.splits)
  then obtain p r where "pf_fault p r (curr_pl = 3) (bit rw 0) = Exception v c"
    unfolding walk_def walk_4M_def walk_4K_def Let_def by (auto split: if_splits)
  then show ?thesis using s' by (cases p; cases r; cases "curr_pl = 3"; cases "bit rw 0") (auto simp: pf_fault_def bit_simps)
qed

theorem page_fault_report_witness:
  "snd (translate_linear 0x400000 3 BX_WRITE sample_paged) = sample_paged\<lparr>cr2 := 0x400000\<rparr>"
proof -
  have t: "translate_linear 0x400000 3 BX_WRITE sample_paged =
      (Inl (Exception 14 6), snd (translate_linear 0x400000 3 BX_WRITE sample_paged))"
    by (simp add: translate_linear_run sample_paged_walk)
  show ?thesis using page_fault_report [OF t] by simp
qed

text \<open>C16: A translation changes memory only by setting accessed bits and, for a write, dirty
  bits, and no later translation of any address for any access is affected.\<close>

theorem translation_keeps_translations:
  "same_but_AD s (snd (translate_linear laddr pl rw s)) \<and>
   walk (snd (translate_linear laddr pl rw s)) laddr' user' wr' = walk s laddr' user' wr'"
proof -
  have c: "walk (s\<lparr>cr2 := x\<rparr>) laddr' user' wr' = walk s laddr' user' wr'" for x
    by (simp add: walk_def walk_4K_def paging_on_def pse_on_def wp_on_def pde_address_def mem_entry_def phys_ok_def Let_def)
  show ?thesis using translate_AD [of s laddr pl rw]
    by (simp add: translate_linear_run walk_unchanged c split: sum.split fault.split)
qed

lemma walk_xlation: "walk (s\<lparr>address_xlation := x\<rparr>) laddr user wr = walk s laddr user wr"
  by (simp add: walk_def walk_4K_def paging_on_def pse_on_def wp_on_def pde_address_def mem_entry_def phys_ok_def Let_def)

text \<open>C20: A linear write that raises an exception has written none of its data, even when it
  crosses into a second page: memory is as before but for accessed and dirty bits.\<close>

theorem faulting_write_writes_nothing:
  assumes "access_write_linear laddr pl data s = (Inl (Exception v c), s')"
  shows "same_but_AD s s'"
  using assms by (rule write_linear_fault)

theorem faulting_write_writes_nothing_witness:
  "same_but_AD sample_paged (snd (access_write_linear 0x3ffffe 3 [1, 2, 3, 4] sample_paged))"
proof -
  have "fst (access_write_linear 0x3ffffe 3 [1, 2, 3, 4] sample_paged) = Inl (Exception 14 6)"
    unfolding access_write_linear_def dtranslate_linear_def Let_def bindM_apply seqM_apply xlation_run translate_linear_run
    by (simp add: sample_paged_walk walk_unchanged walk_xlation PAGE_OFFSET_def)
  then have "access_write_linear 0x3ffffe 3 [1, 2, 3, 4] sample_paged =
      (Inl (Exception 14 6), snd (access_write_linear 0x3ffffe 3 [1, 2, 3, 4] sample_paged))"
    by (metis prod.collapse)
  then show ?thesis by (rule faulting_write_writes_nothing)
qed

section \<open>Segmentation\<close>

text \<open>C17: The full segment checks are the architectural rule: a write, read or fetch of n
  bytes passes exactly when the segment is valid, present and of a type that allows it
  and every byte lies within its bounds, without wrap-around; expand-down segments
  included.\<close>

theorem segment_checks_exact:
  assumes "d_type (cache sr) < 16" "0 < n" "n < 2 ^ 32"
  shows "(fst (write_virtual_checks sr offset (of_nat n)) \<longleftrightarrow> seg_allows type_writable sr offset n) \<and>
    (fst (read_virtual_checks sr offset (of_nat n)) \<longleftrightarrow> seg_allows type_readable sr offset n) \<and>
    (fst (execute_virtual_checks sr offset (of_nat n)) \<longleftrightarrow> seg_allows (\<lambda>_. True) sr offset n)"
proof -
  have "fst (execute_virtual_checks sr offset (of_nat n)) \<longleftrightarrow> seg_allows (\<lambda>_. True) sr offset n"
    using type_cases16 [OF assms(1)]
    unfolding execute_virtual_checks_def seg_allows_def all_bounds_iff [OF assms(2)] type_expand_down_def Let_def
    by (elim insertE emptyE) (simp_all add: beyond_limit_iff [OF assms(2,3)] beyond_limit_ED_iff [OF assms(2,3)] not_less)
  then show ?thesis using write_checks_iff [OF assms] read_checks_iff [OF assms] by simp
qed

theorem segment_checks_exact_witness:
  "fst (write_virtual_checks (sample_segment 0 3) 0xfffffffd 4) = False \<and>
   fst (write_virtual_checks (sample_segment 0 3) 0xfffffffc 4) = True"
proof -
  have t: "d_type (cache (sample_segment 0 3)) < 16" by (simp add: sample_segment_def)
  show ?thesis
    using segment_checks_exact [OF t, of 4 "0xfffffffd"] segment_checks_exact [OF t, of 4 "0xfffffffc"]
    by (simp add: sample_bounds)
qed

text \<open>C18: Reads and writes through a segment register, at 1, 2, 4 and 8 bytes, do exactly what
  the architecture asks for: #SS or #GP when the segment rule fails, #AC when the access
  is misaligned and alignment is checked, the linear access at the current privilege
  level otherwise.  The access rights cached in the descriptor, which replace the full
  check by one comparison, never change the outcome.\<close>

theorem segmented_accesses:
  assumes "seg_caches_ok s" "cpu_mode s \<noteq> BX_MODE_LONG_64"
  shows "(\<exists>b. write_virtual_byte_32 k offset v8 s = segmented_access type_writable 1 0 k offset
      (\<lambda>laddr pl. access_write_linear laddr pl (le_bytes 1 v8)) b s) \<and>
    (\<exists>b. write_virtual_word_32 k offset v16 s = segmented_access type_writable 2 1 k offset
      (\<lambda>laddr pl. access_write_linear laddr pl (le_bytes 2 v16)) b s) \<and>
    (\<exists>b. write_virtual_dword_32 k offset v32 s = segmented_access type_writable 4 3 k offset
      (\<lambda>laddr pl. access_write_linear laddr pl (le_bytes 4 v32)) b s) \<and>
    (\<exists>b. write_virtual_qword_32 k offset v64 s = segmented_access type_writable 8 7 k offset
      (\<lambda>laddr pl. access_write_linear laddr pl (le_bytes 8 v64)) b s) \<and>
    (\<exists>b. read_virtual_byte_32 k offset s = segmented_access type_readable 1 0 k offset
      (\<lambda>laddr pl. bindM (access_read_linear laddr 1 pl BX_READ) (\<lambda>bs. returnM (le_word bs))) b s) \<and>
    (\<exists>b. read_virtual_word_32 k offset s = segmented_access type_readable 2 1 k offset
      (\<lambda>laddr pl. bindM (access_read_linear laddr 2 pl BX_READ) (\<lambda>bs. returnM (le_word bs))) b s) \<and>
    (\<exists>b. read_virtual_dword_32 k offset s = segmented_access type_readable 4 3 k offset
      (\<lambda>laddr pl. bindM (access_read_linear laddr 4 pl BX_READ) (\<lambda>bs. returnM (le_word bs))) b s) \<and>
    (\<exists>b. read_virtual_qword_32 k offset s = segmented_access type_readable 8 7 k offset
      (\<lambda>laddr pl. bindM (access_read_linear laddr 8 pl BX_READ) (\<lambda>bs. returnM (le_word bs))) b s)"
  using assms by (intro conjI write_accessors_run read_accessors_run)

theorem segmented_accesses_witness:
  "fst (write_virtual_dword_32 2 0xfffffffd 7 sample_cpu) = Inl (Exception BX_SS_EXCEPTION 0)"
proof -
  have "seg_allows type_writable (sregs sample_cpu 2) 0xfffffffd 4 = False"
    by (simp add: sample_bounds sample_cpu_def)
  then show ?thesis
    using segmented_accesses [OF sample_caches(1), of 2 "0xfffffffd" 0 0 7 0]
    by (auto simp: segmented_access_def Let_def int_number_def sample_cpu_def)
qed

text \<open>C19: A double word stored through a segment is read back, provided it lies within a page
  and does not overwrite the page table entries that translate it.\<close>

theorem store_load_roundtrip:
  assumes "write_virtual_dword_32 k offset v s = (Inr (), s')" "seg_caches_ok s" "cpu_mode s \<noteq> BX_MODE_LONG_64"
    and "laddr = seg_base (cache (sregs s k)) + offset" "PAGE_OFFSET laddr + 4 \<le> 4096"
    and "walk s laddr (CPL s = 3) True = Inr pa" "clear_of_tables s laddr pa 4"
  shows "fst (read_virtual_dword_32 k offset s') = Inr v"
proof -
  obtain b where w: "segmented_access type_writable 4 3 k offset (\<lambda>laddr pl. access_write_linear laddr pl (le_bytes 4 v)) b s
      = (Inr (), s')"
    using write_accessors_run(3) [OF assms(2,3), of k offset v] assms(1) by metis
  have "sys_inv (sys_view s) s'"
    using keepsD [OF keeps_accessors(3), of "sys_view s" s k offset v] assms(1,2) by (simp add: sys_inv_def)
  then have "seg_caches_ok s'" "cpu_mode s' \<noteq> BX_MODE_LONG_64"
    using assms(3) sys_view_fields(5) [of s' s] by (auto simp: sys_inv_def)
  then obtain b' where "read_virtual_dword_32 k offset s' = segmented_access type_readable 4 3 k offset
      (\<lambda>laddr pl. bindM (access_read_linear laddr 4 pl BX_READ) (\<lambda>bs. returnM (le_word bs))) b' s'"
    using read_accessors_run(3) by blast
  then have "fst (read_virtual_dword_32 k offset s') = Inr (le_word (le_bytes 4 v))"
    using segmented_roundtrip [of "le_bytes 4 v" 3 k offset b s s' laddr pa b'] w assms(4-7) by simp
  then show ?thesis by (simp add: le_word_bytes)
qed

theorem store_load_roundtrip_witness:
  "fst (read_virtual_dword_32 3 0x2000 (snd (write_virtual_dword_32 3 0x2000 0xdeadbeef sample_cpu))) = Inr 0xdeadbeef"
proof -
  have w: "write_virtual_dword_32 3 0x2000 0xdeadbeef sample_cpu =
      (Inr (), snd (write_virtual_dword_32 3 0x2000 0xdeadbeef sample_cpu))"
    using sample_store [of "0xdeadbeef"] by (metis prod.collapse)
  show ?thesis
    using store_load_roundtrip [OF w sample_caches(1), of "0x2000" "0x2000"] sample_walk
    by (simp add: sample_defs PAGE_OFFSET_def clear_of_tables_def walk_entries_def paging_on_def)
qed

text \<open>C21: For words, double words and quad words, the two halves of a read-modify-write access
  do together what a plain write does: when the write succeeds, reading for modification
  and writing back succeed with the same state; when it raises an exception, so do they,
  the same one with the same state.  Bytes are different: their read half consults
  the TLB.\<close>

theorem rmw_is_write:
  assumes "r = Inr () \<or> (\<exists>v c. r = Inl (Exception v c))"
  shows "(write_virtual_word_32 k offset v16 s = (r, s') \<longrightarrow>
      bindM (read_RMW_virtual_word_32 k offset) (\<lambda>_. write_RMW_virtual_word v16) s = (r, s')) \<and>
   (write_virtual_dword_32 k offset v32 s = (r, s') \<longrightarrow>
      bindM (read_RMW_virtual_dword_32 k offset) (\<lambda>_. write_RMW_virtual_dword v32) s = (r, s')) \<and>
   (write_virtual_qword_32 k offset v64 s = (r, s') \<longrightarrow>
      bindM (read_RMW_virtual_qword_32 k offset) (\<lambda>_. write_RMW_virtual_qword v64) s = (r, s'))"
  using rmw_accessors [OF assms] by blast

theorem rmw_is_write_witness:
  "bindM (read_RMW_virtual_dword_32 3 0x2000) (\<lambda>_. write_RMW_virtual_dword 7) sample_cpu =
    (Inr (), snd (write_virtual_dword_32 3 0x2000 7 sample_cpu)) \<and>
   fst (bindM (read_RMW_virtual_dword_32 2 0xfffffffd) (\<lambda>_. write_RMW_virtual_dword 7) sample_cpu) =
    Inl (Exception BX_SS_EXCEPTION 0)"
proof -
  have "seg_allows type_writable (sregs sample_cpu 2) 0xfffffffd 4 = False"
    by (simp add: sample_bounds sample_cpu_def)
  then have f: "fst (write_virtual_dword_32 2 0xfffffffd 7 sample_cpu) = Inl (Exception BX_SS_EXCEPTION 0)"
    using write_accessors_run(3) [OF sample_caches(1), of 2 "0xfffffffd" 7]
    by (auto simp: segmented_access_def Let_def int_number_def sample_cpu_def)
  show ?thesis
    using rmw_is_write [of "Inr ()" 3 "0x2000" 0 sample_cpu "snd (write_virtual_dword_32 3 0x2000 7 sample_cpu)" 7 0]
      rmw_is_write [of "Inl (Exception BX_SS_EXCEPTION 0)" 2 "0xfffffffd" 0 sample_cpu
        "snd (write_virtual_dword_32 2 0xfffffffd 7 sample_cpu)" 7 0] sample_store [of 7] f
    by (metis fst_conv prod.collapse)
qed

section \<open>Where the build departs from its intent\<close>

text \<open>C38: The read half of a byte read-modify-write access consults the TLB, which this build
  never fills: when the entry of linear page 0 is still zero, an access to that page
  that passes its checks dereferences an address outside guest memory.\<close>

theorem rmw_byte_hits_empty_tlb:
  assumes "seg_caches_ok s" "cpu_mode s \<noteq> BX_MODE_LONG_64" "seg_allows type_writable (sregs s k) offset 1"
    and "get_laddr32 k offset s = laddr" "laddr < 0x1000"
    and "TLB_entry s 0 = \<lparr>tlb_lpf = 0, tlb_ppf = 0, hostPageAddr = 0, accessBits = 0, tlb_lpf_mask = 0\<rparr>"
  shows "fst (read_RMW_virtual_byte_32 k offset s) = Inl (HostFault laddr)"
proof -
  obtain b where c: "check_segment write_virtual_checks SegAccessWOK (\<lambda>l. offset \<le> l) k offset 1 s =
      (Inr (), s\<lparr>sregs := (sregs s)(k := mark_valid b (sregs s k))\<rparr>)"
    using w1.run [of s k offset] assms(1,3) by (auto simp: seg_caches_ok_def)
  have l: "laddr AND 0xfffff000 = 0" "drop_bit 12 laddr = 0" "laddr AND 0xfff = laddr"
  proof -
    have "unat (take_bit 12 laddr) = unat laddr" using assms(5) by (simp add: unsigned_take_bit_eq word_less_nat_alt take_bit_nat_eq_self)
    then have "take_bit 12 laddr = laddr" by (rule unsigned_word_eqI)
    then have low: "bit laddr n \<Longrightarrow> n < 12" for n by (metis bit_take_bit_iff)
    show "laddr AND 0xfffff000 = 0" "laddr AND 0xfff = laddr"
      by (rule bit_word_eqI, simp only: bit_and_iff bit_word_masks bit_0_eq, auto dest: low)+
    show "drop_bit 12 laddr = 0" by (rule bit_word_eqI) (auto simp: bit_drop_bit_eq dest: low)
  qed
  have "\<not> physmem_base \<le> laddr" "\<not> 0x1000 \<le> laddr"
    using assms(5) by (simp_all add: physmem_base_def word_le_nat_alt word_less_nat_alt)
  then have "\<not> phys_ok (laddr - physmem_base) 1 t" for t by (simp add: phys_ok_def host_mapped_def)
  then have "host_read laddr 1 t = (Inl (HostFault laddr), t)" for t
    using access_read_physical_run [of "laddr - physmem_base" 1 t] by (simp add: access_read_physical_def host_read_def)
  then show ?thesis
    using c assms(2,4,6) l
    by (simp add: read_RMW_virtual_byte_32_def assert_legacy_mode_def BX_ASSERT_def get_laddr32_def monad_simps
      BX_TLB_INDEX_OF_def LPFOf_def PAGE_OFFSET_def decWriteStamp_def Let_def)
qed

theorem rmw_byte_hits_empty_tlb_witness:
  "fst (read_RMW_virtual_byte_32 3 0x10 (sample_cpu\<lparr>TLB_entry :=
    (\<lambda>_. \<lparr>tlb_lpf = 0, tlb_ppf = 0, hostPageAddr = 0, accessBits = 0, tlb_lpf_mask = 0\<rparr>)\<rparr>)) = Inl (HostFault 0x10)"
    (is "fst (read_RMW_virtual_byte_32 3 0x10 ?s) = _")
proof -
  have "seg_caches_ok ?s" using sample_caches(1) by (simp add: seg_caches_ok_def)
  moreover have "seg_allows type_writable (sregs ?s 3) 0x10 1"
    by (simp add: seg_allows_def seg_bounds_def type_writable_def type_expand_down_def sample_defs)
  ultimately show ?thesis
    by (intro rmw_byte_hits_empty_tlb) (simp_all add: get_laddr32_def sample_defs)
qed

end
