(* ===== verification/SysClaims.thy ===== *)
theory SysClaims
  imports Sample
begin

text \<open>
  The properties of the system state: reset, writes of the control registers and of
  the flags, segment descriptors and loads of the segment registers.
\<close>

section \<open>A machine with a descriptor table\<close>

text \<open>Entry 2 of the descriptor table of \<open>sample_gdt\<close> is a flat writable data segment.\<close>

definition sample_gdt :: bx_cpu_c where
  "sample_gdt = sample_cpu\<lparr>bx_mem := \<lparr>vector = (\<lambda>a. if a = 0x510 \<or> a = 0x511 then 0xff
    else if a = 0x515 then 0x93 else if a = 0x516 then 0xcf else 0), mem_len = 0x100000, elsewhere = (\<lambda>_. False)\<rparr>\<rparr>"

lemma sample_caches_gdt: "seg_caches_ok sample_gdt"
  using sample_caches by (simp add: seg_caches_ok_def sample_gdt_def)

lemma sample_fetch:
  "fst (fetch_raw_descriptor (parse_selector 0x10) e sample_gdt) = Inr (0xffff, 0xcf9300)"
  by (simp add: fetch_raw_descriptor_def system_read_qword_def system_tlb_read_def access_read_linear_def
    access_read_physical_run load_bytes_def le_word_def upt_rec parse_selector_def sample_access_defs sample_gdt_def
    sample_defs)

lemma sample_rights:
  "valid (parse_descriptor 0xffff 0xcf9300 temp) = 1" "d_segment (parse_descriptor 0xffff 0xcf9300 temp) = 1"
  "d_type (parse_descriptor 0xffff 0xcf9300 temp) = 3" "d_dpl (parse_descriptor 0xffff 0xcf9300 temp) = 0"
  "d_p (parse_descriptor 0xffff 0xcf9300 temp) = 1"
  by (simp_all add: parse_descriptor_def parse_segment_def)

lemma sample_loads:
  "fst (load_SS_protected 0x10 temp sample_gdt) = Inr ()" "fst (load_data_protected 3 0x10 temp sample_gdt) = Inr ()"
proof -
  obtain s where s: "fetch_raw_descriptor (parse_selector 0x10) BX_GP_EXCEPTION sample_gdt = (Inr (0xffff, 0xcf9300), s)"
    using sample_fetch [of BX_GP_EXCEPTION] by (cases "fetch_raw_descriptor (parse_selector 0x10) BX_GP_EXCEPTION sample_gdt") auto
  have c: "CPL s = 0" using fields_sregs [OF fetch_fields [OF s]] by (simp add: sample_gdt_def sample_defs CPL_def)
  show "fst (load_SS_protected 0x10 temp sample_gdt) = Inr ()" "fst (load_data_protected 3 0x10 temp sample_gdt) = Inr ()"
    using s c sample_rights [of temp]
    by (simp_all add: load_SS_protected_def load_data_protected_def bindM_apply getsM_apply returnM_apply Let_def
      parse_selector_def touch_segment_def store_segment_def modifyM_apply type_tests IS_SEGMENT_ACCESSED_def IS_DATA_SEGMENT_def)
qed

section \<open>Reset and the control registers\<close>

text \<open>C27: Reset succeeds from every state in protected mode or at privilege level 0, and leaves the
  processor in real mode with paging off, a consistent mode and consistent segment caches, about to
  execute at linear address 0xFFFFFFF0, and with the register that addressing uses for
  an absent base or index holding zero.\<close>

theorem reset_state:
  assumes "bit (cr0 s) 0 \<or> CPL s = 0"
  shows "\<exists>s'. reset source isa s = (Inr (), s') \<and> mode_ok s' \<and> (\<forall>k<6. seg_cache_ok (sregs s' k)) \<and> real_mode s' \<and>
    \<not> bit (cr0 s') 31 \<and> gen_reg s' BX_32BIT_REG_EIP = 0xFFF0 \<and> get_laddr32 BX_SEG_REG_CS 0xFFF0 s' = 0xFFFFFFF0 \<and>
    gen_reg s' BX_NIL_REGISTER = 0"
  using reset_ok [OF assms, of source isa] by metis

theorem reset_state_witness: "\<exists>s'. reset BX_RESET_HARDWARE 0x10 sample_cpu = (Inr (), s') \<and> mode_ok s' \<and> real_mode s'"
  using reset_state [of sample_cpu BX_RESET_HARDWARE "0x10"] by (auto simp: CPL_def sample_defs)

text \<open>C28: A write of CR0 has three outcomes.  It is refused, exactly when it asks for paging
  without protection or for NW without CD, and then nothing changes; or it stops the
  emulator on an assertion, exactly when it is not refused and leaves protection off at a
  privilege level other than 0; or it sets CR0, with ET always set, keeps the privilege level,
  and re-establishes the mode, alignment checking and privilege invariant, with paging
  on only in protected mode.\<close>

theorem SetCR0_outcomes:
  "(fst (SetCR0 val s) = Inr False \<longleftrightarrow> bit val 31 \<and> \<not> bit val 0 \<or> bit val 29 \<and> \<not> bit val 30) \<and>
   (fst (SetCR0 val s) = Inl AssertFail \<longleftrightarrow>
     \<not> (bit val 31 \<and> \<not> bit val 0) \<and> \<not> (bit val 29 \<and> \<not> bit val 30) \<and> \<not> bit val 0 \<and> CPL s \<noteq> 0) \<and>
   (case SetCR0 val s of
     (Inr False, s') \<Rightarrow> s' = s
   | (Inl f, s') \<Rightarrow> f = AssertFail
   | (Inr True, s') \<Rightarrow> mode_ok s' \<and> cr0 s' = val OR 0x10 \<and> CPL s' = CPL s \<and> \<not> (bit (cr0 s') 31 \<and> \<not> bit (cr0 s') 0))"
proof -
  have b: "bit (val OR 0x10) k = bit val k" if "k \<noteq> 4" for k
    using that bit_single_mask [of 4 k] by (auto simp: bit_or_iff push_bit_eq_mult)
  have chk: "check_CR0 val \<longleftrightarrow> \<not> (bit val 31 \<and> \<not> bit val 0) \<and> \<not> (bit val 29 \<and> \<not> bit val 30)"
    unfolding check_CR0_def Let_def get_bit32_iff by (simp add: b)
  show ?thesis
  proof (cases "check_CR0 val")
    case False
    then show ?thesis using chk by (auto simp: SetCR0_def monad_simps)
  next
    case True
    then have r: "SetCR0 val s = (case handleCpuModeChange (handleAlignmentCheck (s\<lparr>cr0 := val OR 0x10\<rparr>)) of
        (Inl f, s') \<Rightarrow> (Inl f, s') | (Inr _, s') \<Rightarrow> (Inr True, s'))"
      by (simp add: SetCR0_def monad_simps split: prod.split sum.split)
    show ?thesis
    proof (cases "\<not> bit val 0 \<and> CPL s \<noteq> 0")
      case f: True
      then have "fst (SetCR0 val s) = Inl AssertFail" unfolding r handleCpuModeChange_run by (simp add: b)
      then show ?thesis using f True chk by (cases "SetCR0 val s") auto
    next
      case False
      then obtain s' where s': "SetCR0 val s = (Inr True, s')" unfolding r handleCpuModeChange_run by (auto simp: b)
      show ?thesis using SetCR0_ok [OF s'] False True chk by (auto simp: s')
    qed
  qed
qed

text \<open>C29: A write of the flags by an instruction that pops them changes exactly the flags it may
  change: the status flags, TF, DF and NT always, IOPL and IF as the caller permits;
  VM, RF, AC, VIF, VIP, ID and the reserved bits keep their values.\<close>

theorem write_flags_changes:
  assumes "write_flags flags change_IOPL change_IF s = (Inr (), s')"
  shows "mode_ok s' \<and> bit (eflags s') k = (if k \<in> {0, 2, 4, 6, 7, 8, 10, 11, 14} \<or> change_IOPL \<and> k \<in> {12, 13} \<or> change_IF \<and> k = 9
    then bit flags k else bit (eflags s) k)"
proof -
  obtain m where "write_flags flags change_IOPL change_IF = (\<lambda>s. setEFlags ((eflags s AND NOT m) OR (ucast flags AND m)) s)"
    by (rule write_flags_value)
  then have "mode_ok s'" using assms by (auto intro: setEFlags_ok(1))
  then show ?thesis using write_flags_bits [OF assms, of k] by (simp add: changed_flags_def)
qed

theorem write_flags_changes_witness:
  "\<exists>s'. write_flags 0xffff False True sample_cpu = (Inr (), s') \<and> bit (eflags s') 9 \<and> \<not> bit (eflags s') 12"
proof -
  obtain m where "write_flags 0xffff False True = (\<lambda>s. setEFlags ((eflags s AND NOT m) OR (ucast (0xffff :: 16 word) AND m)) s)"
    by (rule write_flags_value)
  then obtain s' where s': "write_flags 0xffff False True sample_cpu = (Inr (), s')"
    by (simp add: setEFlags_run handleCpuModeChange_run sample_defs)
  show ?thesis
    using s' write_flags_changes [OF s', of 9] write_flags_changes [OF s', of 12] by (auto simp: sample_defs)
qed

section \<open>Descriptors\<close>

text \<open>C30: Parsing the two words of a code or data segment descriptor and packing the parsed
  descriptor gives the words back, but for bit 21, which the 32-bit descriptor cache does
  not keep.\<close>

theorem descriptor_words:
  assumes "bit dword2 12"
  shows "get_descriptor_l (parse_descriptor dword1 dword2 temp) = dword1 \<and>
    get_descriptor_h (parse_descriptor dword1 dword2 temp) = dword2 AND NOT (push_bit 21 1)"
  using descriptor_roundtrip [OF assms] by blast

theorem descriptor_words_witness: "bit (0xcf9300 :: 32 word) 12 \<and>
    get_descriptor_h (parse_descriptor 0xffff 0xcf9300 (cache (sample_segment 0 3))) = 0xcf9300"
  using descriptor_words [of "0xcf9300" "0xffff" "cache (sample_segment 0 3)"] by simp

section \<open>Loads of segment registers\<close>

text \<open>C31: A load of SS in protected mode that succeeds leaves the descriptor the selector names, marked
  accessed: a present writable data segment, not a system segment, whose privilege level, and whose
  selector's, is the current one; and no other segment register changed.\<close>

theorem load_SS:
  assumes "load_SS_protected v temp s = (Inr (), s')"
  shows "selector (sregs s' BX_SEG_REG_SS) = parse_selector v \<and> valid (cache (sregs s' BX_SEG_REG_SS)) = 1 \<and>
    d_segment (cache (sregs s' BX_SEG_REG_SS)) \<noteq> 0 \<and>
    d_p (cache (sregs s' BX_SEG_REG_SS)) \<noteq> 0 \<and> type_writable (d_type (cache (sregs s' BX_SEG_REG_SS))) \<and>
    d_dpl (cache (sregs s' BX_SEG_REG_SS)) = CPL s \<and> sel_rpl (parse_selector v) = CPL s \<and>
    (\<exists>dword1 dword2 t. fetch_raw_descriptor (parse_selector v) BX_GP_EXCEPTION s = (Inr (dword1, dword2), t) \<and>
      cache (sregs s' BX_SEG_REG_SS) =
        (parse_descriptor dword1 dword2 temp)\<lparr>d_type := d_type (cache (sregs s' BX_SEG_REG_SS)), valid := 1\<rparr> \<and>
      d_type (cache (sregs s' BX_SEG_REG_SS)) = d_type (parse_descriptor dword1 dword2 temp) OR 1) \<and>
    (\<forall>k. k = BX_SEG_REG_SS \<or> sregs s' k = sregs s k)"
  using load_SS_sound(1-7,9,10) [OF assms] load_SS_sound(8) [OF assms] by (intro conjI) auto

theorem load_SS_witness:
  "\<exists>s'. load_SS_protected 0x10 (cache (sample_segment 0 3)) sample_gdt = (Inr (), s') \<and>
    sel_index (selector (sregs s' BX_SEG_REG_SS)) = 2"
proof -
  obtain s' where s': "load_SS_protected 0x10 (cache (sample_segment 0 3)) sample_gdt = (Inr (), s')"
    using sample_loads(1) [of "cache (sample_segment 0 3)"] by (metis prod.collapse)
  then show ?thesis using load_SS [OF s'] by (simp add: parse_selector_def)
qed

text \<open>C32: A load of DS, ES, FS or GS in protected mode with a selector that is not null, when it
  succeeds, leaves the descriptor the selector names, marked accessed: a present readable code or data
  segment, not a system segment; unless it is a conforming code segment, neither the current privilege
  level nor the selector's exceeds the segment's; no other segment register changes.\<close>

theorem load_data_segment:
  assumes "load_data_protected k v temp s = (Inr (), s')" "v AND 0xfffc \<noteq> 0"
  shows "selector (sregs s' k) = parse_selector v \<and> valid (cache (sregs s' k)) = 1 \<and>
    d_segment (cache (sregs s' k)) \<noteq> 0 \<and> d_p (cache (sregs s' k)) \<noteq> 0 \<and>
    type_readable (d_type (cache (sregs s' k))) \<and>
    (IS_CODE_SEGMENT (d_type (cache (sregs s' k))) \<and> IS_CODE_SEGMENT_CONFORMING (d_type (cache (sregs s' k))) \<or>
      CPL s \<le> d_dpl (cache (sregs s' k)) \<and> sel_rpl (parse_selector v) \<le> d_dpl (cache (sregs s' k))) \<and>
    (\<exists>dword1 dword2 t. fetch_raw_descriptor (parse_selector v) BX_GP_EXCEPTION s = (Inr (dword1, dword2), t) \<and>
      cache (sregs s' k) = (parse_descriptor dword1 dword2 temp)\<lparr>d_type := d_type (cache (sregs s' k)), valid := 1\<rparr> \<and>
      d_type (cache (sregs s' k)) = d_type (parse_descriptor dword1 dword2 temp) OR 1) \<and>
    (\<forall>j. j = k \<or> sregs s' j = sregs s j)"
  using load_data_sound(1-6,8,9) [OF assms] load_data_sound(7) [OF assms] by (intro conjI) auto

theorem load_data_segment_witness:
  "\<exists>s'. load_data_protected 3 0x10 (cache (sample_segment 0 3)) sample_gdt = (Inr (), s') \<and>
    sel_index (selector (sregs s' 3)) = 2"
proof -
  obtain s' where s': "load_data_protected 3 0x10 (cache (sample_segment 0 3)) sample_gdt = (Inr (), s')"
    using sample_loads(2) [of "cache (sample_segment 0 3)"] by (metis prod.collapse)
  then show ?thesis using load_data_segment [OF s'] by (simp add: parse_selector_def)
qed

text \<open>C33: A load of a segment register, in any mode and whatever its outcome, keeps the cached rights
  of every segment consistent with its type; and a load in protected mode that raises
  a fault leaves every segment register as it was.\<close>

theorem segment_loads_keep_caches:
  assumes "load_seg_reg temp k v s = (r, s')" "seg_caches_ok s"
  shows "seg_caches_ok s' \<and> (case r of Inr _ \<Rightarrow> True | Inl f \<Rightarrow> sregs s' = sregs s)"
proof -
  have "sregs s' = sregs s" if f: "r = Inl f" for f
  proof (cases "protected_mode s")
    case True
    consider "load_SS_protected v temp s = (Inl f, s')" | "load_data_protected k v temp s = (Inl f, s')" | "s' = s"
      using assms(1) True f by (auto simp: load_seg_reg_def monad_simps split: if_splits)
    then show ?thesis using load_fault_keeps by cases blast+
  next
    case False
    then have "load_seg_real k v s = (Inl f, s')" using assms(1) f by (simp add: load_seg_reg_def monad_simps)
    then show ?thesis by (rule load_real_run) simp
  qed
  then show ?thesis using load_seg_reg_caches [OF assms] by (cases r) simp_all
qed

theorem segment_loads_keep_caches_witness:
  "\<exists>f s'. load_seg_reg (cache (sample_segment 0 3)) BX_SEG_REG_SS 0 sample_gdt = (Inl f, s') \<and> seg_caches_ok s' \<and>
    sregs s' = sregs sample_gdt"
proof -
  have f: "load_seg_reg (cache (sample_segment 0 3)) BX_SEG_REG_SS 0 sample_gdt = (Inl (Exception BX_GP_EXCEPTION 0), sample_gdt)"
    by (simp add: load_seg_reg_def load_SS_protected_def protected_mode_def sample_gdt_def sample_cpu_def monad_simps)
  show ?thesis using f segment_loads_keep_caches [OF f sample_caches_gdt] by auto
qed

text \<open>After a return to a less privileged level, no usable data segment register refers to a
  segment the new level may not use: DS, ES, FS and GS are invalid, or their segment's privilege level
  is at least the current one, or they hold conforming code.  Registers that pass
  the test keep their contents, and CS and SS are not touched.\<close>

lemma validate_seg_regs_safe:
  assumes "k \<in> {BX_SEG_REG_ES, BX_SEG_REG_DS, BX_SEG_REG_FS, BX_SEG_REG_GS}"
    and "d = cache (sregs (validate_seg_regs s) k)"
  shows "(valid d = 0 \<or> CPL (validate_seg_regs s) \<le> d_dpl d \<or>
      d_segment d \<noteq> 0 \<and> IS_CODE_SEGMENT (d_type d) \<and> IS_CODE_SEGMENT_CONFORMING (d_type d)) \<and>
    (CPL s \<le> d_dpl (cache (sregs s k)) \<longrightarrow> sregs (validate_seg_regs s) k = sregs s k) \<and>
    sregs (validate_seg_regs s) BX_SEG_REG_CS = sregs s BX_SEG_REG_CS \<and>
    sregs (validate_seg_regs s) BX_SEG_REG_SS = sregs s BX_SEG_REG_SS"
  using assms(1) unfolding assms(2) by (auto simp: validate_seg_regs_run too_privileged_def not_less)

lemma validate_seg_regs_safe_witness:
  "valid (cache (sregs (validate_seg_regs (sample_paged\<lparr>sregs := (sregs sample_paged)(3 := sample_segment 0 3)\<rparr>)) 3)) = 0"
  using validate_seg_regs_safe [OF _ refl, of 3 "sample_paged\<lparr>sregs := (sregs sample_paged)(3 := sample_segment 0 3)\<rparr>"]
  by (simp add: validate_seg_regs_run CPL_def too_privileged_def sample_paged_def sample_segment_def IS_CODE_SEGMENT_def split: if_splits)

end
