(* ===== verification/ControlClaims.thy ===== *)
theory ControlClaims
  imports AluClaims
begin

text \<open>
  The properties of the stack, of the near control transfers and of the entry into
  exceptions.
\<close>

section \<open>The stack\<close>

text \<open>C22: A push that succeeds, followed by a pop, gives the pushed value and restores every
  register, for a stack pointer of 32 bits or of 16 with its wrap-around, wherever
  the slot is mapped, lies in one page and does not overlay the page tables that map it;
  the segment registers, the control registers and the mode are unchanged.\<close>

theorem push_pop:
  assumes "push_32 v s = (Inr (), s')" "seg_caches_ok s" "cpu_mode s \<noteq> BX_MODE_LONG_64"
    and "laddr = seg_base (cache (sregs s 2)) + stack_slot 4 s" "PAGE_OFFSET laddr + 4 \<le> 4096"
    and "walk s laddr (CPL s = 3) True = Inr pa" "clear_of_tables s laddr pa 4"
  shows "\<exists>s''. pop_32 s' = (Inr v, s'') \<and> gen_reg s'' = gen_reg s \<and> sys_view s'' = sys_view s \<and> seg_caches_ok s''"
proof -
  have "with_core s' s' = s'" by (simp add: with_core_def)
  moreover obtain s1 where "s' = drop_sp (seg_d_b (cache (sregs s BX_SEG_REG_SS)) \<noteq> 0) (of_nat 4) s1" "gen_reg s1 = gen_reg s"
    by (rule stack32.push_returns [OF assms(1,2)])
  then have "(gen_reg s')(4 := gen_reg s 4) = gen_reg s" by (auto simp: sp_facts)
  ultimately show ?thesis
    using stack32.roundtrip [of v s s' laddr pa s'] assms by auto
qed

theorem push_pop_witness: "fst (pop_32 (snd (push_32 0x1234 sample_cpu))) = Inr 0x1234"
proof -
  have slot: "stack_slot 4 sample_cpu = 0x7ffc" "seg_base (cache (sregs sample_cpu 2)) = 0"
    by (simp_all add: stack_slot_def reg_defs sample_defs)
  have "push_32 0x1234 sample_cpu = (Inr (), snd (push_32 0x1234 sample_cpu))"
    using sample_push [of "0x1234"] by (cases "push_32 0x1234 sample_cpu") simp
  moreover have "clear_of_tables sample_cpu 0x7ffc 0x7ffc 4"
    by (simp add: clear_of_tables_def walk_entries_def paging_on_def sample_cpu_def)
  ultimately show ?thesis
    using push_pop [of "0x1234" sample_cpu _ "0x7ffc" "0x7ffc"] slot sample_caches(1) sample_walk [of "0x7ffc"]
    by (force simp: PAGE_OFFSET_def sample_defs)
qed

text \<open>C23: A near call that succeeds, followed by a near return, succeeds again and restores EIP, ESP and every
  other register, the control and the segment registers: control comes back to the instruction after the call.
  This holds when the stack slot of the return address is mapped, lies in one page and does not overlay
  the page tables that map it, and the return address is within the limit of the code segment.\<close>

theorem call_then_return:
  assumes "CALL_Jd i s = (Inr (), s') \<or> CALL_EdR i s = (Inr (), s')" "seg_caches_ok s" "cpu_mode s \<noteq> BX_MODE_LONG_64"
    and "laddr = seg_base (cache (sregs s 2)) + stack_slot 4 s" "PAGE_OFFSET laddr + 4 \<le> 4096"
    and "walk s laddr (CPL s = 3) True = Inr pa" "clear_of_tables s laddr pa 4"
    and "gen_reg s BX_32BIT_REG_EIP \<le> limit_scaled (cache (sregs s 1))"
  shows "\<exists>s''. RETnear32 s' = (Inr (), s'') \<and> gen_reg s'' = gen_reg s \<and> sys_view s'' = sys_view s"
  using call_return [OF assms(1-7)] assms(8) by (simp add: BX_READ_32BIT_REG_def)

lemma sample_call: "fst (CALL_Jd sample_instr sample_cpu) = Inr ()"
  by (simp add: CALL_Jd_def RSP_SPECULATIVE_def RSP_COMMIT_def push_32_def write_virtual_dword_32_def branch_near32_def
    reg_defs sample_access_defs sample_defs Id_def BX_32BIT_REG_EIP_def BX_GENERAL_REGISTERS_def)

theorem call_then_return_witness:
  "fst (RETnear32 (snd (CALL_Jd sample_instr sample_cpu))) = Inr () \<and>
   gen_reg (snd (RETnear32 (snd (CALL_Jd sample_instr sample_cpu)))) = gen_reg sample_cpu"
proof -
  have slot: "stack_slot 4 sample_cpu = 0x7ffc" "seg_base (cache (sregs sample_cpu 2)) = 0"
    by (simp_all add: stack_slot_def reg_defs sample_defs)
  have "CALL_Jd sample_instr sample_cpu = (Inr (), snd (CALL_Jd sample_instr sample_cpu))"
    using sample_call by (cases "CALL_Jd sample_instr sample_cpu") simp
  moreover have "clear_of_tables sample_cpu 0x7ffc 0x7ffc 4"
    by (simp add: clear_of_tables_def walk_entries_def paging_on_def sample_cpu_def)
  ultimately have "\<exists>s''. RETnear32 (snd (CALL_Jd sample_instr sample_cpu)) = (Inr (), s'') \<and>
      gen_reg s'' = gen_reg sample_cpu \<and> sys_view s'' = sys_view sample_cpu"
    using sample_walk [of "0x7ffc"] slot
    by (intro call_then_return [OF disjI1 sample_caches(1), where laddr = "0x7ffc" and pa = "0x7ffc"]) (simp_all add: PAGE_OFFSET_def sample_defs
      BX_32BIT_REG_EIP_def BX_GENERAL_REGISTERS_def)
  then show ?thesis by auto
qed

section \<open>Compare and jump\<close>

text \<open>C24: A compare of two registers followed by a conditional jump goes to the target exactly when the
  comparison the condition is named for holds of the operands, signed or unsigned: the jump
  reads the flags the compare left pending.  A target beyond the code segment is #GP; no
  register but EIP changes.\<close>

theorem compare_and_jump:
  "case seqM (CMP_GdEdR i) (Jcc_Jd cc j) s of
     (Inr _, s') \<Rightarrow> gen_reg s' = (gen_reg s)(BX_32BIT_REG_EIP :=
         if compares cc (gen_reg s (nnn i)) (gen_reg s (rm i)) then gen_reg s BX_32BIT_REG_EIP + Id j
         else gen_reg s BX_32BIT_REG_EIP)
   | (Inl f, s') \<Rightarrow> f = Exception BX_GP_EXCEPTION 0 \<and> gen_reg s' = gen_reg s \<and>
       compares cc (gen_reg s (nnn i)) (gen_reg s (rm i)) \<and>
       limit_scaled (cache (sregs s BX_SEG_REG_CS)) < gen_reg s BX_32BIT_REG_EIP + Id j"
proof -
  define a b where "a = gen_reg s (nnn i)" and "b = gen_reg s (rm i)"
  define t where "t = SET_FLAGS_OSZAPC_SUB_32 a b (a - b) s"
  have t: "gen_reg t = gen_reg s" "sregs t = sregs s" "flags_of t = ref_sub_flags a b False"
    by (simp_all add: t_def sub32_flags)
  have "CMP_GdEdR i s = (Inr (), t)"
    by (simp add: CMP_GdEdR_def monad_simps BX_READ_32BIT_REG_def t_def a_def b_def)
  then show ?thesis
    unfolding a_def [symmetric] b_def [symmetric]
    by (simp add: seqM_apply Jcc_Jd_def bindM_apply getsM_apply whenM_def returnM_apply jump_taken_sub [OF t(3)]
      branch_near32_run t(1,2) BX_READ_32BIT_REG_def BX_WRITE_32BIT_REGZ_def)
qed

section \<open>Exceptions\<close>

text \<open>C25: Delivering an exception, in real mode through the vector table or in protected and
  virtual-8086 mode through the gates of the IDT, always ends, however the faults raised by
  delivery itself nest: either control is in a handler, or the emulator stops on a triple
  fault or an access outside memory.  No exception is left pending.\<close>

theorem exceptions_are_resolved:
  "case exception_delivery u v c s of
     (Inr _, s') \<Rightarrow> errorno s' = 0
   | (Inl f, s') \<Rightarrow> f = AssertFail \<or> (\<exists>a. f = HostFault a)"
proof -
  have "errorno s' = 0" if "exception_delivery u v c s = (Inr y, s')" for y s'
    using that
  proof (induction u v c s rule: exception_delivery.induct)
    case (1 u v c s)
    obtain r s1 where e: "exception_entry v c s = (r, s1)" by (cases "exception_entry v c s")
    with "1.prems" obtain v' pe c' where r: "r = Inr (v', pe, c')"
      by (subst (asm) exception_delivery.simps) (auto split: sum.splits)
    obtain q s2 where i: "interrupt u v' BX_HARDWARE_EXCEPTION pe c' s1 = (q, s2)" by (cases "interrupt u v' BX_HARDWARE_EXCEPTION pe c' s1")
    have p: "(case q of Inl (Exception a b) \<Rightarrow> exception_delivery u a b s2 | Inl g \<Rightarrow> (Inl g, s2)
        | Inr _ \<Rightarrow> (Inr (), s2\<lparr>errorno := 0\<rparr>)) = (Inr y, s')"
      using "1.prems" by (subst (asm) exception_delivery.simps) (simp add: e r i split: sum.splits fault.splits)
    show ?case
    proof (cases "\<exists>a b. q = Inl (Exception a b)")
      case True
      then obtain a b where "q = Inl (Exception a b)" by blast
      then show ?thesis using "1.IH" [OF e [symmetric] r refl refl i [symmetric]] p by simp
    next
      case False
      then show ?thesis using p by (auto split: sum.splits fault.splits)
    qed
  qed
  then show ?thesis using exception_resolved [of u v c s] by (auto split: prod.split sum.split)
qed

text \<open>C26: Entering an exception never reads outside the table of exception pairs: the class recorded
  for a pending exception is one of its three rows or a double fault, which is
  recognised before the table is consulted, and entry records such a class again.\<close>

theorem exception_table_bounds:
  assumes "curr_exception s \<in> {BX_ET_BENIGN, BX_ET_CONTRIBUTORY, BX_ET_PAGE_FAULT, BX_ET_DOUBLE_FAULT}"
  shows "case exception_entry v c s of
     (Inr x, s') \<Rightarrow> curr_exception s' \<in> {BX_ET_BENIGN, BX_ET_CONTRIBUTORY, BX_ET_PAGE_FAULT, BX_ET_DOUBLE_FAULT} \<and>
       errorno s' = errorno s + 1 \<and> unat (errorno s') \<le> 3
   | (Inl f, s') \<Rightarrow> \<not> (\<exists>a. f = HostFault a)"
proof -
  have "unat (e + 1) \<le> 3" if "unat e \<le> 2" for e :: "32 word" using that by (simp add: unat_plus_if_size word_size)
  then show ?thesis
    using entry_in_table [OF assms, of v c] entry_errorno [of v c s] by (auto split: prod.split sum.split)
qed

theorem exception_table_bounds_witness:
  "case exception_entry BX_GP_EXCEPTION 0 (sample_cpu\<lparr>errorno := 1, curr_exception := BX_ET_CONTRIBUTORY\<rparr>) of
     (Inr x, s') \<Rightarrow> errorno s' = 2 \<and> fst x = BX_DF_EXCEPTION | (Inl f, s') \<Rightarrow> False"
  using exception_table_bounds [of "sample_cpu\<lparr>errorno := 1, curr_exception := BX_ET_CONTRIBUTORY\<rparr>" BX_GP_EXCEPTION 0]
  by (simp add: entry_run entry_double exceptions_info_def is_exception_OK_def entry_args_def real_mode_def sample_cpu_def
    entry_state_def restore_rip_rsp_def reg_defs Let_def)

end
