(* ===== verification/DecodeOk.thy ===== *)
theory DecodeOk
  imports Decode
begin

text \<open>
  The operands a decoded instruction names: every register number the decoder stores is
  that of a register, so the handlers, which index the register file with it unchecked,
  stay inside it.
\<close>

definition operands_ok :: "bxInstruction_c \<Rightarrow> bool" where
  "operands_ok i \<longleftrightarrow> nnn i < 8 \<and> (rm i < 8 \<or> rm i = BX_TMP_REGISTER) \<and> (sibBase i < 8 \<or> sibBase i = BX_NIL_REGISTER) \<and>
    (sibIndex i < 8 \<or> sibIndex i = BX_NIL_REGISTER) \<and> sibScale i < 4"

definition decoding_ok :: "decode_state \<Rightarrow> bool" where
  "decoding_ok d \<longleftrightarrow> operands_ok (dec_instr d) \<and> dec_seg d < 6 \<and> (dec_override d < 6 \<or> dec_override d = BX_SEG_REG_NULL)"

lemmas operand_fields = operands_ok_def nnn_def rm_def sibBase_def sibIndex_def sibScale_def

lemma nil_tmp_byte:
  "unat (ucast (of_nat BX_NIL_REGISTER :: 32 word) :: 8 word) = BX_NIL_REGISTER"
  "unat (ucast (of_nat BX_TMP_REGISTER :: 32 word) :: 8 word) = BX_TMP_REGISTER"
  by (simp_all add: BX_NIL_REGISTER_def BX_TMP_REGISTER_def BX_GENERAL_REGISTERS_def)

lemma ok_setMetaData:
  assumes "operands_ok i"
  shows "k \<in> {0, 1, 7} \<Longrightarrow> operands_ok (setMetaData k v i)"
    "n < 8 \<Longrightarrow> k \<in> {2, 3, 4, 5} \<Longrightarrow> operands_ok (setMetaData k (of_nat n) i)"
    "n < 4 \<Longrightarrow> operands_ok (setMetaData 6 (of_nat n) i)"
    "k \<in> {4, 5} \<Longrightarrow> operands_ok (setMetaData k (of_nat BX_NIL_REGISTER) i)"
    "operands_ok (setMetaData 3 (of_nat BX_TMP_REGISTER) i)"
  using assms unfolding operand_fields by (auto simp: unat_byte nil_tmp_byte)

lemma ok_fields [simp]:
  "operands_ok (i\<lparr>modRMForm_displ32u := a\<rparr>) = operands_ok i" "operands_ok (i\<lparr>modRMForm_Id := a\<rparr>) = operands_ok i"
  "operands_ok (i\<lparr>resolve_ptr := p\<rparr>) = operands_ok i" "operands_ok (i\<lparr>ia_opcode := o'\<rparr>) = operands_ok i"
  "operands_ok (setOs32B b i) = operands_ok i" "operands_ok (setAs32B b i) = operands_ok i"
  "operands_ok (setRepUsed b i) = operands_ok i" "operands_ok (setILen b i) = operands_ok i"
  "operands_ok (assertModC0 i) = operands_ok i" "operands_ok (init_instr b c i) = operands_ok i"
  by (simp_all add: operand_fields setOs32B_def setAs32B_def setRepUsed_def setILen_def assertModC0_def init_instr_def)

lemma keeps_ok_instr: "(\<And>i. operands_ok i \<Longrightarrow> operands_ok (f i)) \<Longrightarrow> keeps decoding_ok (on_instr f)"
  by (simp add: keeps_def on_instr_def monad_simps decoding_ok_def)

lemma keeps_ok_seg: "r < 6 \<Longrightarrow> keeps decoding_ok (modifyM (\<lambda>d. d\<lparr>dec_seg := r\<rparr>))"
  by (simp add: keeps_def monad_simps decoding_ok_def)

lemma keeps_ok_fetch: "keeps decoding_ok (fetch_bytes iptr remain n)"
  by (rule keepsI) (simp add: fetch_bytes_def decoding_ok_def)

lemma prefix_step_ok: "decoding_ok d \<Longrightarrow> prefix_step is_32 b d = Some d' \<Longrightarrow> decoding_ok d'"
  by (auto simp: prefix_step_def decoding_ok_def Let_def split: if_splits)

lemma keeps_ok_fetch_b1: "fetch_b1 iptr remain is_32 d = (r, d') \<Longrightarrow> decoding_ok d \<Longrightarrow> decoding_ok d'"
proof (induction iptr remain is_32 d arbitrary: r d' rule: fetch_b1.induct)
  case (1 iptr remain is_32 d)
  have l: "decoding_ok (x\<lparr>dec_ilen := n\<rparr>) = decoding_ok x" for x n by (simp add: decoding_ok_def)
  note run = "1.prems"(1) [unfolded fetch_b1.simps [of iptr remain is_32 d] Let_def]
  show ?case
    using run "1.prems"(2) "1.IH" [OF refl refl]
    by (auto simp: l split: if_splits option.splits dest: prefix_step_ok [rotated])
qed

lemma sreg_less:
  "sreg_mod1or2_base32 ! (b AND 7) < 6" "sreg_mod0_base32 ! (b AND 7) < 6"
  "sreg_mod00_rm16 ! (b AND 7) < 6" "sreg_mod01or10_rm16 ! (b AND 7) < 6"
  by (simp_all add: sreg_tables sreg_tables16 and7_less)

lemma resolve16_ok:
  assumes "operands_ok i"
  shows "operands_ok (setMetaData 5 (of_nat (Resolve16IndexReg ! (b AND 7)))
    (setMetaData 4 (of_nat (Resolve16BaseReg ! (b AND 7))) i))"
proof -
  have "Resolve16BaseReg ! (b AND 7) < 8" "Resolve16IndexReg ! (b AND 7) < 8 \<or> Resolve16IndexReg ! (b AND 7) = BX_NIL_REGISTER"
    using nat8_cases [OF and7_less [of b]] by (auto simp: Resolve16BaseReg_def Resolve16IndexReg_def)
  then show ?thesis using assms by (auto simp: ok_setMetaData)
qed

lemma keeps_ok_modrm: "keeps decoding_ok (decode_modrm iptr remain byte1)"
  unfolding decode_modrm_def modrm32_def modrm16_def displacement32_def Let_def
  by (intro keeps_intros keeps_ok_fetch keeps_ok_instr keeps_ok_seg sreg_less)
    (simp_all add: ok_setMetaData resolve16_ok and7_less sib_scale)

lemma keeps_ok_opcode: "keeps decoding_ok (decode_opcode infoR infoM iptr remain byte1)"
proof -
  have c: "keeps decoding_ok (case x of Inl f \<Rightarrow> raiseM f | Inr (attr, info) \<Rightarrow> returnM (g attr info))" for x g
    by (auto intro: keeps_raiseM keeps_returnM split: sum.split)
  show ?thesis
    unfolding decode_opcode_def Let_def
    by (intro keeps_intros keeps_ok_fetch keeps_ok_instr keeps_ok_modrm c) (simp_all add: ok_setMetaData and7_less)
qed

lemma opcode_fields:
  assumes "decode_opcode infoR infoM iptr remain byte1 d = (Inr (attr, ia, n, r), d')"
  shows "n < 8" "r < 8"
  using assms unfolding decode_opcode_def Let_def
  by (auto simp: monad_simps and7_less split: if_splits prod.splits sum.splits)

lemma keeps_ok_imm: "keeps decoding_ok (decode_imm iptr remain attr)"
  unfolding decode_imm_def Let_def
  by (intro keeps_intros keeps_ok_fetch keeps_ok_instr) simp_all

lemma fetchDecode32_operands:
  assumes "fetchDecode32 infoR infoM iptr i remaining s = Inr i'" "operands_ok i"
  shows "operands_ok i' \<and> seg i' < 6"
proof -
  define remain where "remain = (if remaining < 15 then remaining else 15)"
  define is_32 where "is_32 = seg_d_b (cache (sregs s 1))"
  define d0 where "d0 = \<lparr>dec_ilen = 0, dec_instr = init_instr is_32 is_32 (i\<lparr>resolve_ptr := BxResolve_null\<rparr>),
    dec_seg = 3, dec_os32 = is_32, dec_sse = 0, dec_override = 7, dec_lock = False\<rparr>"
  have d0: "decoding_ok d0" using assms(2) by (simp add: d0_def decoding_ok_def)
  obtain b d1 attr ia n r d2 d3 where f: "fetch_b1 iptr remain is_32 d0 = (Inr b, d1)"
    and o: "decode_opcode infoR infoM iptr remain b d1 = (Inr (attr, ia, n, r), d2)"
    and m: "decode_imm iptr remain attr d2 = (Inr (), d3)"
    and i': "i' = (let i = setMetaData 0 (of_nat (if dec_override d3 = BX_SEG_REG_NULL then dec_seg d3 else dec_override d3)) (dec_instr d3);
              i = (if attr AND 0x0200 \<noteq> 0 then setMetaData 2 (of_nat r) (setMetaData 3 (of_nat n) i) else i)
          in (setILen (of_nat (dec_ilen d3)) (setMetaData 1 (of_nat (b AND 0xff)) i))
            \<lparr>ia_opcode := (if dec_lock d3 \<and> attr AND 0x0100 = 0 then BX_IA_ERROR else ia)\<rparr>)"
    using assms(1) unfolding fetchDecode32_def Let_def remain_def [symmetric] is_32_def [symmetric] d0_def [symmetric]
    by (force simp: monad_simps split: prod.splits sum.splits)
  have "decoding_ok d1" using keeps_ok_fetch_b1 [OF f d0] .
  then have "decoding_ok d2" using keepsD [OF keeps_ok_opcode] o by (metis snd_conv)
  then have d3: "decoding_ok d3" using keepsD [OF keeps_ok_imm] m by (metis snd_conv)
  define sg where "sg = (if dec_override d3 = BX_SEG_REG_NULL then dec_seg d3 else dec_override d3)"
  have sg: "sg < 6" using d3 by (auto simp: sg_def decoding_ok_def)
  have "operands_ok i'"
    using d3 opcode_fields [OF o] unfolding i' Let_def by (simp add: decoding_ok_def ok_setMetaData)
  moreover have "seg i' = sg"
    using sg unfolding i' Let_def sg_def [symmetric] by (simp add: seg_def setILen_def unat_byte)
  ultimately show ?thesis using sg by simp
qed

end
