(* ===== verification/DecodeClaims.thy ===== *)
theory DecodeClaims
  imports Sample DecodeOk
begin

text \<open>
  The properties of the instruction decoder, for any contents of the opcode tables.
\<close>

section \<open>A sample instruction\<close>

text \<open>\<open>ADD EAX, [EBX+0x10]\<close>, with tables in which every opcode is one that
  takes no immediate.\<close>

definition sample_code :: "nat \<Rightarrow> 8 word" where
  "sample_code k = (if k = 0 then 0x03 else if k = 1 then 0x43 else 0x10)"

definition sample_table :: "nat \<Rightarrow> BxOpcodeInfo_t" where
  "sample_table k = BxOpcodeInfo 0 1 []"

lemma sample_modrm:
  "\<exists>d'. decode_modrm sample_code 15 3 d = (Inr (0x43, 0x40), d')" if "dec_ilen d = 1" "as32L (dec_instr d) \<noteq> 0"
  using that
  by (simp add: decode_modrm_def modrm32_def displacement32_def on_instr_def fetch_bytes_run bytes_at_def upt_rec
    sample_code_def monad_simps as32L_def)

lemma sample_as32: "as32L (init_instr 1 1 i) \<noteq> 0"
  by (simp add: as32L_def init_instr_def)

lemma sample_decode: "\<exists>i. fetchDecode32 sample_table sample_table sample_code sample_instr 15 sample_cpu = Inr i"
proof -
  have m: "BxOpcodeHasModrm32 ! 3" by (simp add: BxOpcodeHasModrm32_def)
  define d1 where "d1 = \<lparr>dec_ilen = Suc 0, dec_instr = init_instr 1 1 (sample_instr\<lparr>resolve_ptr := BxResolve_null\<rparr>),
      dec_seg = 3, dec_os32 = 1, dec_sse = 0, dec_override = 7, dec_lock = False\<rparr>"
  obtain d where "decode_modrm sample_code 15 3 d1 = (Inr (0x43, 0x40), d)"
    using sample_modrm [of d1] sample_as32 by (auto simp: d1_def)
  note d = this [unfolded d1_def]
  have g: "resolve_group n b3 os sse b2 0 (BxOpcodeInfo 0 1 []) = Inr (0, BxOpcodeInfo 0 1 [])" for n b3 os sse b2
    by (subst resolve_group.simps) simp
  show ?thesis
    unfolding fetchDecode32_def
    by (simp add: bindM_apply fetch_b1.simps prefix_step_def decode_opcode_def sample_table_def m d g getsM_apply returnM_apply
      seqM_apply decode_imm_def on_instr_def modifyM_apply sample_code_def [of 0] sample_cpu_def sample_segment_def)
qed

section \<open>Decoding\<close>

text \<open>C36: A decoded instruction has between 1 and 15 bytes, and no more than remain in the page.\<close>

theorem decoded_length:
  assumes "fetchDecode32 infoR infoM iptr i remaining s = Inr i'" "0 < remaining"
  shows "1 \<le> ilen i' \<and> ilen i' \<le> 15 \<and> unat (ilen i') \<le> remaining"
  using assms by (rule fetchDecode32_ilen)

theorem decoded_length_witness:
  "\<exists>i. fetchDecode32 sample_table sample_table sample_code sample_instr 15 sample_cpu = Inr i \<and> 1 \<le> ilen i \<and> ilen i \<le> 15"
  using sample_decode decoded_length [of sample_table sample_table sample_code sample_instr 15 sample_cpu] by auto

text \<open>C37: The decoder depends on no byte beyond the fifteenth and on none beyond the end of the page: two
  byte sequences that agree up to there decode alike, in success and in failure.\<close>

theorem decoder_reads_window:
  assumes "\<And>k. k < remaining \<Longrightarrow> k < 15 \<Longrightarrow> f k = g k" "0 < remaining"
  shows "fetchDecode32 infoR infoM f i remaining s = fetchDecode32 infoR infoM g i remaining s"
  using assms by (rule fetchDecode32_cong)

theorem decoder_reads_window_witness:
  "\<exists>i. fetchDecode32 sample_table sample_table (\<lambda>k. if k < 15 then sample_code k else 0xcc) sample_instr 15 sample_cpu = Inr i"
  using sample_decode decoder_reads_window [of 15 sample_code "\<lambda>k. if k < 15 then sample_code k else 0xcc"
      sample_table sample_table sample_instr sample_cpu] by simp

text \<open>C34: For a memory operand, with 32-bit or 16-bit addressing, the function the decoder stores in the
  instruction computes the effective address that the ModRM byte, the SIB byte and the displacement denote
  in the tables of the architecture, and the default segment is the one they name:
  SS for addresses based on ESP, EBP or BP, DS otherwise.\<close>

theorem modrm_effective_address:
  assumes "decode_modrm f remain byte1 d = (Inr (b2, m), d')" "m \<noteq> 0xc0" "dec_seg d = BX_SEG_REG_DS"
    and "gen_reg s BX_NIL_REGISTER = 0"
  shows "if as32L (dec_instr d) \<noteq> 0
    then ResolveModrm (dec_instr d') s = (Inr (ea32 f (dec_ilen d) s), s) \<and> dec_seg d' = seg32 f (dec_ilen d)
    else ResolveModrm (dec_instr d') s = (Inr (ea16 f (dec_ilen d) s), s) \<and> dec_seg d' = seg16 f (dec_ilen d)"
  using assms by (rule decode_modrm_address)

theorem modrm_effective_address_witness:
  "\<exists>d'. decode_modrm sample_code 15 3 \<lparr>dec_ilen = 1, dec_instr = init_instr 1 1 sample_instr, dec_seg = 3, dec_os32 = 1,
      dec_sse = 0, dec_override = 7, dec_lock = False\<rparr> = (Inr (0x43, 0x40), d') \<and>
    ResolveModrm (dec_instr d') sample_cpu = (Inr (gen_reg sample_cpu 3 + 0x10), sample_cpu)"
proof -
  define d where "d = \<lparr>dec_ilen = 1, dec_instr = init_instr 1 1 sample_instr, dec_seg = 3, dec_os32 = 1,
    dec_sse = 0, dec_override = 7, dec_lock = False\<rparr>"
  have a: "as32L (dec_instr d) \<noteq> 0" using sample_as32 by (simp add: d_def)
  then obtain d' where d': "decode_modrm sample_code 15 3 d = (Inr (0x43, 0x40), d')"
    using sample_modrm [of d] by (auto simp: d_def)
  moreover have "ea32 sample_code 1 sample_cpu = gen_reg sample_cpu 3 + 0x10"
    by (simp add: ea32_def disp32_at_def sample_code_def) (simp add: numeral_3_eq_3)
  ultimately show ?thesis
    using modrm_effective_address [OF d', of sample_cpu] a
    by (auto simp: d_def [symmetric]) (auto simp: d_def sample_cpu_def BX_NIL_REGISTER_def BX_GENERAL_REGISTERS_def)
qed

text \<open>C35: Decoding keeps an instruction well-formed: the register operands name general registers, or the
  temporary register for a memory operand, base and index are general registers or the
  register that reads as zero, the scale is at most 8 and the segment is one of the six.\<close>

theorem decoded_operands:
  assumes "fetchDecode32 infoR infoM iptr i remaining s = Inr i'" "operands_ok i"
  shows "operands_ok i' \<and> seg i' < 6"
  using assms by (rule fetchDecode32_operands)

theorem decoded_operands_witness:
  "\<exists>i. fetchDecode32 sample_table sample_table sample_code sample_instr 15 sample_cpu = Inr i \<and> nnn i < 8 \<and> seg i < 6"
proof -
  have "operands_ok sample_instr" by (simp add: operand_fields sample_instr_def)
  then show ?thesis
    using sample_decode decoded_operands [of sample_table sample_table sample_code sample_instr 15 sample_cpu]
    by (auto simp: operands_ok_def)
qed

end
