(* ===== verification/FarFacts.thy ===== *)
theory FarFacts
  imports FarInt
begin

text \<open>
  The privilege discipline of far transfers.  \<open>priv_inv (c, r, d)\<close> fixes the current
  privilege level and the two levels of the stack segment (selector and
  descriptor); a state is \<open>privilege_ok\<close> when the three agree and the cached access
  rights are sound.  Everything a transfer does before it installs the new segments
  keeps the triple, and what it installs makes the three levels agree again.
\<close>

section \<open>Results of runs that complete\<close>

definition yields :: "('s \<Rightarrow> bool) \<Rightarrow> ('s, 'e, 'a) monad \<Rightarrow> ('a \<Rightarrow> 's \<Rightarrow> bool) \<Rightarrow> bool" where
  "yields P m Q \<longleftrightarrow> (\<forall>s x s'. P s \<longrightarrow> m s = (Inr x, s') \<longrightarrow> Q x s')"

named_theorems yields_intros \<open>rules for the results of runs that complete\<close>

lemma yieldsD: "yields P m Q \<Longrightarrow> P s \<Longrightarrow> m s = (Inr x, s') \<Longrightarrow> Q x s'"
  by (simp add: yields_def)

lemma yields_raiseM [yields_intros]: "yields P (raiseM e) Q"
  by (simp add: yields_def monad_simps)

lemma yields_bindM: "yields P m R \<Longrightarrow> (\<And>x. yields (R x) (k x) Q) \<Longrightarrow> yields P (bindM m k) Q"
  unfolding yields_def by (metis bindM_returns)

lemma yields_seqM: "yields P m (\<lambda>_. R) \<Longrightarrow> yields R n Q \<Longrightarrow> yields P (seqM m n) Q"
  unfolding seqM_def by (rule yields_bindM)

lemma yields_keeps: "keeps P m \<Longrightarrow> yields P m (\<lambda>_. P)"
  unfolding yields_def keeps_def by (metis snd_conv)

lemma yields_bind_keeps: "keeps P m \<Longrightarrow> (\<And>x. yields P (k x) Q) \<Longrightarrow> yields P (bindM m k) Q"
  by (rule yields_bindM [OF yields_keeps])

lemma yields_seq_keeps: "keeps P m \<Longrightarrow> yields P n Q \<Longrightarrow> yields P (seqM m n) Q"
  by (rule yields_seqM [OF yields_keeps])

lemma yields_check [yields_intros]: "(\<not> b \<Longrightarrow> yields P n Q) \<Longrightarrow> yields P (seqM (whenM b (raiseM e)) n) Q"
  by (cases b) (simp_all add: yields_def monad_simps)

lemma yields_if [yields_intros]:
  "(b \<Longrightarrow> yields P m Q) \<Longrightarrow> (\<not> b \<Longrightarrow> yields P n Q) \<Longrightarrow> yields P (if b then m else n) Q"
  by simp

lemma yields_case_prod [yields_intros]: "(\<And>a b. p = (a, b) \<Longrightarrow> yields P (f a b) Q) \<Longrightarrow> yields P (case p of (a, b) \<Rightarrow> f a b) Q"
  by (simp split: prod.split)

lemma yields_post: "yields P m Q \<Longrightarrow> (\<And>x s. Q x s \<Longrightarrow> R x s) \<Longrightarrow> yields P m R"
  by (auto simp: yields_def)

lemma yields_pre: "yields P m Q \<Longrightarrow> (\<And>s. P' s \<Longrightarrow> P s) \<Longrightarrow> yields P' m Q"
  by (auto simp: yields_def)

lemma yields_whenM: "(b \<Longrightarrow> yields P m (\<lambda>_. Q)) \<Longrightarrow> (\<And>s. P s \<Longrightarrow> Q s) \<Longrightarrow> yields P (whenM b m) (\<lambda>_. Q)"
  by (cases b) (simp_all add: yields_def monad_simps)

lemma yields_modifyM: "(\<And>s. P s \<Longrightarrow> Q () (f s)) \<Longrightarrow> yields P (modifyM f) Q"
  by (simp add: yields_def monad_simps)

section \<open>The privilege levels of a state\<close>

definition priv_view :: "bx_cpu_c \<Rightarrow> 8 word \<times> 8 word \<times> 8 word" where
  "priv_view s = (CPL s, sel_rpl (selector (sregs s BX_SEG_REG_SS)), d_dpl (cache (sregs s BX_SEG_REG_SS)))"

definition priv_inv :: "8 word \<times> 8 word \<times> 8 word \<Rightarrow> bx_cpu_c \<Rightarrow> bool" where
  "priv_inv V s \<longleftrightarrow> seg_caches_ok s \<and> priv_view s = V"

definition privilege_ok :: "bx_cpu_c \<Rightarrow> bool" where
  "privilege_ok s \<longleftrightarrow> seg_caches_ok s \<and> sel_rpl (selector (sregs s BX_SEG_REG_SS)) = CPL s \<and>
    d_dpl (cache (sregs s BX_SEG_REG_SS)) = CPL s"

lemma privilege_ok_iff: "privilege_ok s \<longleftrightarrow> priv_inv (CPL s, CPL s, CPL s) s"
  by (simp add: privilege_ok_def priv_inv_def priv_view_def)

text \<open>Completed transfers end at a level of \<open>R\<close>.\<close>

definition at_level :: "8 word set \<Rightarrow> bx_cpu_c \<Rightarrow> bool" where
  "at_level R s \<longleftrightarrow> privilege_ok s \<and> CPL s \<in> R"

lemma at_levelI: "priv_inv (c, c, c) s \<Longrightarrow> c \<in> R \<Longrightarrow> at_level R s"
  by (auto simp: at_level_def privilege_ok_def priv_inv_def priv_view_def)

lemma yields_CPL: "yields (priv_inv (c, V)) (k c) Q \<Longrightarrow> yields (priv_inv (c, V)) (bindM (getsM CPL) k) Q"
  by (auto simp: yields_def monad_simps priv_inv_def priv_view_def)

lemma keeps_priv:
  assumes "\<And>S. keeps (sys_inv S) m"
  shows "keeps (priv_inv V) m"
proof (rule keepsI)
  fix s assume "priv_inv V s"
  then have inv: "sys_inv (sys_view s) s" and v: "priv_view s = V"
    by (simp_all add: priv_inv_def sys_inv_def)
  have k: "sys_inv (sys_view s) (snd (m s))" by (rule keepsD [OF assms inv])
  then have "sys_view (snd (m s)) = sys_view s" by (simp add: sys_inv_def)
  then have "(\<lambda>k. (sregs (snd (m s)) k)\<lparr>cache := (cache (sregs (snd (m s)) k))\<lparr>valid := 0\<rparr>\<rparr>) =
      (\<lambda>k. (sregs s k)\<lparr>cache := (cache (sregs s k))\<lparr>valid := 0\<rparr>\<rparr>)"
    by (simp add: sys_view_def)
  then have e: "(sregs (snd (m s)) k)\<lparr>cache := (cache (sregs (snd (m s)) k))\<lparr>valid := 0\<rparr>\<rparr> =
      (sregs s k)\<lparr>cache := (cache (sregs s k))\<lparr>valid := 0\<rparr>\<rparr>" for k
    by meson
  have "selector (sregs (snd (m s)) k) = selector (sregs s k) \<and>
      d_dpl (cache (sregs (snd (m s)) k)) = d_dpl (cache (sregs s k))" for k
    using arg_cong [OF e [of k], of selector] arg_cong [OF e [of k], of "\<lambda>r. d_dpl (cache r)"] by simp
  then have "priv_view (snd (m s)) = V" using v by (simp add: priv_view_def CPL_def)
  with k show "priv_inv V (snd (m s))" by (simp add: priv_inv_def sys_inv_def)
qed

lemma keeps_priv_modify: "(\<And>s. sregs (f s) = sregs s) \<Longrightarrow> keeps (priv_inv V) (modifyM f)"
  by (simp add: keeps_def monad_simps priv_inv_def priv_view_def CPL_def seg_caches_ok_def)

section \<open>What keeps the system state\<close>

lemma sys_inv_more [simp]:
  "sys_inv S (s\<lparr>prev_rip := x1\<rparr>) = sys_inv S s" "sys_inv S (s\<lparr>speculative_rsp := x2, prev_rsp := x3\<rparr>) = sys_inv S s"
  "sys_inv S (s\<lparr>speculative_rsp := x2\<rparr>) = sys_inv S s" "sys_inv S (s\<lparr>EXT := x4\<rparr>) = sys_inv S s"
  by (simp_all add: sys_inv_def sys_view_def seg_caches_ok_def)

lemma keeps_system [keeps_intros]:
  "keeps (sys_inv S) (system_tlb_read l n)" "keeps (sys_inv S) (system_tlb_write l data)"
  unfolding system_tlb_read_def system_tlb_write_def by (intro keeps_intros)+

lemma keeps_system_words [keeps_intros]:
  "keeps (sys_inv S) (system_read_byte l)" "keeps (sys_inv S) (system_read_word l)"
  "keeps (sys_inv S) (system_read_dword l)" "keeps (sys_inv S) (system_read_qword l)"
  "keeps (sys_inv S) (system_write_word l w)" "keeps (sys_inv S) (system_write_dword l d)"
  unfolding system_read_byte_def system_read_word_def system_read_dword_def system_read_qword_def
    system_write_word_def system_write_dword_def
  by (intro keeps_intros)+

lemma keeps_descriptors [keeps_intros]:
  "keeps (sys_inv S) (fetch_raw_descriptor sel e)" "keeps (sys_inv S) (touch_segment sel d)"
  "keeps (sys_inv S) (fetch_raw_descriptor2 sel)"
  unfolding fetch_raw_descriptor_def touch_segment_def fetch_raw_descriptor2_def Let_def
  by (intro keeps_intros)+

lemma keeps_read_eflags [keeps_intros]: "keeps (sys_inv S) read_eflags"
  unfolding read_eflags_def
  by (rule keepsI) (simp add: force_flags_def setEFlagsOSZAPC_def Let_def split: prod.split)

lemma keeps_push_pop [keeps_intros]:
  "keeps (sys_inv S) (push_16 w)" "keeps (sys_inv S) (push_32 d)" "keeps (sys_inv S) pop_16" "keeps (sys_inv S) pop_32"
  unfolding push_16_def push_32_def pop_16_def pop_32_def
  by (intro keeps_intros keeps_modify; simp)+

lemma keeps_check_new_stack [keeps_intros]: "keeps (sys_inv S) (check_new_stack l sr offset n)"
  unfolding check_new_stack_def new_stack_violation_def by (intro keeps_intros)

lemma keeps_new_stack [keeps_intros]:
  "keeps (sys_inv S) (write_new_stack_word_32 sr offset pl w)" "keeps (sys_inv S) (write_new_stack_dword_32 sr offset pl d)"
  unfolding write_new_stack_word_32_def write_new_stack_dword_32_def Let_def by (intro keeps_intros)+

lemma keeps_push_new [keeps_intros]: "keeps (sys_inv S) (push_new_stack dw pl v st)"
  unfolding push_new_stack_def by (intro keeps_intros)

lemma keeps_push_list [keeps_intros]: "keeps (sys_inv S) (push_list dw pl vs st)"
  by (induction vs arbitrary: st) (simp_all add: keeps_intros)

lemma keeps_copy_params [keeps_intros]: "keeps (sys_inv S) (copy_params dw pl e n st)"
  by (induction n arbitrary: st) (simp_all add: keeps_intros)

text \<open>A check of SS stores the descriptor back with its new rights.\<close>

lemma new_stack_mark:
  assumes "check_new_stack l sr offset n s = (Inr sr', s')" "seg_cache_ok sr"
  shows "s' = s" "seg_cache_ok sr'" "\<exists>b. sr' = mark_valid b sr"
proof -
  obtain b where b: "snd (write_virtual_checks sr offset n) = mark_valid b sr" using write_checks_result by blast
  have *: "s' = s \<and> (sr' = sr \<or> sr' = snd (write_virtual_checks sr offset n))"
    using assms(1) unfolding check_new_stack_def new_stack_violation_def
    by (auto simp: monad_simps split: if_splits prod.splits)
  then show "s' = s" by simp
  show "seg_cache_ok sr'" using * checks_keep_cache_ok(1) [OF assms(2)] assms(2) by auto
  show "\<exists>b. sr' = mark_valid b sr" using * b by (metis mark_valid_0)
qed

lemma keeps_SS_check [keeps_intros]:
  assumes "\<And>sr. keeps (sys_inv S) (k sr)"
  shows "keeps (sys_inv S) (bindM (getsM (\<lambda>s. sregs s BX_SEG_REG_SS)) (\<lambda>sr.
    bindM (check_new_stack l sr offset n) (\<lambda>sr'.
    seqM (modifyM (\<lambda>s. s\<lparr>sregs := (sregs s)(BX_SEG_REG_SS := sr')\<rparr>)) (k sr'))))"
proof (rule keepsI)
  fix s assume inv: "sys_inv S s"
  then have ok: "seg_cache_ok (sregs s 2)" by (simp add: sys_inv_def seg_caches_ok_def)
  show "sys_inv S (snd (bindM (getsM (\<lambda>s. sregs s BX_SEG_REG_SS)) (\<lambda>sr.
    bindM (check_new_stack l sr offset n) (\<lambda>sr'.
    seqM (modifyM (\<lambda>s. s\<lparr>sregs := (sregs s)(BX_SEG_REG_SS := sr')\<rparr>)) (k sr'))) s))"
  proof (cases "check_new_stack l (sregs s 2) offset n s")
    case (Pair r s')
    show ?thesis
    proof (cases r)
      case (Inl e)
      then show ?thesis using keepsD [OF keeps_check_new_stack inv, of l "sregs s 2" offset n] Pair by (simp add: monad_simps)
    next
      case (Inr sr')
      with Pair have run: "check_new_stack l (sregs s 2) offset n s = (Inr sr', s')" by simp
      from new_stack_mark(3) [OF run ok] obtain b where b: "sr' = mark_valid b (sregs s 2)" ..
      have "sys_inv S (s\<lparr>sregs := (sregs s)(2 := sr')\<rparr>)"
        using inv new_stack_mark(2) [OF run ok]
        by (auto simp: sys_inv_def seg_caches_ok_def sys_view_def b mark_valid_def fun_eq_iff)
      then show ?thesis
        using keepsD [OF assms, of "s\<lparr>sregs := (sregs s)(2 := sr')\<rparr>" sr'] run new_stack_mark(1) [OF run ok]
        by (simp add: monad_simps)
    qed
  qed
qed

lemma keeps_SS_stack [keeps_intros]:
  "keeps (sys_inv S) (write_SS_stack_word_32 offset pl w)" "keeps (sys_inv S) (write_SS_stack_dword_32 offset pl d)"
  unfolding write_SS_stack_word_32_def write_SS_stack_dword_32_def Let_def
  by (intro keeps_SS_check keeps_intros)+

section \<open>Loading segments\<close>

lemma yields_touch:
  assumes "yields (priv_inv V) (k (d\<lparr>d_type := d_type d OR 1\<rparr>)) Q"
  shows "yields (priv_inv V) (bindM (touch_segment sel d) k) Q"
proof -
  have "x = d\<lparr>d_type := d_type d OR 1\<rparr>" if "touch_segment sel d s = (Inr x, s')" for s x s'
    using touch_fields(2) [OF that] by simp
  moreover have "keeps (priv_inv V) (touch_segment sel d)" by (intro keeps_priv keeps_intros)
  ultimately have "yields (priv_inv V) (touch_segment sel d) (\<lambda>x s. priv_inv V s \<and> x = d\<lparr>d_type := d_type d OR 1\<rparr>)"
    unfolding yields_def keeps_def by (metis snd_conv)
  then show ?thesis by (rule yields_bindM) (use assms in \<open>auto simp: yields_def\<close>)
qed

lemma caches_upd: "seg_caches_ok s \<Longrightarrow> seg_cache_ok sr \<Longrightarrow> seg_caches_ok (s\<lparr>sregs := (sregs s)(k := sr)\<rparr>)"
  by (simp add: seg_caches_ok_def)

lemma yields_store_CS:
  "d_type x < 16 \<Longrightarrow> yields (priv_inv (c, V)) (store_segment BX_SEG_REG_CS sel x) (\<lambda>_. priv_inv (sel_rpl sel, V))"
  unfolding store_segment_def
  by (rule yields_modifyM) (auto simp: priv_inv_def priv_view_def CPL_def intro!: caches_upd fresh_cache_ok)

lemma yields_store_SS:
  "d_type x < 16 \<Longrightarrow>
    yields (priv_inv (c, V)) (store_segment BX_SEG_REG_SS sel x) (\<lambda>_. priv_inv (c, sel_rpl sel, d_dpl x))"
  unfolding store_segment_def
  by (rule yields_modifyM) (auto simp: priv_inv_def priv_view_def CPL_def intro!: caches_upd fresh_cache_ok)

lemma keeps_fetch_mode [keeps_intros]:
  "keeps (priv_inv V) (modifyM updateFetchModeMask)" "keeps (priv_inv V) (modifyM handleAlignmentCheck)"
  "keeps (priv_inv V) (modifyM invalidate_prefetch_q)"
  by (rule keeps_priv_modify, simp add: updateFetchModeMask_def handleAlignmentCheck_def invalidate_prefetch_q_def)+

lemma yields_load_cs:
  assumes "d_type x < 16"
  shows "yields (priv_inv (c, V)) (load_cs sel x c') (\<lambda>_. priv_inv (c', V))"
  unfolding load_cs_def Let_def
  by (intro yields_touch yields_seqM [OF yields_store_CS] yields_keeps keeps_intros)
    (simp_all add: touched_less [OF assms] keeps_intros yields_keeps)

lemma yields_load_ss:
  assumes "d_type x < 16"
  shows "yields (priv_inv (c, V)) (load_ss sel x c') (\<lambda>_. priv_inv (c, c', d_dpl x))"
proof -
  define sel' where "sel' = sel\<lparr>sel_value := (0xfffc AND sel_value sel) OR ucast c'\<rparr>"
  have *: "yields (priv_inv (c, V)) (store_segment BX_SEG_REG_SS (sel'\<lparr>sel_rpl := c'\<rparr>) y) (\<lambda>_. priv_inv (c, c', d_dpl x))"
    if "d_type y < 16" "d_dpl y = d_dpl x" for y
    using yields_store_SS [OF that(1), of c V "sel'\<lparr>sel_rpl := c'\<rparr>"] that(2) by simp
  show ?thesis
    unfolding load_ss_def Let_def sel'_def [symmetric]
    by (cases "sel_value sel' AND 0xfffc = 0")
      (simp_all add: * assms touched_less yields_touch)
qed

lemma keeps_regs [keeps_intros]:
  "keeps (priv_inv V) (modifyM (set_EIP e))" "keeps (priv_inv V) (modifyM (set_ESP e))"
  "keeps (priv_inv V) (modifyM (set_SP w))" "keeps (priv_inv V) (modifyM (clear_eflag n))"
  by (rule keeps_priv_modify, simp add: reg_defs clear_eflag_def)+

lemma yields_branch_far:
  assumes "d_type x < 16"
  shows "yields (priv_inv (c, V)) (branch_far32 sel x eip c') (\<lambda>_. priv_inv (c', V))"
    "yields (priv_inv (c, V)) (branch_far64 sel x eip c') (\<lambda>_. priv_inv (c', V))"
  unfolding branch_far32_def branch_far64_def Let_def
  by (intro yields_check yields_seqM [OF yields_load_cs [OF assms]] yields_keeps keeps_intros)+

lemma keeps_mode_change [keeps_intros]: "keeps (priv_inv V) handleCpuModeChange"
proof (rule keepsI)
  fix s assume inv: "priv_inv V s"
  have "seg_cache_ok (real_mode_CS sr)" if "seg_cache_ok sr" for sr
    using that by (simp add: seg_cache_ok_def real_mode_CS_def)
  then have "priv_inv V (mode_state s)"
    using inv by (auto simp: mode_state_def priv_inv_def priv_view_def CPL_def real_mode_CS_def seg_caches_ok_def)
  then show "priv_inv V (snd (handleCpuModeChange s))"
    unfolding handleCpuModeChange_run
    by (simp add: priv_inv_def priv_view_def CPL_def updateFetchModeMask_def seg_caches_ok_def)
qed

lemma keeps_eflags [keeps_intros]:
  "keeps (priv_inv V) (setEFlags e)" "keeps (priv_inv V) (writeEFlags e m)" "keeps (priv_inv V) (write_flags w a b)"
  "keeps (priv_inv V) clear_VM"
  unfolding setEFlags_def writeEFlags_def write_flags_def clear_VM_def set_VM_def Let_def
  by (intro keeps_intros keeps_priv_modify; simp)+

end
