(* ===== verification/FarPriv.thy ===== *)
theory FarPriv
  imports FarFacts
begin

text \<open>
  Every far transfer that completes leaves the privilege level and the two levels of
  the stack segment in agreement, and moves the level in the direction it may: a
  jump keeps it, a call or an interrupt never goes outward, a return never inward.
  A task switch ends at the level the new task state segment asks for.
\<close>

lemmas priv_accesses [keeps_intros] = keeps_priv [OF keeps_accessors(1)] keeps_priv [OF keeps_accessors(2)]
  keeps_priv [OF keeps_accessors(3)] keeps_priv [OF keeps_accessors(5)] keeps_priv [OF keeps_accessors(6)]
  keeps_priv [OF keeps_accessors(7)] keeps_priv [OF keeps_translate] keeps_priv [OF keeps_linear(1)]
  keeps_priv [OF keeps_linear(2)]

lemmas priv_system [keeps_intros] = keeps_priv [OF keeps_system_words(1)] keeps_priv [OF keeps_system_words(2)]
  keeps_priv [OF keeps_system_words(3)] keeps_priv [OF keeps_system_words(4)] keeps_priv [OF keeps_system_words(5)]
  keeps_priv [OF keeps_system_words(6)] keeps_priv [OF keeps_descriptors(1)] keeps_priv [OF keeps_descriptors(2)]
  keeps_priv [OF keeps_descriptors(3)] keeps_priv [OF keeps_read_eflags]

lemmas priv_stack [keeps_intros] = keeps_priv [OF keeps_push_pop(1)] keeps_priv [OF keeps_push_pop(2)]
  keeps_priv [OF keeps_push_pop(3)] keeps_priv [OF keeps_push_pop(4)] keeps_priv [OF keeps_push_list]
  keeps_priv [OF keeps_copy_params] keeps_priv [OF keeps_SS_stack(1)] keeps_priv [OF keeps_SS_stack(2)]
  keeps_priv [OF keeps_ResolveModrm]

lemma priv_modifies [keeps_intros]:
  "keeps (priv_inv V) RSP_SPECULATIVE" "keeps (priv_inv V) RSP_COMMIT"
  "keeps (priv_inv V) (modifyM (\<lambda>s. s\<lparr>debug_trap := f1 s, async_event := x\<rparr>))"
  "keeps (priv_inv V) (modifyM (\<lambda>s. (invalidate_prefetch_q s)\<lparr>debug_trap := d, inhibit_mask := i\<rparr>))"
  "keeps (priv_inv V) (modifyM (\<lambda>s. s\<lparr>ldtr := f2 s\<rparr>))" "keeps (priv_inv V) (modifyM (task_state ts td t))"
  unfolding RSP_SPECULATIVE_def RSP_COMMIT_def
  by (rule keeps_priv_modify, simp add: invalidate_prefetch_q_def task_state_def)+

section \<open>Task switches\<close>

lemma priv_task_parts [keeps_intros]:
  "keeps (priv_inv V) (get_SS_ESP_from_TSS u pl)" "keeps (priv_inv V) (save_tss286 b f)"
  "keeps (priv_inv V) (save_tss386 b f)" "keeps (priv_inv V) (rmw_busy g sel)"
  "keeps (priv_inv V) (task_checks sel d src)" "keeps (priv_inv V) (SetCR3 v)"
  unfolding get_SS_ESP_from_TSS_def save_tss286_def save_tss386_def rmw_busy_def task_checks_def SetCR3_def Let_def
  by (intro keeps_intros keeps_priv_modify; simp)+

lemma priv_read_image [keeps_intros]:
  "(\<And>k. keeps (priv_inv V) (get k)) \<Longrightarrow> keeps (priv_inv V) (read_image get ks f)"
  by (induction ks arbitrary: f) (simp_all add: keeps_intros)

lemma priv_load_tss [keeps_intros]: "keeps (priv_inv V) (load_tss286 b)" "keeps (priv_inv V) (load_tss386 b)"
  unfolding load_tss286_def load_tss386_def by (intro keeps_intros)+

lemma parse_valid: "valid (parse_descriptor d1 d2 d) \<in> {0, 1}"
  by (simp add: parse_descriptor_def parse_segment_def Let_def)

lemma yields_fetch_task:
  assumes "\<And>x. d_type x < 16 \<Longrightarrow> valid x \<in> {0, 1} \<Longrightarrow> yields (priv_inv V) (k x) Q"
  shows "yields (priv_inv V) (bindM (fetch_task_descriptor u sel raw) k) Q"
proof -
  have "keeps (priv_inv V) (fetch_raw_descriptor2 sel)" by (intro keeps_intros)
  then have "yields (priv_inv V) (fetch_task_descriptor u sel raw) (\<lambda>x s. priv_inv V s \<and> d_type x < 16 \<and> valid x \<in> {0, 1})"
    unfolding fetch_task_descriptor_def
    by (rule yields_bind_keeps) (auto simp: yields_def monad_simps parse_type_less parse_valid [simplified] split: option.splits)
  then show ?thesis by (rule yields_bindM) (use assms in \<open>auto simp: yields_def\<close>)
qed

lemma cache_store_ok:
  assumes "seg_caches_ok s" "d_type x < 16" "valid x \<in> {0, 1}"
  shows "seg_caches_ok (set_seg_cache k (x\<lparr>d_type := d_type x OR 1\<rparr>) s)"
  unfolding set_seg_cache_def using assms by (intro caches_upd fresh_cache_ok) (simp_all add: touched_less)

lemma yields_load_selector:
  assumes "k \<noteq> 1" "k \<noteq> 2"
  shows "yields (priv_inv V) (task_switch_load_selector u k sel raw c) (\<lambda>_. priv_inv V)"
proof -
  have "yields (priv_inv V) (modifyM (set_seg_cache k (x\<lparr>d_type := d_type x OR 1\<rparr>))) (\<lambda>_. priv_inv V)"
    if "d_type x < 16" "valid x \<in> {0, 1}" for x
    by (rule yields_modifyM) (use assms cache_store_ok that in \<open>auto simp: priv_inv_def priv_view_def CPL_def set_seg_cache_def\<close>)
  then show ?thesis
    unfolding task_switch_load_selector_def
    by (intro yields_whenM yields_fetch_task yields_check yields_seq_keeps [where m = "whenM _ (whenM _ _)"]
      yields_touch keeps_whenM keeps_raiseM) simp_all
qed

lemma yields_task_SS:
  "yields (priv_inv (c, b, d)) (task_load_SS u raw a) (\<lambda>_ s. priv_inv (c, b, a) s \<and> sel_rpl (parse_selector raw) = a)"
proof -
  have st: "yields (priv_inv (c, b, d)) (modifyM (set_seg_cache 2 (x\<lparr>d_type := d_type x OR 1\<rparr>)))
      (\<lambda>_ s. priv_inv (c, b, a) s \<and> sel_rpl (parse_selector raw) = a)"
    if "d_type x < 16" "valid x \<in> {0, 1}" "d_dpl x = a" "d_dpl x = sel_rpl (parse_selector raw)" for x
    by (rule yields_modifyM) (use cache_store_ok that in \<open>auto simp: priv_inv_def priv_view_def CPL_def set_seg_cache_def\<close>)
  show ?thesis
    unfolding task_load_SS_def Let_def
    by (intro yields_if yields_fetch_task yields_check yields_touch yields_raiseM st) simp_all
qed

lemma yields_task_CS: "yields (priv_inv V) (task_load_CS u raw) (\<lambda>_. priv_inv V)"
proof -
  have st: "yields (priv_inv V) (modifyM (set_seg_cache 1 (x\<lparr>d_type := d_type x OR 1\<rparr>))) (\<lambda>_. priv_inv V)"
    if "d_type x < 16" "valid x \<in> {0, 1}" for x
    by (rule yields_modifyM) (use cache_store_ok that in \<open>auto simp: priv_inv_def priv_view_def CPL_def set_seg_cache_def\<close>)
  show ?thesis
    unfolding task_load_CS_def Let_def
    by (intro yields_if yields_fetch_task yields_check yields_touch yields_raiseM st)
qed

lemma priv_task_LDTR [keeps_intros]: "keeps (priv_inv V) (task_load_LDTR u raw)"
proof -
  have "keeps (priv_inv V) (fetch_task_descriptor u sel raw)" for sel
    unfolding fetch_task_descriptor_def by (intro keeps_intros) (simp add: keeps_intros split: option.split)
  then show ?thesis
    unfolding task_load_LDTR_def Let_def by (intro keeps_intros)
qed

lemma yields_set_CPL: "yields (priv_inv (c, V)) (modifyM (set_CPL c')) (\<lambda>_. priv_inv (c', V))"
  by (rule yields_modifyM)
    (auto simp: set_CPL_def priv_inv_def priv_view_def CPL_def seg_caches_ok_def seg_cache_ok_def)

lemma yields_task_segments:
  assumes "a = sel_rpl (parse_selector (raw_sreg t 1))" "b = sel_rpl (parse_selector (raw_sreg t 2))"
  shows "yields (priv_inv (c, b, d)) (task_segments u t a) (\<lambda>_. at_level UNIV)"
proof (cases "b = a")
  case True
  show ?thesis
    unfolding task_segments_def Let_def assms(1) [symmetric]
    apply (rule yields_post [where Q = "\<lambda>_. priv_inv (a, a, a)"])
    apply (rule yields_seqM [OF yields_post [OF yields_task_SS], where R = "priv_inv (c, a, a)"], simp add: True)
    apply (rule yields_seqM [OF yields_set_CPL])
    apply (rule yields_seqM [OF yields_load_selector]; simp?)+
    apply (rule yields_seqM [OF yields_task_CS])
    by (intro yields_keeps keeps_intros | simp add: at_levelI)+
next
  case False
  then show ?thesis
    unfolding task_segments_def Let_def assms(1) [symmetric]
    by (intro yields_seqM [OF yields_post [OF yields_task_SS], where R = "\<lambda>_. False"])
      (simp_all add: assms(2) yields_def)
qed

text \<open>In virtual-8086 mode every load makes the three levels 3.\<close>

lemma yields_v86_load:
  assumes "k = 2 \<Longrightarrow> W = (3, 3)" "k \<noteq> 2 \<Longrightarrow> W = V"
  shows "yields (\<lambda>s. priv_inv (c, V) s \<and> v8086_mode s) (load_seg_reg temp k v)
    (\<lambda>_ s. priv_inv (if k = 1 then 3 else c, W) s \<and> v8086_mode s)"
  unfolding yields_def
proof (intro allI impI)
  fix s x s' assume P: "priv_inv (c, V) s \<and> v8086_mode s" and run: "load_seg_reg temp k v s = (Inr x, s')"
  have m: "\<not> protected_mode s" "\<not> real_mode s"
    using P by (simp_all add: v8086_mode_def protected_mode_def real_mode_def word_le_nat_alt)
  have ok: "seg_caches_ok s'" using load_seg_reg_caches [OF run] P by (simp add: priv_inv_def)
  have "load_seg_real k v s = (Inr x, s')" using run m by (simp add: load_seg_reg_def monad_simps)
  then have "\<exists>sr. sregs s' = (sregs s)(k := sr) \<and> sel_rpl (selector sr) = 3 \<and> d_dpl (cache sr) = 3" and "cpu_mode s' = cpu_mode s"
    using m unfolding load_seg_real_def
    by (auto simp: monad_simps whenM_def updateFetchModeMask_def handleAlignmentCheck_def real_mode_def split: if_splits)
  then show "priv_inv (if k = 1 then 3 else c, W) s' \<and> v8086_mode s'"
    using P ok assms by (auto simp: priv_inv_def priv_view_def CPL_def v8086_mode_def)
qed

lemma yields_task_v86:
  "yields (\<lambda>s. priv_inv V s \<and> v8086_mode s) (task_segments_v86 u t) (\<lambda>_. at_level UNIV)"
proof -
  obtain c r d where V: "V = (c, r, d)" by (cases V)
  have ss: "yields (\<lambda>s. priv_inv (c, r, d) s \<and> v8086_mode s) (load_seg_reg temp 2 v)
      (\<lambda>_ s. priv_inv (c, 3, 3) s \<and> v8086_mode s)" for temp v
    using yields_v86_load [of 2 "(3, 3)" "(r, d)" c temp v] by simp
  have ds: "yields (\<lambda>s. priv_inv (c, 3, 3) s \<and> v8086_mode s) (load_seg_reg temp k v)
      (\<lambda>_ s. priv_inv (c, 3, 3) s \<and> v8086_mode s)" if "k \<noteq> 1" for temp k v
    using yields_v86_load [of k "(3, 3)" "(3, 3)" c temp v] that by simp
  have cs: "yields (\<lambda>s. priv_inv (c, 3, 3) s \<and> v8086_mode s) (load_seg_reg temp 1 v)
      (\<lambda>_ s. priv_inv (3, 3, 3) s \<and> v8086_mode s)" for temp v
    using yields_v86_load [of 1 "(3, 3)" "(3, 3)" c temp v] by simp
  show ?thesis
    unfolding task_segments_v86_def Let_def V
    by (rule yields_seqM [OF ss], (rule yields_seqM [OF ds], simp)+, rule yields_post [OF cs]) (auto intro: at_levelI)
qed

lemma yields_selectors:
  "yields (priv_inv (c, r, d)) (modifyM (task_selectors t))
    (\<lambda>_. priv_inv (sel_rpl (parse_selector (raw_sreg t 1)), sel_rpl (parse_selector (raw_sreg t 2)), d))"
  by (rule yields_modifyM)
    (auto simp: task_selectors_def priv_inv_def priv_view_def CPL_def seg_caches_ok_def seg_cache_ok_def)

lemma keeps_at_level: "(\<And>V. keeps (priv_inv V) m) \<Longrightarrow> keeps (at_level R) m"
  unfolding keeps_def at_level_def privilege_ok_iff
  by (metis (no_types, lifting) fst_conv priv_inv_def priv_view_def)

lemma yields_task_commit: "yields (priv_inv V) (task_commit u sel x src t) (\<lambda>_. at_level UNIV)"
proof -
  obtain c r d where V: "V = (c, r, d)" by (cases V)
  have split: "yields P (bindM (getsM v8086_mode) (\<lambda>v. if v then m else n)) Q"
    if "yields (\<lambda>s. P s \<and> v8086_mode s) m Q" "yields P n Q" for P m n Q
    using that by (auto simp: yields_def monad_simps)
  have cr3: "keeps (priv_inv W) (bindM (getsM f) (\<lambda>(PG, CR3). whenM (b PG) (whenM (newCR3 t \<noteq> CR3)
      (bindM (SetCR3 (newCR3 t)) (\<lambda>ok. whenM (\<not> ok) (exception BX_GP_EXCEPTION 0))))))" for W f b
    by (intro keeps_intros)
  show ?thesis
    unfolding task_commit_def V
    by (rule yields_seq_keeps, intro keeps_intros, rule yields_seq_keeps, intro keeps_intros,
      rule yields_seqM [OF yields_selectors], rule yields_seq_keeps [OF cr3], rule yields_CPL,
      rule yields_seqM [OF yields_set_CPL], rule yields_seq_keeps, intro keeps_intros,
      rule yields_seqM [OF split [OF yields_task_v86 yields_task_segments]], simp, simp,
      intro yields_keeps keeps_at_level keeps_intros)
qed

lemma yields_task_switch: "yields (priv_inv V) (task_switch u sel x src) (\<lambda>_. at_level UNIV)"
  unfolding task_switch_def Let_def
  by (intro yields_seq_keeps yields_bind_keeps keeps_intros yields_task_commit)

section \<open>Jumps\<close>

lemma yields_fetch:
  assumes "\<And>d1 d2. yields (priv_inv V) (k (d1, d2)) Q"
  shows "yields (priv_inv V) (bindM (fetch_raw_descriptor sel e) k) Q"
proof (rule yields_bind_keeps)
  show "keeps (priv_inv V) (fetch_raw_descriptor sel e)" by (intro keeps_intros)
  show "yields (priv_inv V) (k x) Q" for x using assms by (cases x) simp
qed

lemma yields_check_cs:
  assumes "d_dpl x \<le> cpl \<Longrightarrow> IS_CODE_SEGMENT_CONFORMING (d_type x) \<or> d_dpl x = cpl \<Longrightarrow> yields P n Q"
  shows "yields P (seqM (check_cs x raw check_rpl cpl) n) Q"
  using assms unfolding check_cs_def IS_CODE_SEGMENT_NON_CONFORMING_def
  by (auto simp: yields_def monad_simps whenM_def not_less split: if_splits)

lemma keeps_eip_limit [keeps_intros]: "keeps I eip_in_CS_limit" "keeps I (eip_in_limit e)"
  unfolding eip_in_CS_limit_def eip_in_limit_def by (intro keeps_intros)+

lemma yields_task_gate: "yields (priv_inv V) (task_gate u sel x src) (\<lambda>_. at_level UNIV)"
  unfolding task_gate_def Let_def
  by (intro yields_check yields_fetch yields_case_prod yields_seqM [OF yields_task_switch] yields_keeps keeps_intros)

text \<open>A descriptor through which a far transfer switches tasks.\<close>

definition task_descriptor :: "bx_descriptor_t \<Rightarrow> bool" where
  "task_descriptor x \<longleftrightarrow> d_segment x = 0 \<and> d_type x \<in> {BX_SYS_SEGMENT_AVAIL_286_TSS, BX_TASK_GATE, BX_SYS_SEGMENT_AVAIL_386_TSS}"

lemma yields_level: "yields P m (\<lambda>_. priv_inv (c, c, c)) \<Longrightarrow> c \<in> R \<Longrightarrow> yields P m (\<lambda>_. at_level R)"
  by (erule yields_post) (simp add: at_levelI)

lemma yields_more: "yields P m (\<lambda>_. at_level R) \<Longrightarrow> R \<subseteq> R' \<Longrightarrow> yields P m (\<lambda>_. at_level R')"
  by (erule yields_post) (auto simp: at_level_def)

lemma yields_jmp_call_gate: "yields (priv_inv (c, c, c)) (jmp_call_gate u sel x) (\<lambda>_. at_level {c})"
  unfolding jmp_call_gate_def Let_def
  by (intro yields_check yields_fetch yields_case_prod yields_CPL yields_check_cs
    yields_level [OF yields_branch_far(1)] parse_type_less) simp_all

lemma yields_task_transfer: "yields (priv_inv V) (task_transfer u sel x raw src) (\<lambda>_. at_level UNIV)"
  unfolding task_transfer_def by (intro yields_check yields_seqM [OF yields_task_switch] yields_keeps keeps_intros)

lemma yields_jump:
  assumes "d_type x < 16"
  shows "yields (priv_inv (c, c, c)) (jump_descriptor u raw disp x) (\<lambda>_. at_level (if task_descriptor x then UNIV else {c}))"
proof -
  have seg: "yields (priv_inv (c, c, c)) (branch_far64 sel x disp c) (\<lambda>_. at_level (if task_descriptor x then UNIV else {c}))" for sel
    by (rule yields_level [OF yields_branch_far(2) [OF assms]]) simp
  have gate: "yields (priv_inv (c, c, c)) (jmp_call_gate u sel x) (\<lambda>_. at_level (if task_descriptor x then UNIV else {c}))" for sel
    by (rule yields_more [OF yields_jmp_call_gate]) simp
  have task: "yields (priv_inv (c, c, c)) m (\<lambda>_. at_level (if task_descriptor x then UNIV else {c}))"
    if "yields (priv_inv (c, c, c)) m (\<lambda>_. at_level UNIV)" "task_descriptor x" for m
    using that by simp
  show ?thesis
    unfolding jump_descriptor_def Let_def
    by (intro yields_CPL yields_if yields_check yields_check_cs seg gate yields_raiseM
      task [OF yields_task_transfer] task [OF yields_task_gate]) (auto simp: task_descriptor_def)
qed

section \<open>Calls\<close>

lemma yields_inner_stack:
  assumes "\<And>sel x. d_type x < 16 \<Longrightarrow> d_dpl x = dpl \<Longrightarrow> yields (priv_inv V) (k (sel, x)) Q"
  shows "yields (priv_inv V) (bindM (inner_stack u dpl raw) k) Q"
proof (rule yields_bindM)
  have ret: "yields (priv_inv V) (returnM (sel, x)) (\<lambda>p s. priv_inv V s \<and> d_type (snd p) < 16 \<and> d_dpl (snd p) = dpl)"
    if "d_type x < 16" "\<not> d_dpl x \<noteq> dpl" for sel :: bx_selector_t and x :: bx_descriptor_t
    using that by (simp add: yields_def monad_simps)
  show "yields (priv_inv V) (inner_stack u dpl raw) (\<lambda>p s. priv_inv V s \<and> d_type (snd p) < 16 \<and> d_dpl (snd p) = dpl)"
    unfolding inner_stack_def Let_def
    by (intro yields_check yields_fetch yields_case_prod ret parse_type_less) simp
  show "yields (\<lambda>s. priv_inv V s \<and> d_type (snd p) < 16 \<and> d_dpl (snd p) = dpl) (k p) Q" for p
    using assms [of "snd p" "fst p"] by (auto simp: yields_def)
qed

lemma keeps_frames [keeps_intros]:
  "keeps (priv_inv V) (call_gate_frame dw pl ss e n cs ip st)" "keeps (priv_inv V) (int_frame dw pl v ss e cs ip err st)"
  unfolding call_gate_frame_def int_frame_def by (intro keeps_intros)+

lemma yields_call_inner:
  assumes "d_type x < 16" "d_dpl x < c"
  shows "yields (priv_inv (c, c, c)) (call_gate_inner u g sel x) (\<lambda>_. at_level {..c})"
proof -
  have "yields (priv_inv (c, c, c)) (seqM (load_ss ssel y (d_dpl x)) (seqM (load_cs sel x (d_dpl x)) (modifyM (set_EIP e))))
      (\<lambda>_. at_level {..c})" if "d_type y < 16" "d_dpl y = d_dpl x" for ssel y e
  proof (rule yields_level [of _ _ "d_dpl x"])
    have "yields (priv_inv (c, c, c)) (load_ss ssel y (d_dpl x)) (\<lambda>_. priv_inv (c, d_dpl x, d_dpl x))"
      using yields_load_ss [OF that(1), of c "(c, c)" ssel "d_dpl x"] that(2) by simp
    then show "yields (priv_inv (c, c, c)) (seqM (load_ss ssel y (d_dpl x)) (seqM (load_cs sel x (d_dpl x)) (modifyM (set_EIP e))))
        (\<lambda>_. priv_inv (d_dpl x, d_dpl x, d_dpl x))"
      by (rule yields_seqM) (intro yields_seqM [OF yields_load_cs [OF assms(1)]] yields_keeps keeps_intros)
  qed (use assms(2) in simp)
  then show ?thesis
    unfolding call_gate_inner_def Let_def
    by (intro yields_bind_keeps [where m = "get_SS_ESP_from_TSS _ _"] yields_bind_keeps [where m = "getsM _"]
      yields_inner_stack yields_case_prod yields_seq_keeps [where m = "if _ then _ else _"] yields_check keeps_intros) simp_all
qed

lemma yields_call_gate: "yields (priv_inv (c, c, c)) (call_gate u g) (\<lambda>_. at_level {..c})"
  unfolding call_gate_def Let_def
  by (intro yields_check yields_fetch yields_case_prod yields_CPL yields_if yields_call_inner parse_type_less
    yields_seq_keeps [where m = "if _ then _ else _"] yields_level [OF yields_branch_far(1)] keeps_intros) simp_all

lemma yields_call_segment:
  assumes "d_type x < 16"
  shows "yields (priv_inv (c, c, c)) (call_segment i raw disp x) (\<lambda>_. at_level {c})"
proof -
  have "keeps (priv_inv V) (modifyM (\<lambda>s. if ss_d_b s then set_ESP e s else set_SP w s))" for V e w
    by (rule keeps_priv_modify) (simp add: reg_defs)
  then show ?thesis
    unfolding call_segment_def Let_def
    by (intro yields_CPL yields_check_cs yields_bind_keeps [where m = "getsM _"] yields_bind_keeps [where m = "if _ then _ else _"]
      keeps_intros yields_level [OF yields_seqM [OF yields_branch_far(2) [OF assms] yields_keeps]]) simp_all
qed

lemma yields_call:
  assumes "d_type x < 16"
  shows "yields (priv_inv (c, c, c)) (call_descriptor u i raw disp x) (\<lambda>_. at_level (if task_descriptor x then UNIV else {..c}))"
proof -
  have seg: "yields (priv_inv (c, c, c)) (call_segment i raw disp x) (\<lambda>_. at_level (if task_descriptor x then UNIV else {..c}))"
    by (rule yields_more [OF yields_call_segment [OF assms]]) simp
  have gate: "yields (priv_inv (c, c, c)) (call_gate u x) (\<lambda>_. at_level (if task_descriptor x then UNIV else {..c}))"
    by (rule yields_more [OF yields_call_gate]) simp
  have task: "yields (priv_inv (c, c, c)) m (\<lambda>_. at_level (if task_descriptor x then UNIV else {..c}))"
    if "yields (priv_inv (c, c, c)) m (\<lambda>_. at_level UNIV)" "task_descriptor x" for m
    using that by simp
  show ?thesis
    unfolding call_descriptor_def Let_def
    by (intro yields_CPL yields_if yields_check seg gate yields_raiseM
      task [OF yields_task_transfer] task [OF yields_task_gate]) (auto simp: task_descriptor_def)
qed

section \<open>Returns\<close>

text \<open>The data segment registers the current level may use: invalid, of that level or
  an outer one, or conforming code.\<close>

definition data_segs_ok :: "bx_cpu_c \<Rightarrow> bool" where
  "data_segs_ok s \<longleftrightarrow> list_all (\<lambda>k. \<not> too_privileged (CPL s) (sregs s k) \<or> valid (cache (sregs s k)) = 0)
    [BX_SEG_REG_ES, BX_SEG_REG_DS, BX_SEG_REG_FS, BX_SEG_REG_GS]"

text \<open>Where a return may end: at the same level or further out, there with usable data
  segments only.\<close>

definition returned :: "8 word \<Rightarrow> bx_cpu_c \<Rightarrow> bool" where
  "returned c s \<longleftrightarrow> at_level {c..} s \<and> (CPL s \<noteq> c \<longrightarrow> data_segs_ok s)"

lemma returned_same: "priv_inv (c, c, c) s \<Longrightarrow> returned c s"
  by (auto simp: returned_def at_level_def privilege_ok_def priv_inv_def priv_view_def)

lemma CPL_validate: "CPL (validate_seg_regs s) = CPL s"
  by (simp add: CPL_def validate_seg_regs_run)

lemma validate_ok: "data_segs_ok (validate_seg_regs s)"
  unfolding data_segs_ok_def CPL_validate by (auto simp: validate_seg_regs_run)

lemma keeps_validate [keeps_intros]: "keeps (priv_inv V) (modifyM validate_seg_regs)"
proof (rule keepsI)
  fix s assume "priv_inv V s"
  moreover have "seg_caches_ok (validate_seg_regs s)" if "seg_caches_ok s"
    using that unfolding seg_caches_ok_def validate_seg_regs_run by (auto simp: seg_cache_ok_def)
  ultimately show "priv_inv V (snd (modifyM validate_seg_regs s))"
    by (auto simp: monad_simps priv_inv_def priv_view_def CPL_def validate_seg_regs_run)
qed

text \<open>The end of a return to an outer level.\<close>

lemma yields_outward:
  assumes "d_type x < 16" "d_dpl x = c'" "c \<le> c'" "\<And>V. keeps (priv_inv V) (modifyM f :: unit cpu_monad)"
  shows "yields (priv_inv (c', V)) (seqM (load_ss sel x c') (seqM (modifyM f) (modifyM validate_seg_regs))) (\<lambda>_. returned c)"
proof -
  have ss: "yields (priv_inv (c', V)) (load_ss sel x c') (\<lambda>_. priv_inv (c', c', c'))"
    using yields_load_ss [OF assms(1), of c' V sel c'] assms(2) by simp
  have "yields (priv_inv (c', c', c')) (modifyM validate_seg_regs) (\<lambda>_. returned c)"
  proof (rule yields_modifyM)
    fix s assume s: "priv_inv (c', c', c') s"
    have "priv_inv (c', c', c') (validate_seg_regs s)"
      using keepsD [OF keeps_validate s] by (simp add: monad_simps)
    then show "returned c (validate_seg_regs s)"
      using assms(3) validate_ok by (simp add: returned_def at_levelI)
  qed
  then show ?thesis
    by (intro yields_seqM [OF ss] yields_seq_keeps [OF assms(4)])
qed

lemma keeps_stack_adjust [keeps_intros]:
  "keeps (priv_inv V) (modifyM (\<lambda>s. if ss_d_b s then set_ESP (f1 s) s else set_SP (f2 s) s))"
  "keeps (priv_inv V) (modifyM (\<lambda>s. if b then set_ESP e s else set_SP w s))"
  by (rule keeps_priv_modify, simp add: reg_defs)+

lemma yields_outer_stack:
  assumes "\<And>sel x. d_type x < 16 \<Longrightarrow> d_dpl x = sel_rpl cs \<Longrightarrow> yields (priv_inv V) (k (sel, x)) Q"
  shows "yields (priv_inv V) (bindM (outer_stack u cs raw) k) Q"
proof (rule yields_bindM)
  have ret: "yields (priv_inv V) (returnM (sel, x)) (\<lambda>p s. priv_inv V s \<and> d_type (snd p) < 16 \<and> d_dpl (snd p) = sel_rpl cs)"
    if "d_type x < 16" "\<not> d_dpl x \<noteq> sel_rpl cs" for sel :: bx_selector_t and x :: bx_descriptor_t
    using that by (simp add: yields_def monad_simps)
  show "yields (priv_inv V) (outer_stack u cs raw) (\<lambda>p s. priv_inv V s \<and> d_type (snd p) < 16 \<and> d_dpl (snd p) = sel_rpl cs)"
    unfolding outer_stack_def Let_def
    by (intro yields_check yields_fetch yields_case_prod ret parse_type_less) simp
  show "yields (\<lambda>s. priv_inv V s \<and> d_type (snd p) < 16 \<and> d_dpl (snd p) = sel_rpl cs) (k p) Q" for p
    using assms [of "snd p" "fst p"] by (auto simp: yields_def)
qed

lemma yields_return_outer:
  assumes "d_type x < 16" "c \<le> sel_rpl cs"
  shows "yields (priv_inv (c, c, c)) (return_outer u i esp pop cs x rip) (\<lambda>_. returned c)"
  unfolding return_outer_def
  by (intro yields_bind_keeps [where m = "if _ then _ else _"] yields_outer_stack yields_case_prod keeps_intros
    yields_seqM [OF yields_branch_far(2) [OF assms(1)]] yields_outward assms(2)) auto

lemma yields_return: "yields (priv_inv (c, c, c)) (return_protected u i pop) (\<lambda>_. returned c)"
proof -
  have same: "yields (priv_inv (c, c, c)) (seqM (branch_far64 sel x rip c) (modifyM (\<lambda>s. if ss_d_b s then set_ESP (f1 s) s else set_SP (f2 s) s)))
      (\<lambda>_. returned c)" if "d_type x < 16" for sel x rip f1 f2
    by (rule yields_post [OF yields_seqM [OF yields_branch_far(2) [OF that] yields_keeps]])
      (simp_all add: keeps_intros returned_same)
  show ?thesis
    unfolding return_protected_def Let_def
    by (intro yields_bind_keeps [where m = "if _ then _ else _"] yields_bind_keeps [where m = "getsM temp_ESP"] yields_CPL yields_fetch
      yields_case_prod yields_check yields_check_cs yields_if same yields_return_outer keeps_intros parse_type_less) auto
qed

section \<open>Interrupt returns\<close>

lemma yields_iret_task: "yields (priv_inv V) (iret_task u) (\<lambda>_. at_level UNIV)"
  unfolding iret_task_def Let_def
  by (intro yields_bind_keeps [where m = "bindM _ _"] yields_check yields_fetch yields_case_prod
    yields_seqM [OF yields_task_switch] yields_keeps keeps_intros)

lemma yields_iret_same:
  assumes "d_type x < 16"
  shows "yields (priv_inv (c, c, c)) (iret_same i sel x eip fl) (\<lambda>_. priv_inv (sel_rpl sel, c, c))"
  unfolding iret_same_def Let_def
  by (intro yields_seqM [OF yields_branch_far(1) [OF assms]] yields_keeps keeps_intros)

lemma yields_iret_outer:
  assumes "d_type x < 16" "c \<le> sel_rpl cs"
  shows "yields (priv_inv (c, c, c)) (iret_outer u i esp cs x) (\<lambda>_. returned c)"
  unfolding iret_outer_def Let_def
  by (intro yields_bind_keeps [where m = "read_virtual_word_32 _ _"] yields_bind_keeps [where m = "if _ then _ else _"]
    yields_bind_keeps [where m = "getsM _"] yields_check yields_fetch yields_case_prod keeps_intros
    yields_seqM [OF yields_branch_far(1) [OF assms(1)]] yields_seq_keeps [where m = "writeEFlags _ _"]
    yields_outward assms(2) parse_type_less) auto

lemma yields_init_v86: "yields (\<lambda>s. seg_caches_ok s) init_v8086_mode (\<lambda>_. returned 0)"
proof -
  define P where "P s \<longleftrightarrow> priv_inv (3, 3, 3) s \<and> list_all (\<lambda>k. d_dpl (cache (sregs s k)) = 3) [0, 3, 4, 5]" for s
  have set: "P (s\<lparr>sregs := (\<lambda>k. if k < 6 then init_v8086_segment (sregs s k) else sregs s k)\<rparr>)" if "seg_caches_ok s" for s
    using that by (simp add: P_def priv_inv_def priv_view_def CPL_def seg_caches_ok_def init_v8086_segment_def
      seg_cache_ok_def)
  have mode: "keeps P handleCpuModeChange"
  proof (rule keepsI)
    fix s assume "P s"
    then show "P (snd (handleCpuModeChange s))"
      using keepsD [OF keeps_mode_change, of "(3, 3, 3)" s] unfolding P_def handleCpuModeChange_run
      by (auto simp: mode_state_def updateFetchModeMask_def)
  qed
  have al: "keeps P (modifyM handleAlignmentCheck :: unit cpu_monad)"
    by (rule keepsI) (auto simp: P_def monad_simps priv_inv_def priv_view_def CPL_def seg_caches_ok_def)
  have fin: "returned 0 s" if "P s" for s
    using that by (auto simp: P_def returned_def at_level_def privilege_ok_def priv_inv_def priv_view_def data_segs_ok_def
      too_privileged_def CPL_def)
  show ?thesis
    unfolding init_v8086_mode_def
    by (rule yields_post [OF yields_seqM [OF yields_modifyM yields_seq_keeps [OF mode yields_keeps [OF al]]]])
      (use set fin in simp_all)
qed

lemma keeps_v86_values:
  "keeps seg_caches_ok (modifyM (set_sreg_value k v))" "keeps seg_caches_ok (modifyM (\<lambda>s. set_EIP e (set_sreg_value k v s)))"
  "keeps seg_caches_ok (modifyM (set_ESP e))"
  by (auto simp: keeps_def monad_simps seg_caches_ok_def set_sreg_value_def seg_cache_ok_def reg_defs)

lemma yields_to_v86: "yields (priv_inv V) (stack_return_to_v86 eip cs fl) (\<lambda>_. returned 0)"
proof -
  have w: "yields (priv_inv V) (writeEFlags e m) (\<lambda>_. seg_caches_ok)" for e m
    by (rule yields_post [OF yields_keeps]) (simp_all add: keeps_intros priv_inv_def)
  show ?thesis
    unfolding stack_return_to_v86_def
    by (intro yields_bind_keeps keeps_intros)
      (intro yields_seqM [OF w] yields_seq_keeps [OF keeps_v86_values(1)] yields_seq_keeps [OF keeps_v86_values(2)]
        yields_seq_keeps [OF keeps_v86_values(3)] yields_init_v86)
qed

lemma yields_iret_stack: "yields (priv_inv (c, c, c)) (iret_stack u i) (\<lambda>_. returned c)"
proof -
  have v86: "yields (priv_inv (c, c, c)) (stack_return_to_v86 eip cs fl) (\<lambda>_. returned c)" if "b \<and> b' \<and> c = 0" for eip cs fl b b'
    using yields_to_v86 that by simp
  have same: "yields (priv_inv (c, c, c)) (iret_same i sel x eip fl) (\<lambda>_. returned c)"
    if "d_type x < 16" "sel_rpl sel = c" for sel x eip fl
    using yields_post [OF yields_iret_same [OF that(1)]] that(2) returned_same by metis
  show ?thesis
    unfolding iret_stack_def Let_def
    by (intro yields_bind_keeps [where m = "if _ then _ else _"] yields_bind_keeps [where m = "getsM temp_ESP"] yields_CPL yields_fetch
      yields_case_prod yields_check yields_check_cs yields_if v86 same yields_iret_outer keeps_intros parse_type_less) auto
qed

section \<open>Interrupts\<close>

lemma keeps_null_segment: "k \<noteq> 1 \<Longrightarrow> k \<noteq> 2 \<Longrightarrow> keeps (priv_inv V) (modifyM (null_data_segment k))"
  by (auto simp: keeps_def monad_simps null_data_segment_def priv_inv_def priv_view_def CPL_def seg_caches_ok_def seg_cache_ok_def)

lemma keeps_int_tail:
  "keeps (priv_inv V) (seqM (modifyM (set_EIP e)) (seqM (whenM i (modifyM (clear_eflag 9))) (seqM (modifyM (clear_eflag 8))
    (seqM clear_VM (seqM (modifyM (clear_eflag 16)) (seqM (modifyM (clear_eflag 14)) (whenM v
      (seqM (modifyM (null_data_segment BX_SEG_REG_GS)) (seqM (modifyM (null_data_segment BX_SEG_REG_FS))
      (seqM (modifyM (null_data_segment BX_SEG_REG_DS)) (modifyM (null_data_segment BX_SEG_REG_ES))))))))))))"
  by (intro keeps_intros keeps_null_segment) simp_all

lemma yields_int_inner:
  assumes "d_type x < 16" "d_dpl x < c"
  shows "yields (priv_inv (c, c, c)) (int_inner u g sel x pe ec) (\<lambda>_. at_level {..c})"
proof -
  have fin: "yields (priv_inv (c, c, c)) (seqM (load_cs sel x (d_dpl x)) (seqM (load_ss ssel y (d_dpl x)) m)) (\<lambda>_. at_level {..c})"
    if "d_type y < 16" "d_dpl y = d_dpl x" "\<And>V. keeps (priv_inv V) m" for ssel y and m :: "unit cpu_monad"
  proof (rule yields_level [of _ _ "d_dpl x"])
    have "yields (priv_inv (d_dpl x, c, c)) (load_ss ssel y (d_dpl x)) (\<lambda>_. priv_inv (d_dpl x, d_dpl x, d_dpl x))"
      using yields_load_ss [OF that(1), of "d_dpl x" "(c, c)" ssel "d_dpl x"] that(2) by simp
    then show "yields (priv_inv (c, c, c)) (seqM (load_cs sel x (d_dpl x)) (seqM (load_ss ssel y (d_dpl x)) m))
        (\<lambda>_. priv_inv (d_dpl x, d_dpl x, d_dpl x))"
      by (intro yields_seqM [OF yields_load_cs [OF assms(1)]]) (rule yields_seqM, assumption, rule yields_keeps [OF that(3)])
  qed (use assms(2) in simp)
  show ?thesis
    unfolding int_inner_def Let_def
    by (intro yields_bind_keeps [where m = "get_SS_ESP_from_TSS _ _"] yields_bind_keeps [where m = "getsM _"]
      yields_inner_stack yields_case_prod yields_seq_keeps [where m = "if _ then _ else _"] yields_check keeps_int_tail fin keeps_intros) simp_all
qed

lemma yields_int_same:
  assumes "d_type x < 16"
  shows "yields (priv_inv (c, c, c)) (int_same g sel x pe ec) (\<lambda>_. at_level {c})"
proof -
  have cs: "yields (priv_inv (c, c, c)) (bindM (getsM CPL) (load_cs sel x)) (\<lambda>_. priv_inv (c, c, c))"
    by (intro yields_CPL yields_load_cs assms)
  show ?thesis
    unfolding int_same_def
    by (rule yields_level [of _ _ c])
      (intro yields_seq_keeps [where m = "bindM (getsM v8086_mode) _"] yields_check yields_seq_keeps [where m = "if _ then _ else _"]
        yields_seqM [OF cs] yields_keeps keeps_intros, simp)
qed

lemma yields_int_task: "yields (priv_inv V) (int_task_gate u g pe ec) (\<lambda>_. at_level UNIV)"
  unfolding int_task_gate_def Let_def
  by (intro yields_check yields_fetch yields_case_prod yields_seqM [OF yields_task_switch] yields_keeps
    keeps_at_level keeps_intros)

lemma yields_trap_gate: "yields (priv_inv (c, c, c)) (int_trap_gate u g pe ec) (\<lambda>_. at_level {..c})"
proof -
  have same: "yields (priv_inv (c, c, c)) (int_same g sel x pe ec) (\<lambda>_. at_level {..c})" if "d_type x < 16" for sel x
    by (rule yields_more [OF yields_int_same [OF that]]) simp
  show ?thesis
    unfolding int_trap_gate_def Let_def
    by (intro yields_check yields_fetch yields_case_prod yields_CPL yields_if yields_int_inner same parse_type_less) simp
qed

lemma yields_int_gate:
  "yields (priv_inv (c, c, c)) (int_gate u v soft pe ec g)
    (\<lambda>_ s. at_level (if d_type g = BX_TASK_GATE then UNIV else {..c}) s \<and> (soft \<longrightarrow> c \<le> d_dpl g))"
proof -
  have soft: "yields P m (\<lambda>x s. at_level R s \<and> (soft \<longrightarrow> c \<le> d_dpl g))"
    if "yields P m (\<lambda>_. at_level R)" "\<not> (soft \<and> d_dpl g < c)" for R P and m :: "unit cpu_monad"
    using that by (auto simp: yields_def not_less)
  have task: "yields (priv_inv (c, c, c)) (int_task_gate u g pe ec) (\<lambda>_. at_level (if d_type g = BX_TASK_GATE then UNIV else {..c}))"
    if "d_type g = BX_TASK_GATE"
    using yields_int_task that by simp
  have trap: "yields (priv_inv (c, c, c)) (int_trap_gate u g pe ec) (\<lambda>_. at_level (if d_type g = BX_TASK_GATE then UNIV else {..c}))"
    by (rule yields_more [OF yields_trap_gate]) simp
  show ?thesis
    unfolding int_gate_def by (intro yields_check yields_CPL yields_if soft task trap)
qed

end
