(* ===== verification/FarSample.thy ===== *)
theory FarSample
  imports Sample FarPriv
begin

text \<open>
  A protected mode machine on which a far jump, a far call, a far return, an
  interrupt and an interrupt return all run to completion: the hypotheses of the
  theorems on far transfers hold of these runs.
\<close>

section \<open>The machine\<close>

text \<open>Descriptors in the GDT at 0x500 (selector 8: code of level 0; 0x1b and 0x23: code and
  data of level 3), an interrupt gate for vector 3 at 0x18, and on the stack at 0x8000 the
  frame of a return to level 3.\<close>

definition far_memory :: "32 word \<Rightarrow> 8 word" where
  "far_memory a =
    (if a = 0x508 \<or> a = 0x509 \<or> a = 0x518 \<or> a = 0x519 \<or> a = 0x520 \<or> a = 0x521 then 0xff
     else if a = 0x50d then 0x9b else if a = 0x51d then 0xfb else if a = 0x525 then 0xf3
     else if a = 0x50e \<or> a = 0x51e \<or> a = 0x526 then 0xcf
     else if a = 0x19 then 0x40 else if a = 0x1a then 0x08 else if a = 0x1d then 0xee
     else if a = 0x8001 then 0x30 else if a = 0x8004 then 0x1b else if a = 0x8008 then 0x02
     else if a = 0x800d then 0x70 else if a = 0x8010 then 0x23 else 0)"

text \<open>The sample machine with that memory; \<open>X\<close> and \<open>b\<close> are what accesses leave behind:
  the record of the last translation and the rights cached for SS.\<close>

definition sample_far :: "address_xlation_t \<Rightarrow> 32 word \<Rightarrow> bx_cpu_c" where
  "sample_far X b = sample_cpu\<lparr>bx_mem := \<lparr>vector = far_memory, mem_len = 0x100000, elsewhere = (\<lambda>_. False)\<rparr>, address_xlation := X,
    sregs := (sregs sample_cpu)(2 := mark_valid b (sregs sample_cpu 2))\<rparr>"

definition sample_uninit :: uninit_t where
  "sample_uninit = \<lparr>u_descriptor = cache (sample_segment 0 3), u_ss = 0, u_esp = 0\<rparr>"

section \<open>What it reads\<close>

lemma far_system:
  "\<exists>X'. system_read_qword 0x508 (sample_far X b) = (Inr 0x00cf9b000000ffff, sample_far X' b)"
  "\<exists>X'. system_read_qword 0x518 (sample_far X b) = (Inr 0x00cffb000000ffff, sample_far X' b)"
  "\<exists>X'. system_read_qword 0x520 (sample_far X b) = (Inr 0x00cff3000000ffff, sample_far X' b)"
  "\<exists>X'. system_read_qword 0x18 (sample_far X b) = (Inr 0x0000ee0000084000, sample_far X' b)"
  by (simp_all add: sample_far_def far_memory_def system_read_qword_def system_tlb_read_def access_read_linear_def
    access_read_physical_run load_bytes_def le_word_def upt_rec sample_access_defs sample_defs)

lemma far_stack_reads:
  assumes "b \<in> {0, 2}"
  shows "\<exists>X'. read_virtual_dword_32 2 0x8000 (sample_far X b) = (Inr 0x3000, sample_far X' 2)"
    "\<exists>X'. read_virtual_dword_32 2 0x8004 (sample_far X b) = (Inr 0x1b, sample_far X' 2)"
    "\<exists>X'. read_virtual_dword_32 2 0x8008 (sample_far X b) = (Inr 0x02, sample_far X' 2)"
    "\<exists>X'. read_virtual_dword_32 2 0x800c (sample_far X b) = (Inr 0x7000, sample_far X' 2)"
    "\<exists>X'. read_virtual_word_32 2 0x8010 (sample_far X b) = (Inr 0x23, sample_far X' 2)"
  using assms
  by (auto simp: sample_far_def far_memory_def read_virtual_dword_32_def read_virtual_word_32_def read_virtual_checks_def
    access_read_linear_def access_read_physical_run load_bytes_def le_word_def upt_rec sample_access_defs sample_defs)

lemma far_fetch:
  "\<exists>X'. fetch_raw_descriptor (parse_selector 8) e (sample_far X b) = (Inr (0xffff, 0xcf9b00), sample_far X' b)"
  "\<exists>X'. fetch_raw_descriptor (parse_selector 0x1b) e (sample_far X b) = (Inr (0xffff, 0xcffb00), sample_far X' b)"
  "\<exists>X'. fetch_raw_descriptor (parse_selector 0x23) e (sample_far X b) = (Inr (0xffff, 0xcff300), sample_far X' b)"
proof -
  have g: "gdtr (sample_far X b) = \<lparr>gseg_base = 0x500, gseg_limit = 0xff\<rparr>" by (simp add: sample_far_def sample_defs)
  obtain X1 X2 X3 where x: "system_read_qword 0x508 (sample_far X b) = (Inr 0x00cf9b000000ffff, sample_far X1 b)"
    "system_read_qword 0x518 (sample_far X b) = (Inr 0x00cffb000000ffff, sample_far X2 b)"
    "system_read_qword 0x520 (sample_far X b) = (Inr 0x00cff3000000ffff, sample_far X3 b)"
    using far_system [of X b] by blast
  show "\<exists>X'. fetch_raw_descriptor (parse_selector 8) e (sample_far X b) = (Inr (0xffff, 0xcf9b00), sample_far X' b)"
    "\<exists>X'. fetch_raw_descriptor (parse_selector 0x1b) e (sample_far X b) = (Inr (0xffff, 0xcffb00), sample_far X' b)"
    "\<exists>X'. fetch_raw_descriptor (parse_selector 0x23) e (sample_far X b) = (Inr (0xffff, 0xcff300), sample_far X' b)"
    by (auto simp: fetch_raw_descriptor_def parse_selector_def monad_simps g x)
qed

lemma far_parsed:
  "valid (parse_descriptor 0xffff 0xcf9b00 d) = 1" "d_segment (parse_descriptor 0xffff 0xcf9b00 d) = 1"
  "d_type (parse_descriptor 0xffff 0xcf9b00 d) = 11" "d_dpl (parse_descriptor 0xffff 0xcf9b00 d) = 0"
  "d_p (parse_descriptor 0xffff 0xcf9b00 d) = 1" "limit_scaled (parse_descriptor 0xffff 0xcf9b00 d) = 0xffffffff"
  "valid (parse_descriptor 0xffff 0xcffb00 d) = 1" "d_segment (parse_descriptor 0xffff 0xcffb00 d) = 1"
  "d_type (parse_descriptor 0xffff 0xcffb00 d) = 11" "d_dpl (parse_descriptor 0xffff 0xcffb00 d) = 3"
  "d_p (parse_descriptor 0xffff 0xcffb00 d) = 1" "limit_scaled (parse_descriptor 0xffff 0xcffb00 d) = 0xffffffff"
  "valid (parse_descriptor 0xffff 0xcff300 d) = 1" "d_segment (parse_descriptor 0xffff 0xcff300 d) = 1"
  "d_type (parse_descriptor 0xffff 0xcff300 d) = 3" "d_dpl (parse_descriptor 0xffff 0xcff300 d) = 3"
  "d_p (parse_descriptor 0xffff 0xcff300 d) = 1"
  by (simp_all add: parse_descriptor_def parse_segment_def)

lemma far_state:
  "CPL (sample_far X b) = 0" "temp_ESP (sample_far X b) = 0x8000" "get_eflag 14 (sample_far X b) = 0"
  "privilege_ok (sample_far X 0)"
  by (simp_all add: sample_far_def temp_ESP_def CPL_def reg_defs get_eflag_def privilege_ok_def seg_caches_ok_def seg_cache_ok_def
    SegAccessROK_def SegAccessWOK_def sample_defs)

section \<open>Transfers that read the stack\<close>

lemmas far_run = bindM_apply seqM_apply getsM_apply returnM_apply modifyM_apply raiseM_apply whenM_def Let_def
  parse_selector_def touch_segment_def store_segment_def type_tests IS_SEGMENT_ACCESSED_def IS_DATA_SEGMENT_def
  IS_CODE_SEGMENT_NON_CONFORMING_def check_cs_def load_cs_def load_ss_def branch_far32_def branch_far64_def far_parsed far_state(1-3)

lemma far_jump_runs: "\<exists>s'. jump_protected u 8 0x100 (sample_far X 0) = (Inr (), s')"
proof -
  obtain X1 where "fetch_raw_descriptor (parse_selector 8) 13 (sample_far X 0) = (Inr (0xffff, 0xcf9b00), sample_far X1 0)"
    using far_fetch by blast
  then show ?thesis by (simp add: jump_protected_def jump_descriptor_def far_run)
qed

lemma far_return_runs: "\<exists>s'. return_protected u sample_instr 4 (sample_far X 0) = (Inr (), s')"
proof -
  obtain X1 where 1: "read_virtual_dword_32 2 0x8004 (sample_far X 0) = (Inr 0x1b, sample_far X1 2)" using far_stack_reads(2) by blast
  obtain X2 where 2: "read_virtual_dword_32 2 0x8000 (sample_far X1 2) = (Inr 0x3000, sample_far X2 2)" using far_stack_reads(1) by blast
  obtain X3 where 3: "fetch_raw_descriptor (parse_selector 0x1b) 13 (sample_far X2 2) = (Inr (0xffff, 0xcffb00), sample_far X3 2)"
    using far_fetch by blast
  obtain X4 where 4: "read_virtual_word_32 2 0x8010 (sample_far X3 2) = (Inr 0x23, sample_far X4 2)" using far_stack_reads(5) by blast
  obtain X5 where 5: "read_virtual_dword_32 2 0x800c (sample_far X4 2) = (Inr 0x7000, sample_far X5 2)" using far_stack_reads(4) by blast
  obtain X6 where 6: "fetch_raw_descriptor (parse_selector 0x23) 13 (sample_far X5 2) = (Inr (0xffff, 0xcff300), sample_far X6 2)"
    using far_fetch by blast
  have o: "os32L sample_instr \<noteq> 0" by (simp add: os32L_def sample_instr_def)
  show ?thesis
    using 1 2 3 4 5 6 o
    by (simp add: return_protected_def return_outer_def outer_stack_def far_run)
qed

lemma far_cr0:
  "cr0 (set_EIP e s) = cr0 s" "cr0 (invalidate_prefetch_q s) = cr0 s" "cr0 (handleAlignmentCheck s) = cr0 s"
  "cr0 (updateFetchModeMask s) = cr0 s" "cr0 (clear_eflag n s) = cr0 s" "bit (cr0 (sample_far X b)) 0"
  by (simp_all add: reg_defs invalidate_prefetch_q_def updateFetchModeMask_def clear_eflag_def sample_far_def sample_defs)

lemma flags_written: "\<exists>w. \<forall>f m s. bit (cr0 s) 0 \<longrightarrow> writeEFlags f m s = (Inr (), w f m s)"
  by (intro exI [of _ "\<lambda>f m s. snd (writeEFlags f m s)"])
    (simp add: writeEFlags_def monad_simps setEFlags_run handleCpuModeChange_run)

lemma far_iret_runs: "\<exists>s'. iret_protected u sample_instr (sample_far X 0) = (Inr (), s')"
proof -
  obtain X1 where 1: "read_virtual_dword_32 2 0x8008 (sample_far X 0) = (Inr 2, sample_far X1 2)" using far_stack_reads(3) by blast
  obtain X2 where 2: "read_virtual_dword_32 2 0x8004 (sample_far X1 2) = (Inr 0x1b, sample_far X2 2)" using far_stack_reads(2) by blast
  obtain X3 where 3: "read_virtual_dword_32 2 0x8000 (sample_far X2 2) = (Inr 0x3000, sample_far X3 2)" using far_stack_reads(1) by blast
  obtain X4 where 4: "fetch_raw_descriptor (parse_selector 0x1b) 13 (sample_far X3 2) = (Inr (0xffff, 0xcffb00), sample_far X4 2)"
    using far_fetch by blast
  obtain X5 where 5: "read_virtual_word_32 2 0x8010 (sample_far X4 2) = (Inr 0x23, sample_far X5 2)" using far_stack_reads(5) by blast
  obtain X6 where 6: "fetch_raw_descriptor (parse_selector 0x23) 13 (sample_far X5 2) = (Inr (0xffff, 0xcff300), sample_far X6 2)"
    using far_fetch by blast
  obtain X7 where 7: "read_virtual_dword_32 2 0x800c (sample_far X6 2) = (Inr 0x7000, sample_far X7 2)" using far_stack_reads(4) by blast
  obtain X8 where 8: "read_virtual_dword_32 2 0x8008 (sample_far X7 2) = (Inr 2, sample_far X8 2)" using far_stack_reads(3) by blast
  obtain X9 where 9: "read_virtual_dword_32 2 0x8000 (sample_far X8 2) = (Inr 0x3000, sample_far X9 2)" using far_stack_reads(1) by blast
  have o: "os32L sample_instr \<noteq> 0" by (simp add: os32L_def sample_instr_def)
  obtain w where w: "\<And>f m s. bit (cr0 s) 0 \<Longrightarrow> writeEFlags f m s = (Inr (), w f m s)" using flags_written by blast
  show ?thesis
    using 1 2 3 4 5 6 7 8 9 o
    by (simp add: iret_protected_def iret_stack_def iret_outer_def far_run w far_cr0 [simplified])
qed

section \<open>Transfers that write the stack\<close>

text \<open>A stack on which pushes succeed.\<close>

definition good_stack :: "bx_cpu_c \<Rightarrow> bool" where
  "good_stack s \<longleftrightarrow> cr0 s = 0x11 \<and> alignment_check_mask s = 0 \<and> mem_len (bx_mem s) = 0x100000 \<and>
    cpu_mode s = 2 \<and> CPL s = 0 \<and> (\<exists>b \<in> {0, 2, 6}. sregs s 2 = mark_valid b (sample_segment 0 3))"

lemma good_write:
  assumes "good_stack s" "a \<in> {0x7ffc, 0x7ff8, 0x7ff4}"
  shows "\<exists>s'. write_virtual_dword_32 2 a v s = (Inr (), s') \<and> good_stack s' \<and> gen_reg s' = gen_reg s"
proof -
  obtain b where "b = 0 \<or> b = 2 \<or> b = 6" "sregs s 2 = mark_valid b (sample_segment 0 3)"
    using assms(1) unfolding good_stack_def by blast
  then show ?thesis
    using assms unfolding good_stack_def
    by (elim disjE insertE emptyE)
      (simp_all add: write_virtual_dword_32_def sample_access_defs sample_segment_def)
qed

lemma good_new_write:
  assumes "good_stack s" "a \<in> {0x7ffc, 0x7ff8}"
  shows "\<exists>s'. write_SS_stack_dword_32 a 0 v s = (Inr (), s') \<and> good_stack s'"
proof -
  obtain b where "b = 0 \<or> b = 2 \<or> b = 6" "sregs s 2 = mark_valid b (sample_segment 0 3)"
    using assms(1) unfolding good_stack_def by blast
  then show ?thesis
    using assms unfolding good_stack_def
    by (elim disjE insertE emptyE)
      (simp_all add: write_SS_stack_dword_32_def check_new_stack_def CPL_def sample_access_defs sample_segment_def)
qed

lemma good_far: "b \<in> {0, 2, 6} \<Longrightarrow> good_stack (sample_far X b)"
  by (auto simp: good_stack_def sample_far_def CPL_def sample_defs)

lemma far_call_runs: "\<exists>s'. call_protected u sample_instr 8 0x100 (sample_far X 0) = (Inr (), s')"
proof -
  obtain X1 where 1: "fetch_raw_descriptor (parse_selector 8) 13 (sample_far X 0) = (Inr (0xffff, 0xcf9b00), sample_far X1 0)"
    using far_fetch by blast
  obtain s1 where 2: "write_SS_stack_dword_32 0x7ffc 0 (ucast (sreg_value 1 (sample_far X1 0))) (sample_far X1 0) = (Inr (), s1)" "good_stack s1"
    using good_new_write [OF good_far, of 0 "0x7ffc"] by auto
  obtain s2 where 3: "write_SS_stack_dword_32 0x7ff8 0 (EIP s1) s1 = (Inr (), s2)"
    using good_new_write [OF 2(2), of "0x7ff8"] by auto
  have o: "os32L sample_instr \<noteq> 0" by (simp add: os32L_def sample_instr_def)
  show ?thesis
    using 1 2(1) 3 o
    by (simp add: call_protected_def call_descriptor_def call_segment_def far_run)
qed

lemma good_push:
  assumes "good_stack s" "gen_reg s 4 = e" "e \<in> {0x8000, 0x7ffc, 0x7ff8}"
  shows "\<exists>s'. push_32 v s = (Inr (), s') \<and> good_stack s' \<and> gen_reg s' 4 = e - 4"
proof -
  have a: "e - 4 \<in> {0x7ffc, 0x7ff8, 0x7ff4}" using assms(3) by auto
  obtain s1 where 1: "write_virtual_dword_32 2 (e - 4) v s = (Inr (), s1)" "good_stack s1" "gen_reg s1 = gen_reg s"
    using good_write [OF assms(1) a] by blast
  have "seg_d_b (cache (sregs s 2)) \<noteq> 0" using assms(1) by (auto simp: good_stack_def sample_segment_def)
  with 1 assms(2) show ?thesis
    by (simp add: push_32_def monad_simps reg_defs good_stack_def CPL_def)
qed

lemma gate_parsed:
  "valid (parse_descriptor 0x84000 0xee00 d) = 1" "d_segment (parse_descriptor 0x84000 0xee00 d) = 0"
  "d_type (parse_descriptor 0x84000 0xee00 d) = 14" "d_dpl (parse_descriptor 0x84000 0xee00 d) = 3"
  "d_p (parse_descriptor 0x84000 0xee00 d) = 1" "gate_dest_selector (parse_descriptor 0x84000 0xee00 d) = 8"
  "gate_dest_offset (parse_descriptor 0x84000 0xee00 d) = 0x4000"
  by (simp_all add: parse_descriptor_def)

lemma good_eflags: "good_stack s \<Longrightarrow> \<exists>f s'. read_eflags s = (Inr f, s') \<and> good_stack s' \<and> gen_reg s' = gen_reg s"
  by (simp add: read_eflags_def force_flags_def setEFlagsOSZAPC_def Let_def good_stack_def CPL_def)

lemma cr0_load_cs: "d_type x = 11 \<Longrightarrow> \<exists>s'. load_cs sel x c s = (Inr (), s') \<and> cr0 s' = cr0 s"
  by (simp add: far_run) (simp add: invalidate_prefetch_q_def updateFetchModeMask_def)

lemma clear_VM_runs: "bit (cr0 s) 0 \<Longrightarrow> \<exists>s'. clear_VM s = (Inr (), s')"
  by (simp add: clear_VM_def set_VM_def monad_simps handleCpuModeChange_run)

lemma far_int_runs: "\<exists>s'. protected_mode_int u 3 soft False 0 (sample_far X 0) = (Inr (), s')"
proof -
  let ?x = "parse_descriptor 0xffff 0xcf9b00 (u_descriptor u)"
  have idt: "idtr (sample_far X 0) = \<lparr>gseg_base = 0, gseg_limit = gseg_limit (idtr sample_cpu)\<rparr>"
    "\<not> (ucast (gseg_limit (idtr sample_cpu)) :: 32 word) < 0x1f"
    by (simp_all add: sample_far_def sample_defs)
  have dword1: "(0x0000ee0000084000 :: 32 word) = 0x84000" by simp
  obtain X1 where 1: "system_read_qword 0x18 (sample_far X 0) = (Inr 0x0000ee0000084000, sample_far X1 0)"
    using far_system(4) by blast
  obtain X2 where 2: "fetch_raw_descriptor (parse_selector 8) 13 (sample_far X1 0) = (Inr (0xffff, 0xcf9b00), sample_far X2 0)"
    using far_fetch by blast
  have esp: "gen_reg (sample_far X2 0) 4 = 0x8000" "\<not> v8086_mode (sample_far X2 0)"
    by (simp_all add: sample_far_def v8086_mode_def sample_defs)
  obtain f s0 where 3: "read_eflags (sample_far X2 0) = (Inr f, s0)" "good_stack s0" "gen_reg s0 4 = 0x8000"
    using good_eflags [OF good_far] esp(1) by fastforce
  obtain s1 where 4: "push_32 f s0 = (Inr (), s1)" "good_stack s1" "gen_reg s1 4 = 0x7ffc"
    using good_push [OF 3(2,3)] by auto
  obtain s2 where 5: "push_32 (ucast (sreg_value 1 s1)) s1 = (Inr (), s2)" "good_stack s2" "gen_reg s2 4 = 0x7ff8"
    using good_push [OF 4(2,3)] by auto
  obtain s3 where 6: "push_32 (EIP s2) s2 = (Inr (), s3)" "good_stack s3" using good_push [OF 5(2,3)] by auto
  obtain s4 where 7: "load_cs (parse_selector 8) ?x (CPL s3) s3 = (Inr (), s4)" "cr0 s4 = cr0 s3"
    using cr0_load_cs [of ?x] far_parsed(3) by blast
  let ?s = "clear_eflag 14 (clear_eflag 8 (clear_eflag 9 (set_EIP 0x4000 s4)))"
  have "bit (cr0 ?s) 0" using 6(2) 7(2) by (simp add: far_cr0 good_stack_def)
  then obtain s5 where 8: "clear_VM ?s = (Inr (), s5)" using clear_VM_runs by blast
  have same: "\<exists>s'. int_same (parse_descriptor 0x84000 0xee00 (u_descriptor u)) (parse_selector 8) ?x False 0 (sample_far X2 0) = (Inr (), s')"
    using 3(1) 4(1) 5(1) 6(1) 7(1) 8 esp(2)
    by (simp add: int_same_def gate_parsed far_parsed bindM_apply seqM_apply getsM_apply returnM_apply modifyM_apply whenM_def)
  have "\<exists>s'. int_trap_gate u (parse_descriptor 0x84000 0xee00 (u_descriptor u)) False 0 (sample_far X1 0) = (Inr (), s')"
    using 2 same
    by (simp add: int_trap_gate_def gate_parsed far_parsed far_state bindM_apply seqM_apply getsM_apply returnM_apply whenM_def Let_def
      type_tests IS_DATA_SEGMENT_def parse_selector_def)
  then show ?thesis
    using 1 idt
    by (simp add: protected_mode_int_def int_gate_def dword1 gate_parsed far_state bindM_apply seqM_apply getsM_apply returnM_apply whenM_def)
qed

end
