(* ===== verification/FarCode.thy ===== *)
theory FarCode
  imports FarPriv
begin

text \<open>
  Every far transfer that completes without a task switch leaves in CS a present code
  segment that may run at the level it ends at: of that level, or conforming and not
  less privileged.
\<close>

section \<open>The code segment\<close>

text \<open>A descriptor of a code segment that may run at level \<open>c\<close>.\<close>

definition code_for :: "8 word \<Rightarrow> bx_descriptor_t \<Rightarrow> bool" where
  "code_for c d \<longleftrightarrow> d_segment d \<noteq> 0 \<and> IS_CODE_SEGMENT (d_type d) \<and> d_p d \<noteq> 0 \<and>
    (if IS_CODE_SEGMENT_CONFORMING (d_type d) then d_dpl d \<le> c else d_dpl d = c)"

definition code_ok :: "bx_cpu_c \<Rightarrow> bool" where
  "code_ok s \<longleftrightarrow> code_for (CPL s) (cache (sregs s BX_SEG_REG_CS))"

text \<open>The invariant of what follows the load of CS; a change of the flags only keeps it in
  protected mode, so that \<open>p\<close> asks for it there only.\<close>

definition code_inv :: "bool \<Rightarrow> bx_cpu_c \<Rightarrow> bool" where
  "code_inv p s \<longleftrightarrow> seg_caches_ok s \<and> ((p \<longrightarrow> bit (cr0 s) 0) \<longrightarrow> code_ok s)"

lemma code_for_touched: "code_for c x \<Longrightarrow> code_for c (x\<lparr>d_type := d_type x OR 1, valid := v\<rparr>)"
  by (simp add: code_for_def type_tests bit_simps)

lemma yields_conj: "yields P m Q \<Longrightarrow> yields P m R \<Longrightarrow> yields P m (\<lambda>x s. Q x s \<and> R x s)"
  by (auto simp: yields_def)

lemma keeps_code_modify: "(\<And>s. sregs (f s) = sregs s) \<Longrightarrow> (\<And>s. cr0 (f s) = cr0 s) \<Longrightarrow> keeps (code_inv p) (modifyM f)"
  by (simp add: keeps_def monad_simps code_inv_def code_ok_def CPL_def seg_caches_ok_def)

lemma keeps_code:
  assumes "\<And>S. keeps (sys_inv S) m"
  shows "keeps (code_inv p) m"
proof (rule keepsI)
  fix s assume inv: "code_inv p s"
  then have k: "sys_inv (sys_view s) (snd (m s))"
    by (intro keepsD [OF assms]) (simp add: sys_inv_def code_inv_def)
  then have v: "sys_view (snd (m s)) = sys_view s" by (simp add: sys_inv_def)
  then have cr: "cr0 (snd (m s)) = cr0 s" by (simp add: sys_view_def)
  from v have "(\<lambda>k. (sregs (snd (m s)) k)\<lparr>cache := (cache (sregs (snd (m s)) k))\<lparr>valid := 0\<rparr>\<rparr>) =
      (\<lambda>k. (sregs s k)\<lparr>cache := (cache (sregs s k))\<lparr>valid := 0\<rparr>\<rparr>)"
    by (simp add: sys_view_def)
  then have e: "(sregs (snd (m s)) 1)\<lparr>cache := (cache (sregs (snd (m s)) 1))\<lparr>valid := 0\<rparr>\<rparr> =
      (sregs s 1)\<lparr>cache := (cache (sregs s 1))\<lparr>valid := 0\<rparr>\<rparr>"
    by meson
  have "selector (sregs (snd (m s)) 1) = selector (sregs s 1)"
    "(cache (sregs (snd (m s)) 1))\<lparr>valid := 0\<rparr> = (cache (sregs s 1))\<lparr>valid := 0\<rparr>"
    using arg_cong [OF e, of selector] arg_cong [OF e, of cache] by simp_all
  moreover have "code_for c (d\<lparr>valid := v\<rparr>) = code_for c d" for c d v by (simp add: code_for_def)
  ultimately have "code_ok (snd (m s)) = code_ok s" unfolding code_ok_def CPL_def by metis
  with inv k cr show "code_inv p (snd (m s))" by (simp add: code_inv_def sys_inv_def)
qed

lemma yields_load_cs_code:
  assumes "d_type x < 16" "code_for c x"
  shows "yields (priv_inv V) (load_cs sel x c) (\<lambda>_. code_inv p)"
proof -
  have ok: "code_inv p (s\<lparr>sregs := (sregs s)(1 := \<lparr>selector = sel'\<lparr>sel_rpl := c\<rparr>,
      cache = x\<lparr>d_type := d_type x OR 1, valid := 1\<rparr>\<rparr>)\<rparr>)" if "priv_inv V s" for s sel'
    using that touched_less [OF assms(1)] code_for_touched [OF assms(2)]
    by (auto simp: code_inv_def code_ok_def CPL_def priv_inv_def intro!: caches_upd fresh_cache_ok)
  have st: "yields (priv_inv V) (store_segment BX_SEG_REG_CS (sel'\<lparr>sel_rpl := c\<rparr>) (x\<lparr>d_type := d_type x OR 1\<rparr>)) (\<lambda>_. code_inv p)" for sel'
    unfolding store_segment_def by (rule yields_modifyM) (use ok in simp)
  show ?thesis
    unfolding load_cs_def Let_def
    by (intro yields_touch yields_seqM [OF st] yields_seq_keeps yields_keeps keeps_code_modify)
      (simp_all add: updateFetchModeMask_def handleAlignmentCheck_def invalidate_prefetch_q_def)
qed

lemma yields_branch_code:
  assumes "d_type x < 16" "code_for c x"
  shows "yields (priv_inv V) (branch_far32 sel x eip c) (\<lambda>_. code_inv p)"
    "yields (priv_inv V) (branch_far64 sel x eip c) (\<lambda>_. code_inv p)"
  unfolding branch_far32_def branch_far64_def Let_def
  by (intro yields_check yields_seqM [OF yields_load_cs_code [OF assms, where p = p]] yields_keeps keeps_code_modify; simp add: reg_defs)+

lemma yields_check_code:
  assumes "code_for cpl x \<Longrightarrow> yields P n Q"
  shows "yields P (seqM (check_cs x raw check_rpl cpl) n) Q"
  using assms unfolding check_cs_def IS_CODE_SEGMENT_NON_CONFORMING_def IS_DATA_SEGMENT_def code_for_def
  by (auto simp: yields_def monad_simps whenM_def not_less split: if_splits)

section \<open>Jumps\<close>

lemma yields_code_gate: "yields (priv_inv (c, c, c)) (jmp_call_gate u sel x) (\<lambda>_. code_inv p)"
  unfolding jmp_call_gate_def Let_def
  by (intro yields_check yields_fetch yields_case_prod yields_CPL yields_check_code yields_branch_code(1) parse_type_less)

lemma yields_weaken: "yields P m (\<lambda>_. code_inv False) \<Longrightarrow> yields P m (\<lambda>_ s. b \<longrightarrow> code_ok s)"
  by (erule yields_post) (simp add: code_inv_def)

lemma yields_jump_code:
  assumes "d_type x < 16"
  shows "yields (priv_inv (c, c, c)) (jump_descriptor u raw disp x) (\<lambda>_ s. \<not> task_descriptor x \<longrightarrow> code_ok s)"
proof -
  have task: "yields (priv_inv (c, c, c)) m (\<lambda>_ s. \<not> task_descriptor x \<longrightarrow> code_ok s)" if "task_descriptor x" for m :: "unit cpu_monad"
    using that by (simp add: yields_def)
  show ?thesis
    unfolding jump_descriptor_def Let_def
    by (intro yields_CPL yields_if yields_check yields_check_code yields_weaken [OF yields_branch_code(2) [OF assms]]
      yields_weaken [OF yields_code_gate] yields_raiseM task [where m = "task_transfer _ _ _ _ _"] task [where m = "task_gate _ _ _ _"])
      (auto simp: task_descriptor_def)
qed

section \<open>Calls\<close>

lemma yields_call_inner_code:
  assumes "d_type x < 16" "code_for (d_dpl x) x"
  shows "yields (priv_inv (c, c, c)) (call_gate_inner u g sel x) (\<lambda>_. code_inv p)"
proof -
  have "yields (priv_inv (c, c, c)) (seqM (load_ss ssel y (d_dpl x)) (seqM (load_cs sel x (d_dpl x)) (modifyM (set_EIP e))))
      (\<lambda>_. code_inv p)" if "d_type y < 16" for ssel y e
    using yields_seqM [OF yields_load_ss [OF that, of c "(c, c)" ssel "d_dpl x"]
      yields_seqM [OF yields_load_cs_code [OF assms] yields_keeps [OF keeps_code_modify]]]
    by (simp add: reg_defs)
  then show ?thesis
    unfolding call_gate_inner_def Let_def
    by (intro yields_bind_keeps [where m = "get_SS_ESP_from_TSS _ _"] yields_bind_keeps [where m = "getsM _"]
      yields_inner_stack yields_case_prod yields_seq_keeps [where m = "if _ then _ else _"] yields_check keeps_intros) simp_all
qed

lemma code_for_gate:
  assumes "\<not> (valid x = 0 \<or> d_segment x = 0 \<or> IS_DATA_SEGMENT (d_type x) \<or> d_dpl x > c)" "\<not> d_p x = 0"
  shows "IS_CODE_SEGMENT_NON_CONFORMING (d_type x) \<and> d_dpl x < c \<Longrightarrow> code_for (d_dpl x) x"
    "\<not> (IS_CODE_SEGMENT_NON_CONFORMING (d_type x) \<and> d_dpl x < c) \<Longrightarrow> code_for c x"
  using assms by (auto simp: code_for_def IS_CODE_SEGMENT_NON_CONFORMING_def IS_DATA_SEGMENT_def)

lemma yields_call_gate_code: "yields (priv_inv (c, c, c)) (call_gate u g) (\<lambda>_. code_inv p)"
  unfolding call_gate_def Let_def
  by (intro yields_check yields_fetch yields_case_prod yields_CPL yields_if yields_call_inner_code parse_type_less
    yields_seq_keeps [where m = "if _ then _ else _"] yields_branch_code(1) keeps_intros code_for_gate; assumption)

lemma yields_call_segment_code:
  assumes "d_type x < 16"
  shows "yields (priv_inv (c, c, c)) (call_segment i raw disp x) (\<lambda>_. code_inv p)"
  unfolding call_segment_def Let_def
  by (intro yields_CPL yields_check_code yields_bind_keeps [where m = "getsM _"] yields_bind_keeps [where m = "if _ then _ else _"]
    keeps_intros yields_seqM [OF yields_branch_code(2) [OF assms] yields_keeps [OF keeps_code_modify]]; simp add: reg_defs)

lemma yields_call_code:
  assumes "d_type x < 16"
  shows "yields (priv_inv (c, c, c)) (call_descriptor u i raw disp x) (\<lambda>_ s. \<not> task_descriptor x \<longrightarrow> code_ok s)"
proof -
  have task: "yields (priv_inv (c, c, c)) m (\<lambda>_ s. \<not> task_descriptor x \<longrightarrow> code_ok s)" if "task_descriptor x" for m :: "unit cpu_monad"
    using that by (simp add: yields_def)
  show ?thesis
    unfolding call_descriptor_def Let_def
    by (intro yields_CPL yields_if yields_check yields_weaken [OF yields_call_segment_code [OF assms]]
      yields_weaken [OF yields_call_gate_code] yields_raiseM task [where m = "task_transfer _ _ _ _ _"] task [where m = "task_gate _ _ _ _"])
      (auto simp: task_descriptor_def)
qed

section \<open>Returns\<close>

lemma yields_code_ss:
  assumes "d_type x < 16"
  shows "yields (code_inv p) (load_ss sel x c) (\<lambda>_. code_inv p)"
proof -
  have touch: "yields (code_inv p) (touch_segment sel' x) (\<lambda>y s. code_inv p s \<and> d_type y < 16)" for sel'
  proof -
    have "keeps (code_inv p) (touch_segment sel' x)" by (intro keeps_code keeps_intros)
    moreover have "d_type y < 16" if "touch_segment sel' x s = (Inr y, s')" for s y s'
      using touch_fields(2) [OF that] touched_less [OF assms] by simp
    ultimately show ?thesis unfolding yields_def keeps_def by (metis snd_conv)
  qed
  have store: "yields (\<lambda>s. code_inv p s \<and> d_type y < 16) (store_segment BX_SEG_REG_SS sel' y) (\<lambda>_. code_inv p)" for sel' y
    unfolding store_segment_def
    by (rule yields_modifyM) (auto simp: code_inv_def code_ok_def CPL_def intro!: caches_upd fresh_cache_ok)
  have same: "yields (code_inv p) (returnM x) (\<lambda>y s. code_inv p s \<and> d_type y < 16)"
    using assms by (simp add: yields_def monad_simps)
  show ?thesis
    unfolding load_ss_def Let_def by (intro yields_bindM [OF yields_if store] touch same)
qed

lemma cr0_validate: "cr0 (validate_seg_regs s) = cr0 s"
  by (simp add: validate_seg_regs_def validate_seg_reg_def Let_def)

lemma yields_code_validate: "yields (code_inv p) (modifyM validate_seg_regs) (\<lambda>_. code_inv p)"
proof (rule yields_modifyM)
  fix s assume "code_inv p s"
  then show "code_inv p (validate_seg_regs s)"
    by (auto simp: code_inv_def code_ok_def CPL_def seg_caches_ok_def seg_cache_ok_def validate_seg_regs_run cr0_validate)
qed

lemma yields_code_outward:
  assumes "d_type x < 16" "\<And>s. sregs (f s) = sregs s" "\<And>s. cr0 (f s) = cr0 s"
  shows "yields (code_inv p) (seqM (load_ss sel x c) (seqM (modifyM f) (modifyM validate_seg_regs))) (\<lambda>_. code_inv p)"
  by (intro yields_seqM [OF yields_code_ss [OF assms(1)]] yields_seq_keeps [OF keeps_code_modify [OF assms(2,3)]] yields_code_validate)

lemma yields_return_code: "yields (priv_inv (c, c, c)) (return_protected u i pop) (\<lambda>_. code_inv p)"
proof -
  have same: "yields (priv_inv (c, c, c)) (seqM (branch_far64 sel x rip c) (modifyM (\<lambda>s. if ss_d_b s then set_ESP (f1 s) s else set_SP (f2 s) s)))
      (\<lambda>_. code_inv p)" if "d_type x < 16" "code_for c x" for sel x rip f1 f2
    by (intro yields_seqM [OF yields_branch_code(2) [OF that] yields_keeps [OF keeps_code_modify]]) (simp_all add: reg_defs)
  have outer: "yields (priv_inv (c, c, c)) (return_outer u i esp pop cs x rip) (\<lambda>_. code_inv p)"
    if "d_type x < 16" "code_for (sel_rpl cs) x" for esp cs x rip
    unfolding return_outer_def
    by (intro yields_bind_keeps [where m = "if _ then _ else _"] yields_outer_stack yields_case_prod keeps_intros
      yields_seqM [OF yields_branch_code(2) [OF that, where p = p]] yields_code_outward) (auto simp: reg_defs)
  show ?thesis
    unfolding return_protected_def Let_def
    by (intro yields_bind_keeps [where m = "if _ then _ else _"] yields_bind_keeps [where m = "getsM temp_ESP"] yields_CPL yields_fetch
      yields_case_prod yields_check yields_check_code yields_if same outer keeps_intros parse_type_less) auto
qed

section \<open>Interrupts and interrupt returns\<close>

lemma keeps_code_mode: "keeps (code_inv True) handleCpuModeChange"
  by (rule keepsI)
    (auto simp: handleCpuModeChange_run mode_state_def updateFetchModeMask_def code_inv_def code_ok_def CPL_def
      seg_caches_ok_def seg_cache_ok_def real_mode_CS_def)

lemma keeps_code_flags:
  "keeps (code_inv True) (writeEFlags e m)" "keeps (code_inv True) (write_flags w a b)" "keeps (code_inv True) clear_VM"
proof -
  have set: "keeps (code_inv True) (setEFlags v)" for v
    unfolding setEFlags_def Let_def
    by (intro keeps_intros keeps_code_modify keeps_code_mode; simp)
  then show "keeps (code_inv True) (writeEFlags e m)" "keeps (code_inv True) (write_flags w a b)"
    unfolding writeEFlags_def write_flags_def Let_def by (intro keeps_intros; simp)+
  show "keeps (code_inv True) clear_VM"
    unfolding clear_VM_def set_VM_def by (intro keeps_intros keeps_code_modify keeps_code_mode; simp)
qed

lemma keeps_code_null: "k \<noteq> 1 \<Longrightarrow> keeps (code_inv p) (modifyM (null_data_segment k))"
  by (auto simp: keeps_def monad_simps null_data_segment_def code_inv_def code_ok_def CPL_def seg_caches_ok_def seg_cache_ok_def)

lemma keeps_code_regs:
  "keeps (code_inv p) (modifyM (set_EIP e))" "keeps (code_inv p) (modifyM (clear_eflag n))"
  "keeps (code_inv p) (modifyM (\<lambda>s. if ss_d_b s then set_ESP (f1 s) s else set_SP (f2 s) s))"
  "keeps (code_inv p) (modifyM (\<lambda>s. if b then set_ESP d s else set_SP w s))"
  by (rule keeps_code_modify; simp add: reg_defs clear_eflag_def)+

lemmas keeps_code_tail = keeps_code_regs keeps_code_flags keeps_seqM keeps_whenM keeps_if keeps_bindM keeps_getsM

lemma yields_int_inner_code:
  assumes "d_type x < 16" "code_for (d_dpl x) x"
  shows "yields (priv_inv (c, c, c)) (int_inner u g sel x pe ec) (\<lambda>_. code_inv True)"
proof -
  have fin: "yields (priv_inv (c, c, c)) (seqM (load_cs sel x (d_dpl x)) (seqM (load_ss ssel y (d_dpl x)) m)) (\<lambda>_. code_inv True)"
    if "d_type y < 16" "keeps (code_inv True) m" for ssel y and m :: "unit cpu_monad"
    by (intro yields_seqM [OF yields_load_cs_code [OF assms, where p = True]] yields_seqM [OF yields_code_ss [OF that(1), where p = True]] yields_keeps that(2))
  show ?thesis
    unfolding int_inner_def Let_def
    by (intro yields_bind_keeps [where m = "get_SS_ESP_from_TSS _ _"] yields_bind_keeps [where m = "getsM _"]
      yields_inner_stack yields_case_prod yields_seq_keeps [where m = "if _ then _ else _"] yields_check fin keeps_intros
      keeps_code_tail keeps_code_null) simp_all
qed

lemma yields_int_same_code:
  assumes "d_type x < 16" "code_for c x"
  shows "yields (priv_inv (c, c, c)) (int_same g sel x pe ec) (\<lambda>_. code_inv True)"
proof -
  have cs: "yields (priv_inv (c, c, c)) (bindM (getsM CPL) (load_cs sel x)) (\<lambda>_. code_inv True)"
    by (intro yields_CPL yields_load_cs_code assms)
  show ?thesis
    unfolding int_same_def
    by (intro yields_seq_keeps [where m = "bindM (getsM v8086_mode) _"] yields_check yields_seq_keeps [where m = "if _ then _ else _"]
        yields_seqM [OF cs] yields_keeps keeps_intros keeps_code_tail)
qed

lemma yields_int_code:
  "yields (priv_inv (c, c, c)) (int_gate u v soft pe ec g) (\<lambda>_ s. d_type g \<noteq> BX_TASK_GATE \<longrightarrow> bit (cr0 s) 0 \<longrightarrow> code_ok s)"
proof -
  have "yields (priv_inv (c, c, c)) (int_trap_gate u g pe ec) (\<lambda>_. code_inv True)"
    unfolding int_trap_gate_def Let_def
    by (intro yields_check yields_fetch yields_case_prod yields_CPL yields_if yields_int_inner_code yields_int_same_code
      parse_type_less code_for_gate; assumption)
  then have trap: "yields (priv_inv (c, c, c)) (int_trap_gate u g pe ec) (\<lambda>_ s. d_type g \<noteq> BX_TASK_GATE \<longrightarrow> bit (cr0 s) 0 \<longrightarrow> code_ok s)"
    by (rule yields_post) (simp add: code_inv_def)
  have task: "d_type g = BX_TASK_GATE \<Longrightarrow>
      yields (priv_inv (c, c, c)) m (\<lambda>_ s. d_type g \<noteq> BX_TASK_GATE \<longrightarrow> bit (cr0 s) 0 \<longrightarrow> code_ok s)" for m :: "unit cpu_monad"
    by (simp add: yields_def)
  show ?thesis
    unfolding int_gate_def by (intro yields_check yields_CPL yields_if trap task)
qed

lemma yields_flags_v86: "bit fl 17 \<Longrightarrow> yields P (writeEFlags fl EFlagsValidMask) (\<lambda>_ s. bit (eflags s) 17)"
  unfolding yields_def writeEFlags_def Let_def
  by (auto simp: monad_simps dest!: setEFlags_ok(2) simp: supportMask_def bit_simps)

lemma keeps_v86_flag: "(\<And>s. eflags (f s) = eflags s) \<Longrightarrow> keeps (\<lambda>s. bit (eflags s) 17) (modifyM f)"
  by (simp add: keeps_def monad_simps)

lemma yields_v86_code:
  assumes "fl AND push_bit 17 1 \<noteq> 0"
  shows "yields (priv_inv V) (stack_return_to_v86 eip cs fl) (\<lambda>_ s. bit (eflags s) 17)"
proof -
  have b: "bit fl 17"
  proof (rule ccontr)
    assume "\<not> bit fl 17"
    then have "fl AND push_bit 17 1 = 0" by (intro bit_word_eqI) (auto simp only: bit_simps; auto dest: le_antisym)
    with assms show False by contradiction
  qed
  have mode: "keeps (\<lambda>s. bit (eflags s) 17) handleCpuModeChange"
    by (rule keepsI) (auto simp: handleCpuModeChange_run mode_state_def updateFetchModeMask_def)
  have init: "yields (\<lambda>s. bit (eflags s) 17) init_v8086_mode (\<lambda>_ s. bit (eflags s) 17)"
    unfolding init_v8086_mode_def by (intro yields_keeps keeps_seqM mode keeps_v86_flag; simp add: handleAlignmentCheck_def)
  show ?thesis
    unfolding stack_return_to_v86_def
    by (intro yields_bind_keeps keeps_intros)
      (intro yields_seqM [OF yields_flags_v86 [OF b]] yields_seq_keeps [OF keeps_v86_flag] init; simp add: set_sreg_value_def reg_defs)
qed

lemma yields_iret_code:
  "yields (priv_inv (c, c, c)) (iret_stack u i) (\<lambda>_ s. bit (cr0 s) 0 \<longrightarrow> bit (eflags s) 17 \<or> code_ok s)"
proof -
  have weak: "yields P m (\<lambda>_. code_inv True) \<Longrightarrow> yields P m (\<lambda>_ s. bit (cr0 s) 0 \<longrightarrow> bit (eflags s) 17 \<or> code_ok s)"
    for P and m :: "unit cpu_monad" by (erule yields_post) (simp add: code_inv_def)
  have v86: "yields (priv_inv (c, c, c)) (stack_return_to_v86 eip cs fl) (\<lambda>_ s. bit (cr0 s) 0 \<longrightarrow> bit (eflags s) 17 \<or> code_ok s)"
    if "b \<and> fl AND push_bit 17 1 \<noteq> 0 \<and> b'" for eip cs fl b b'
    by (rule yields_post [OF yields_v86_code]) (use that in auto)
  have same: "yields (priv_inv (c, c, c)) (iret_same i sel x eip fl) (\<lambda>_. code_inv True)"
    if "d_type x < 16" "code_for (sel_rpl sel) x" for sel x eip fl
    unfolding iret_same_def Let_def
    by (intro yields_seqM [OF yields_branch_code(1) [OF that, where p = True]] yields_keeps keeps_code_tail keeps_case_prod)
  have outer: "yields (priv_inv (c, c, c)) (iret_outer u i esp cs x) (\<lambda>_. code_inv True)"
    if "d_type x < 16" "code_for (sel_rpl cs) x" for esp cs x
    unfolding iret_outer_def Let_def
    by (intro yields_bind_keeps [where m = "read_virtual_word_32 _ _"] yields_bind_keeps [where m = "if _ then _ else _"]
      yields_bind_keeps [where m = "getsM _"] yields_check yields_fetch yields_case_prod keeps_intros
      yields_seqM [OF yields_branch_code(1) [OF that, where p = True]] yields_seq_keeps [OF keeps_code_flags(1)]
      yields_code_outward parse_type_less) (auto simp: reg_defs)
  show ?thesis
    unfolding iret_stack_def Let_def
    by (intro yields_bind_keeps [where m = "if _ then _ else _"] yields_bind_keeps [where m = "getsM temp_ESP"] yields_CPL yields_fetch
      yields_case_prod yields_check yields_check_code yields_if v86 weak [OF same] weak [OF outer] keeps_intros parse_type_less) auto
qed

end
