(* ===== verification/FarClaims.thy ===== *)
theory FarClaims
  imports FarSample FarCode
begin

text \<open>
  Privilege in protected mode: what every far jump, far call, far return, interrupt
  return and interrupt that completes does to the privilege level, through whichever
  segment, gate or task state segment it goes.
\<close>

section \<open>What a selector and a vector name\<close>

definition selected :: "uninit_t \<Rightarrow> 16 word \<Rightarrow> bx_cpu_c \<Rightarrow> bx_descriptor_t option" where
  "selected u raw s =
    (case fst (fetch_raw_descriptor (parse_selector raw) BX_GP_EXCEPTION s) of
       Inr (dword1, dword2) \<Rightarrow> Some (parse_descriptor dword1 dword2 (u_descriptor u))
     | Inl e \<Rightarrow> None)"


lemma keeps_priv_reads: "keeps (priv_inv V) (fetch_raw_descriptor sel e)" "keeps (priv_inv V) (system_read_qword a)"
  by (intro keeps_intros)+

text \<open>A transfer that fetches a descriptor and goes on with it ends where going on with
  the selected descriptor leads.\<close>

lemma fetched_run:
  assumes run: "seqM (whenM b m) (bindM (fetch_raw_descriptor (parse_selector raw) BX_GP_EXCEPTION)
      (\<lambda>(dword1, dword2). k (parse_descriptor dword1 dword2 (u_descriptor u)))) s = (Inr (), s')"
    and m: "m = exception v e" and ok: "privilege_ok s"
    and k: "\<And>x. d_type x < 16 \<Longrightarrow> yields (priv_inv (CPL s, CPL s, CPL s)) (k x) (\<lambda>_. Q x)"
  shows "\<exists>x. selected u raw s = Some x \<and> Q x s'"
proof -
  obtain d1 d2 s1 where f: "fetch_raw_descriptor (parse_selector raw) BX_GP_EXCEPTION s = (Inr (d1, d2), s1)"
    and r: "k (parse_descriptor d1 d2 (u_descriptor u)) s1 = (Inr (), s')"
    using run by (auto simp: m whenM_def monad_simps split: if_splits prod.splits sum.splits)
  have "priv_inv (CPL s, CPL s, CPL s) s1"
    using keepsD [OF keeps_priv_reads(1), of "(CPL s, CPL s, CPL s)" s] ok f unfolding privilege_ok_iff by (metis snd_conv)
  then have "Q (parse_descriptor d1 d2 (u_descriptor u)) s'"
    using yieldsD [OF k _ r] parse_type_less by blast
  with f show ?thesis by (simp add: selected_def)
qed

text \<open>The selector of the sample transfers names a code segment.\<close>

lemma sample_selected:
  "selected u 8 (sample_far X b) = Some x \<Longrightarrow> \<not> task_descriptor x"
proof -
  assume x: "selected u 8 (sample_far X b) = Some x"
  obtain X1 where "fetch_raw_descriptor (parse_selector 8) 13 (sample_far X b) = (Inr (0xffff, 0xcf9b00), sample_far X1 b)"
    using far_fetch by blast
  with x have "x = parse_descriptor 0xffff 0xcf9b00 (u_descriptor u)" by (simp add: selected_def)
  then show ?thesis by (simp add: task_descriptor_def far_parsed)
qed

section \<open>Transfers\<close>

text \<open>C9: A far jump in protected mode that completes had a descriptor to select and leaves the
  privilege level and both levels of the stack segment in agreement.  Unless it went to a task
  (by a task state segment or a task gate) it does not change the privilege level, through a code
  segment, conforming or not, as through a call gate, and CS has a present code segment that may
  run at that level.\<close>

theorem far_jump_privilege:
  assumes "privilege_ok s" "jump_protected u cs_raw disp s = (Inr (), s')"
  shows "\<exists>x. selected u cs_raw s = Some x \<and> privilege_ok s' \<and> 
    (\<not> task_descriptor x \<longrightarrow> CPL s' = CPL s \<and> code_ok s')"
  using fetched_run [OF assms(2) [unfolded jump_protected_def] refl assms(1) yields_conj [OF yields_jump yields_jump_code]]
  by (auto simp: at_level_def split: if_splits)

theorem far_jump_privilege_witness:
  "\<exists>s'. jump_protected sample_uninit 8 0x100 (sample_far (address_xlation sample_cpu) 0) = (Inr (), s') \<and> privilege_ok s' \<and>
    CPL s' = 0 \<and> code_ok s'"
proof -
  obtain s' where "jump_protected sample_uninit 8 0x100 (sample_far (address_xlation sample_cpu) 0) = (Inr (), s')"
    using far_jump_runs by blast
  with far_jump_privilege [OF far_state(4) this] show ?thesis by (auto simp: sample_selected far_state(1))
qed

text \<open>C6: A far call in protected mode that completes leaves the privilege level and both levels
  of the stack segment in agreement, in particular after the switch to the stack of an inner
  level.  Unless it went to a task it never moves to a less privileged level, and CS has a
  present code segment that may run at the level it ends at.\<close>

theorem far_call_privilege:
  assumes "privilege_ok s" "call_protected u i cs_raw disp s = (Inr (), s')"
  shows "\<exists>x. selected u cs_raw s = Some x \<and> privilege_ok s' \<and> 
    (\<not> task_descriptor x \<longrightarrow> CPL s' \<le> CPL s \<and> code_ok s')"
  using fetched_run [OF assms(2) [unfolded call_protected_def] refl assms(1) yields_conj [OF yields_call yields_call_code]]
  by (auto simp: at_level_def split: if_splits)

theorem far_call_privilege_witness:
  "\<exists>s'. call_protected sample_uninit sample_instr 8 0x100 (sample_far (address_xlation sample_cpu) 0) = (Inr (), s') \<and> privilege_ok s' \<and>
    CPL s' \<le> 0 \<and> code_ok s'"
proof -
  obtain s' where "call_protected sample_uninit sample_instr 8 0x100 (sample_far (address_xlation sample_cpu) 0) = (Inr (), s')"
    using far_call_runs by blast
  with far_call_privilege [OF far_state(4) this] show ?thesis by (auto simp: sample_selected far_state(1))
qed

text \<open>C8: A far return in protected mode that completes never gains privilege: it ends at the
  same or at a less privileged level, with the stack segment of that level and a present code
  segment that may run at it, and when the level changed no usable data segment register refers to
  a segment that the new level may not use.\<close>

theorem far_return_privilege:
  assumes "privilege_ok s" "return_protected u i pop_bytes s = (Inr (), s')"
  shows "privilege_ok s' \<and> code_ok s' \<and> CPL s \<le> CPL s' \<and> (CPL s' \<noteq> CPL s \<longrightarrow> data_segs_ok s')"
  using yieldsD [OF yields_conj [OF yields_return yields_return_code [where p = False]] _ assms(2)] assms(1)
  by (auto simp: privilege_ok_iff returned_def at_level_def code_inv_def)

theorem far_return_privilege_witness:
  "\<exists>s'. return_protected sample_uninit sample_instr 4 (sample_far (address_xlation sample_cpu) 0) = (Inr (), s') \<and>
    privilege_ok s' \<and> code_ok s' \<and> (CPL s' \<noteq> 0 \<longrightarrow> data_segs_ok s')"
proof -
  obtain s' where "return_protected sample_uninit sample_instr 4 (sample_far (address_xlation sample_cpu) 0) = (Inr (), s')"
    using far_return_runs by blast
  with far_return_privilege [OF far_state(4) this] show ?thesis by (auto simp: far_state)
qed

text \<open>C7: An interrupt return in protected mode that completes leaves the privilege level and
  both levels of the stack segment in agreement.  Unless it goes back to the previous task (NT
  set) it never gains privilege; when the level changed no usable data segment register
  refers to a segment that the new level may not use; and CS has a present code segment that may
  run at the level, unless the return was to virtual-8086 mode (VM set).\<close>

theorem interrupt_return_privilege:
  assumes "privilege_ok s" "iret_protected u i s = (Inr (), s')"
  shows "privilege_ok s' \<and> (get_eflag 14 s = 0 \<longrightarrow> CPL s \<le> CPL s' \<and>
    (CPL s' \<noteq> CPL s \<longrightarrow> data_segs_ok s') \<and> (bit (cr0 s') 0 \<longrightarrow> bit (eflags s') 17 \<or> code_ok s'))"
proof (cases "get_eflag 14 s = 0")
  case True
  then have run: "iret_stack u i s = (Inr (), s')" using assms(2) by (simp add: iret_protected_def monad_simps)
  show ?thesis
    using True yieldsD [OF yields_conj [OF yields_iret_stack yields_iret_code] _ run] assms(1) by (auto simp: privilege_ok_iff returned_def at_level_def)
next
  case False
  then have run: "iret_task u s = (Inr (), s')" using assms(2) by (simp add: iret_protected_def monad_simps)
  show ?thesis
    using False yieldsD [OF yields_iret_task _ run] assms(1) by (auto simp: privilege_ok_iff at_level_def)
qed

theorem interrupt_return_privilege_witness:
  "\<exists>s'. iret_protected sample_uninit sample_instr (sample_far (address_xlation sample_cpu) 0) = (Inr (), s') \<and>
    privilege_ok s' \<and> (CPL s' \<noteq> 0 \<longrightarrow> data_segs_ok s')"
proof -
  obtain s' where "iret_protected sample_uninit sample_instr (sample_far (address_xlation sample_cpu) 0) = (Inr (), s')"
    using far_iret_runs by blast
  with interrupt_return_privilege [OF far_state(4) this] show ?thesis by (auto simp: far_state)
qed



end
