(* ===== verification/Spec2Isabelle.thy ===== *)
theory Spec2Isabelle
  imports AluClaims MemClaims SysClaims ControlClaims DecodeClaims FarClaims
begin

text \<open>
  Verification of the WhiteBochs emulator core
  (\<open>src/tools/WhiteBochs-old\<close>), the stripped-down Bochs that fast-pokeemu explores
  symbolically: the integer processor in 32-bit mode, its memory and its exceptions.

  \<^bold>\<open>Parts and how they interact.\<close>  The processor loop (\<open>cpu/cpu.cc\<close>) decodes an instruction
  (\<open>cpu/fetchdecode.cc\<close>) into a record of operands (\<open>cpu/instr.h\<close>), finds its handler in a dispatch table
  (\<open>cpu/ia_opcodes.h\<close>) and calls it.  Handlers compute effective addresses (\<open>cpu/resolver.cc\<close>),
  reach memory through segment checks (\<open>cpu/access.cc\<close>, \<open>cpu/access32.cc\<close>), paging (\<open>cpu/paging.cc\<close>) and
  the mapping of guest memory (\<open>memory/memory.cc\<close>), and leave the arithmetic flags pending
  (\<open>cpu/lazy_flags.h\<close>) for whoever reads them.  Exceptions (\<open>cpu/exception.cc\<close>) unwind to the loop with EIP
  and ESP restored.

  \<^bold>\<open>Modelling.\<close>  The state is the record \<open>bx_cpu_c\<close> with the fields of the class of the same name;
  machine integers are words of their width.  A member function that may raise an
  exception is a function of type \<open>cpu_monad\<close>: it takes the state to a result or a \<open>fault\<close>, and
  the state at that point.  A \<open>fault\<close> is an exception of the guest (vector and error code), an access
  of the emulator to an address its host does not map, or a failed assertion of the emulator; \<open>longjmp\<close> out of a handler is
  therefore the propagation of a fault.  The emulator copies to and from guest memory without checking addresses: the model copies
  byte by byte, at whatever host address the bytes have, up to the first that the host does not map.  The build is the one the Makefiles configure: processor level 5, no
  x86-64, no trace cache, \<open>WHITEBOCHS\<close> and \<open>WHITEBOCHS_NO_TLB\<close> set.

  \<^bold>\<open>Theories.\<close>
  \<^item> \<open>Prelude\<close>, \<open>WordFacts\<close>: the monad, its laws and the notion \<open>keeps\<close> of a kept invariant; bytes of words,
    carries, overflow.
  \<^item> \<open>CpuState\<close>: processor state, register overlay, named registers (\<open>cpu/cpu.h\<close>, \<open>cpu/descriptor.h\<close>).
  \<^item> \<open>LazyFlags\<close>, \<open>AluRef\<close>, \<open>LazyFlagFacts\<close>, \<open>EagerFlags\<close>: lazy flags; the architectural flags; their
    equality, proved once in a locale over the operand width and interpreted for 8, 16 and 32 bits;
    \<open>materialise\<close>, which puts pending flags into EFLAGS, and \<open>flag_neutral\<close> functions.
  \<^item> \<open>PhysMem\<close>, \<open>Paging\<close>, \<open>PageWalk\<close>, \<open>LinearMem\<close>: guest memory, translation, the walk of the page tables that
    specifies it, linear accesses and their round trips.
  \<^item> \<open>Access\<close>, \<open>SegCheck\<close>: accesses through a segment and the rule of the architecture they implement.
  \<^item> \<open>Instr\<close>, \<open>Decode\<close>, \<open>DecodeOk\<close>: decoded instructions, addressing, the decoder and the operands it produces.
  \<^item> \<open>Refine\<close>, \<open>Arith8\<close>, \<open>Arith16\<close>, \<open>Arith32\<close>, \<open>Logical\<close>, \<open>DataXfer\<close>, \<open>Opcodes\<close>: reference operations on eager flags,
    the handlers, the dispatch table, and the refinement of each entry.
  \<^item> \<open>SysInv\<close>: what ordinary instructions keep of the system state.
  \<^item> \<open>CpuCtl\<close>, \<open>SegLoad\<close>, \<open>SegLoadFacts\<close>: modes, control registers, EFLAGS, reset; descriptors and segment loads.
  \<^item> \<open>CoreFrame\<close>, \<open>Stack\<close>, \<open>CtrlXfer\<close>: functions that leave registers alone; stack instructions over a locale for
    the two operand widths; near control transfer.
  \<^item> \<open>Tasking\<close>, \<open>FarXfer\<close>, \<open>FarInt\<close>: task switches (\<open>cpu/tasking.cc\<close>); far jumps, calls and returns through
    segments and gates (\<open>cpu/ctrl_xfer_pro.cc\<close>, \<open>jmp_far.cc\<close>, \<open>call_far.cc\<close>, \<open>ret_far.cc\<close>); interrupts through
    the IDT or the vector table, interrupt return, virtual-8086 mode, software interrupts (\<open>cpu/exception.cc\<close>,
    \<open>iret.cc\<close>, \<open>vm8086.cc\<close>, \<open>soft_int.cc\<close>).
  \<^item> \<open>FarFacts\<close>, \<open>FarPriv\<close>, \<open>FarCode\<close>: the judgement \<open>yields\<close> on runs that complete, with a rule per construct, and
    what every far transfer does to the privilege level, the stack segment and the code segment.
  \<^item> \<open>Except\<close>, \<open>Restart\<close>, \<open>RestartStack\<close>: exceptions and the restartability of every handler.
  \<^item> \<open>Sample\<close>, \<open>FarSample\<close>: concrete machines, on which the theorems with hypotheses are applied.
  \<^item> \<open>AluClaims\<close>, \<open>MemClaims\<close>, \<open>SysClaims\<close>, \<open>ControlClaims\<close>, \<open>DecodeClaims\<close>, \<open>FarClaims\<close> and this theory: the
    properties.

  \<^bold>\<open>What is shown.\<close>  The dispatch table has the entries of the arithmetic, logical and data transfer handlers; an entry
  between them whose handler is not one of these (moves to segment and control registers, NOP, SYSENTER, VERR) is left out, and so are
  the other families.  Sequences of its instructions refine reference operations on eager flags and
  keep the system state (CR0, CR3, CR4, mode, segment registers); lazy flags are the architectural flags; translation is the page
  walk and segmented accesses are the architectural rule, with the cached rights as a mere optimisation; read-modify-write
  accesses of 2, 4 and 8 bytes act and fault as plain writes; stores are read
  back, pushes popped, calls returned from; compares and conditional jumps agree; faulting accesses write nothing and
  exceptions are precise; segment loads leave only segments the privilege level may use; writes of CR0 and reset
  establish the mode invariant; far jumps keep the privilege level, far calls and interrupts never move outward and
  returns never inward, task switches apart, and each leaves the stack segment and the code segment fit for the level;
  delivery of exceptions ends in every mode; the decoder stays within its
  window, computes the addresses of the ModRM tables and names only existing registers.

  \<^bold>\<open>Bounds.\<close>  No fuel is used: the decoder's loop over prefixes ends because it is bounded by the bytes that remain,
  the resolution of opcode groups descends into the table, nested exceptions are
  counted by \<open>errorno\<close> and stop at the triple fault; ENTER's loop is recursion on its nesting level.

  \<^bold>\<open>Arguments that stand for data.\<close>  The decoder takes the two opcode tables of \<open>cpu/fetchdecode.h\<close> as arguments, and its
  properties hold for any contents.  Descriptor parsing takes the previous contents of the
  descriptor (\<open>temp\<close>, in \<open>uninit_t\<close> for the far transfers), which the source leaves uninitialised; reset takes the bit mask of
  configured extensions.  What the host process maps outside guest memory is the field \<open>elsewhere\<close> of the memory object, arbitrary
  and never changed.

  \<^bold>\<open>Not modelled.\<close>  Prefetch and the instruction cache (each instruction is decoded afresh), asynchronous events and
  debug traps, the instructions that load the descriptor tables and inspect descriptors, the 16-bit
  stack and control-transfer handlers, the moves to control, debug and test registers, shifts, bit, multiplication, decimal, string and port
  instructions: further families over the same state.  Floating point, MMX and SSE need a state and an arithmetic of
  their own.  64-bit code, VMX, SMM and the APIC are outside the build.  The front end, snapshots, the disassembler,
  the test kernel, the KVM harness, FuzzBALL and the scripts are input and output around the core.
\<close>

section \<open>Programs\<close>

text \<open>The handlers of a sequence of decoded instructions, each an index into a dispatch
  table and its operands, one after the other.\<close>

primrec run_handlers :: "(nat \<Rightarrow> bxInstruction_c \<Rightarrow> unit cpu_monad) \<Rightarrow> (nat \<times> bxInstruction_c) list \<Rightarrow> unit cpu_monad" where
  "run_handlers table [] = returnM ()"
| "run_handlers table (x # program) = seqM (table (fst x) (snd x)) (run_handlers table program)"

abbreviation dispatch :: "nat \<Rightarrow> bxInstruction_c \<Rightarrow> unit cpu_monad" where
  "dispatch k \<equiv> fst (snd (BxOpcodesTable ! k))"

abbreviation reference :: "nat \<Rightarrow> bxInstruction_c \<Rightarrow> unit cpu_monad" where
  "reference k \<equiv> snd (reference_table ! k)"

lemma table_refines: "list_all2 entry_refines BxOpcodesTable reference_table"
  unfolding BxOpcodesTable_def reference_table_def concat.simps append_Nil2
  by (intro list_all2_appendI opcode_refines)

lemma table_keeps: "k < length BxOpcodesTable \<Longrightarrow> keeps (sys_inv S) (dispatch k i)"
proof -
  have "list_all (entry_keeps S) BxOpcodesTable"
    unfolding BxOpcodesTable_def by (simp only: list_all_append concat.simps append_Nil2 opcodes_keep)
  then show "k < length BxOpcodesTable \<Longrightarrow> keeps (sys_inv S) (dispatch k i)"
    by (simp add: list_all_length entry_keeps_def)
qed

lemma table_clean: "k < length BxOpcodesTable \<Longrightarrow> clean (dispatch k i)"
proof -
  have "list_all entry_clean BxOpcodesTable"
    unfolding BxOpcodesTable_def by (simp only: list_all_append concat.simps append_Nil2 opcodes_clean)
  then show "k < length BxOpcodesTable \<Longrightarrow> clean (dispatch k i)"
    by (simp add: list_all_length entry_clean_def)
qed

lemma run_refines:
  assumes "list_all (\<lambda>x. fst x < length BxOpcodesTable) program"
  shows "refines (run_handlers dispatch program) (run_handlers reference program)"
  using assms
proof (induction program)
  case Nil
  show ?case by (simp add: refines_def monad_simps)
next
  case (Cons x program)
  have "refines (dispatch (fst x) (snd x)) (reference (fst x) (snd x))"
    using Cons.prems list_all2_nthD [OF table_refines, of "fst x"] by (simp add: entry_refines_def)
  then show ?case using Cons by (simp add: refines_seqM)
qed

text \<open>C1: Running any sequence of opcodes of the dispatch table and materialising the pending flags gives
  the outcome of running the reference operations on the materialised state: the
  same result or fault, the same registers, memory and EFLAGS.  The flags that the
  handlers leave pending are never wrong, however instructions that set, read and
  keep them follow one another.\<close>

theorem programs_refine_reference:
  assumes "list_all (\<lambda>x. fst x < length BxOpcodesTable) program"
  shows "run_handlers reference program (materialise s) = apsnd materialise (run_handlers dispatch program s)"
  using run_refines [OF assms] by (simp add: refines_def)

theorem programs_refine_reference_witness:
  "run_handlers reference [(0, sample_instr), (18, sample_instr)] (materialise sample_cpu) =
    apsnd materialise (run_handlers dispatch [(0, sample_instr), (18, sample_instr)] sample_cpu)"
  by (rule programs_refine_reference) (simp add: BxOpcodesTable_def opcodes_ADC_ALIb_def)

text \<open>C2: No sequence of opcodes of the modelled table, the arithmetic, logical and data transfer
  instructions without the moves to segment, control and debug registers, changes CR0, CR3, CR4, the
  mode, the size of memory or a segment register (the privilege level included, the cached access
  rights apart), whether it completes or faults; and the cached access rights stay consistent with
  the segment types.  CR2 is not among them: a page fault writes it.\<close>

theorem programs_keep_system_state:
  assumes "list_all (\<lambda>x. fst x < length BxOpcodesTable) program" "seg_caches_ok s"
  shows "sys_view (snd (run_handlers dispatch program s)) = sys_view s \<and> seg_caches_ok (snd (run_handlers dispatch program s))"
proof -
  have "keeps (sys_inv (sys_view s)) (run_handlers dispatch program)"
    using assms(1)
  proof (induction program)
    case Nil
    show ?case by (simp add: keeps_returnM)
  next
    case (Cons x program)
    have "keeps (sys_inv (sys_view s)) (dispatch (fst x) (snd x))"
      using Cons.prems by (simp add: table_keeps)
    then show ?case using Cons by (simp add: keeps_seqM)
  qed
  from keepsD [OF this, of s] show ?thesis using assms(2) by (simp add: sys_inv_def)
qed

theorem programs_keep_system_state_witness:
  "sys_view (snd (run_handlers dispatch [(0, sample_instr), (18, sample_instr)] sample_cpu)) = sys_view sample_cpu"
  using programs_keep_system_state [of "[(0, sample_instr), (18, sample_instr)]" sample_cpu] sample_caches(1)
  by (simp add: BxOpcodesTable_def opcodes_ADC_ALIb_def)

section \<open>Precise exceptions\<close>

text \<open>C3: An exception raised by any opcode of the dispatch table is precise: once it is entered, every
  general register and EIP have the values they had before the instruction, and neither EFLAGS nor
  the pending flags had been touched when it was raised; the instruction can be restarted.\<close>

theorem table_exceptions_precise:
  assumes "k < length BxOpcodesTable" "speculative_rsp s = 0" "prev_rip s = gen_reg s BX_32BIT_REG_EIP"
    and "dispatch k i (s\<lparr>gen_reg := (gen_reg s)(BX_32BIT_REG_EIP := e)\<rparr>) = (Inl (Exception v c), s1)" "fault_class v"
    and "exception_entry v c s1 = (Inr x, s2)" "r \<noteq> BX_TMP_REGISTER"
  shows "gen_reg s2 r = gen_reg s r \<and> eflags s1 = eflags s \<and> lf_flags_status s1 = lf_flags_status s \<and> oszapc s1 = oszapc s"
proof -
  have cl: "clean (dispatch k i)" using assms(1) by (rule table_clean)
  have run: "dispatch k i (BX_WRITE_32BIT_REGZ BX_32BIT_REG_EIP e s) = (Inl (Exception v c), s1)"
    using assms(4) by (simp add: BX_WRITE_32BIT_REGZ_def)
  have "gen_reg s2 r = gen_reg s r"
    using restart [OF restartable_clean [OF cl] assms(2) _ run assms(5,6,7)] assms(3) by (simp add: BX_READ_32BIT_REG_def)
  moreover have "untouched (BX_WRITE_32BIT_REGZ BX_32BIT_REG_EIP e s) s1" using cl run unfolding clean_def by blast
  ultimately show ?thesis by (simp add: untouched_def BX_WRITE_32BIT_REGZ_def)
qed

text \<open>The sample machine with a data segment of 4K, where the operand of the sample instruction
  lies outside, and with an empty code segment, where every jump does.\<close>

definition sample_short :: bx_cpu_c where
  "sample_short = sample_cpu\<lparr>sregs := (\<lambda>k. if k \<in> {1, 3} then (sample_segment 0 (if k = 1 then 11 else 3))\<lparr>cache :=
    (cache (sample_segment 0 (if k = 1 then 11 else 3)))\<lparr>limit_scaled := (if k = 1 then 0 else 0xfff)\<rparr>\<rparr> else sample_segment 0 3)\<rparr>"

abbreviation stepped_over :: "32 word \<Rightarrow> bx_cpu_c" where
  "stepped_over e \<equiv> sample_short\<lparr>gen_reg := (gen_reg sample_short)(BX_32BIT_REG_EIP := e)\<rparr>"

lemma sample_fault:
  obtains s1 where "ADC_EbGbM sample_instr (stepped_over 2) = (Inl (Exception BX_GP_EXCEPTION 0), s1)" "errorno s1 = 0"
proof -
  have "case ADC_EbGbM sample_instr (stepped_over 2) of (r, s1) \<Rightarrow> r = Inl (Exception BX_GP_EXCEPTION 0) \<and> errorno s1 = 0"
    by (simp add: ADC_EbGbM_def ResolveModrm_def BxResolve32Base_def read_RMW_virtual_byte_32_def BX_READ_32BIT_REG_def
      sibBase_def displ32s_def seg_def int_number_def sample_access_defs sample_short_def sample_defs BX_32BIT_REG_EIP_def
      BX_GENERAL_REGISTERS_def)
  then show ?thesis using that by (auto split: prod.splits)
qed

lemmas sample_short_facts = sample_short_def sample_cpu_def exceptions_info_def BX_32BIT_REG_EIP_def BX_TMP_REGISTER_def
  BX_GENERAL_REGISTERS_def

theorem table_exceptions_precise_witness:
  "\<exists>s1 x s2. dispatch 3 sample_instr (stepped_over 2) = (Inl (Exception BX_GP_EXCEPTION 0), s1) \<and>
    exception_entry BX_GP_EXCEPTION 0 s1 = (Inr x, s2) \<and> gen_reg s2 BX_32BIT_REG_EIP = 0"
proof -
  have k: "3 < length BxOpcodesTable" "dispatch 3 = ADC_EbGbM" by (simp_all add: BxOpcodesTable_def opcodes_ADC_ALIb_def)
  obtain s1 where f: "dispatch 3 sample_instr (stepped_over 2) = (Inl (Exception BX_GP_EXCEPTION 0), s1)" "errorno s1 = 0"
    unfolding k(2) by (rule sample_fault)
  obtain x s2 where e: "exception_entry BX_GP_EXCEPTION 0 s1 = (Inr x, s2)" using f(2) by (simp add: entry_run)
  have "gen_reg s2 BX_32BIT_REG_EIP = gen_reg sample_short BX_32BIT_REG_EIP"
    by (rule table_exceptions_precise [OF k(1) _ _ f(1) _ e, THEN conjunct1]) (simp_all add: sample_short_facts)
  then have "gen_reg s2 BX_32BIT_REG_EIP = 0" by (simp add: sample_short_facts)
  then show ?thesis using f(1) e by blast
qed

text \<open>C4: An exception raised by a stack instruction or a near control transfer is precise as well, although
  several of them move ESP before the access or the check that raises it: once the
  exception is entered, every general register, ESP, EIP and the counter of a loop included, is as before
  the instruction.\<close>

theorem stack_exceptions_precise:
  assumes "m \<in> {PUSH_ERX i, PUSH_Id i, PUSH_EdM i, PUSH32_seg k, POP_ERX i, POP_EdM i, POP32_seg temp k, PUSHAD32, POPAD32,
      ENTER32_IwIb i, LEAVE32, Jcc_Jd cc i, JMP_Jd i, JMP_EdR i, JECXZ_Jb i, LOOPNE32_Jb i, LOOPE32_Jb i, LOOP32_Jb i,
      CALL_Jd i, CALL_EdR i, RETnear32, RETnear32_Iw i}"
    and "speculative_rsp s = 0" "prev_rip s = gen_reg s BX_32BIT_REG_EIP"
    and "m (s\<lparr>gen_reg := (gen_reg s)(BX_32BIT_REG_EIP := e)\<rparr>) = (Inl (Exception v c), s1)" "fault_class v"
    and "exception_entry v c s1 = (Inr x, s2)" "r \<noteq> BX_TMP_REGISTER"
  shows "gen_reg s2 r = gen_reg s r"
proof -
  have "restartable m" using assms(1) stack_restartable by auto
  moreover have "m (BX_WRITE_32BIT_REGZ BX_32BIT_REG_EIP e s) = (Inl (Exception v c), s1)"
    using assms(4) by (simp add: BX_WRITE_32BIT_REGZ_def)
  ultimately show ?thesis
    using restart [OF _ assms(2) _ _ assms(5,6,7)] assms(3) by (simp add: BX_READ_32BIT_REG_def)
qed

lemma sample_bad_call:
  obtains s1 where "CALL_Jd sample_instr (stepped_over 5) = (Inl (Exception BX_GP_EXCEPTION 0), s1)"
    "gen_reg s1 4 = 0x7ffc" "errorno s1 = 0"
proof -
  have "case CALL_Jd sample_instr (stepped_over 5) of
      (r, s1) \<Rightarrow> r = Inl (Exception BX_GP_EXCEPTION 0) \<and> gen_reg s1 4 = 0x7ffc \<and> errorno s1 = 0"
    by (simp add: CALL_Jd_def RSP_SPECULATIVE_def RSP_COMMIT_def push_32_def write_virtual_dword_32_def branch_near32_def
      reg_defs sample_access_defs sample_short_def sample_defs Id_def BX_32BIT_REG_EIP_def BX_GENERAL_REGISTERS_def)
  then show ?thesis using that by (auto split: prod.splits)
qed

theorem stack_exceptions_precise_witness:
  "\<exists>s1 x s2. CALL_Jd sample_instr (stepped_over 5) = (Inl (Exception BX_GP_EXCEPTION 0), s1) \<and> gen_reg s1 4 = 0x7ffc \<and>
    exception_entry BX_GP_EXCEPTION 0 s1 = (Inr x, s2) \<and> gen_reg s2 4 = 0x8000"
proof -
  obtain s1 where c: "CALL_Jd sample_instr (stepped_over 5) = (Inl (Exception BX_GP_EXCEPTION 0), s1)"
    "gen_reg s1 4 = 0x7ffc" "errorno s1 = 0"
    by (rule sample_bad_call)
  obtain x s2 where e: "exception_entry BX_GP_EXCEPTION 0 s1 = (Inr x, s2)" using c(3) by (simp add: entry_run)
  have "gen_reg s2 4 = gen_reg sample_short 4"
    by (rule stack_exceptions_precise [where m = "CALL_Jd sample_instr" and s = sample_short and i = sample_instr, OF _ _ _ c(1) _ e])
      (simp_all add: sample_short_facts)
  then have "gen_reg s2 4 = 0x8000" by (simp add: sample_short_facts)
  then show ?thesis using c e by blast
qed

end
